(* ===== verification/Prelude.thy ===== *)
theory Prelude
  imports Main "HOL-Library.Word" "HOL-Library.Sublist"
begin

text \<open>
  Shared material of the development: the lemma collections, what the program uses of Go's
  \<open>strings\<close> and \<open>strconv\<close> packages, Go's value of a call that may panic, and the list and
  option lemmas the component theories share.

  Conventions. A Go \<open>string\<close> is a byte string, modelled as \<^typ>\<open>string\<close> (a list of 8-bit
  characters). A Go \<open>map[string]string\<close> is a map \<open>string \<rightharpoonup> string\<close>; a nil map is the empty map
  (it reads the same), except for the data of a Secret, where the program may write to a nil map. A pointer that may be nil is an
  \<open>option\<close>. A Go \<open>(T, error)\<close> pair is \<open>error + T\<close> where the value is ignored on error, and an
  explicit pair where it is not.
\<close>

named_theorems net_simps \<open>evaluation rules of the address library\<close>
named_theorems frame_simps \<open>what an operation leaves unchanged\<close>
named_theorems phase_defs \<open>definitions of the reconcile phases\<close>
named_theorems law_defs \<open>the named hypotheses on third-party code\<close>

section \<open>Calls that may panic\<close>

text \<open>A Go call either returns or panics (nil dereference, index out of range).\<close>

datatype 'a outcome = Ret 'a | Panic

fun bind_outcome :: "'a outcome \<Rightarrow> ('a \<Rightarrow> 'b outcome) \<Rightarrow> 'b outcome" where
  "bind_outcome (Ret x) f = f x"
| "bind_outcome Panic f = Panic"

lemma bind_outcome_Ret [simp]:
  "bind_outcome m f = Ret y \<longleftrightarrow> (\<exists>x. m = Ret x \<and> f x = Ret y)"
  by (cases m) auto

section \<open>strings and strconv\<close>

definition strings_Contains :: "string \<Rightarrow> string \<Rightarrow> bool" where
  "strings_Contains s sub \<longleftrightarrow> sublist sub s"

definition strings_HasPrefix :: "string \<Rightarrow> string \<Rightarrow> bool" where
  "strings_HasPrefix s p \<longleftrightarrow> prefix p s"

text \<open>\<open>strings.Split(s, sep)\<close> for a one-byte separator: never empty, and joining gives \<open>s\<close> back.\<close>

fun strings_Split :: "string \<Rightarrow> char \<Rightarrow> string list" where
  "strings_Split [] sep = [[]]"
| "strings_Split (c # cs) sep =
     (if c = sep then [] # strings_Split cs sep
      else case strings_Split cs sep of
             [] \<Rightarrow> [[c]]
           | p # ps \<Rightarrow> (c # p) # ps)"

lemma strings_Split_nonempty [simp]: "strings_Split s sep \<noteq> []"
  by (induction s) (auto split: list.splits)

lemma strings_Split_no_sep: "p \<in> set (strings_Split s sep) \<Longrightarrow> sep \<notin> set p"
  by (induction s arbitrary: p) (auto split: list.splits if_splits)

definition strconv_FormatBool :: "bool \<Rightarrow> string" where
  "strconv_FormatBool b = (if b then ''true'' else ''false'')"

lemma strconv_FormatBool_inj [simp]:
  "strconv_FormatBool a = strconv_FormatBool b \<longleftrightarrow> a = b"
  by (simp add: strconv_FormatBool_def)

definition digit_val :: "char \<Rightarrow> nat option" where
  "digit_val c = (let n = of_char c :: nat in if 48 \<le> n \<and> n \<le> 57 then Some (n - 48) else None)"

definition digit_char :: "nat \<Rightarrow> char" where
  "digit_char d = char_of (48 + d)"

lemma digit_val_digit_char [simp]: "d < 10 \<Longrightarrow> digit_val (digit_char d) = Some d"
  by (simp add: digit_val_def digit_char_def Let_def)

lemma digit_val_bound: "digit_val c = Some d \<Longrightarrow> d < 10"
  by (auto simp: digit_val_def Let_def split: if_splits)

text \<open>Decimal digits, most significant first: what \<open>strconv.Itoa\<close> prints for a natural number.\<close>

fun itoa_nat :: "nat \<Rightarrow> string" where
  "itoa_nat n = (if n < 10 then [digit_char n] else itoa_nat (n div 10) @ [digit_char (n mod 10)])"

declare itoa_nat.simps [simp del]

definition strconv_Itoa :: "int \<Rightarrow> string" where
  "strconv_Itoa i = (if i < 0 then CHR ''-'' # itoa_nat (nat (- i)) else itoa_nat (nat i))"

text \<open>The value of a non-empty string of decimal digits, \<open>None\<close> where another byte occurs.\<close>

fun dec_val :: "string \<Rightarrow> nat \<Rightarrow> nat option" where
  "dec_val [] acc = Some acc"
| "dec_val (c # cs) acc =
     (case digit_val c of None \<Rightarrow> None | Some d \<Rightarrow> dec_val cs (acc * 10 + d))"

definition parse_dec :: "string \<Rightarrow> nat option" where
  "parse_dec s = (if s = [] then None else dec_val s 0)"

text \<open>
  \<open>strconv.Atoi\<close> on a 64-bit platform: an optional sign, at least one decimal digit, and a value
  in the range of a signed 64-bit integer; anything else is an error.
\<close>

definition strconv_Atoi :: "string \<Rightarrow> int option" where
  "strconv_Atoi s =
     (let (neg, ds) = (case s of
            [] \<Rightarrow> (False, [])
          | c # cs \<Rightarrow> if c = CHR ''-'' then (True, cs)
                      else if c = CHR ''+'' then (False, cs) else (False, s))
      in case parse_dec ds of
           None \<Rightarrow> None
         | Some n \<Rightarrow>
             (let i = (if neg then - int n else int n)
              in if - (2 ^ 63) \<le> i \<and> i < 2 ^ 63 then Some i else None))"

lemma dec_val_append: "dec_val (xs @ ys) acc = (case dec_val xs acc of None \<Rightarrow> None | Some a \<Rightarrow> dec_val ys a)"
  by (induction xs arbitrary: acc) (auto split: option.splits)

lemma itoa_nat_nonempty [simp]: "itoa_nat n \<noteq> []"
  by (subst itoa_nat.simps) simp

lemma dec_val_itoa_nat: "dec_val (itoa_nat n) 0 = Some n"
proof (induction n rule: itoa_nat.induct)
  case (1 n)
  show ?case
  proof (cases "n < 10")
    case True
    then show ?thesis by (subst itoa_nat.simps) simp
  next
    case False
    with "1.IH" have "dec_val (itoa_nat (n div 10)) 0 = Some (n div 10)" by simp
    with False show ?thesis by (subst itoa_nat.simps) (simp add: dec_val_append)
  qed
qed

lemma parse_dec_itoa_nat [simp]: "parse_dec (itoa_nat n) = Some n"
  by (simp add: parse_dec_def dec_val_itoa_nat)

section \<open>Lists\<close>

text \<open>The position of the first element that satisfies a test: Go's \<open>for i, x := range xs\<close> search.\<close>

fun find_index :: "('a \<Rightarrow> bool) \<Rightarrow> 'a list \<Rightarrow> nat option" where
  "find_index P [] = None"
| "find_index P (x # xs) = (if P x then Some 0 else map_option Suc (find_index P xs))"

lemma find_index_None_iff: "find_index P xs = None \<longleftrightarrow> (\<forall>x \<in> set xs. \<not> P x)"
  by (induction xs) auto

lemma find_index_SomeD:
  "find_index P xs = Some i \<Longrightarrow> i < length xs \<and> P (xs ! i) \<and> (\<forall>j < i. \<not> P (xs ! j))"
proof (induction xs arbitrary: i)
  case Nil
  then show ?case by simp
next
  case (Cons x xs)
  show ?case
  proof (cases "P x")
    case True
    with Cons.prems show ?thesis by simp
  next
    case False
    with Cons.prems obtain k where k: "find_index P xs = Some k" "i = Suc k" by auto
    from Cons.IH [OF k(1)] k(2) False show ?thesis by (auto simp: nth_Cons split: nat.splits)
  qed
qed

lemma find_index_Some_ex: "x \<in> set xs \<Longrightarrow> P x \<Longrightarrow> \<exists>i. find_index P xs = Some i"
  by (metis find_index_None_iff option.exhaust)

lemma find_None_iff_all: "find P xs = None \<longleftrightarrow> (\<forall>x \<in> set xs. \<not> P x)"
  by (induction xs) auto

lemma find_SomeD: "find P xs = Some x \<Longrightarrow> x \<in> set xs \<and> P x"
  by (induction xs) (auto split: if_splits)

lemma find_index_update:
  "find_index P xs = Some i \<Longrightarrow> P y \<Longrightarrow> find_index P (xs[i := y]) = Some i"
  by (induction xs arbitrary: i) (auto split: if_splits)

lemma find_index_snoc: "find_index P xs = None \<Longrightarrow> P y \<Longrightarrow> find_index P (xs @ [y]) = Some (length xs)"
  by (induction xs) (auto split: if_splits)

lemma map_filter_update:
  "f y = f (xs ! i) \<Longrightarrow> List.map_filter f (xs[i := y]) = List.map_filter f xs"
proof (induction xs arbitrary: i)
  case (Cons x xs)
  then show ?case by (cases i) (auto simp: List.map_filter_simps split: option.splits)
qed (simp add: List.map_filter_simps)

lemma find_update_other: "\<not> P (xs ! i) \<Longrightarrow> \<not> P y \<Longrightarrow> find P (xs[i := y]) = find P xs"
proof (induction xs arbitrary: i)
  case (Cons x xs)
  then show ?case by (cases i) auto
qed simp

lemma find_update_first: "find_index P xs = Some i \<Longrightarrow> P y \<Longrightarrow> find P (xs[i := y]) = Some y"
  by (induction xs arbitrary: i) (auto split: if_splits)

lemma find_append_eq: "find P (xs @ ys) = (case find P xs of Some z \<Rightarrow> Some z | None \<Rightarrow> find P ys)"
  by (induction xs) auto

lemma map_filter_in_iff: "y \<in> set (List.map_filter f xs) \<longleftrightarrow> (\<exists>x \<in> set xs. f x = Some y)"
  by (induction xs) (auto simp: List.map_filter_simps split: option.splits)

lemma map_filter_filter_distinct:
  "distinct (List.map_filter f xs) \<Longrightarrow> distinct (List.map_filter f (filter P xs))"
  by (induction xs) (auto simp: List.map_filter_simps map_filter_in_iff split: option.splits)

lemma map_filter_append_eq: "List.map_filter f (xs @ ys) = List.map_filter f xs @ List.map_filter f ys"
  by (induction xs) (auto simp: List.map_filter_simps split: option.splits)

end
