(* ===== verification/Password.thy ===== *)
theory Password
  imports Prelude "HOL-Library.Multiset"
begin

text \<open>
  \<open>src/pkg/utils/password_generator.go\<close>: the passwords of AVI users.

  The random generator is a parameter: \<open>rnd k n\<close> is the answer of the \<open>k\<close>-th call, which was
  \<open>rand.Intn(n)\<close>; its law is that it lies below \<open>n\<close>. \<open>rand.Shuffle\<close> is the documented Fisher-Yates
  shuffle from the end of the slice. Writing beyond the buffer panics, as does a negative length.
\<close>

type_synonym rand = "nat \<Rightarrow> nat \<Rightarrow> nat"

definition rand_laws :: "rand \<Rightarrow> bool" where
  "rand_laws rnd \<longleftrightarrow> (\<forall>k n. 0 < n \<longrightarrow> rnd k n < n)"

definition numerics :: string where
  "numerics = ''0123456789''"

definition specials :: string where
  "specials = ''~=+%^*/()[]{}/!@#$?|''"

definition uppercases :: string where
  "uppercases = ''ABCDEFGHIJKLMNOPQRSTUVWXYZ''"

definition lowercases :: string where
  "lowercases = ''abcdefghijklmnopqrstuvwxyz''"

definition all_chars :: string where
  "all_chars = uppercases @ lowercases @ numerics @ specials"

text \<open>One mandatory character: the buffer, the index \<open>i\<close> and the number of random draws so far.\<close>

definition put_char :: "rand \<Rightarrow> bool \<Rightarrow> string \<Rightarrow> string \<times> nat \<times> nat \<Rightarrow> (string \<times> nat \<times> nat) outcome" where
  "put_char rnd must cs st =
     (case st of (buf, i, k) \<Rightarrow>
        if \<not> must then Ret (buf, i, k)
        else if i < length buf then Ret (buf[i := cs ! rnd k (length cs)], i + 1, k + 1)
        else Panic)"

function fill :: "rand \<Rightarrow> string \<Rightarrow> nat \<Rightarrow> nat \<Rightarrow> string \<times> nat" where
  "fill rnd buf i k =
     (if i < length buf then fill rnd (buf[i := all_chars ! rnd k (length all_chars)]) (i + 1) (k + 1)
      else (buf, k))"
  by pat_completeness auto
termination
  by (relation "measure (\<lambda>(rnd, buf, i, k). length buf - i)") auto

declare fill.simps [simp del]

definition swap :: "nat \<Rightarrow> nat \<Rightarrow> 'a list \<Rightarrow> 'a list" where
  "swap i j xs = xs[i := xs ! j, j := xs ! i]"

fun shuffle_from :: "rand \<Rightarrow> nat \<Rightarrow> string \<Rightarrow> nat \<Rightarrow> string" where
  "shuffle_from rnd 0 buf k = buf"
| "shuffle_from rnd (Suc i) buf k = shuffle_from rnd i (swap (Suc i) (rnd k (Suc (Suc i))) buf) (k + 1)"

definition rand_Shuffle :: "rand \<Rightarrow> string \<Rightarrow> nat \<Rightarrow> string" where
  "rand_Shuffle rnd buf k = shuffle_from rnd (length buf - 1) buf k"

definition GenereatePassword :: "rand \<Rightarrow> int \<Rightarrow> bool \<Rightarrow> bool \<Rightarrow> bool \<Rightarrow> bool \<Rightarrow> string outcome" where
  "GenereatePassword rnd len mustHaveLowercase mustHaveUppercase mustHaveSpecial mustHaveNumeric =
     (if len < 0 then Panic
      else
        bind_outcome (put_char rnd mustHaveLowercase lowercases (replicate (nat len) (CHR 0x00), 0, 0)) (\<lambda>st.
        bind_outcome (put_char rnd mustHaveUppercase uppercases st) (\<lambda>st.
        bind_outcome (put_char rnd mustHaveSpecial specials st) (\<lambda>st.
        bind_outcome (put_char rnd mustHaveNumeric numerics st) (\<lambda>(buf, i, k).
          (case fill rnd buf i k of (buf, k) \<Rightarrow> Ret (rand_Shuffle rnd buf k)))))))"

section \<open>The shuffle permutes\<close>

lemma swap_mset: "i < length xs \<Longrightarrow> j < length xs \<Longrightarrow> mset (swap i j xs) = mset xs"
  by (simp add: swap_def mset_swap)

lemma swap_length [simp]: "length (swap i j xs) = length xs"
  by (simp add: swap_def)

lemma shuffle_from_mset:
  "rand_laws rnd \<Longrightarrow> i < length buf \<Longrightarrow> mset (shuffle_from rnd i buf k) = mset buf"
proof (induction i arbitrary: buf k)
  case (Suc i)
  have "rnd k (Suc (Suc i)) < Suc (Suc i)" using Suc.prems(1) by (simp add: rand_laws_def)
  with Suc show ?case by (simp add: swap_mset)
qed simp

lemma rand_Shuffle_mset: "rand_laws rnd \<Longrightarrow> mset (rand_Shuffle rnd buf k) = mset buf"
  by (cases buf) (simp_all add: rand_Shuffle_def shuffle_from_mset)

section \<open>The buffer\<close>

lemma class_subset: "set lowercases \<subseteq> set all_chars" "set uppercases \<subseteq> set all_chars"
  "set specials \<subseteq> set all_chars" "set numerics \<subseteq> set all_chars"
  by (auto simp: all_chars_def)

lemma class_nonempty: "lowercases \<noteq> []" "uppercases \<noteq> []" "specials \<noteq> []" "numerics \<noteq> []" "all_chars \<noteq> []"
  by (simp_all add: lowercases_def uppercases_def specials_def numerics_def all_chars_def)

lemma pick_in: "rand_laws rnd \<Longrightarrow> cs \<noteq> [] \<Longrightarrow> cs ! rnd k (length cs) \<in> set cs"
  by (simp add: rand_laws_def)

lemma fill_spec:
  "rand_laws rnd \<Longrightarrow> i \<le> length buf \<Longrightarrow> \<exists>cs k'. fill rnd buf i k = (take i buf @ cs, k') \<and>
     length cs = length buf - i \<and> set cs \<subseteq> set all_chars"
proof (induction rnd buf i k rule: fill.induct)
  case (1 rnd buf i k)
  show ?case
  proof (cases "i < length buf")
    case True
    let ?c = "all_chars ! rnd k (length all_chars)"
    from 1 True obtain cs k' where "fill rnd (buf[i := ?c]) (i + 1) (k + 1) = (take (i + 1) (buf[i := ?c]) @ cs, k')"
      "length cs = length buf - (i + 1)" "set cs \<subseteq> set all_chars" by fastforce
    moreover have "take (i + 1) (buf[i := ?c]) = take i buf @ [?c]"
      using True by (simp add: take_Suc_conv_app_nth)
    ultimately show ?thesis
      using True pick_in [OF "1.prems"(1) class_nonempty(5), of k]
      by (intro exI [of _ "?c # cs"] exI [of _ k']) (simp add: fill.simps [of rnd buf i k])
  next
    case False
    with "1.prems" have "i = length buf" by simp
    then show ?thesis by (simp add: fill.simps [of rnd buf "length buf" k])
  qed
qed

text \<open>The state with a written prefix.\<close>

definition written :: "nat \<Rightarrow> string \<Rightarrow> nat \<Rightarrow> string \<times> nat \<times> nat" where
  "written n pre k = (pre @ replicate (n - length pre) (CHR 0x00), length pre, k)"

lemma put_char_written:
  assumes "length pre \<le> n"
  shows "put_char rnd must cs (written n pre k) =
    (if \<not> must then Ret (written n pre k)
     else if length pre < n then Ret (written n (pre @ [cs ! rnd k (length cs)]) (k + 1)) else Panic)"
proof -
  have "(pre @ replicate (n - length pre) (CHR 0x00))[length pre := c] =
        (pre @ [c]) @ replicate (n - length (pre @ [c])) (CHR 0x00)" if "length pre < n" for c
    using that by (cases "n - length pre") (auto simp: list_update_append)
  with assms show ?thesis by (simp add: put_char_def written_def)
qed

lemma fill_written:
  assumes "rand_laws rnd" "length pre \<le> n"
  shows "\<exists>cs k'. (case written n pre k of (buf, i, k) \<Rightarrow> fill rnd buf i k) = (pre @ cs, k') \<and>
     length cs = n - length pre \<and> set cs \<subseteq> set all_chars"
  using fill_spec [OF assms(1), of "length pre" "pre @ replicate (n - length pre) (CHR 0x00)" k] assms(2)
  by (simp add: written_def)

text \<open>The mandatory characters drawn for a list of flags and classes.\<close>

fun drawn :: "rand \<Rightarrow> (bool \<times> string) list \<Rightarrow> nat \<Rightarrow> string" where
  "drawn rnd [] k = []"
| "drawn rnd ((must, cs) # rest) k =
     (if must then cs ! rnd k (length cs) # drawn rnd rest (k + 1) else drawn rnd rest k)"

definition classes :: "bool \<Rightarrow> bool \<Rightarrow> bool \<Rightarrow> bool \<Rightarrow> (bool \<times> string) list" where
  "classes ml mu ms mn = [(ml, lowercases), (mu, uppercases), (ms, specials), (mn, numerics)]"

lemma drawn_length: "length (drawn rnd cls k) = length (filter fst cls)"
  by (induction rnd cls k rule: drawn.induct) auto

lemma drawn_in:
  "rand_laws rnd \<Longrightarrow> (True, cs) \<in> set cls \<Longrightarrow> cs \<noteq> [] \<Longrightarrow> \<exists>c \<in> set (drawn rnd cls k). c \<in> set cs"
  by (induction rnd cls k rule: drawn.induct) (auto dest: pick_in)

lemma drawn_all:
  "rand_laws rnd \<Longrightarrow> \<forall>x \<in> set cls. snd x \<noteq> [] \<and> set (snd x) \<subseteq> A \<Longrightarrow> set (drawn rnd cls k) \<subseteq> A"
  by (induction rnd cls k rule: drawn.induct) (auto dest: pick_in)

lemma GenereatePassword_steps:
  "0 \<le> len \<Longrightarrow> GenereatePassword rnd len ml mu ms mn =
     (if int (length (filter fst (classes ml mu ms mn))) \<le> len then
        (case (case written (nat len) (drawn rnd (classes ml mu ms mn) 0) (length (filter fst (classes ml mu ms mn)))
                 of (buf, i, k) \<Rightarrow> fill rnd buf i k) of (buf, k) \<Rightarrow> Ret (rand_Shuffle rnd buf k))
      else Panic)"
proof -
  assume len: "0 \<le> len"
  have w0: "(replicate (nat len) (CHR 0x00), 0, 0) = written (nat len) [] 0" by (simp add: written_def)
  show ?thesis
    using len unfolding GenereatePassword_def w0
    by (cases ml; cases mu; cases ms; cases mn)
      (auto simp: put_char_written classes_def split: prod.splits)
qed

lemma GenereatePassword_cases:
  assumes "rand_laws rnd"
  shows "if int (length (filter fst (classes ml mu ms mn))) \<le> len then
           (\<exists>pw. GenereatePassword rnd len ml mu ms mn = Ret pw \<and> int (length pw) = len \<and> set pw \<subseteq> set all_chars \<and>
              (\<forall>cs. (True, cs) \<in> set (classes ml mu ms mn) \<longrightarrow> (\<exists>c \<in> set pw. c \<in> set cs)))
         else GenereatePassword rnd len ml mu ms mn = Panic"
proof (cases "int (length (filter fst (classes ml mu ms mn))) \<le> len")
  case True
  let ?cls = "classes ml mu ms mn"
  let ?k = "length (filter fst ?cls)"
  from True have len: "0 \<le> len" and le: "length (drawn rnd ?cls 0) \<le> nat len" by (auto simp: drawn_length)
  from fill_written [OF assms le, of ?k] obtain cs k' where
    f: "(case written (nat len) (drawn rnd ?cls 0) ?k of (buf, i, k) \<Rightarrow> fill rnd buf i k) = (drawn rnd ?cls 0 @ cs, k')"
    and cs: "length cs = nat len - length (drawn rnd ?cls 0)" "set cs \<subseteq> set all_chars" by blast
  let ?pw = "rand_Shuffle rnd (drawn rnd ?cls 0 @ cs) k'"
  have m: "mset ?pw = mset (drawn rnd ?cls 0 @ cs)" by (rule rand_Shuffle_mset [OF assms])
  have "set (drawn rnd ?cls 0) \<subseteq> set all_chars"
    by (rule drawn_all [OF assms]) (use class_subset class_nonempty in \<open>auto simp: classes_def\<close>)
  moreover have "\<exists>c \<in> set (drawn rnd ?cls 0). c \<in> set d" if "(True, d) \<in> set ?cls" for d
    by (rule drawn_in [OF assms that]) (use that class_nonempty in \<open>auto simp: classes_def\<close>)
  ultimately have "set ?pw \<subseteq> set all_chars" "\<forall>d. (True, d) \<in> set ?cls \<longrightarrow> (\<exists>c \<in> set ?pw. c \<in> set d)"
    using mset_eq_setD [OF m] cs(2) by (auto simp: bex_Un)
  moreover have "int (length ?pw) = len" using mset_eq_length [OF m] cs(1) le len by simp
  ultimately show ?thesis using True by (simp add: GenereatePassword_steps [OF len] f)
next
  case False
  then show ?thesis by (cases "0 \<le> len") (auto simp: GenereatePassword_steps, simp add: GenereatePassword_def)
qed

text \<open>
  C39. A generated password has the requested length, consists of the generator's characters only and
  contains a character of every class asked for, whatever the random generator answers; the call
  panics exactly if the length is negative or smaller than the number of classes asked for.
\<close>

theorem GenereatePassword_correct:
  assumes "rand_laws rnd"
  shows "if int (length (filter fst (classes ml mu ms mn))) \<le> len then
           (\<exists>pw. GenereatePassword rnd len ml mu ms mn = Ret pw \<and> int (length pw) = len \<and> set pw \<subseteq> set all_chars \<and>
              (\<forall>cs. (True, cs) \<in> set (classes ml mu ms mn) \<longrightarrow> (\<exists>c \<in> set pw. c \<in> set cs)))
         else GenereatePassword rnd len ml mu ms mn = Panic"
  by (rule GenereatePassword_cases [OF assms])

lemma rand_zero: "rand_laws (\<lambda>k n. 0)"
  by (simp add: rand_laws_def)

theorem GenereatePassword_correct_witness:
  "\<exists>pw. GenereatePassword (\<lambda>k n. 0) 10 True True True True = Ret pw \<and> length pw = 10"
  using GenereatePassword_correct [OF rand_zero, of True True True True 10] by (auto simp: classes_def)

end
