(* ===== verification/Go_Heap.thy ===== *)
theory Go_Heap
  imports Prelude
begin

text \<open>
  A store of cells for the parts of the program whose correctness is about aliasing. A pointer or a
  slice is an address or nil; \<open>new\<close> and \<open>make\<close> allocate at the limit of the store. The locale
  \<open>deep_copier\<close> is the contract of a deep copy: the copy has the same value, lives in new cells only,
  and nothing that was there before is written.
\<close>

section \<open>The store\<close>

type_synonym addr = nat

record 'c store =
  lim :: nat
  cells :: "addr \<rightharpoonup> 'c"

definition alloc :: "'c \<Rightarrow> 'c store \<Rightarrow> addr \<times> 'c store" where
  "alloc c h = (lim h, h\<lparr>lim := Suc (lim h), cells := (cells h)(lim h \<mapsto> c)\<rparr>)"

definition set_cell :: "addr \<Rightarrow> 'c \<Rightarrow> 'c store \<Rightarrow> 'c store" where
  "set_cell a c h = h\<lparr>cells := (cells h)(a \<mapsto> c)\<rparr>"

definition wf_store :: "'c store \<Rightarrow> bool" where
  "wf_store h \<longleftrightarrow> dom (cells h) \<subseteq> {..<lim h}"

text \<open>Nothing that was allocated has changed; and: nothing of a set of cells differs.\<close>

definition extends :: "'c store \<Rightarrow> 'c store \<Rightarrow> bool" where
  "extends h h' \<longleftrightarrow> cells h \<subseteq>\<^sub>m cells h'"

definition agree :: "addr set \<Rightarrow> 'c store \<Rightarrow> 'c store \<Rightarrow> bool" where
  "agree S h h' \<longleftrightarrow> (\<forall>a \<in> S. cells h' a = cells h a)"

lemma alloc_extends: "wf_store h \<Longrightarrow> alloc c h = (a, h') \<Longrightarrow>
    wf_store h' \<and> extends h h' \<and> cells h' a = Some c \<and> a \<notin> dom (cells h)"
  by (auto simp: alloc_def wf_store_def extends_def map_le_def domIff subset_iff less_Suc_eq split: if_splits)

lemma extends_refl [simp, intro]: "extends h h" by (simp add: extends_def)

lemma extends_trans [trans]: "extends h h1 \<Longrightarrow> extends h1 h2 \<Longrightarrow> extends h h2"
  by (auto simp: extends_def intro: map_le_trans)

lemma extends_agree: "extends h h' \<Longrightarrow> S \<subseteq> dom (cells h) \<Longrightarrow> agree S h h'"
  by (auto simp: extends_def agree_def map_le_def subset_iff domIff)

lemma extends_dom: "extends h h' \<Longrightarrow> dom (cells h) \<subseteq> dom (cells h')"
  unfolding extends_def by (rule map_le_implies_dom_le)

lemma agree_Un [simp]: "agree (S \<union> T) h h' \<longleftrightarrow> agree S h h' \<and> agree T h h'"
  by (auto simp: agree_def)

lemma agree_insert [simp]: "agree (insert a S) h h' \<longleftrightarrow> cells h' a = cells h a \<and> agree S h h'"
  by (auto simp: agree_def)

lemma agree_UN [simp]: "agree (\<Union>x \<in> A. f x) h h' \<longleftrightarrow> (\<forall>x \<in> A. agree (f x) h h')"
  by (auto simp: agree_def)

lemma agree_empty [simp]: "agree {} h h'" by (simp add: agree_def)

lemma agree_set_cell: "a \<notin> S \<Longrightarrow> agree S h (set_cell a c h)"
  by (auto simp: agree_def set_cell_def)

section \<open>The contract of a deep copy\<close>

text \<open>
  \<open>ok h x\<close>: the pointers of \<open>x\<close> lead to cells of their types; \<open>foot h x\<close>: the cells they lead to;
  \<open>view h x\<close>: the value.
\<close>

definition copied ::
  "('c store \<Rightarrow> 'a \<Rightarrow> bool) \<Rightarrow> ('c store \<Rightarrow> 'a \<Rightarrow> addr set) \<Rightarrow> ('c store \<Rightarrow> 'a \<Rightarrow> 'v) \<Rightarrow> 'c store \<Rightarrow> 'c store \<Rightarrow> 'a \<Rightarrow> 'a \<Rightarrow> bool" where
  "copied ok foot view h0 h x y \<longleftrightarrow> ok h y \<and> foot h y \<inter> dom (cells h0) = {} \<and> view h y = view h0 x"

text \<open>A computation that started in \<open>h0\<close> has established \<open>P\<close>, which further allocation keeps.\<close>

definition progress :: "'c store \<Rightarrow> 'c store \<Rightarrow> ('c store \<Rightarrow> bool) \<Rightarrow> bool" where
  "progress h0 h P \<longleftrightarrow> wf_store h \<and> extends h0 h \<and> P h \<and> (\<forall>h1 h2. extends h1 h2 \<longrightarrow> P h1 \<longrightarrow> P h2)"

lemma progress_start: "wf_store h \<Longrightarrow> progress h h (\<lambda>_. True)"
  by (simp add: progress_def)

locale deep_copier =
  fixes ok :: "'c store \<Rightarrow> 'a \<Rightarrow> bool"
    and foot :: "'c store \<Rightarrow> 'a \<Rightarrow> addr set"
    and view :: "'c store \<Rightarrow> 'a \<Rightarrow> 'v"
    and copy :: "'a \<Rightarrow> 'c store \<Rightarrow> 'a \<times> 'c store"
  assumes foot_dom: "ok h x \<Longrightarrow> foot h x \<subseteq> dom (cells h)"
    and reads_foot: "ok h x \<Longrightarrow> agree (foot h x) h h' \<Longrightarrow> ok h' x \<and> foot h' x = foot h x \<and> view h' x = view h x"
    and copy_fresh: "wf_store h \<Longrightarrow> ok h x \<Longrightarrow> copy x h = (y, h') \<Longrightarrow>
      wf_store h' \<and> extends h h' \<and> copied ok foot view h h' x y"
begin

lemma extends_same:
  assumes "ok h x" "extends h h'"
  shows "ok h' x" "foot h' x = foot h x" "view h' x = view h x"
  using reads_foot [OF assms(1) extends_agree [OF assms(2) foot_dom [OF assms(1)]]] by auto

lemma copied_extends: "copied ok foot view h0 h x y \<Longrightarrow> extends h h' \<Longrightarrow> copied ok foot view h0 h' x y"
  unfolding copied_def by (metis extends_same)

lemma step:
  assumes "progress h0 h P" "ok h0 x" "copy x h = (y, h')"
  shows "progress h0 h' (\<lambda>h. P h \<and> copied ok foot view h0 h x y)"
proof -
  from assms(1) have h: "wf_store h" "extends h0 h" "P h" "\<And>h1 h2. extends h1 h2 \<Longrightarrow> P h1 \<Longrightarrow> P h2"
    by (auto simp: progress_def)
  note x = extends_same [OF assms(2) h(2)]
  from copy_fresh [OF h(1) x(1) assms(3)] have c: "wf_store h'" "extends h h'" "copied ok foot view h h' x y" by auto
  have "copied ok foot view h0 h' x y" using c(3) x extends_dom [OF h(2)] by (auto simp: copied_def)
  then show ?thesis
    unfolding progress_def using h c(1) extends_trans [OF h(2) c(2)] c(2) copied_extends by blast
qed

text \<open>
  What the contract is for: after a copy, writing through the copy is not seen through the original,
  and writing through the original is not seen through the copy.
\<close>

lemma independent:
  assumes "wf_store h" "ok h x" "copy x h = (y, h')"
  shows "view h' y = view h x" "foot h' y \<inter> foot h' x = {}"
    and "agree (- foot h' y) h' h2 \<Longrightarrow> ok h2 x \<and> view h2 x = view h x"
    and "agree (- foot h' x) h' h2 \<Longrightarrow> ok h2 y \<and> view h2 y = view h x"
proof -
  from copy_fresh [OF assms] have c: "extends h h'" "ok h' y" "foot h' y \<inter> dom (cells h) = {}" "view h' y = view h x"
    by (auto simp: copied_def)
  note x = extends_same [OF assms(2) c(1)]
  show v: "view h' y = view h x" by (rule c(4))
  show d: "foot h' y \<inter> foot h' x = {}" using c(3) foot_dom [OF assms(2)] x(2) by auto
  show "ok h2 x \<and> view h2 x = view h x" if "agree (- foot h' y) h' h2"
  proof -
    have "agree (foot h' x) h' h2" using that d by (auto simp: agree_def)
    with reads_foot [OF x(1)] x(3) show ?thesis by simp
  qed
  show "ok h2 y \<and> view h2 y = view h x" if "agree (- foot h' x) h' h2"
  proof -
    have "agree (foot h' y) h' h2" using that d by (auto simp: agree_def)
    with reads_foot [OF c(2)] v show ?thesis by simp
  qed
qed

end

text \<open>A copier is one if its run makes progress to a copy.\<close>

lemma deep_copierI:
  assumes "\<And>h x. ok h x \<Longrightarrow> foot h x \<subseteq> dom (cells h)"
    and "\<And>h h' x. ok h x \<Longrightarrow> agree (foot h x) h h' \<Longrightarrow> ok h' x \<and> foot h' x = foot h x \<and> view h' x = view h x"
    and "\<And>h x y h'. wf_store h \<Longrightarrow> ok h x \<Longrightarrow> copy x h = (y, h') \<Longrightarrow>
      \<exists>P. progress h h' P \<and> (P h' \<longrightarrow> copied ok foot view h h' x y)"
  shows "deep_copier ok foot view copy"
proof unfold_locales
  show "wf_store h' \<and> extends h h' \<and> copied ok foot view h h' x y"
    if "wf_store h" "ok h x" "copy x h = (y, h')" for h x y h'
    using assms(3) [OF that] by (auto simp: progress_def)
qed (use assms(1,2) in blast)+

section \<open>Plain values\<close>

text \<open>\<open>*out = *in\<close> for a struct without pointers.\<close>

definition assign :: "'a \<Rightarrow> 'c store \<Rightarrow> 'a \<times> 'c store" where
  "assign x h = (x, h)"

interpretation plain: deep_copier "\<lambda>_ _. True" "\<lambda>_ _. {}" "\<lambda>_. f" assign for f
  by unfold_locales (auto simp: assign_def copied_def)

section \<open>Pointers to cells without pointers\<close>

definition deref :: "('c \<Rightarrow> 't option) \<Rightarrow> 'c store \<Rightarrow> addr \<Rightarrow> 't option" where
  "deref sel h a = Option.bind (cells h a) sel"

definition ptr_ok :: "('c \<Rightarrow> 't option) \<Rightarrow> 'c store \<Rightarrow> addr option \<Rightarrow> bool" where
  "ptr_ok sel h p = (case p of None \<Rightarrow> True | Some a \<Rightarrow> deref sel h a \<noteq> None)"

definition ptr_foot :: "'c store \<Rightarrow> addr option \<Rightarrow> addr set" where
  "ptr_foot h p = set_option p"

definition ptr_view :: "('c \<Rightarrow> 't option) \<Rightarrow> 'c store \<Rightarrow> addr option \<Rightarrow> 't option" where
  "ptr_view sel h p = Option.bind p (deref sel h)"

text \<open>
  \<open>if in.F != nil { *out = new(T); **out = **in }\<close>, and with \<open>make\<close> and \<open>copy\<close> for a slice of plain
  elements. Under \<open>ptr_ok\<close> the cell is there.
\<close>

definition copy_cell :: "('c \<Rightarrow> 't option) \<Rightarrow> ('t \<Rightarrow> 'c) \<Rightarrow> addr option \<Rightarrow> 'c store \<Rightarrow> addr option \<times> 'c store" where
  "copy_cell sel con p h =
     (case p of
        None \<Rightarrow> (None, h)
      | Some a \<Rightarrow>
          (case deref sel h a of
             None \<Rightarrow> (None, h)
           | Some v \<Rightarrow> (case alloc (con v) h of (b, h) \<Rightarrow> (Some b, h))))"

locale cell_kind =
  fixes sel :: "'c \<Rightarrow> 't option" and con :: "'t \<Rightarrow> 'c"
  assumes sel_con [simp]: "sel (con v) = Some v"
begin

lemma copy_cell_fresh:
  assumes "wf_store h" "ptr_ok sel h p" "copy_cell sel con p h = (q, h')"
  shows "wf_store h' \<and> extends h h' \<and> copied (ptr_ok sel) ptr_foot (ptr_view sel) h h' p q"
proof (cases p)
  case None
  with assms show ?thesis by (simp add: copy_cell_def copied_def ptr_ok_def ptr_foot_def ptr_view_def)
next
  case (Some a)
  with assms(2) obtain v where v: "deref sel h a = Some v" by (auto simp: ptr_ok_def)
  with Some assms(3) obtain b where b: "alloc (con v) h = (b, h')" "q = Some b"
    by (auto simp: copy_cell_def split: prod.splits)
  with alloc_extends [OF assms(1) b(1)] Some v show ?thesis
    by (auto simp: copied_def ptr_ok_def ptr_foot_def ptr_view_def deref_def)
qed

end

sublocale cell_kind \<subseteq> flat: deep_copier "ptr_ok sel" ptr_foot "ptr_view sel" "copy_cell sel con"
proof unfold_locales
  show "ptr_foot h p \<subseteq> dom (cells h)" if "ptr_ok sel h p" for h p
    using that by (cases p) (auto simp: ptr_ok_def ptr_foot_def deref_def bind_eq_Some_conv)
  show "ptr_ok sel h' p \<and> ptr_foot h' p = ptr_foot h p \<and> ptr_view sel h' p = ptr_view sel h p"
    if "ptr_ok sel h p" "agree (ptr_foot h p) h h'" for h h' p
    using that by (cases p) (auto simp: ptr_ok_def ptr_foot_def ptr_view_def deref_def)
qed (rule copy_cell_fresh)

section \<open>Slices of elements with pointers\<close>

text \<open>\<open>for i := range *in { (*in)[i].DeepCopyInto(&(*out)[i]) }\<close>\<close>

fun copy_elems :: "('a \<Rightarrow> 'c store \<Rightarrow> 'a \<times> 'c store) \<Rightarrow> 'a list \<Rightarrow> 'c store \<Rightarrow> 'a list \<times> 'c store" where
  "copy_elems copy [] h = ([], h)"
| "copy_elems copy (x # xs) h =
     (case copy x h of (y, h) \<Rightarrow> case copy_elems copy xs h of (ys, h) \<Rightarrow> (y # ys, h))"

text \<open>The array is allocated with the copied elements in place; an address cannot be observed in Go.\<close>

definition copy_slice ::
  "('c \<Rightarrow> 'a list option) \<Rightarrow> ('a list \<Rightarrow> 'c) \<Rightarrow> ('a \<Rightarrow> 'c store \<Rightarrow> 'a \<times> 'c store) \<Rightarrow> addr option \<Rightarrow> 'c store \<Rightarrow> addr option \<times> 'c store" where
  "copy_slice sel con copy p h =
     (case p of
        None \<Rightarrow> (None, h)
      | Some a \<Rightarrow>
          (case deref sel h a of
             None \<Rightarrow> (None, h)
           | Some xs \<Rightarrow>
               (case copy_elems copy xs h of (ys, h) \<Rightarrow> case alloc (con ys) h of (b, h) \<Rightarrow> (Some b, h))))"

definition slice_ok :: "('c \<Rightarrow> 'a list option) \<Rightarrow> ('c store \<Rightarrow> 'a \<Rightarrow> bool) \<Rightarrow> 'c store \<Rightarrow> addr option \<Rightarrow> bool" where
  "slice_ok sel ok h p =
     (case p of None \<Rightarrow> True | Some a \<Rightarrow> (case deref sel h a of None \<Rightarrow> False | Some xs \<Rightarrow> list_all (ok h) xs))"

definition slice_foot :: "('c \<Rightarrow> 'a list option) \<Rightarrow> ('c store \<Rightarrow> 'a \<Rightarrow> addr set) \<Rightarrow> 'c store \<Rightarrow> addr option \<Rightarrow> addr set" where
  "slice_foot sel foot h p =
     (case p of None \<Rightarrow> {} | Some a \<Rightarrow> insert a (case deref sel h a of None \<Rightarrow> {} | Some xs \<Rightarrow> (\<Union>x \<in> set xs. foot h x)))"

definition slice_view :: "('c \<Rightarrow> 'a list option) \<Rightarrow> ('c store \<Rightarrow> 'a \<Rightarrow> 'v) \<Rightarrow> 'c store \<Rightarrow> addr option \<Rightarrow> 'v list option" where
  "slice_view sel view h p = map_option (map (view h)) (ptr_view sel h p)"

locale slice_of = cell_kind sel con + elem: deep_copier ok foot view copy
  for sel :: "'c \<Rightarrow> 'a list option" and con :: "'a list \<Rightarrow> 'c"
    and ok :: "'c store \<Rightarrow> 'a \<Rightarrow> bool" and foot :: "'c store \<Rightarrow> 'a \<Rightarrow> addr set"
    and view :: "'c store \<Rightarrow> 'a \<Rightarrow> 'v" and copy :: "'a \<Rightarrow> 'c store \<Rightarrow> 'a \<times> 'c store"
begin

lemma copy_elems_progress:
  assumes "progress h0 h P" "list_all (ok h0) xs" "copy_elems copy xs h = (ys, h')"
  shows "progress h0 h' (\<lambda>h. P h \<and> list_all2 (copied ok foot view h0 h) xs ys)"
  using assms
proof (induction xs arbitrary: h P ys)
  case Nil
  then show ?case by simp
next
  case (Cons x xs)
  from Cons.prems(3) obtain y h1 zs where s: "copy x h = (y, h1)" "copy_elems copy xs h1 = (zs, h')" "ys = y # zs"
    by (auto split: prod.splits)
  from Cons.prems(2) have "ok h0 x" "list_all (ok h0) xs" by simp_all
  from Cons.IH [OF elem.step [OF Cons.prems(1) this(1) s(1)] this(2) s(2)] show ?case
    by (simp add: s(3) conj_assoc)
qed

lemma copied_elems:
  assumes "list_all2 (copied ok foot view h0 h) xs ys"
  shows "list_all (ok h) ys" "(\<Union>y \<in> set ys. foot h y) \<inter> dom (cells h0) = {}" "map (view h) ys = map (view h0) xs"
  using assms by (induction rule: list_all2_induct) (auto simp: copied_def)

lemma copy_slice_fresh:
  assumes "wf_store h" "slice_ok sel ok h p" "copy_slice sel con copy p h = (q, h')"
  shows "wf_store h' \<and> extends h h' \<and> copied (slice_ok sel ok) (slice_foot sel foot) (slice_view sel view) h h' p q"
proof (cases p)
  case None
  with assms show ?thesis by (simp add: copy_slice_def copied_def slice_ok_def slice_foot_def slice_view_def ptr_view_def)
next
  case (Some a)
  with assms(2) obtain xs where xs: "deref sel h a = Some xs" "list_all (ok h) xs"
    by (auto simp: slice_ok_def split: option.splits)
  with Some assms(3) obtain ys h1 b where s: "copy_elems copy xs h = (ys, h1)" "alloc (con ys) h1 = (b, h')" "q = Some b"
    by (auto simp: copy_slice_def split: prod.splits)
  from copy_elems_progress [OF progress_start [OF assms(1)] xs(2) s(1)]
  have h1: "wf_store h1" "extends h h1" "list_all2 (copied ok foot view h h1) xs ys"
    by (auto simp: progress_def)
  note a = alloc_extends [OF h1(1) s(2)]
  then have e: "list_all2 (copied ok foot view h h') xs ys"
    using h1(3) by (auto elim!: list_all2_mono intro: elem.copied_extends)
  have "extends h h'" using h1(2) a extends_trans by blast
  moreover have "b \<notin> dom (cells h)" using a extends_dom [OF h1(2)] by blast
  moreover have "deref sel h' b = Some ys" using a by (simp add: deref_def)
  ultimately show ?thesis
    using a s(3) Some xs copied_elems [OF e]
    by (auto simp: copied_def slice_ok_def slice_foot_def slice_view_def ptr_view_def)
qed

end

sublocale slice_of \<subseteq> slice: deep_copier "slice_ok sel ok" "slice_foot sel foot" "slice_view sel view" "copy_slice sel con copy"
proof unfold_locales
  show "slice_foot sel foot h p \<subseteq> dom (cells h)" if "slice_ok sel ok h p" for h p
    using that elem.foot_dom
    by (cases p) (fastforce simp: slice_ok_def slice_foot_def deref_def bind_eq_Some_conv list_all_iff split: option.splits)+
  show "slice_ok sel ok h' p \<and> slice_foot sel foot h' p = slice_foot sel foot h p \<and> slice_view sel view h' p = slice_view sel view h p"
    if "slice_ok sel ok h p" "agree (slice_foot sel foot h p) h h'" for h h' p
  proof (cases p)
    case (Some a)
    with that(1) obtain xs where xs: "deref sel h a = Some xs" "list_all (ok h) xs"
      by (auto simp: slice_ok_def split: option.splits)
    with that(2) Some have a: "cells h' a = cells h a" "\<forall>x \<in> set xs. agree (foot h x) h h'"
      by (simp_all add: slice_foot_def)
    then have d: "deref sel h' a = Some xs" using xs by (simp add: deref_def)
    have "ok h' x \<and> foot h' x = foot h x \<and> view h' x = view h x" if "x \<in> set xs" for x
      using elem.reads_foot [of h x h'] a(2) xs(2) that by (simp add: list_all_iff)
    with Some xs d show ?thesis
      by (auto simp: slice_ok_def slice_foot_def slice_view_def ptr_view_def list_all_iff)
  qed (simp add: slice_ok_def slice_foot_def slice_view_def ptr_view_def)
qed (rule copy_slice_fresh)

end
