(* ===== verification/Kube.thy ===== *)
theory Kube
  imports Prelude
begin

text \<open>
  The environment of the operator: the Kubernetes and Cluster API objects it reads and writes,
  and the third-party code it calls.

  Objects are records; Go's embedding of \<open>TypeMeta\<close> and \<open>ObjectMeta\<close> is record extension, so
  \<open>Name c\<close> and \<open>Labels c\<close> read any kind of object. Only the fields the program uses are kept.

  Third-party packages are not modelled but passed in. Their pure functions (label selectors,
  finalizers, conditions, result merging, error aggregation, semantic versions) are the fields of
  one record \<open>lib\<close>; the API server is a record \<open>kube\<close> of operations on a world of arbitrary type
  \<open>'w\<close>. Every operation, a read included, takes the world and returns it, so other writers may
  change the cluster between any two calls of the program. What the program relies on is stated
  by the predicates in the last section, which the properties name as hypotheses.
\<close>

section \<open>Errors and results\<close>

text \<open>An \<open>error\<close> value: made from a message, or an API status with its reason.\<close>

datatype error = Err string | StatusErr string string

fun Error_msg :: "error \<Rightarrow> string" where
  "Error_msg (Err m) = m"
| "Error_msg (StatusErr r m) = m"

record Result =
  Requeue :: bool
  RequeueAfter :: int

definition zeroResult :: Result where
  "zeroResult = \<lparr>Requeue = False, RequeueAfter = 0\<rparr>"

text \<open>An API object is addressed by its namespace and its name.\<close>

type_synonym key = "string \<times> string"

section \<open>Objects\<close>

type_synonym labels = "string \<rightharpoonup> string"

record OwnerReference =
  or_APIVersion :: string
  or_Kind :: string
  or_Name :: string
  or_UID :: string
  or_Controller :: "bool option"
  or_BlockOwnerDeletion :: "bool option"

record ObjectMeta =
  APIVersion :: string
  Kind :: string
  Name :: string
  Namespace :: string
  UID :: string
  Labels :: labels
  Annotations :: labels
  Finalizers :: "string list"
  OwnerReferences :: "OwnerReference list"
  DeletionTimestamp :: "nat option"

definition emptyMeta :: ObjectMeta where
  "emptyMeta = \<lparr>APIVersion = [], Kind = [], Name = [], Namespace = [], UID = [],
     Labels = Map.empty, Annotations = Map.empty, Finalizers = [], OwnerReferences = [],
     DeletionTimestamp = None\<rparr>"

text \<open>\<open>!obj.GetDeletionTimestamp().IsZero()\<close>\<close>

definition being_deleted :: "'a ObjectMeta_scheme \<Rightarrow> bool" where
  "being_deleted o' \<longleftrightarrow> DeletionTimestamp o' \<noteq> None"

record Condition =
  cond_Type :: string
  cond_Status :: string
  cond_Severity :: string
  cond_Reason :: string
  cond_Message :: string

text \<open>
  The raw JSON of a cluster variable, by its syntax: \<open>JInt\<close> is a number literal without fraction
  or exponent, \<open>JNum\<close> any other number, \<open>JBad\<close> text that is not JSON.
\<close>

datatype json = JNull | JBool bool | JInt int | JNum string | JStr string | JArr | JObj | JBad

record ClusterVariable =
  var_Name :: string
  var_Value :: json

record ClusterNetwork =
  Pods :: "string list option"
  Services :: "string list option"

record Cluster = ObjectMeta +
  Topology :: "ClusterVariable list option"
  Spec_ClusterNetwork :: "ClusterNetwork option"
  EndpointHost :: string
  EndpointPort :: int
  Conditions :: "Condition list"

record MachineAddress =
  ma_Type :: string
  ma_Address :: string

record Machine = ObjectMeta +
  Spec_ClusterName :: string
  Status_Addresses :: "MachineAddress list"

record Secret = ObjectMeta +
  secret_Type :: string
  Data :: "(string \<rightharpoonup> string) option"
  StringData :: "string \<rightharpoonup> string"

text \<open>
  \<open>Data\<close> keeps the difference between a nil and an empty map (\<open>None\<close> is nil), because the program
  assigns to the map of a Secret it has read. \<open>string(secret.Data[k])\<close>: a missing key and a nil map
  read as the empty string. \<open>secret.Data[k] = v\<close>: an assignment to a nil map panics.
\<close>

definition data_get :: "Secret \<Rightarrow> string \<Rightarrow> string" where
  "data_get s k = (case Data s of None \<Rightarrow> [] | Some m \<Rightarrow> (case m k of None \<Rightarrow> [] | Some v \<Rightarrow> v))"

definition data_set :: "Secret \<Rightarrow> string \<Rightarrow> string \<Rightarrow> Secret outcome" where
  "data_set s k v = (case Data s of None \<Rightarrow> Panic | Some m \<Rightarrow> Ret (s\<lparr>Data := Some (m(k \<mapsto> v))\<rparr>))"

definition emptySecret :: Secret where
  "emptySecret = ObjectMeta.extend emptyMeta \<lparr>secret_Type = [], Data = None, StringData = Map.empty\<rparr>"

record ServicePort =
  sp_Protocol :: string
  sp_Port :: int
  sp_TargetPort :: int

record Service = ObjectMeta +
  svc_Type :: string
  IPFamilies :: "string list"
  Ports :: "ServicePort list"
  LoadBalancerIP :: string
  Ingress :: "string list"

record EndpointAddress =
  ea_IP :: string
  ea_NodeName :: "string option"

record EndpointSubset =
  Addresses :: "EndpointAddress list"
  ss_Ports :: "(int \<times> string) list"

record Endpoints = ObjectMeta +
  Subsets :: "EndpointSubset list option"

record AviInfraSettingVipNetwork =
  vn_NetworkName :: string
  vn_Cidr :: string
  vn_V6Cidr :: string

record AviInfraSettingSpec =
  SeGroup_Name :: string
  VipNetworks :: "AviInfraSettingVipNetwork list"
  ShardSize :: string
  T1LR :: "string option"

record AviInfraSetting = ObjectMeta +
  ais_Spec :: AviInfraSettingSpec

text \<open>The inline values of a package in their written form; the provider reference is API group, kind and name.\<close>

record ValuesFrom =
  vf_Inline :: "string option"
  vf_ProviderRef :: "(string option \<times> string \<times> string) option"
  vf_SecretRef :: string

record ClusterBootstrapPackage =
  RefName :: string
  pkg_ValuesFrom :: "ValuesFrom option"

record ClusterBootstrap = ObjectMeta +
  AdditionalPackages :: "ClusterBootstrapPackage list"
  ResolvedTKR :: string

record TanzuKubernetesRelease = ObjectMeta +
  BootstrapPackages :: "string list"

type_synonym StatefulSet = ObjectMeta

section \<open>encoding/json on cluster variables\<close>

text \<open>
  \<open>json.Unmarshal(raw, &v)\<close> into a variable whose value is \<open>old\<close>: \<open>null\<close> leaves it unchanged
  without an error, a value of the wrong type is an error.
\<close>

definition json_error :: error where
  "json_error = Err ''json: cannot unmarshal''"

fun unmarshal_bool :: "json \<Rightarrow> bool \<Rightarrow> error + bool" where
  "unmarshal_bool (JBool b) old = Inr b"
| "unmarshal_bool JNull old = Inr old"
| "unmarshal_bool _ old = Inl json_error"

fun unmarshal_string :: "json \<Rightarrow> string \<Rightarrow> error + string" where
  "unmarshal_string (JStr s) old = Inr s"
| "unmarshal_string JNull old = Inr old"
| "unmarshal_string _ old = Inl json_error"

fun unmarshal_int :: "json \<Rightarrow> int \<Rightarrow> error + int" where
  "unmarshal_int (JInt i) old = (if - (2 ^ 63) \<le> i \<and> i < 2 ^ 63 then Inr i else Inl json_error)"
| "unmarshal_int JNull old = Inr old"
| "unmarshal_int _ old = Inl json_error"

section \<open>Third-party code\<close>

record LabelSelectorRequirement =
  req_Key :: string
  req_Operator :: string
  req_Values :: "string list"

record LabelSelector =
  MatchLabels :: "(string \<times> string) list"
  MatchExpressions :: "LabelSelectorRequirement list"

text \<open>The interface \<open>labels.Selector\<close>: the two methods the program calls.\<close>

record Selector =
  sel_Empty :: bool
  sel_Matches :: "labels \<Rightarrow> bool"

record lib =
  LabelSelectorAsSelector :: "LabelSelector \<Rightarrow> error + Selector"
  LabelSelector_String :: "LabelSelector \<Rightarrow> string"
  IsNotFound :: "error \<Rightarrow> bool"
  IsGone :: "error \<Rightarrow> bool"
  IsAlreadyExists :: "error \<Rightarrow> bool"
  ContainsFinalizer :: "string list \<Rightarrow> string \<Rightarrow> bool"
  AddFinalizer :: "string list \<Rightarrow> string \<Rightarrow> string list"
  RemoveFinalizer :: "string list \<Rightarrow> string \<Rightarrow> string list"
  cond_Has :: "Condition list \<Rightarrow> string \<Rightarrow> bool"
  cond_IsTrue :: "Condition list \<Rightarrow> string \<Rightarrow> bool"
  cond_IsFalse :: "Condition list \<Rightarrow> string \<Rightarrow> bool"
  cond_MarkTrue :: "Condition list \<Rightarrow> string \<Rightarrow> Condition list"
  cond_MarkFalse :: "Condition list \<Rightarrow> string \<Rightarrow> string \<Rightarrow> string \<Rightarrow> string \<Rightarrow> Condition list"
  cond_Set :: "Condition list \<Rightarrow> Condition \<Rightarrow> Condition list"
  LowestNonZeroResult :: "Result \<Rightarrow> Result \<Rightarrow> Result"
  NewAggregate :: "error list \<Rightarrow> error option"
  Wrap :: "error option \<Rightarrow> string \<Rightarrow> error option"
  semver_Compare :: "string \<Rightarrow> string \<Rightarrow> int"
  HasWithPrefix :: "string \<Rightarrow> labels \<Rightarrow> bool"

text \<open>
  The API client for one kind of object. \<open>kCreate\<close> and \<open>kUpdate\<close> return the object as the server
  answered it; \<open>kNewHelper\<close> and \<open>kPatch\<close> are the patch helper (\<open>patch.NewHelper(before)\<close> and
  \<open>helper.Patch(after)\<close>).
\<close>

record ('w, 'o) kind_api =
  kGet :: "'w \<Rightarrow> key \<Rightarrow> (error + 'o) \<times> 'w"
  kCreate :: "'w \<Rightarrow> 'o \<Rightarrow> (error + 'o) \<times> 'w"
  kUpdate :: "'w \<Rightarrow> 'o \<Rightarrow> (error + 'o) \<times> 'w"
  kDelete :: "'w \<Rightarrow> 'o \<Rightarrow> error option \<times> 'w"
  kNewHelper :: "'w \<Rightarrow> 'o \<Rightarrow> error option \<times> 'w"
  kPatch :: "'w \<Rightarrow> 'o \<Rightarrow> 'o \<Rightarrow> error option \<times> 'w"

text \<open>The client of a workload cluster.\<close>

record 'w remote =
  r_Secrets :: "('w, Secret) kind_api"
  r_StatefulSets :: "('w, StatefulSet) kind_api"

record 'w kube =
  Secrets :: "('w, Secret) kind_api"
  SvcS :: "('w, Service) kind_api"
  EndpointsS :: "('w, Endpoints) kind_api"
  Clusters :: "('w, Cluster) kind_api"
  Machines :: "('w, Machine) kind_api"
  AviInfraSettings :: "('w, AviInfraSetting) kind_api"
  ClusterBootstraps :: "('w, ClusterBootstrap) kind_api"
  TKRs :: "('w, TanzuKubernetesRelease) kind_api"
  StatefulSets :: "('w, StatefulSet) kind_api"
  ListClusters :: "'w \<Rightarrow> Selector \<Rightarrow> (error + Cluster list) \<times> 'w"
  ListMachines :: "'w \<Rightarrow> string \<Rightarrow> labels \<Rightarrow> (error + Machine list) \<times> 'w"
  GetRemoteClient :: "'w \<Rightarrow> string \<Rightarrow> key \<Rightarrow> (error + 'w remote) \<times> 'w"

text \<open>The process environment.\<close>

type_synonym environ = "string \<rightharpoonup> string"

definition Getenv :: "environ \<Rightarrow> string \<Rightarrow> string" where
  "Getenv env k = (case env k of None \<Rightarrow> [] | Some v \<Rightarrow> v)"

section \<open>What the program relies on\<close>

text \<open>
  \<open>controllerutil\<close>: ``ContainsFinalizer checks an Object that the provided finalizer is present'',
  AddFinalizer adds it if it is not, RemoveFinalizer removes it if it is.
\<close>

definition finalizer_laws :: "lib \<Rightarrow> bool" where
  "finalizer_laws L \<longleftrightarrow>
     (\<forall>fs f. ContainsFinalizer L fs f \<longleftrightarrow> f \<in> set fs) \<and>
     (\<forall>fs f. set (AddFinalizer L fs f) = insert f (set fs)) \<and>
     (\<forall>fs f. set (RemoveFinalizer L fs f) = set fs - {f})"

text \<open>
  Cluster API's \<open>conditions\<close>: marking sets the status of one type and of no other; a condition
  that is true is present, and none is true and false.
\<close>

definition condition_laws :: "lib \<Rightarrow> bool" where
  "condition_laws L \<longleftrightarrow>
     (\<forall>cs t u. cond_IsTrue L (cond_MarkTrue L cs t) u \<longleftrightarrow> u = t \<or> cond_IsTrue L cs u) \<and>
     (\<forall>cs t r s m u. cond_IsTrue L (cond_MarkFalse L cs t r s m) u \<longleftrightarrow> u \<noteq> t \<and> cond_IsTrue L cs u) \<and>
     (\<forall>cs t u. cond_Has L (cond_MarkTrue L cs t) u \<longleftrightarrow> u = t \<or> cond_Has L cs u) \<and>
     (\<forall>cs t r s m u. cond_Has L (cond_MarkFalse L cs t r s m) u \<longleftrightarrow> u = t \<or> cond_Has L cs u) \<and>
     (\<forall>cs c u. u \<noteq> cond_Type c \<longrightarrow>
        (cond_IsTrue L (cond_Set L cs c) u \<longleftrightarrow> cond_IsTrue L cs u) \<and>
        (cond_Has L (cond_Set L cs c) u \<longleftrightarrow> cond_Has L cs u)) \<and>
     (\<forall>cs c. cond_IsTrue L (cond_Set L cs c) (cond_Type c) \<longleftrightarrow> cond_Status c = ''True'') \<and>
     (\<forall>cs c. cond_Has L (cond_Set L cs c) (cond_Type c)) \<and>
     (\<forall>cs t. cond_IsTrue L cs t \<longrightarrow> cond_Has L cs t) \<and>
     (\<forall>cs t. cond_IsTrue L cs t \<longrightarrow> \<not> cond_IsFalse L cs t)"

text \<open>\<open>kerrors.NewAggregate\<close>: nil for an empty list, an error otherwise.\<close>

definition aggregate_laws :: "lib \<Rightarrow> bool" where
  "aggregate_laws L \<longleftrightarrow> (\<forall>es. NewAggregate L es = None \<longleftrightarrow> es = [])"

text \<open>\<open>util.LowestNonZeroResult\<close>: one of its arguments, and a zero result only of two zero results.\<close>

definition result_laws :: "lib \<Rightarrow> bool" where
  "result_laws L \<longleftrightarrow>
     (\<forall>i j. LowestNonZeroResult L i j = i \<or> LowestNonZeroResult L i j = j) \<and>
     (\<forall>i. LowestNonZeroResult L i zeroResult = i) \<and>
     (\<forall>j. LowestNonZeroResult L zeroResult j = j) \<and>
     (\<forall>i j. Requeue i \<or> Requeue j \<longrightarrow> i = zeroResult \<or> j = zeroResult \<or>
        Requeue (LowestNonZeroResult L i j))"

text \<open>\<open>errors.Wrap\<close> of \<open>github.com/pkg/errors\<close>: ``If err is nil, Wrap returns nil.''\<close>

definition wrap_laws :: "lib \<Rightarrow> bool" where
  "wrap_laws L \<longleftrightarrow> (\<forall>e m. Wrap L e m = None \<longleftrightarrow> e = None)"

lemmas lib_law_defs [law_defs] =
  finalizer_laws_def condition_laws_def aggregate_laws_def result_laws_def wrap_laws_def

end
