(* ===== verification/Api_Types.thy ===== *)
theory Api_Types
  imports Kube
begin

text \<open>
  The API group \<open>networking.tkg.tanzu.vmware.com/v1alpha1\<close> (\<open>src/api/v1alpha1\<close>): the constants
  of \<open>constants.go\<close> and the \<open>AKODeploymentConfig\<close> types of \<open>akodeploymentconfig_types.go\<close>, one
  record per struct with the source's field order. An optional scalar (\<open>*int\<close>, \<open>*bool\<close>) is an
  \<open>option\<close>; an unset string is the empty string. A slice of which the code only asks whether it
  is nil (\<open>IPPools\<close>) is an \<open>option\<close> of a list. The pointers \<open>AdminCredentialRef\<close> and
  \<open>CertificateAuthorityRef\<close> are required by the CRD schema and are never nil in a stored object,
  so they are plain records here.
\<close>

section \<open>Constants\<close>

text \<open>The constants of Cluster API the program uses.\<close>

definition PreTerminateDeleteHookAnnotationPrefix :: string where
  "PreTerminateDeleteHookAnnotationPrefix = ''pre-terminate.delete.hook.machine.cluster.x-k8s.io''"

definition ReadyCondition :: string where
  "ReadyCondition = ''Ready''"

definition ClusterNameLabel :: string where
  "ClusterNameLabel = ''cluster.x-k8s.io/cluster-name''"

definition MachineControlPlaneLabel :: string where
  "MachineControlPlaneLabel = ''cluster.x-k8s.io/control-plane''"

definition MachineExternalIP :: string where
  "MachineExternalIP = ''ExternalIP''"

definition ConditionSeverityInfo :: string where
  "ConditionSeverityInfo = ''Info''"

text \<open>\<open>constants.go\<close>\<close>

definition TKGSystemNamespace :: string where
  "TKGSystemNamespace = ''tkg-system''"

definition TKGClusterNameLabel :: string where
  "TKGClusterNameLabel = ''tkg.tanzu.vmware.com/cluster-name''"

definition TKGClusterNameSpaceLabel :: string where
  "TKGClusterNameSpaceLabel = ''tkg.tanzu.vmware.com/cluster-namespace''"

definition TKGManagememtClusterRoleLabel :: string where
  "TKGManagememtClusterRoleLabel = ''cluster-role.tkg.tanzu.vmware.com/management''"

definition TKGAddonAnnotationKey :: string where
  "TKGAddonAnnotationKey = ''tkg.tanzu.vmware.com/addon-type''"

definition TKGAddOnLabelAddonNameKey :: string where
  "TKGAddOnLabelAddonNameKey = ''tkg.tanzu.vmware.com/addon-name''"

definition TKGAddOnLabelClusterNameKey :: string where
  "TKGAddOnLabelClusterNameKey = ''tkg.tanzu.vmware.com/cluster-name''"

definition TKGAddOnLabelClusterctlKey :: string where
  "TKGAddOnLabelClusterctlKey = ''clusterctl.cluster.x-k8s.io/move''"

definition TKGAddOnSecretType :: string where
  "TKGAddOnSecretType = ''tkg.tanzu.vmware.com/addon''"

definition TKGClusterClassAddOnSecretType :: string where
  "TKGClusterClassAddOnSecretType = ''clusterbootstrap-secret''"

definition TKGAddOnSecretDataKey :: string where
  "TKGAddOnSecretDataKey = ''values.yaml''"

definition TKGDataValueFormatString :: string where
  "TKGDataValueFormatString = ''#@data/values'' @ [CHR 0x0A] @ ''#@overlay/match-child-defaults missing_ok=True'' @ [CHR 0x0A] @ ''---'' @ [CHR 0x0A]"

definition TKGSkipDeletePkgiAnnotationKey :: string where
  "TKGSkipDeletePkgiAnnotationKey = ''run.tanzu.vmware.com/skip-packageinstall-deletion''"

definition ManagementClusterAkoDeploymentConfig :: string where
  "ManagementClusterAkoDeploymentConfig = ''install-ako-for-management-cluster''"

definition WorkloadClusterAkoDeploymentConfig :: string where
  "WorkloadClusterAkoDeploymentConfig = ''install-ako-for-all''"

definition AkoUserRoleName :: string where
  "AkoUserRoleName = ''ako-essential-role''"

definition ClusterFinalizer :: string where
  "ClusterFinalizer = ''ako-operator.networking.tkg.tanzu.vmware.com''"

definition AkoDeploymentConfigFinalizer :: string where
  "AkoDeploymentConfigFinalizer = ''ako-operator.networking.tkg.tanzu.vmware.com''"

definition AkoDeploymentConfigKind :: string where
  "AkoDeploymentConfigKind = ''AKODeploymentConfig''"

definition AkoDeploymentConfigVersion :: string where
  "AkoDeploymentConfigVersion = ''networking.tanzu.vmware.com/v1alpha1''"

definition AkoStatefulSetName :: string where
  "AkoStatefulSetName = ''ako''"

definition AkoClusterBootstrapRefNamePrefix :: string where
  "AkoClusterBootstrapRefNamePrefix = ''load-balancer-and-ingress-service.tanzu.vmware.com''"

definition AkoPackageInstallName :: string where
  "AkoPackageInstallName = ''load-balancer-and-ingress-service''"

definition AkoPreferredIPAnnotation :: string where
  "AkoPreferredIPAnnotation = ''ako.vmware.com/load-balancer-ip''"

definition AviClusterLabel :: string where
  "AviClusterLabel = ''networking.tkg.tanzu.vmware.com/avi''"

definition AviClusterDeleteConfigLabel :: string where
  "AviClusterDeleteConfigLabel = ''networking.tkg.tanzu.vmware.com/avi-config-delete''"

definition AviClusterSecretType :: string where
  "AviClusterSecretType = ''avi.cluster.x-k8s.io/secret''"

definition AviNamespace :: string where
  "AviNamespace = ''avi-system''"

definition AviCredentialName :: string where
  "AviCredentialName = ''avi-controller-credentials''"

definition AviCAName :: string where
  "AviCAName = ''avi-controller-ca''"

definition AviCertificateKey :: string where
  "AviCertificateKey = ''certificateAuthorityData''"

definition AviResourceCleanupReason :: string where
  "AviResourceCleanupReason = ''AviResourceCleanup''"

definition AviResourceCleanupSucceededCondition :: string where
  "AviResourceCleanupSucceededCondition = ''AviResourceCleanupSucceeded''"

definition AviUserCleanupSucceededCondition :: string where
  "AviUserCleanupSucceededCondition = ''AviUserCleanupSucceeded''"

definition ClusterIpFamilyValidationSucceededCondition :: string where
  "ClusterIpFamilyValidationSucceededCondition = ''ClusterIpFamilyValidationSucceeded''"

definition PreTerminateAnnotation :: string where
  "PreTerminateAnnotation = PreTerminateDeleteHookAnnotationPrefix @ ''/avi-cleanup''"

definition HAServiceName :: string where
  "HAServiceName = ''control-plane''"

definition HAServiceBootstrapClusterFinalizer :: string where
  "HAServiceBootstrapClusterFinalizer = ''ako-operator.networking.tkg.tanzu.vmware.com/ha''"

definition HAServiceAnnotationsKey :: string where
  "HAServiceAnnotationsKey = ''skipnodeport.ako.vmware.com/enabled''"

definition HAAVIInfraSettingAnnotationsKey :: string where
  "HAAVIInfraSettingAnnotationsKey = ''aviinfrasetting.ako.vmware.com/name''"

definition AKODeploymentConfigControllerName :: string where
  "AKODeploymentConfigControllerName = ''akodeploymentconfig-controller''"

definition AVIControllerEnterpriseOnlyVersion :: string where
  "AVIControllerEnterpriseOnlyVersion = ''v30.0.0''"

section \<open>AKODeploymentConfig\<close>

record SecretRef =
  ref_Name :: string
  ref_Namespace :: string

record IPPool =
  pool_Start :: string
  pool_End :: string
  pool_Type :: string

record VIPNetwork =
  vip_NetworkName :: string
  vip_CIDR :: string
  vip_V6CIDR :: string

record ControlPlaneNetwork =
  cpn_Name :: string
  cpn_CIDR :: string

record DataNetwork =
  dn_Name :: string
  dn_CIDR :: string
  IPPools :: "IPPool list option"

record AVITenant =
  tenant_Context :: string
  tenant_Name :: string

record FeatureGates =
  GatewayAPI :: "bool option"

record AKORbacConfig =
  PspPolicyAPIVersion :: string
  PspEnabled :: "bool option"

record AKOLogConfig =
  LogLevel :: string
  PersistentVolumeClaim :: string
  MountPath :: string
  LogFile :: string
  AKOGatewayLogFile :: string

record NodeNetwork =
  nn_NetworkName :: string
  nn_Cidrs :: "string list"

record NodePortSelector =
  nps_Key :: string
  nps_Value :: string

record AKOL4Config =
  DefaultDomain :: string
  AutoFQDN :: string

record AKOIngressConfig =
  DisableIngressClass :: "bool option"
  DefaultIngressController :: "bool option"
  ServiceType :: string
  ShardVSSize :: string
  PassthroughShardSize :: string
  NodeNetworkList :: "NodeNetwork list"
  NoPGForSNI :: "bool option"
  EnableMCI :: "bool option"

record NetworksConfig =
  EnableRHI :: "bool option"
  BGPPeerLabels :: "string list"
  NsxtT1LR :: string

record NamespaceSelector =
  LabelKey :: string
  LabelValue :: string

record ExtraConfigs =
  ReplicaCount :: "int option"
  PrimaryInstance :: "bool option"
  Log :: AKOLogConfig
  FullSyncFrequency :: string
  ApiServerPort :: "int option"
  EnableEvents :: "bool option"
  DisableStaticRouteSync :: "bool option"
  CniPlugin :: string
  EnableEVH :: "bool option"
  Layer7Only :: "bool option"
  ec_NamespaceSelector :: NamespaceSelector
  ServicesAPI :: "bool option"
  VIPPerNamespace :: "bool option"
  IstioEnabled :: "bool option"
  BlockedNamespaceList :: "string list"
  IpFamily :: string
  UseDefaultSecretsOnly :: "bool option"
  ec_NetworksConfig :: NetworksConfig
  IngressConfigs :: AKOIngressConfig
  L4Configs :: AKOL4Config
  ec_NodePortSelector :: NodePortSelector
  ec_Rbac :: AKORbacConfig
  ec_FeatureGates :: FeatureGates

record AKODeploymentConfigSpec =
  CloudName :: string
  Controller :: string
  ControllerVersion :: string
  ServiceEngineGroup :: string
  ClusterSelector :: LabelSelector
  WorkloadCredentialRef :: "SecretRef option"
  AdminCredentialRef :: SecretRef
  CertificateAuthorityRef :: SecretRef
  Tenant :: AVITenant
  spec_DataNetwork :: DataNetwork
  spec_ControlPlaneNetwork :: ControlPlaneNetwork
  spec_ExtraConfigs :: ExtraConfigs

record AKODeploymentConfigStatus =
  ObservedGeneration :: int
  adc_Conditions :: "Condition list"

record AKODeploymentConfig = ObjectMeta +
  Spec :: AKODeploymentConfigSpec
  Status :: AKODeploymentConfigStatus

text \<open>The API server with the operator's own kind: \<open>AKODeploymentConfig\<close> objects are cluster-scoped.\<close>

record 'w kapi = "'w kube" +
  ADCs :: "('w, AKODeploymentConfig) kind_api"
  ListADCs :: "'w \<Rightarrow> (error + AKODeploymentConfig list) \<times> 'w"

section \<open>A configuration for examples\<close>

text \<open>The zero value of every optional part, with the references filled in.\<close>

definition zeroExtraConfigs :: ExtraConfigs where
  "zeroExtraConfigs = \<lparr>ReplicaCount = None, PrimaryInstance = None,
     Log = \<lparr>LogLevel = [], PersistentVolumeClaim = [], MountPath = [], LogFile = [], AKOGatewayLogFile = []\<rparr>,
     FullSyncFrequency = [], ApiServerPort = None, EnableEvents = None, DisableStaticRouteSync = None,
     CniPlugin = [], EnableEVH = None, Layer7Only = None,
     ec_NamespaceSelector = \<lparr>LabelKey = [], LabelValue = []\<rparr>,
     ServicesAPI = None, VIPPerNamespace = None, IstioEnabled = None, BlockedNamespaceList = [],
     IpFamily = [], UseDefaultSecretsOnly = None,
     ec_NetworksConfig = \<lparr>EnableRHI = None, BGPPeerLabels = [], NsxtT1LR = []\<rparr>,
     IngressConfigs = \<lparr>DisableIngressClass = None, DefaultIngressController = None, ServiceType = [],
       ShardVSSize = [], PassthroughShardSize = [], NodeNetworkList = [], NoPGForSNI = None, EnableMCI = None\<rparr>,
     L4Configs = \<lparr>DefaultDomain = [], AutoFQDN = []\<rparr>,
     ec_NodePortSelector = \<lparr>nps_Key = [], nps_Value = []\<rparr>,
     ec_Rbac = \<lparr>PspPolicyAPIVersion = [], PspEnabled = None\<rparr>,
     ec_FeatureGates = \<lparr>GatewayAPI = None\<rparr>\<rparr>"

definition exampleSpec :: AKODeploymentConfigSpec where
  "exampleSpec = \<lparr>CloudName = ''Default-Cloud'', Controller = ''10.23.122.1'', ControllerVersion = ''22.1.3'',
     ServiceEngineGroup = ''Default-SEG'', ClusterSelector = \<lparr>MatchLabels = [(''team'', ''blue'')], MatchExpressions = []\<rparr>,
     WorkloadCredentialRef = None,
     AdminCredentialRef = \<lparr>ref_Name = ''avi-controller-credentials'', ref_Namespace = ''tkg-system-networking''\<rparr>,
     CertificateAuthorityRef = \<lparr>ref_Name = ''avi-controller-ca'', ref_Namespace = ''tkg-system-networking''\<rparr>,
     Tenant = \<lparr>tenant_Context = [], tenant_Name = ''admin''\<rparr>,
     spec_DataNetwork = \<lparr>dn_Name = ''VM Network'', dn_CIDR = ''10.0.5.0/20'', IPPools = None\<rparr>,
     spec_ControlPlaneNetwork = \<lparr>cpn_Name = [], cpn_CIDR = []\<rparr>,
     spec_ExtraConfigs = zeroExtraConfigs\<rparr>"

definition exampleADC :: AKODeploymentConfig where
  "exampleADC = ObjectMeta.extend (emptyMeta\<lparr>Name := ''blue''\<rparr>)
     \<lparr>Spec = exampleSpec, Status = \<lparr>ObservedGeneration = 0, adc_Conditions = []\<rparr>\<rparr>"

definition exampleCluster :: Cluster where
  "exampleCluster = ObjectMeta.extend (emptyMeta\<lparr>Name := ''wc'', Namespace := ''default''\<rparr>)
     \<lparr>Topology = None, Spec_ClusterNetwork = None, EndpointHost = [], EndpointPort = 0, Conditions = []\<rparr>"

lemmas example_defs =
  zeroExtraConfigs_def exampleSpec_def exampleADC_def exampleCluster_def emptyMeta_def ObjectMeta.defs

end
