(* ===== verification/Api_Structs.thy ===== *)
theory Api_Structs
  imports Go_Heap Api_Types
begin

text \<open>
  The structs of \<open>src/api/v1alpha1/akodeploymentconfig_types.go\<close> as Go has them, with pointers and
  slices as addresses of a store, and the deep copies of those that hold no types of other packages
  (\<open>src/api/v1alpha1/zz_generated.deepcopy.go\<close>). Every copy obeys the contract \<open>deep_copier\<close>, by one
  interpretation for each struct.
\<close>

section \<open>The types with pointers\<close>

record NodeNetwork_h =
  h_NetworkName :: string
  p_Cidrs :: "addr option"

record FeatureGates_h =
  p_GatewayAPI :: "addr option"

record AKORbacConfig_h =
  h_PspPolicyAPIVersion :: string
  p_PspEnabled :: "addr option"

record DataNetwork_h =
  h_dn_Name :: string
  h_dn_CIDR :: string
  p_IPPools :: "addr option"

record NetworksConfig_h =
  p_EnableRHI :: "addr option"
  p_BGPPeerLabels :: "addr option"
  h_NsxtT1LR :: string

record AKOIngressConfig_h =
  p_DisableIngressClass :: "addr option"
  p_DefaultIngressController :: "addr option"
  h_ServiceType :: string
  h_ShardVSSize :: string
  h_PassthroughShardSize :: string
  p_NodeNetworkList :: "addr option"
  p_NoPGForSNI :: "addr option"
  p_EnableMCI :: "addr option"

record ExtraConfigs_h =
  p_ReplicaCount :: "addr option"
  p_PrimaryInstance :: "addr option"
  h_Log :: AKOLogConfig
  h_FullSyncFrequency :: string
  p_ApiServerPort :: "addr option"
  p_EnableEvents :: "addr option"
  p_DisableStaticRouteSync :: "addr option"
  h_CniPlugin :: string
  p_EnableEVH :: "addr option"
  p_Layer7Only :: "addr option"
  h_NamespaceSelector :: NamespaceSelector
  p_ServicesAPI :: "addr option"
  p_VIPPerNamespace :: "addr option"
  p_IstioEnabled :: "addr option"
  p_BlockedNamespaceList :: "addr option"
  h_IpFamily :: string
  p_UseDefaultSecretsOnly :: "addr option"
  h_NetworksConfig :: NetworksConfig_h
  h_IngressConfigs :: AKOIngressConfig_h
  h_L4Configs :: AKOL4Config
  h_NodePortSelector :: NodePortSelector
  h_Rbac :: AKORbacConfig_h
  h_FeatureGates :: FeatureGates_h

record 's AKODeploymentConfigSpec_h =
  h_CloudName :: string
  h_Controller :: string
  h_ControllerVersion :: string
  h_ServiceEngineGroup :: string
  h_ClusterSelector :: 's
  p_WorkloadCredentialRef :: "addr option"
  p_AdminCredentialRef :: "addr option"
  p_CertificateAuthorityRef :: "addr option"
  h_Tenant :: AVITenant
  h_DataNetwork :: DataNetwork_h
  h_ControlPlaneNetwork :: ControlPlaneNetwork
  h_ExtraConfigs :: ExtraConfigs_h

record AKODeploymentConfigStatus_h =
  h_ObservedGeneration :: int
  p_Conditions :: "addr option"

record ('m, 's) AKODeploymentConfig_h =
  h_TypeMeta :: "string \<times> string"
  h_ObjectMeta :: 'm
  h_Spec :: "'s AKODeploymentConfigSpec_h"
  h_Status :: AKODeploymentConfigStatus_h

record 'l AKODeploymentConfigList_h =
  hl_TypeMeta :: "string \<times> string"
  hl_ListMeta :: 'l
  p_Items :: "addr option"

text \<open>The cells of the store, by the type of what they hold; \<open>ForeignC\<close> are those of other packages.\<close>

datatype ('m, 's, 'c, 'x) cell =
    BoolC bool
  | IntC int
  | RefC SecretRef
  | StringsC "string list"
  | PoolsC "IPPool list"
  | NodesC "NodeNetwork_h list"
  | CondsC "'c list"
  | ItemsC "('m, 's) AKODeploymentConfig_h list"
  | ForeignC 'x

type_synonym ('m, 's, 'c, 'x) heap = "('m, 's, 'c, 'x) cell store"

fun get_bool :: "('m, 's, 'c, 'x) cell \<Rightarrow> bool option" where
  "get_bool (BoolC b) = Some b" | "get_bool _ = None"

fun get_int :: "('m, 's, 'c, 'x) cell \<Rightarrow> int option" where
  "get_int (IntC i) = Some i" | "get_int _ = None"

fun get_ref :: "('m, 's, 'c, 'x) cell \<Rightarrow> SecretRef option" where
  "get_ref (RefC r) = Some r" | "get_ref _ = None"

fun get_strings :: "('m, 's, 'c, 'x) cell \<Rightarrow> string list option" where
  "get_strings (StringsC xs) = Some xs" | "get_strings _ = None"

fun get_pools :: "('m, 's, 'c, 'x) cell \<Rightarrow> IPPool list option" where
  "get_pools (PoolsC xs) = Some xs" | "get_pools _ = None"

fun get_nodes :: "('m, 's, 'c, 'x) cell \<Rightarrow> NodeNetwork_h list option" where
  "get_nodes (NodesC xs) = Some xs" | "get_nodes _ = None"

fun get_conds :: "('m, 's, 'c, 'x) cell \<Rightarrow> 'c list option" where
  "get_conds (CondsC xs) = Some xs" | "get_conds _ = None"

fun get_items :: "('m, 's, 'c, 'x) cell \<Rightarrow> ('m, 's) AKODeploymentConfig_h list option" where
  "get_items (ItemsC xs) = Some xs" | "get_items _ = None"

fun get_foreign :: "('m, 's, 'c, 'x) cell \<Rightarrow> 'x option" where
  "get_foreign (ForeignC x) = Some x" | "get_foreign _ = None"

interpretation bools: cell_kind get_bool BoolC by unfold_locales simp

interpretation ints: cell_kind get_int IntC by unfold_locales simp

interpretation refs: cell_kind get_ref RefC by unfold_locales simp

interpretation strings: cell_kind get_strings StringsC by unfold_locales simp

interpretation pools: cell_kind get_pools PoolsC by unfold_locales simp

interpretation foreigns: cell_kind get_foreign ForeignC by unfold_locales simp

text \<open>
  The value model keeps a nil slice as an empty list where the operator does not tell them apart; a
  view of a struct with such slices also says which of them are nil.
\<close>

definition nil_list :: "'a list option \<Rightarrow> 'a list" where
  "nil_list v = (case v of None \<Rightarrow> [] | Some xs \<Rightarrow> xs)"

section \<open>Copies\<close>

text \<open>
  For every struct with pointers: what well-typed pointers, reachable cells and value are, and its
  \<open>DeepCopyInto\<close>. The function returns the new contents of \<open>*out\<close> and the store.
\<close>

definition NodeNetwork_ok :: "('m, 's, 'c, 'x) heap \<Rightarrow> NodeNetwork_h \<Rightarrow> bool" where
  "NodeNetwork_ok h x \<longleftrightarrow> ptr_ok get_strings h (p_Cidrs x)"

definition NodeNetwork_foot :: "('m, 's, 'c, 'x) heap \<Rightarrow> NodeNetwork_h \<Rightarrow> addr set" where
  "NodeNetwork_foot h x = ptr_foot h (p_Cidrs x)"

definition NodeNetwork_view :: "('m, 's, 'c, 'x) heap \<Rightarrow> NodeNetwork_h \<Rightarrow> NodeNetwork \<times> bool" where
  "NodeNetwork_view h x =
     (\<lparr>nn_NetworkName = h_NetworkName x,
       nn_Cidrs = nil_list (ptr_view get_strings h (p_Cidrs x))\<rparr>, ptr_view get_strings h (p_Cidrs x) = None)"

definition NodeNetwork_DeepCopyInto :: "NodeNetwork_h \<Rightarrow> ('m, 's, 'c, 'x) heap \<Rightarrow> NodeNetwork_h \<times> ('m, 's, 'c, 'x) heap" where
  "NodeNetwork_DeepCopyInto x h =
     (let out = x in
      case copy_cell get_strings StringsC (p_Cidrs x) h of (p, h) \<Rightarrow> let out = out\<lparr>p_Cidrs := p\<rparr> in
      (out, h))"

definition FeatureGates_ok :: "('m, 's, 'c, 'x) heap \<Rightarrow> FeatureGates_h \<Rightarrow> bool" where
  "FeatureGates_ok h x \<longleftrightarrow> ptr_ok get_bool h (p_GatewayAPI x)"

definition FeatureGates_foot :: "('m, 's, 'c, 'x) heap \<Rightarrow> FeatureGates_h \<Rightarrow> addr set" where
  "FeatureGates_foot h x = ptr_foot h (p_GatewayAPI x)"

definition FeatureGates_view :: "('m, 's, 'c, 'x) heap \<Rightarrow> FeatureGates_h \<Rightarrow> FeatureGates" where
  "FeatureGates_view h x =
     \<lparr>GatewayAPI = ptr_view get_bool h (p_GatewayAPI x)\<rparr>"

definition FeatureGates_DeepCopyInto :: "FeatureGates_h \<Rightarrow> ('m, 's, 'c, 'x) heap \<Rightarrow> FeatureGates_h \<times> ('m, 's, 'c, 'x) heap" where
  "FeatureGates_DeepCopyInto x h =
     (let out = x in
      case copy_cell get_bool BoolC (p_GatewayAPI x) h of (p, h) \<Rightarrow> let out = out\<lparr>p_GatewayAPI := p\<rparr> in
      (out, h))"

definition AKORbacConfig_ok :: "('m, 's, 'c, 'x) heap \<Rightarrow> AKORbacConfig_h \<Rightarrow> bool" where
  "AKORbacConfig_ok h x \<longleftrightarrow> ptr_ok get_bool h (p_PspEnabled x)"

definition AKORbacConfig_foot :: "('m, 's, 'c, 'x) heap \<Rightarrow> AKORbacConfig_h \<Rightarrow> addr set" where
  "AKORbacConfig_foot h x = ptr_foot h (p_PspEnabled x)"

definition AKORbacConfig_view :: "('m, 's, 'c, 'x) heap \<Rightarrow> AKORbacConfig_h \<Rightarrow> AKORbacConfig" where
  "AKORbacConfig_view h x =
     \<lparr>PspPolicyAPIVersion = h_PspPolicyAPIVersion x,
       PspEnabled = ptr_view get_bool h (p_PspEnabled x)\<rparr>"

definition AKORbacConfig_DeepCopyInto :: "AKORbacConfig_h \<Rightarrow> ('m, 's, 'c, 'x) heap \<Rightarrow> AKORbacConfig_h \<times> ('m, 's, 'c, 'x) heap" where
  "AKORbacConfig_DeepCopyInto x h =
     (let out = x in
      case copy_cell get_bool BoolC (p_PspEnabled x) h of (p, h) \<Rightarrow> let out = out\<lparr>p_PspEnabled := p\<rparr> in
      (out, h))"

definition DataNetwork_ok :: "('m, 's, 'c, 'x) heap \<Rightarrow> DataNetwork_h \<Rightarrow> bool" where
  "DataNetwork_ok h x \<longleftrightarrow> ptr_ok get_pools h (p_IPPools x)"

definition DataNetwork_foot :: "('m, 's, 'c, 'x) heap \<Rightarrow> DataNetwork_h \<Rightarrow> addr set" where
  "DataNetwork_foot h x = ptr_foot h (p_IPPools x)"

definition DataNetwork_view :: "('m, 's, 'c, 'x) heap \<Rightarrow> DataNetwork_h \<Rightarrow> DataNetwork" where
  "DataNetwork_view h x =
     \<lparr>dn_Name = h_dn_Name x,
       dn_CIDR = h_dn_CIDR x,
       IPPools = ptr_view get_pools h (p_IPPools x)\<rparr>"

definition DataNetwork_DeepCopyInto :: "DataNetwork_h \<Rightarrow> ('m, 's, 'c, 'x) heap \<Rightarrow> DataNetwork_h \<times> ('m, 's, 'c, 'x) heap" where
  "DataNetwork_DeepCopyInto x h =
     (let out = x in
      case copy_cell get_pools PoolsC (p_IPPools x) h of (p, h) \<Rightarrow> let out = out\<lparr>p_IPPools := p\<rparr> in
      (out, h))"

definition NetworksConfig_ok :: "('m, 's, 'c, 'x) heap \<Rightarrow> NetworksConfig_h \<Rightarrow> bool" where
  "NetworksConfig_ok h x \<longleftrightarrow> ptr_ok get_bool h (p_EnableRHI x) \<and>
     ptr_ok get_strings h (p_BGPPeerLabels x)"

definition NetworksConfig_foot :: "('m, 's, 'c, 'x) heap \<Rightarrow> NetworksConfig_h \<Rightarrow> addr set" where
  "NetworksConfig_foot h x = ptr_foot h (p_EnableRHI x) \<union>
     ptr_foot h (p_BGPPeerLabels x)"

definition NetworksConfig_view :: "('m, 's, 'c, 'x) heap \<Rightarrow> NetworksConfig_h \<Rightarrow> NetworksConfig \<times> bool list" where
  "NetworksConfig_view h x =
     (\<lparr>EnableRHI = ptr_view get_bool h (p_EnableRHI x),
       BGPPeerLabels = nil_list (ptr_view get_strings h (p_BGPPeerLabels x)),
       NsxtT1LR = h_NsxtT1LR x\<rparr>,
       [ptr_view get_strings h (p_BGPPeerLabels x) = None])"

definition NetworksConfig_DeepCopyInto :: "NetworksConfig_h \<Rightarrow> ('m, 's, 'c, 'x) heap \<Rightarrow> NetworksConfig_h \<times> ('m, 's, 'c, 'x) heap" where
  "NetworksConfig_DeepCopyInto x h =
     (let out = x in
      case copy_cell get_bool BoolC (p_EnableRHI x) h of (p, h) \<Rightarrow> let out = out\<lparr>p_EnableRHI := p\<rparr> in
      case copy_cell get_strings StringsC (p_BGPPeerLabels x) h of (p, h) \<Rightarrow> let out = out\<lparr>p_BGPPeerLabels := p\<rparr> in
      (out, h))"

definition AKOIngressConfig_ok :: "('m, 's, 'c, 'x) heap \<Rightarrow> AKOIngressConfig_h \<Rightarrow> bool" where
  "AKOIngressConfig_ok h x \<longleftrightarrow> ptr_ok get_bool h (p_DisableIngressClass x) \<and>
     ptr_ok get_bool h (p_DefaultIngressController x) \<and>
     slice_ok get_nodes NodeNetwork_ok h (p_NodeNetworkList x) \<and>
     ptr_ok get_bool h (p_NoPGForSNI x) \<and>
     ptr_ok get_bool h (p_EnableMCI x)"

definition AKOIngressConfig_foot :: "('m, 's, 'c, 'x) heap \<Rightarrow> AKOIngressConfig_h \<Rightarrow> addr set" where
  "AKOIngressConfig_foot h x = ptr_foot h (p_DisableIngressClass x) \<union>
     ptr_foot h (p_DefaultIngressController x) \<union>
     slice_foot get_nodes NodeNetwork_foot h (p_NodeNetworkList x) \<union>
     ptr_foot h (p_NoPGForSNI x) \<union>
     ptr_foot h (p_EnableMCI x)"

definition AKOIngressConfig_view :: "('m, 's, 'c, 'x) heap \<Rightarrow> AKOIngressConfig_h \<Rightarrow> AKOIngressConfig \<times> bool list" where
  "AKOIngressConfig_view h x =
     (\<lparr>DisableIngressClass = ptr_view get_bool h (p_DisableIngressClass x),
       DefaultIngressController = ptr_view get_bool h (p_DefaultIngressController x),
       ServiceType = h_ServiceType x,
       ShardVSSize = h_ShardVSSize x,
       PassthroughShardSize = h_PassthroughShardSize x,
       NodeNetworkList = map fst (nil_list (slice_view get_nodes NodeNetwork_view h (p_NodeNetworkList x))),
       NoPGForSNI = ptr_view get_bool h (p_NoPGForSNI x),
       EnableMCI = ptr_view get_bool h (p_EnableMCI x)\<rparr>,
       [slice_view get_nodes NodeNetwork_view h (p_NodeNetworkList x) = None] @ map snd (nil_list (slice_view get_nodes NodeNetwork_view h (p_NodeNetworkList x))))"

definition AKOIngressConfig_DeepCopyInto :: "AKOIngressConfig_h \<Rightarrow> ('m, 's, 'c, 'x) heap \<Rightarrow> AKOIngressConfig_h \<times> ('m, 's, 'c, 'x) heap" where
  "AKOIngressConfig_DeepCopyInto x h =
     (let out = x in
      case copy_cell get_bool BoolC (p_DisableIngressClass x) h of (p, h) \<Rightarrow> let out = out\<lparr>p_DisableIngressClass := p\<rparr> in
      case copy_cell get_bool BoolC (p_DefaultIngressController x) h of (p, h) \<Rightarrow> let out = out\<lparr>p_DefaultIngressController := p\<rparr> in
      case copy_slice get_nodes NodesC NodeNetwork_DeepCopyInto (p_NodeNetworkList x) h of (p, h) \<Rightarrow> let out = out\<lparr>p_NodeNetworkList := p\<rparr> in
      case copy_cell get_bool BoolC (p_NoPGForSNI x) h of (p, h) \<Rightarrow> let out = out\<lparr>p_NoPGForSNI := p\<rparr> in
      case copy_cell get_bool BoolC (p_EnableMCI x) h of (p, h) \<Rightarrow> let out = out\<lparr>p_EnableMCI := p\<rparr> in
      (out, h))"

definition ExtraConfigs_ok :: "('m, 's, 'c, 'x) heap \<Rightarrow> ExtraConfigs_h \<Rightarrow> bool" where
  "ExtraConfigs_ok h x \<longleftrightarrow> ptr_ok get_int h (p_ReplicaCount x) \<and>
     ptr_ok get_bool h (p_PrimaryInstance x) \<and>
     ptr_ok get_int h (p_ApiServerPort x) \<and>
     ptr_ok get_bool h (p_EnableEvents x) \<and>
     ptr_ok get_bool h (p_DisableStaticRouteSync x) \<and>
     ptr_ok get_bool h (p_EnableEVH x) \<and>
     ptr_ok get_bool h (p_Layer7Only x) \<and>
     ptr_ok get_bool h (p_ServicesAPI x) \<and>
     ptr_ok get_bool h (p_VIPPerNamespace x) \<and>
     ptr_ok get_bool h (p_IstioEnabled x) \<and>
     ptr_ok get_strings h (p_BlockedNamespaceList x) \<and>
     ptr_ok get_bool h (p_UseDefaultSecretsOnly x) \<and>
     NetworksConfig_ok h (h_NetworksConfig x) \<and>
     AKOIngressConfig_ok h (h_IngressConfigs x) \<and>
     AKORbacConfig_ok h (h_Rbac x) \<and>
     FeatureGates_ok h (h_FeatureGates x)"

definition ExtraConfigs_foot :: "('m, 's, 'c, 'x) heap \<Rightarrow> ExtraConfigs_h \<Rightarrow> addr set" where
  "ExtraConfigs_foot h x = ptr_foot h (p_ReplicaCount x) \<union>
     ptr_foot h (p_PrimaryInstance x) \<union>
     ptr_foot h (p_ApiServerPort x) \<union>
     ptr_foot h (p_EnableEvents x) \<union>
     ptr_foot h (p_DisableStaticRouteSync x) \<union>
     ptr_foot h (p_EnableEVH x) \<union>
     ptr_foot h (p_Layer7Only x) \<union>
     ptr_foot h (p_ServicesAPI x) \<union>
     ptr_foot h (p_VIPPerNamespace x) \<union>
     ptr_foot h (p_IstioEnabled x) \<union>
     ptr_foot h (p_BlockedNamespaceList x) \<union>
     ptr_foot h (p_UseDefaultSecretsOnly x) \<union>
     NetworksConfig_foot h (h_NetworksConfig x) \<union>
     AKOIngressConfig_foot h (h_IngressConfigs x) \<union>
     AKORbacConfig_foot h (h_Rbac x) \<union>
     FeatureGates_foot h (h_FeatureGates x)"

definition ExtraConfigs_view :: "('m, 's, 'c, 'x) heap \<Rightarrow> ExtraConfigs_h \<Rightarrow> ExtraConfigs \<times> bool list" where
  "ExtraConfigs_view h x =
     (\<lparr>ReplicaCount = ptr_view get_int h (p_ReplicaCount x),
       PrimaryInstance = ptr_view get_bool h (p_PrimaryInstance x),
       Log = h_Log x,
       FullSyncFrequency = h_FullSyncFrequency x,
       ApiServerPort = ptr_view get_int h (p_ApiServerPort x),
       EnableEvents = ptr_view get_bool h (p_EnableEvents x),
       DisableStaticRouteSync = ptr_view get_bool h (p_DisableStaticRouteSync x),
       CniPlugin = h_CniPlugin x,
       EnableEVH = ptr_view get_bool h (p_EnableEVH x),
       Layer7Only = ptr_view get_bool h (p_Layer7Only x),
       ec_NamespaceSelector = h_NamespaceSelector x,
       ServicesAPI = ptr_view get_bool h (p_ServicesAPI x),
       VIPPerNamespace = ptr_view get_bool h (p_VIPPerNamespace x),
       IstioEnabled = ptr_view get_bool h (p_IstioEnabled x),
       BlockedNamespaceList = nil_list (ptr_view get_strings h (p_BlockedNamespaceList x)),
       IpFamily = h_IpFamily x,
       UseDefaultSecretsOnly = ptr_view get_bool h (p_UseDefaultSecretsOnly x),
       ec_NetworksConfig = fst (NetworksConfig_view h (h_NetworksConfig x)),
       IngressConfigs = fst (AKOIngressConfig_view h (h_IngressConfigs x)),
       L4Configs = h_L4Configs x,
       ec_NodePortSelector = h_NodePortSelector x,
       ec_Rbac = AKORbacConfig_view h (h_Rbac x),
       ec_FeatureGates = FeatureGates_view h (h_FeatureGates x)\<rparr>,
       [ptr_view get_strings h (p_BlockedNamespaceList x) = None] @ snd (NetworksConfig_view h (h_NetworksConfig x)) @ snd (AKOIngressConfig_view h (h_IngressConfigs x)))"

definition ExtraConfigs_DeepCopyInto :: "ExtraConfigs_h \<Rightarrow> ('m, 's, 'c, 'x) heap \<Rightarrow> ExtraConfigs_h \<times> ('m, 's, 'c, 'x) heap" where
  "ExtraConfigs_DeepCopyInto x h =
     (let out = x in
      case copy_cell get_int IntC (p_ReplicaCount x) h of (p, h) \<Rightarrow> let out = out\<lparr>p_ReplicaCount := p\<rparr> in
      case copy_cell get_bool BoolC (p_PrimaryInstance x) h of (p, h) \<Rightarrow> let out = out\<lparr>p_PrimaryInstance := p\<rparr> in
      let out = out\<lparr>h_Log := h_Log x\<rparr> in
      case copy_cell get_int IntC (p_ApiServerPort x) h of (p, h) \<Rightarrow> let out = out\<lparr>p_ApiServerPort := p\<rparr> in
      case copy_cell get_bool BoolC (p_EnableEvents x) h of (p, h) \<Rightarrow> let out = out\<lparr>p_EnableEvents := p\<rparr> in
      case copy_cell get_bool BoolC (p_DisableStaticRouteSync x) h of (p, h) \<Rightarrow> let out = out\<lparr>p_DisableStaticRouteSync := p\<rparr> in
      case copy_cell get_bool BoolC (p_EnableEVH x) h of (p, h) \<Rightarrow> let out = out\<lparr>p_EnableEVH := p\<rparr> in
      case copy_cell get_bool BoolC (p_Layer7Only x) h of (p, h) \<Rightarrow> let out = out\<lparr>p_Layer7Only := p\<rparr> in
      let out = out\<lparr>h_NamespaceSelector := h_NamespaceSelector x\<rparr> in
      case copy_cell get_bool BoolC (p_ServicesAPI x) h of (p, h) \<Rightarrow> let out = out\<lparr>p_ServicesAPI := p\<rparr> in
      case copy_cell get_bool BoolC (p_VIPPerNamespace x) h of (p, h) \<Rightarrow> let out = out\<lparr>p_VIPPerNamespace := p\<rparr> in
      case copy_cell get_bool BoolC (p_IstioEnabled x) h of (p, h) \<Rightarrow> let out = out\<lparr>p_IstioEnabled := p\<rparr> in
      case copy_cell get_strings StringsC (p_BlockedNamespaceList x) h of (p, h) \<Rightarrow> let out = out\<lparr>p_BlockedNamespaceList := p\<rparr> in
      case copy_cell get_bool BoolC (p_UseDefaultSecretsOnly x) h of (p, h) \<Rightarrow> let out = out\<lparr>p_UseDefaultSecretsOnly := p\<rparr> in
      case NetworksConfig_DeepCopyInto (h_NetworksConfig x) h of (p, h) \<Rightarrow> let out = out\<lparr>h_NetworksConfig := p\<rparr> in
      case AKOIngressConfig_DeepCopyInto (h_IngressConfigs x) h of (p, h) \<Rightarrow> let out = out\<lparr>h_IngressConfigs := p\<rparr> in
      let out = out\<lparr>h_L4Configs := h_L4Configs x\<rparr> in
      let out = out\<lparr>h_NodePortSelector := h_NodePortSelector x\<rparr> in
      case AKORbacConfig_DeepCopyInto (h_Rbac x) h of (p, h) \<Rightarrow> let out = out\<lparr>h_Rbac := p\<rparr> in
      case FeatureGates_DeepCopyInto (h_FeatureGates x) h of (p, h) \<Rightarrow> let out = out\<lparr>h_FeatureGates := p\<rparr> in
      (out, h))"


section \<open>The structs obey the contract\<close>

lemma NodeNetwork_okD:
  assumes "NodeNetwork_ok h x"
  shows "ptr_ok get_strings h (p_Cidrs x)"
  using assms by (simp_all add: NodeNetwork_ok_def)

lemma NodeNetwork_reads:
  assumes ok: "NodeNetwork_ok h x" and "agree (NodeNetwork_foot h x) h h'"
  shows "NodeNetwork_ok h' x \<and> NodeNetwork_foot h' x = NodeNetwork_foot h x \<and> NodeNetwork_view h' x = NodeNetwork_view h x"
proof -
  note o = NodeNetwork_okD [OF ok]
  from assms(2) have a: "agree (ptr_foot h (p_Cidrs x)) h h'"
    by (simp_all add: NodeNetwork_foot_def)
  show ?thesis
    using strings.flat.reads_foot [OF o a]
    by (simp add: NodeNetwork_ok_def NodeNetwork_foot_def NodeNetwork_view_def)
qed

lemma NodeNetwork_fresh:
  assumes wf: "wf_store h" and ok: "NodeNetwork_ok h x" and c: "NodeNetwork_DeepCopyInto x h = (y, h')"
  shows "\<exists>P. progress h h' P \<and> (P h' \<longrightarrow> copied NodeNetwork_ok NodeNetwork_foot NodeNetwork_view h h' x y)"
proof -
  note o = NodeNetwork_okD [OF ok]
  from c obtain q1 where s:
      "copy_cell get_strings StringsC (p_Cidrs x) h = (q1, h')"
    and y: "y = x\<lparr>p_Cidrs := q1\<rparr>"
    by (simp add: NodeNetwork_DeepCopyInto_def Let_def split: prod.splits)
  note p1 = strings.flat.step [OF progress_start [OF wf] o s]
  show ?thesis
    by (rule exI, rule conjI, rule p1) (simp add: copied_def y NodeNetwork_ok_def NodeNetwork_foot_def NodeNetwork_view_def Int_Un_distrib2)
qed

interpretation NodeNetwork: deep_copier NodeNetwork_ok NodeNetwork_foot NodeNetwork_view NodeNetwork_DeepCopyInto
  by (intro deep_copierI NodeNetwork_reads NodeNetwork_fresh)
    (simp_all add: NodeNetwork_foot_def NodeNetwork_ok_def strings.flat.foot_dom)

interpretation nodes: slice_of get_nodes NodesC NodeNetwork_ok NodeNetwork_foot NodeNetwork_view NodeNetwork_DeepCopyInto
  by unfold_locales simp

lemma FeatureGates_okD:
  assumes "FeatureGates_ok h x"
  shows "ptr_ok get_bool h (p_GatewayAPI x)"
  using assms by (simp_all add: FeatureGates_ok_def)

lemma FeatureGates_reads:
  assumes ok: "FeatureGates_ok h x" and "agree (FeatureGates_foot h x) h h'"
  shows "FeatureGates_ok h' x \<and> FeatureGates_foot h' x = FeatureGates_foot h x \<and> FeatureGates_view h' x = FeatureGates_view h x"
proof -
  note o = FeatureGates_okD [OF ok]
  from assms(2) have a: "agree (ptr_foot h (p_GatewayAPI x)) h h'"
    by (simp_all add: FeatureGates_foot_def)
  show ?thesis
    using bools.flat.reads_foot [OF o a]
    by (simp add: FeatureGates_ok_def FeatureGates_foot_def FeatureGates_view_def)
qed

lemma FeatureGates_fresh:
  assumes wf: "wf_store h" and ok: "FeatureGates_ok h x" and c: "FeatureGates_DeepCopyInto x h = (y, h')"
  shows "\<exists>P. progress h h' P \<and> (P h' \<longrightarrow> copied FeatureGates_ok FeatureGates_foot FeatureGates_view h h' x y)"
proof -
  note o = FeatureGates_okD [OF ok]
  from c obtain q1 where s:
      "copy_cell get_bool BoolC (p_GatewayAPI x) h = (q1, h')"
    and y: "y = x\<lparr>p_GatewayAPI := q1\<rparr>"
    by (simp add: FeatureGates_DeepCopyInto_def Let_def split: prod.splits)
  note p1 = bools.flat.step [OF progress_start [OF wf] o s]
  show ?thesis
    by (rule exI, rule conjI, rule p1) (simp add: copied_def y FeatureGates_ok_def FeatureGates_foot_def FeatureGates_view_def Int_Un_distrib2)
qed

interpretation FeatureGates: deep_copier FeatureGates_ok FeatureGates_foot FeatureGates_view FeatureGates_DeepCopyInto
  by (intro deep_copierI FeatureGates_reads FeatureGates_fresh)
    (simp_all add: FeatureGates_foot_def FeatureGates_ok_def bools.flat.foot_dom)

lemma AKORbacConfig_okD:
  assumes "AKORbacConfig_ok h x"
  shows "ptr_ok get_bool h (p_PspEnabled x)"
  using assms by (simp_all add: AKORbacConfig_ok_def)

lemma AKORbacConfig_reads:
  assumes ok: "AKORbacConfig_ok h x" and "agree (AKORbacConfig_foot h x) h h'"
  shows "AKORbacConfig_ok h' x \<and> AKORbacConfig_foot h' x = AKORbacConfig_foot h x \<and> AKORbacConfig_view h' x = AKORbacConfig_view h x"
proof -
  note o = AKORbacConfig_okD [OF ok]
  from assms(2) have a: "agree (ptr_foot h (p_PspEnabled x)) h h'"
    by (simp_all add: AKORbacConfig_foot_def)
  show ?thesis
    using bools.flat.reads_foot [OF o a]
    by (simp add: AKORbacConfig_ok_def AKORbacConfig_foot_def AKORbacConfig_view_def)
qed

lemma AKORbacConfig_fresh:
  assumes wf: "wf_store h" and ok: "AKORbacConfig_ok h x" and c: "AKORbacConfig_DeepCopyInto x h = (y, h')"
  shows "\<exists>P. progress h h' P \<and> (P h' \<longrightarrow> copied AKORbacConfig_ok AKORbacConfig_foot AKORbacConfig_view h h' x y)"
proof -
  note o = AKORbacConfig_okD [OF ok]
  from c obtain q1 where s:
      "copy_cell get_bool BoolC (p_PspEnabled x) h = (q1, h')"
    and y: "y = x\<lparr>p_PspEnabled := q1\<rparr>"
    by (simp add: AKORbacConfig_DeepCopyInto_def Let_def split: prod.splits)
  note p1 = bools.flat.step [OF progress_start [OF wf] o s]
  show ?thesis
    by (rule exI, rule conjI, rule p1) (simp add: copied_def y AKORbacConfig_ok_def AKORbacConfig_foot_def AKORbacConfig_view_def Int_Un_distrib2)
qed

interpretation AKORbacConfig: deep_copier AKORbacConfig_ok AKORbacConfig_foot AKORbacConfig_view AKORbacConfig_DeepCopyInto
  by (intro deep_copierI AKORbacConfig_reads AKORbacConfig_fresh)
    (simp_all add: AKORbacConfig_foot_def AKORbacConfig_ok_def bools.flat.foot_dom)

lemma DataNetwork_okD:
  assumes "DataNetwork_ok h x"
  shows "ptr_ok get_pools h (p_IPPools x)"
  using assms by (simp_all add: DataNetwork_ok_def)

lemma DataNetwork_reads:
  assumes ok: "DataNetwork_ok h x" and "agree (DataNetwork_foot h x) h h'"
  shows "DataNetwork_ok h' x \<and> DataNetwork_foot h' x = DataNetwork_foot h x \<and> DataNetwork_view h' x = DataNetwork_view h x"
proof -
  note o = DataNetwork_okD [OF ok]
  from assms(2) have a: "agree (ptr_foot h (p_IPPools x)) h h'"
    by (simp_all add: DataNetwork_foot_def)
  show ?thesis
    using pools.flat.reads_foot [OF o a]
    by (simp add: DataNetwork_ok_def DataNetwork_foot_def DataNetwork_view_def)
qed

lemma DataNetwork_fresh:
  assumes wf: "wf_store h" and ok: "DataNetwork_ok h x" and c: "DataNetwork_DeepCopyInto x h = (y, h')"
  shows "\<exists>P. progress h h' P \<and> (P h' \<longrightarrow> copied DataNetwork_ok DataNetwork_foot DataNetwork_view h h' x y)"
proof -
  note o = DataNetwork_okD [OF ok]
  from c obtain q1 where s:
      "copy_cell get_pools PoolsC (p_IPPools x) h = (q1, h')"
    and y: "y = x\<lparr>p_IPPools := q1\<rparr>"
    by (simp add: DataNetwork_DeepCopyInto_def Let_def split: prod.splits)
  note p1 = pools.flat.step [OF progress_start [OF wf] o s]
  show ?thesis
    by (rule exI, rule conjI, rule p1) (simp add: copied_def y DataNetwork_ok_def DataNetwork_foot_def DataNetwork_view_def Int_Un_distrib2)
qed

interpretation DataNetwork: deep_copier DataNetwork_ok DataNetwork_foot DataNetwork_view DataNetwork_DeepCopyInto
  by (intro deep_copierI DataNetwork_reads DataNetwork_fresh)
    (simp_all add: DataNetwork_foot_def DataNetwork_ok_def pools.flat.foot_dom)

lemma NetworksConfig_okD:
  assumes "NetworksConfig_ok h x"
  shows "ptr_ok get_bool h (p_EnableRHI x)" "ptr_ok get_strings h (p_BGPPeerLabels x)"
  using assms by (simp_all add: NetworksConfig_ok_def)

lemma NetworksConfig_reads:
  assumes ok: "NetworksConfig_ok h x" and "agree (NetworksConfig_foot h x) h h'"
  shows "NetworksConfig_ok h' x \<and> NetworksConfig_foot h' x = NetworksConfig_foot h x \<and> NetworksConfig_view h' x = NetworksConfig_view h x"
proof -
  note o = NetworksConfig_okD [OF ok]
  from assms(2) have a: "agree (ptr_foot h (p_EnableRHI x)) h h'" "agree (ptr_foot h (p_BGPPeerLabels x)) h h'"
    by (simp_all add: NetworksConfig_foot_def)
  show ?thesis
    using bools.flat.reads_foot [OF o(1) a(1)] strings.flat.reads_foot [OF o(2) a(2)]
    by (simp add: NetworksConfig_ok_def NetworksConfig_foot_def NetworksConfig_view_def)
qed

lemma NetworksConfig_fresh:
  assumes wf: "wf_store h" and ok: "NetworksConfig_ok h x" and c: "NetworksConfig_DeepCopyInto x h = (y, h')"
  shows "\<exists>P. progress h h' P \<and> (P h' \<longrightarrow> copied NetworksConfig_ok NetworksConfig_foot NetworksConfig_view h h' x y)"
proof -
  note o = NetworksConfig_okD [OF ok]
  from c obtain q1 q2 h1 where s:
      "copy_cell get_bool BoolC (p_EnableRHI x) h = (q1, h1)"
      "copy_cell get_strings StringsC (p_BGPPeerLabels x) h1 = (q2, h')"
    and y: "y = x\<lparr>p_EnableRHI := q1, p_BGPPeerLabels := q2\<rparr>"
    by (simp add: NetworksConfig_DeepCopyInto_def Let_def split: prod.splits)
  note p1 = bools.flat.step [OF progress_start [OF wf] o(1) s(1)]
  note p2 = strings.flat.step [OF p1 o(2) s(2)]
  show ?thesis
    by (rule exI, rule conjI, rule p2) (simp add: copied_def y NetworksConfig_ok_def NetworksConfig_foot_def NetworksConfig_view_def Int_Un_distrib2)
qed

interpretation NetworksConfig: deep_copier NetworksConfig_ok NetworksConfig_foot NetworksConfig_view NetworksConfig_DeepCopyInto
  by (intro deep_copierI NetworksConfig_reads NetworksConfig_fresh)
    (simp_all add: NetworksConfig_foot_def NetworksConfig_ok_def bools.flat.foot_dom strings.flat.foot_dom)

lemma AKOIngressConfig_okD:
  assumes "AKOIngressConfig_ok h x"
  shows "ptr_ok get_bool h (p_DisableIngressClass x)" "ptr_ok get_bool h (p_DefaultIngressController x)"
    "slice_ok get_nodes NodeNetwork_ok h (p_NodeNetworkList x)" "ptr_ok get_bool h (p_NoPGForSNI x)"
    "ptr_ok get_bool h (p_EnableMCI x)"
  using assms by (simp_all add: AKOIngressConfig_ok_def)

lemma AKOIngressConfig_reads:
  assumes ok: "AKOIngressConfig_ok h x" and "agree (AKOIngressConfig_foot h x) h h'"
  shows "AKOIngressConfig_ok h' x \<and> AKOIngressConfig_foot h' x = AKOIngressConfig_foot h x \<and> AKOIngressConfig_view h' x = AKOIngressConfig_view h x"
proof -
  note o = AKOIngressConfig_okD [OF ok]
  from assms(2) have a: "agree (ptr_foot h (p_DisableIngressClass x)) h h'" "agree (ptr_foot h (p_DefaultIngressController x)) h h'"
    "agree (slice_foot get_nodes NodeNetwork_foot h (p_NodeNetworkList x)) h h'"
    "agree (ptr_foot h (p_NoPGForSNI x)) h h'" "agree (ptr_foot h (p_EnableMCI x)) h h'"
    by (simp_all add: AKOIngressConfig_foot_def)
  show ?thesis
    using bools.flat.reads_foot [OF o(1) a(1)] bools.flat.reads_foot [OF o(2) a(2)]
      nodes.slice.reads_foot [OF o(3) a(3)] bools.flat.reads_foot [OF o(4) a(4)]
      bools.flat.reads_foot [OF o(5) a(5)]
    by (simp add: AKOIngressConfig_ok_def AKOIngressConfig_foot_def AKOIngressConfig_view_def)
qed

lemma AKOIngressConfig_fresh:
  assumes wf: "wf_store h" and ok: "AKOIngressConfig_ok h x" and c: "AKOIngressConfig_DeepCopyInto x h = (y, h')"
  shows "\<exists>P. progress h h' P \<and> (P h' \<longrightarrow> copied AKOIngressConfig_ok AKOIngressConfig_foot AKOIngressConfig_view h h' x y)"
proof -
  note o = AKOIngressConfig_okD [OF ok]
  from c obtain q1 q2 q3 q4 q5 h1 h2 h3 h4 where s:
      "copy_cell get_bool BoolC (p_DisableIngressClass x) h = (q1, h1)"
      "copy_cell get_bool BoolC (p_DefaultIngressController x) h1 = (q2, h2)"
      "copy_slice get_nodes NodesC NodeNetwork_DeepCopyInto (p_NodeNetworkList x) h2 = (q3, h3)"
      "copy_cell get_bool BoolC (p_NoPGForSNI x) h3 = (q4, h4)"
      "copy_cell get_bool BoolC (p_EnableMCI x) h4 = (q5, h')"
    and y: "y = x\<lparr>p_DisableIngressClass := q1, p_DefaultIngressController := q2, p_NodeNetworkList := q3, p_NoPGForSNI := q4, p_EnableMCI := q5\<rparr>"
    by (simp add: AKOIngressConfig_DeepCopyInto_def Let_def split: prod.splits)
  note p1 = bools.flat.step [OF progress_start [OF wf] o(1) s(1)]
  note p2 = bools.flat.step [OF p1 o(2) s(2)]
  note p3 = nodes.slice.step [OF p2 o(3) s(3)]
  note p4 = bools.flat.step [OF p3 o(4) s(4)]
  note p5 = bools.flat.step [OF p4 o(5) s(5)]
  show ?thesis
    by (rule exI, rule conjI, rule p5) (simp add: copied_def y AKOIngressConfig_ok_def AKOIngressConfig_foot_def AKOIngressConfig_view_def Int_Un_distrib2)
qed

interpretation AKOIngressConfig: deep_copier AKOIngressConfig_ok AKOIngressConfig_foot AKOIngressConfig_view AKOIngressConfig_DeepCopyInto
  by (intro deep_copierI AKOIngressConfig_reads AKOIngressConfig_fresh)
    (simp_all add: AKOIngressConfig_foot_def AKOIngressConfig_ok_def bools.flat.foot_dom nodes.slice.foot_dom)

lemma ExtraConfigs_okD:
  assumes "ExtraConfigs_ok h x"
  shows "ptr_ok get_int h (p_ReplicaCount x)" "ptr_ok get_bool h (p_PrimaryInstance x)"
    "ptr_ok get_int h (p_ApiServerPort x)" "ptr_ok get_bool h (p_EnableEvents x)"
    "ptr_ok get_bool h (p_DisableStaticRouteSync x)" "ptr_ok get_bool h (p_EnableEVH x)"
    "ptr_ok get_bool h (p_Layer7Only x)" "ptr_ok get_bool h (p_ServicesAPI x)"
    "ptr_ok get_bool h (p_VIPPerNamespace x)" "ptr_ok get_bool h (p_IstioEnabled x)"
    "ptr_ok get_strings h (p_BlockedNamespaceList x)" "ptr_ok get_bool h (p_UseDefaultSecretsOnly x)"
    "NetworksConfig_ok h (h_NetworksConfig x)" "AKOIngressConfig_ok h (h_IngressConfigs x)"
    "AKORbacConfig_ok h (h_Rbac x)" "FeatureGates_ok h (h_FeatureGates x)"
  using assms by (simp_all add: ExtraConfigs_ok_def)

lemma ExtraConfigs_reads:
  assumes ok: "ExtraConfigs_ok h x" and "agree (ExtraConfigs_foot h x) h h'"
  shows "ExtraConfigs_ok h' x \<and> ExtraConfigs_foot h' x = ExtraConfigs_foot h x \<and> ExtraConfigs_view h' x = ExtraConfigs_view h x"
proof -
  note o = ExtraConfigs_okD [OF ok]
  from assms(2) have a: "agree (ptr_foot h (p_ReplicaCount x)) h h'" "agree (ptr_foot h (p_PrimaryInstance x)) h h'"
    "agree (ptr_foot h (p_ApiServerPort x)) h h'" "agree (ptr_foot h (p_EnableEvents x)) h h'"
    "agree (ptr_foot h (p_DisableStaticRouteSync x)) h h'" "agree (ptr_foot h (p_EnableEVH x)) h h'"
    "agree (ptr_foot h (p_Layer7Only x)) h h'" "agree (ptr_foot h (p_ServicesAPI x)) h h'"
    "agree (ptr_foot h (p_VIPPerNamespace x)) h h'" "agree (ptr_foot h (p_IstioEnabled x)) h h'"
    "agree (ptr_foot h (p_BlockedNamespaceList x)) h h'" "agree (ptr_foot h (p_UseDefaultSecretsOnly x)) h h'"
    "agree (NetworksConfig_foot h (h_NetworksConfig x)) h h'"
    "agree (AKOIngressConfig_foot h (h_IngressConfigs x)) h h'" "agree (AKORbacConfig_foot h (h_Rbac x)) h h'"
    "agree (FeatureGates_foot h (h_FeatureGates x)) h h'"
    by (simp_all add: ExtraConfigs_foot_def)
  show ?thesis
    using ints.flat.reads_foot [OF o(1) a(1)] bools.flat.reads_foot [OF o(2) a(2)]
      ints.flat.reads_foot [OF o(3) a(3)] bools.flat.reads_foot [OF o(4) a(4)]
      bools.flat.reads_foot [OF o(5) a(5)] bools.flat.reads_foot [OF o(6) a(6)]
      bools.flat.reads_foot [OF o(7) a(7)] bools.flat.reads_foot [OF o(8) a(8)]
      bools.flat.reads_foot [OF o(9) a(9)] bools.flat.reads_foot [OF o(10) a(10)]
      strings.flat.reads_foot [OF o(11) a(11)] bools.flat.reads_foot [OF o(12) a(12)]
      NetworksConfig.reads_foot [OF o(13) a(13)] AKOIngressConfig.reads_foot [OF o(14) a(14)]
      AKORbacConfig.reads_foot [OF o(15) a(15)] FeatureGates.reads_foot [OF o(16) a(16)]
    by (simp add: ExtraConfigs_ok_def ExtraConfigs_foot_def ExtraConfigs_view_def)
qed

lemma ExtraConfigs_fresh:
  assumes wf: "wf_store h" and ok: "ExtraConfigs_ok h x" and c: "ExtraConfigs_DeepCopyInto x h = (y, h')"
  shows "\<exists>P. progress h h' P \<and> (P h' \<longrightarrow> copied ExtraConfigs_ok ExtraConfigs_foot ExtraConfigs_view h h' x y)"
proof -
  note o = ExtraConfigs_okD [OF ok]
  from c obtain q1 q2 q3 q4 q5 q6 q7 q8 q9 q10 q11 q12 q13 q14 q15 q16 h1 h2 h3 h4 h5 h6 h7 h8 h9 h10 h11 h12 h13 h14 h15 where s:
      "copy_cell get_int IntC (p_ReplicaCount x) h = (q1, h1)"
      "copy_cell get_bool BoolC (p_PrimaryInstance x) h1 = (q2, h2)"
      "copy_cell get_int IntC (p_ApiServerPort x) h2 = (q3, h3)"
      "copy_cell get_bool BoolC (p_EnableEvents x) h3 = (q4, h4)"
      "copy_cell get_bool BoolC (p_DisableStaticRouteSync x) h4 = (q5, h5)"
      "copy_cell get_bool BoolC (p_EnableEVH x) h5 = (q6, h6)"
      "copy_cell get_bool BoolC (p_Layer7Only x) h6 = (q7, h7)"
      "copy_cell get_bool BoolC (p_ServicesAPI x) h7 = (q8, h8)"
      "copy_cell get_bool BoolC (p_VIPPerNamespace x) h8 = (q9, h9)"
      "copy_cell get_bool BoolC (p_IstioEnabled x) h9 = (q10, h10)"
      "copy_cell get_strings StringsC (p_BlockedNamespaceList x) h10 = (q11, h11)"
      "copy_cell get_bool BoolC (p_UseDefaultSecretsOnly x) h11 = (q12, h12)"
      "NetworksConfig_DeepCopyInto (h_NetworksConfig x) h12 = (q13, h13)"
      "AKOIngressConfig_DeepCopyInto (h_IngressConfigs x) h13 = (q14, h14)"
      "AKORbacConfig_DeepCopyInto (h_Rbac x) h14 = (q15, h15)"
      "FeatureGates_DeepCopyInto (h_FeatureGates x) h15 = (q16, h')"
    and y: "y = x\<lparr>p_ReplicaCount := q1, p_PrimaryInstance := q2, p_ApiServerPort := q3, p_EnableEvents := q4, p_DisableStaticRouteSync := q5, p_EnableEVH := q6, p_Layer7Only := q7, p_ServicesAPI := q8, p_VIPPerNamespace := q9, p_IstioEnabled := q10, p_BlockedNamespaceList := q11, p_UseDefaultSecretsOnly := q12, h_NetworksConfig := q13, h_IngressConfigs := q14, h_Rbac := q15, h_FeatureGates := q16\<rparr>"
    by (simp add: ExtraConfigs_DeepCopyInto_def Let_def split: prod.splits)
  note p1 = ints.flat.step [OF progress_start [OF wf] o(1) s(1)]
  note p2 = bools.flat.step [OF p1 o(2) s(2)]
  note p3 = ints.flat.step [OF p2 o(3) s(3)]
  note p4 = bools.flat.step [OF p3 o(4) s(4)]
  note p5 = bools.flat.step [OF p4 o(5) s(5)]
  note p6 = bools.flat.step [OF p5 o(6) s(6)]
  note p7 = bools.flat.step [OF p6 o(7) s(7)]
  note p8 = bools.flat.step [OF p7 o(8) s(8)]
  note p9 = bools.flat.step [OF p8 o(9) s(9)]
  note p10 = bools.flat.step [OF p9 o(10) s(10)]
  note p11 = strings.flat.step [OF p10 o(11) s(11)]
  note p12 = bools.flat.step [OF p11 o(12) s(12)]
  note p13 = NetworksConfig.step [OF p12 o(13) s(13)]
  note p14 = AKOIngressConfig.step [OF p13 o(14) s(14)]
  note p15 = AKORbacConfig.step [OF p14 o(15) s(15)]
  note p16 = FeatureGates.step [OF p15 o(16) s(16)]
  show ?thesis
    by (rule exI, rule conjI, rule p16) (simp add: copied_def y ExtraConfigs_ok_def ExtraConfigs_foot_def ExtraConfigs_view_def Int_Un_distrib2)
qed

interpretation ExtraConfigs: deep_copier ExtraConfigs_ok ExtraConfigs_foot ExtraConfigs_view ExtraConfigs_DeepCopyInto
  by (intro deep_copierI ExtraConfigs_reads ExtraConfigs_fresh)
    (simp_all add: ExtraConfigs_foot_def ExtraConfigs_ok_def AKOIngressConfig.foot_dom AKORbacConfig.foot_dom FeatureGates.foot_dom NetworksConfig.foot_dom
    bools.flat.foot_dom ints.flat.foot_dom strings.flat.foot_dom)

end
