(* ===== verification/Ref_World.thy ===== *)
theory Ref_World
  imports Api_Types
begin

text \<open>
  A reference instance of the third-party code: an executable \<open>lib\<close> that follows the documented
  behaviour of the packages, and an in-memory API server. It shows that the hypotheses of
  \<open>Kube\<close> can hold together, and the witnesses of the properties run the model on it. No definition
  of the model depends on it.
\<close>

section \<open>The pure functions\<close>

fun req_ok :: "LabelSelectorRequirement \<Rightarrow> bool" where
  "req_ok r \<longleftrightarrow> req_Operator r \<in> {''In'', ''NotIn'', ''Exists'', ''DoesNotExist''}"

definition req_matches :: "LabelSelectorRequirement \<Rightarrow> labels \<Rightarrow> bool" where
  "req_matches r l =
     (if req_Operator r = ''In'' then (case l (req_Key r) of None \<Rightarrow> False | Some v \<Rightarrow> v \<in> set (req_Values r))
      else if req_Operator r = ''NotIn'' then (case l (req_Key r) of None \<Rightarrow> True | Some v \<Rightarrow> v \<notin> set (req_Values r))
      else if req_Operator r = ''Exists'' then l (req_Key r) \<noteq> None
      else l (req_Key r) = None)"

definition ref_selector :: "LabelSelector \<Rightarrow> error + Selector" where
  "ref_selector s =
     (if list_all req_ok (MatchExpressions s) then
        Inr \<lparr>sel_Empty = (MatchLabels s = [] \<and> MatchExpressions s = []),
             sel_Matches = (\<lambda>l. list_all (\<lambda>(k, v). l k = Some v) (MatchLabels s) \<and>
                                list_all (\<lambda>r. req_matches r l) (MatchExpressions s))\<rparr>
      else Inl (Err ''not a valid label selector operator''))"

definition ref_selector_string :: "LabelSelector \<Rightarrow> string" where
  "ref_selector_string s =
     concat (map (\<lambda>(k, v). k @ ''='' @ v @ '','') (MatchLabels s)) @ '';'' @
     concat (map (\<lambda>r. req_Key r @ '' '' @ req_Operator r @ '' '' @ concat (req_Values r) @ '','') (MatchExpressions s))"

definition has_reason :: "string \<Rightarrow> error \<Rightarrow> bool" where
  "has_reason r e = (case e of Err _ \<Rightarrow> False | StatusErr r' _ \<Rightarrow> r' = r)"

definition ref_status :: "Condition list \<Rightarrow> string \<Rightarrow> string option" where
  "ref_status cs t = map_option cond_Status (find (\<lambda>c. cond_Type c = t) cs)"

definition ref_set :: "Condition list \<Rightarrow> Condition \<Rightarrow> Condition list" where
  "ref_set cs c = c # filter (\<lambda>d. cond_Type d \<noteq> cond_Type c) cs"

definition ref_lowest :: "Result \<Rightarrow> Result \<Rightarrow> Result" where
  "ref_lowest i j =
     (if i = zeroResult then j else if j = zeroResult then i
      else if Requeue i then i else if Requeue j then j
      else if RequeueAfter i < RequeueAfter j then i else j)"

text \<open>Versions \<open>vMAJOR.MINOR.PATCH\<close> by their numbers; an invalid version is less than a valid one.\<close>

definition semver_parts :: "string \<Rightarrow> nat list option" where
  "semver_parts v =
     (case v of
        [] \<Rightarrow> None
      | c # r \<Rightarrow> if c = CHR ''v'' then those (map parse_dec (strings_Split r (CHR ''.''))) else None)"

fun cmp_nats :: "nat list \<Rightarrow> nat list \<Rightarrow> int" where
  "cmp_nats [] [] = 0"
| "cmp_nats [] (b # bs) = (if 0 < b then -1 else cmp_nats [] bs)"
| "cmp_nats (a # as) [] = (if 0 < a then 1 else cmp_nats as [])"
| "cmp_nats (a # as) (b # bs) = (if a < b then -1 else if b < a then 1 else cmp_nats as bs)"

definition ref_semver :: "string \<Rightarrow> string \<Rightarrow> int" where
  "ref_semver v w =
     (case (semver_parts v, semver_parts w) of
        (None, None) \<Rightarrow> 0 | (None, Some _) \<Rightarrow> -1 | (Some _, None) \<Rightarrow> 1
      | (Some a, Some b) \<Rightarrow> cmp_nats a b)"

text \<open>
  \<open>HasWithPrefix\<close> is only asked for the prefix of the pre-terminate hooks; the instance looks for
  the bare prefix and for the hook the program itself sets.
\<close>

definition ref_lib :: lib where
  "ref_lib = \<lparr>
     LabelSelectorAsSelector = ref_selector,
     LabelSelector_String = ref_selector_string,
     IsNotFound = has_reason ''NotFound'',
     IsGone = has_reason ''Gone'',
     IsAlreadyExists = has_reason ''AlreadyExists'',
     ContainsFinalizer = (\<lambda>fs f. List.member fs f),
     AddFinalizer = (\<lambda>fs f. if List.member fs f then fs else fs @ [f]),
     RemoveFinalizer = (\<lambda>fs f. filter (\<lambda>x. x \<noteq> f) fs),
     cond_Has = (\<lambda>cs t. ref_status cs t \<noteq> None),
     cond_IsTrue = (\<lambda>cs t. ref_status cs t = Some ''True''),
     cond_IsFalse = (\<lambda>cs t. ref_status cs t = Some ''False''),
     cond_MarkTrue = (\<lambda>cs t. ref_set cs
       \<lparr>cond_Type = t, cond_Status = ''True'', cond_Severity = [], cond_Reason = [], cond_Message = []\<rparr>),
     cond_MarkFalse = (\<lambda>cs t r s m. ref_set cs
       \<lparr>cond_Type = t, cond_Status = ''False'', cond_Severity = s, cond_Reason = r, cond_Message = m\<rparr>),
     cond_Set = ref_set,
     LowestNonZeroResult = ref_lowest,
     NewAggregate = (\<lambda>es. case es of [] \<Rightarrow> None | e # _ \<Rightarrow> Some (Err (concat (map Error_msg es)))),
     Wrap = (\<lambda>e m. map_option (\<lambda>x. Err (m @ '': '' @ Error_msg x)) e),
     semver_Compare = ref_semver,
     HasWithPrefix = (\<lambda>p m. m p \<noteq> None \<or> m (p @ ''/avi-cleanup'') \<noteq> None)\<rparr>"

lemma ref_status_set:
  "ref_status (ref_set cs c) t = (if t = cond_Type c then Some (cond_Status c) else ref_status cs t)"
proof -
  have "find (\<lambda>d. cond_Type d = t) (filter (\<lambda>d. cond_Type d \<noteq> cond_Type c) cs) =
        find (\<lambda>d. cond_Type d = t) cs" if "t \<noteq> cond_Type c"
    using that by (induction cs) auto
  then show ?thesis by (auto simp: ref_status_def ref_set_def)
qed

lemma ref_finalizer_laws [simp]: "finalizer_laws ref_lib"
  by (auto simp: finalizer_laws_def ref_lib_def)

lemma ref_condition_laws [simp]: "condition_laws ref_lib"
  by (auto simp: condition_laws_def ref_lib_def ref_status_set)

lemma ref_aggregate_laws [simp]: "aggregate_laws ref_lib"
  by (simp add: aggregate_laws_def ref_lib_def split: list.splits)

lemma ref_result_laws [simp]: "result_laws ref_lib"
  by (auto simp: result_laws_def ref_lib_def ref_lowest_def zeroResult_def)

lemma ref_wrap_laws [simp]: "wrap_laws ref_lib"
  by (simp add: wrap_laws_def ref_lib_def)

section \<open>An in-memory API server\<close>

definition obj_key :: "'a ObjectMeta_scheme \<Rightarrow> key" where
  "obj_key o' = (Namespace o', Name o')"

definition not_found :: error where
  "not_found = StatusErr ''NotFound'' ''not found''"

definition already_exists :: error where
  "already_exists = StatusErr ''AlreadyExists'' ''already exists''"

definition list_api :: "('w \<Rightarrow> 'o list) \<Rightarrow> ('o list \<Rightarrow> 'w \<Rightarrow> 'w) \<Rightarrow> ('o \<Rightarrow> key) \<Rightarrow> ('w, 'o) kind_api" where
  "list_api get put key = \<lparr>
     kGet = (\<lambda>w k. (case find (\<lambda>x. key x = k) (get w) of None \<Rightarrow> Inl not_found | Some x \<Rightarrow> Inr x, w)),
     kCreate = (\<lambda>w x. case find (\<lambda>y. key y = key x) (get w) of
                  Some _ \<Rightarrow> (Inl already_exists, w)
                | None \<Rightarrow> (Inr x, put (x # get w) w)),
     kUpdate = (\<lambda>w x. case find (\<lambda>y. key y = key x) (get w) of
                  None \<Rightarrow> (Inl not_found, w)
                | Some _ \<Rightarrow> (Inr x, put (map (\<lambda>y. if key y = key x then x else y) (get w)) w)),
     kDelete = (\<lambda>w x. case find (\<lambda>y. key y = key x) (get w) of
                  None \<Rightarrow> (Some not_found, w)
                | Some _ \<Rightarrow> (None, put (filter (\<lambda>y. key y \<noteq> key x) (get w)) w)),
     kNewHelper = (\<lambda>w x. (None, w)),
     kPatch = (\<lambda>w x x'. case find (\<lambda>y. key y = key x) (get w) of
                  None \<Rightarrow> (Some not_found, w)
                | Some _ \<Rightarrow> (None, put (map (\<lambda>y. if key y = key x then x' else y) (get w)) w))\<rparr>"

record mem =
  m_secrets :: "Secret list"
  m_services :: "Service list"
  m_endpoints :: "Endpoints list"
  m_clusters :: "Cluster list"
  m_machines :: "Machine list"
  m_ais :: "AviInfraSetting list"
  m_bootstraps :: "ClusterBootstrap list"
  m_tkrs :: "TanzuKubernetesRelease list"
  m_sts :: "StatefulSet list"
  m_adcs :: "AKODeploymentConfig list"
  m_remote_secrets :: "Secret list"
  m_remote_sts :: "StatefulSet list"

definition mem0 :: mem where
  "mem0 = \<lparr>m_secrets = [], m_services = [], m_endpoints = [], m_clusters = [], m_machines = [],
     m_ais = [], m_bootstraps = [], m_tkrs = [], m_sts = [], m_adcs = [],
     m_remote_secrets = [], m_remote_sts = []\<rparr>"

definition mem_remote :: "'a mem_scheme remote" where
  "mem_remote = \<lparr>r_Secrets = list_api m_remote_secrets (\<lambda>x. m_remote_secrets_update (\<lambda>_. x)) obj_key,
     r_StatefulSets = list_api m_remote_sts (\<lambda>x. m_remote_sts_update (\<lambda>_. x)) obj_key\<rparr>"

definition mem_kapi :: "'a mem_scheme kapi" where
  "mem_kapi = \<lparr>
     Secrets = list_api m_secrets (\<lambda>x. m_secrets_update (\<lambda>_. x)) obj_key,
     SvcS = list_api m_services (\<lambda>x. m_services_update (\<lambda>_. x)) obj_key,
     EndpointsS = list_api m_endpoints (\<lambda>x. m_endpoints_update (\<lambda>_. x)) obj_key,
     Clusters = list_api m_clusters (\<lambda>x. m_clusters_update (\<lambda>_. x)) obj_key,
     Machines = list_api m_machines (\<lambda>x. m_machines_update (\<lambda>_. x)) obj_key,
     AviInfraSettings = list_api m_ais (\<lambda>x. m_ais_update (\<lambda>_. x)) obj_key,
     ClusterBootstraps = list_api m_bootstraps (\<lambda>x. m_bootstraps_update (\<lambda>_. x)) obj_key,
     TKRs = list_api m_tkrs (\<lambda>x. m_tkrs_update (\<lambda>_. x)) obj_key,
     StatefulSets = list_api m_sts (\<lambda>x. m_sts_update (\<lambda>_. x)) obj_key,
     ListClusters = (\<lambda>w s. (Inr (filter (\<lambda>c. sel_Matches s (Labels c)) (m_clusters w)), w)),
     ListMachines = (\<lambda>w ns ls. (Inr (filter (\<lambda>m. Namespace m = ns \<and> Labels m ClusterNameLabel = ls ClusterNameLabel) (m_machines w)), w)),
     GetRemoteClient = (\<lambda>w ctl k. (Inr mem_remote, w)),
     ADCs = list_api m_adcs (\<lambda>x. m_adcs_update (\<lambda>_. x)) obj_key,
     ListADCs = (\<lambda>w. (Inr (m_adcs w), w))\<rparr>"

text \<open>The one-field updates of the store, for evaluating a run.\<close>

lemmas ref_defs = ref_lib_def ref_selector_def mem_kapi_def mem_remote_def list_api_def mem0_def
  obj_key_def not_found_def already_exists_def has_reason_def zeroResult_def

end
