(* ===== verification/Deep_Copy.thy ===== *)
theory Deep_Copy
  imports Api_Structs Ref_World
begin

text \<open>
  \<open>src/api/v1alpha1/zz_generated.deepcopy.go\<close>: the deep copies of the AKODeploymentConfig object and of
  lists of them.

  The other theories use the API types as values (\<open>Api_Types\<close>). The result here is what justifies it:
  a copy reads as the same value and shares no cell with the original, so that writing through one is
  never seen through the other. The copies of the types of other packages (\<open>ObjectMeta\<close>, \<open>ListMeta\<close>,
  \<open>LabelSelector\<close>, \<open>Condition\<close>) are parameters that obey the same contract \<open>deep_copier\<close>.
\<close>

section \<open>The object and the list\<close>

text \<open>
  The copies of the types of other packages, and (for the statements only) how their pointers and
  values are read. \<open>foreign_laws\<close>: they are deep copies, as the generated code of those packages says.
\<close>

record ('m, 's, 'c, 'l, 'x) foreign =
  ObjectMeta_DeepCopyInto :: "'m \<Rightarrow> ('m, 's, 'c, 'x) heap \<Rightarrow> 'm \<times> ('m, 's, 'c, 'x) heap"
  LabelSelector_DeepCopyInto :: "'s \<Rightarrow> ('m, 's, 'c, 'x) heap \<Rightarrow> 's \<times> ('m, 's, 'c, 'x) heap"
  Condition_DeepCopyInto :: "'c \<Rightarrow> ('m, 's, 'c, 'x) heap \<Rightarrow> 'c \<times> ('m, 's, 'c, 'x) heap"
  ListMeta_DeepCopyInto :: "'l \<Rightarrow> ('m, 's, 'c, 'x) heap \<Rightarrow> 'l \<times> ('m, 's, 'c, 'x) heap"

record ('m, 's, 'c, 'l, 'x, 'v) foreign_view =
  m_ok :: "('m, 's, 'c, 'x) heap \<Rightarrow> 'm \<Rightarrow> bool"
  m_foot :: "('m, 's, 'c, 'x) heap \<Rightarrow> 'm \<Rightarrow> addr set"
  m_view :: "('m, 's, 'c, 'x) heap \<Rightarrow> 'm \<Rightarrow> ObjectMeta"
  s_ok :: "('m, 's, 'c, 'x) heap \<Rightarrow> 's \<Rightarrow> bool"
  s_foot :: "('m, 's, 'c, 'x) heap \<Rightarrow> 's \<Rightarrow> addr set"
  s_view :: "('m, 's, 'c, 'x) heap \<Rightarrow> 's \<Rightarrow> LabelSelector"
  c_ok :: "('m, 's, 'c, 'x) heap \<Rightarrow> 'c \<Rightarrow> bool"
  c_foot :: "('m, 's, 'c, 'x) heap \<Rightarrow> 'c \<Rightarrow> addr set"
  c_view :: "('m, 's, 'c, 'x) heap \<Rightarrow> 'c \<Rightarrow> Condition"
  l_ok :: "('m, 's, 'c, 'x) heap \<Rightarrow> 'l \<Rightarrow> bool"
  l_foot :: "('m, 's, 'c, 'x) heap \<Rightarrow> 'l \<Rightarrow> addr set"
  l_view :: "('m, 's, 'c, 'x) heap \<Rightarrow> 'l \<Rightarrow> 'v"

definition foreign_laws :: "('m, 's, 'c, 'l, 'x) foreign \<Rightarrow> ('m, 's, 'c, 'l, 'x, 'v) foreign_view \<Rightarrow> bool" where
  "foreign_laws F G \<longleftrightarrow>
     deep_copier (m_ok G) (m_foot G) (m_view G) (ObjectMeta_DeepCopyInto F) \<and>
     deep_copier (s_ok G) (s_foot G) (s_view G) (LabelSelector_DeepCopyInto F) \<and>
     deep_copier (c_ok G) (c_foot G) (c_view G) (Condition_DeepCopyInto F) \<and>
     deep_copier (l_ok G) (l_foot G) (l_view G) (ListMeta_DeepCopyInto F)"

definition AKODeploymentConfigSpec_DeepCopyInto ::
  "('m, 's, 'c, 'l, 'x) foreign \<Rightarrow> 's AKODeploymentConfigSpec_h \<Rightarrow> ('m, 's, 'c, 'x) heap \<Rightarrow>
     's AKODeploymentConfigSpec_h \<times> ('m, 's, 'c, 'x) heap" where
  "AKODeploymentConfigSpec_DeepCopyInto F x h =
     (let out = x in
      case LabelSelector_DeepCopyInto F (h_ClusterSelector x) h of (p, h) \<Rightarrow> let out = out\<lparr>h_ClusterSelector := p\<rparr> in
      case copy_cell get_ref RefC (p_WorkloadCredentialRef x) h of (p, h) \<Rightarrow> let out = out\<lparr>p_WorkloadCredentialRef := p\<rparr> in
      case copy_cell get_ref RefC (p_AdminCredentialRef x) h of (p, h) \<Rightarrow> let out = out\<lparr>p_AdminCredentialRef := p\<rparr> in
      case copy_cell get_ref RefC (p_CertificateAuthorityRef x) h of (p, h) \<Rightarrow> let out = out\<lparr>p_CertificateAuthorityRef := p\<rparr> in
      let out = out\<lparr>h_Tenant := h_Tenant x\<rparr> in
      case DataNetwork_DeepCopyInto (h_DataNetwork x) h of (p, h) \<Rightarrow> let out = out\<lparr>h_DataNetwork := p\<rparr> in
      let out = out\<lparr>h_ControlPlaneNetwork := h_ControlPlaneNetwork x\<rparr> in
      case ExtraConfigs_DeepCopyInto (h_ExtraConfigs x) h of (p, h) \<Rightarrow> let out = out\<lparr>h_ExtraConfigs := p\<rparr> in
      (out, h))"

definition AKODeploymentConfigStatus_DeepCopyInto ::
  "('m, 's, 'c, 'l, 'x) foreign \<Rightarrow> AKODeploymentConfigStatus_h \<Rightarrow> ('m, 's, 'c, 'x) heap \<Rightarrow>
     AKODeploymentConfigStatus_h \<times> ('m, 's, 'c, 'x) heap" where
  "AKODeploymentConfigStatus_DeepCopyInto F x h =
     (let out = x in
      case copy_slice get_conds CondsC (Condition_DeepCopyInto F) (p_Conditions x) h of (p, h) \<Rightarrow> let out = out\<lparr>p_Conditions := p\<rparr> in
      (out, h))"

definition AKODeploymentConfig_DeepCopyInto ::
  "('m, 's, 'c, 'l, 'x) foreign \<Rightarrow> ('m, 's) AKODeploymentConfig_h \<Rightarrow> ('m, 's, 'c, 'x) heap \<Rightarrow>
     ('m, 's) AKODeploymentConfig_h \<times> ('m, 's, 'c, 'x) heap" where
  "AKODeploymentConfig_DeepCopyInto F x h =
     (let out = x in
      let out = out\<lparr>h_TypeMeta := h_TypeMeta x\<rparr> in
      case ObjectMeta_DeepCopyInto F (h_ObjectMeta x) h of (p, h) \<Rightarrow> let out = out\<lparr>h_ObjectMeta := p\<rparr> in
      case AKODeploymentConfigSpec_DeepCopyInto F (h_Spec x) h of (p, h) \<Rightarrow> let out = out\<lparr>h_Spec := p\<rparr> in
      case AKODeploymentConfigStatus_DeepCopyInto F (h_Status x) h of (p, h) \<Rightarrow> let out = out\<lparr>h_Status := p\<rparr> in
      (out, h))"

definition AKODeploymentConfigList_DeepCopyInto ::
  "('m, 's, 'c, 'l, 'x) foreign \<Rightarrow> 'l AKODeploymentConfigList_h \<Rightarrow> ('m, 's, 'c, 'x) heap \<Rightarrow>
     'l AKODeploymentConfigList_h \<times> ('m, 's, 'c, 'x) heap" where
  "AKODeploymentConfigList_DeepCopyInto F x h =
     (let out = x in
      let out = out\<lparr>hl_TypeMeta := hl_TypeMeta x\<rparr> in
      case ListMeta_DeepCopyInto F (hl_ListMeta x) h of (p, h) \<Rightarrow> let out = out\<lparr>hl_ListMeta := p\<rparr> in
      case copy_slice get_items ItemsC (AKODeploymentConfig_DeepCopyInto F) (p_Items x) h of (p, h) \<Rightarrow> let out = out\<lparr>p_Items := p\<rparr> in
      (out, h))"

definition spec_ok :: "('m, 's, 'c, 'l, 'x, 'v) foreign_view \<Rightarrow> ('m, 's, 'c, 'x) heap \<Rightarrow> 's AKODeploymentConfigSpec_h \<Rightarrow> bool" where
  "spec_ok G h x \<longleftrightarrow> s_ok G h (h_ClusterSelector x) \<and> ptr_ok get_ref h (p_WorkloadCredentialRef x) \<and>
     ptr_ok get_ref h (p_AdminCredentialRef x) \<and> ptr_ok get_ref h (p_CertificateAuthorityRef x) \<and>
     DataNetwork_ok h (h_DataNetwork x) \<and> ExtraConfigs_ok h (h_ExtraConfigs x)"

definition spec_foot :: "('m, 's, 'c, 'l, 'x, 'v) foreign_view \<Rightarrow> ('m, 's, 'c, 'x) heap \<Rightarrow> 's AKODeploymentConfigSpec_h \<Rightarrow> addr set" where
  "spec_foot G h x = s_foot G h (h_ClusterSelector x) \<union> ptr_foot h (p_WorkloadCredentialRef x) \<union>
     ptr_foot h (p_AdminCredentialRef x) \<union> ptr_foot h (p_CertificateAuthorityRef x) \<union>
     DataNetwork_foot h (h_DataNetwork x) \<union> ExtraConfigs_foot h (h_ExtraConfigs x)"

definition nil_ref :: "SecretRef option \<Rightarrow> SecretRef" where
  "nil_ref v = (case v of None \<Rightarrow> \<lparr>ref_Name = [], ref_Namespace = []\<rparr> | Some r \<Rightarrow> r)"

definition spec_view ::
  "('m, 's, 'c, 'l, 'x, 'v) foreign_view \<Rightarrow> ('m, 's, 'c, 'x) heap \<Rightarrow> 's AKODeploymentConfigSpec_h \<Rightarrow> AKODeploymentConfigSpec \<times> bool list" where
  "spec_view G h x =
     (\<lparr>CloudName = h_CloudName x, Controller = h_Controller x, ControllerVersion = h_ControllerVersion x,
       ServiceEngineGroup = h_ServiceEngineGroup x,
       ClusterSelector = s_view G h (h_ClusterSelector x),
       WorkloadCredentialRef = ptr_view get_ref h (p_WorkloadCredentialRef x),
       AdminCredentialRef = nil_ref (ptr_view get_ref h (p_AdminCredentialRef x)),
       CertificateAuthorityRef = nil_ref (ptr_view get_ref h (p_CertificateAuthorityRef x)),
       Tenant = h_Tenant x, spec_DataNetwork = DataNetwork_view h (h_DataNetwork x),
       spec_ControlPlaneNetwork = h_ControlPlaneNetwork x,
       spec_ExtraConfigs = fst (ExtraConfigs_view h (h_ExtraConfigs x))\<rparr>,
      [ptr_view get_ref h (p_AdminCredentialRef x) = None, ptr_view get_ref h (p_CertificateAuthorityRef x) = None] @
      snd (ExtraConfigs_view h (h_ExtraConfigs x)))"

definition status_view ::
  "('m, 's, 'c, 'l, 'x, 'v) foreign_view \<Rightarrow> ('m, 's, 'c, 'x) heap \<Rightarrow> AKODeploymentConfigStatus_h \<Rightarrow> AKODeploymentConfigStatus \<times> bool" where
  "status_view G h x =
     (\<lparr>ObservedGeneration = h_ObservedGeneration x, adc_Conditions = nil_list (slice_view get_conds (c_view G) h (p_Conditions x))\<rparr>,
      slice_view get_conds (c_view G) h (p_Conditions x) = None)"

definition adc_ok :: "('m, 's, 'c, 'l, 'x, 'v) foreign_view \<Rightarrow> ('m, 's, 'c, 'x) heap \<Rightarrow> ('m, 's) AKODeploymentConfig_h \<Rightarrow> bool" where
  "adc_ok G h x \<longleftrightarrow> m_ok G h (h_ObjectMeta x) \<and> spec_ok G h (h_Spec x) \<and> slice_ok get_conds (c_ok G) h (p_Conditions (h_Status x))"

definition adc_foot :: "('m, 's, 'c, 'l, 'x, 'v) foreign_view \<Rightarrow> ('m, 's, 'c, 'x) heap \<Rightarrow> ('m, 's) AKODeploymentConfig_h \<Rightarrow> addr set" where
  "adc_foot G h x = m_foot G h (h_ObjectMeta x) \<union> spec_foot G h (h_Spec x) \<union> slice_foot get_conds (c_foot G) h (p_Conditions (h_Status x))"

definition adc_view ::
  "('m, 's, 'c, 'l, 'x, 'v) foreign_view \<Rightarrow> ('m, 's, 'c, 'x) heap \<Rightarrow> ('m, 's) AKODeploymentConfig_h \<Rightarrow> AKODeploymentConfig \<times> bool list" where
  "adc_view G h x =
     (ObjectMeta.extend ((m_view G h (h_ObjectMeta x))\<lparr>APIVersion := fst (h_TypeMeta x), Kind := snd (h_TypeMeta x)\<rparr>)
        \<lparr>Spec = fst (spec_view G h (h_Spec x)), Status = fst (status_view G h (h_Status x))\<rparr>,
      snd (status_view G h (h_Status x)) # snd (spec_view G h (h_Spec x)))"

definition list_ok :: "('m, 's, 'c, 'l, 'x, 'v) foreign_view \<Rightarrow> ('m, 's, 'c, 'x) heap \<Rightarrow> 'l AKODeploymentConfigList_h \<Rightarrow> bool" where
  "list_ok G h x \<longleftrightarrow> l_ok G h (hl_ListMeta x) \<and> slice_ok get_items (adc_ok G) h (p_Items x)"

definition list_foot :: "('m, 's, 'c, 'l, 'x, 'v) foreign_view \<Rightarrow> ('m, 's, 'c, 'x) heap \<Rightarrow> 'l AKODeploymentConfigList_h \<Rightarrow> addr set" where
  "list_foot G h x = l_foot G h (hl_ListMeta x) \<union> slice_foot get_items (adc_foot G) h (p_Items x)"

definition list_view ::
  "('m, 's, 'c, 'l, 'x, 'v) foreign_view \<Rightarrow> ('m, 's, 'c, 'x) heap \<Rightarrow> 'l AKODeploymentConfigList_h \<Rightarrow>
     (string \<times> string) \<times> 'v \<times> (AKODeploymentConfig \<times> bool list) list option" where
  "list_view G h x = (hl_TypeMeta x, l_view G h (hl_ListMeta x), slice_view get_items (adc_view G) h (p_Items x))"

text \<open>
  \<open>DeepCopy\<close>: nil for nil, otherwise a new struct that is filled by \<open>DeepCopyInto\<close>. A pointer to a
  struct is given by the struct it leads to. \<open>DeepCopyObject\<close> returns the same as an interface value.
\<close>

definition deep_copy_ptr :: "('a \<Rightarrow> 'c store \<Rightarrow> 'a \<times> 'c store) \<Rightarrow> 'a option \<Rightarrow> 'c store \<Rightarrow> 'a option \<times> 'c store" where
  "deep_copy_ptr into p h = (case p of None \<Rightarrow> (None, h) | Some x \<Rightarrow> (case into x h of (out, h) \<Rightarrow> (Some out, h)))"

definition AKODeploymentConfig_DeepCopy ::
  "('m, 's, 'c, 'l, 'x) foreign \<Rightarrow> ('m, 's) AKODeploymentConfig_h option \<Rightarrow> ('m, 's, 'c, 'x) heap \<Rightarrow>
     ('m, 's) AKODeploymentConfig_h option \<times> ('m, 's, 'c, 'x) heap" where
  "AKODeploymentConfig_DeepCopy F = deep_copy_ptr (AKODeploymentConfig_DeepCopyInto F)"

definition AKODeploymentConfigList_DeepCopy ::
  "('m, 's, 'c, 'l, 'x) foreign \<Rightarrow> 'l AKODeploymentConfigList_h option \<Rightarrow> ('m, 's, 'c, 'x) heap \<Rightarrow>
     'l AKODeploymentConfigList_h option \<times> ('m, 's, 'c, 'x) heap" where
  "AKODeploymentConfigList_DeepCopy F = deep_copy_ptr (AKODeploymentConfigList_DeepCopyInto F)"

text \<open>A \<open>runtime.Object\<close> is nil or one of the two kinds of the API group.\<close>

datatype ('m, 's, 'l) Object = AdcObj "('m, 's) AKODeploymentConfig_h" | AdcListObj "'l AKODeploymentConfigList_h"

definition AKODeploymentConfig_DeepCopyObject ::
  "('m, 's, 'c, 'l, 'x) foreign \<Rightarrow> ('m, 's) AKODeploymentConfig_h option \<Rightarrow> ('m, 's, 'c, 'x) heap \<Rightarrow>
     ('m, 's, 'l) Object option \<times> ('m, 's, 'c, 'x) heap" where
  "AKODeploymentConfig_DeepCopyObject F x h =
     (case AKODeploymentConfig_DeepCopy F x h of
        (Some c, h) \<Rightarrow> (Some (AdcObj c), h)
      | (None, h) \<Rightarrow> (None, h))"

definition AKODeploymentConfigList_DeepCopyObject ::
  "('m, 's, 'c, 'l, 'x) foreign \<Rightarrow> 'l AKODeploymentConfigList_h option \<Rightarrow> ('m, 's, 'c, 'x) heap \<Rightarrow>
     ('m, 's, 'l) Object option \<times> ('m, 's, 'c, 'x) heap" where
  "AKODeploymentConfigList_DeepCopyObject F x h =
     (case AKODeploymentConfigList_DeepCopy F x h of
        (Some c, h) \<Rightarrow> (Some (AdcListObj c), h)
      | (None, h) \<Rightarrow> (None, h))"

locale foreign_types =
  fixes F :: "('m, 's, 'c, 'l, 'x) foreign" and G :: "('m, 's, 'c, 'l, 'x, 'v) foreign_view"
  assumes foreign: "foreign_laws F G"

sublocale foreign_types \<subseteq> meta: deep_copier "m_ok G" "m_foot G" "m_view G" "ObjectMeta_DeepCopyInto F"
  using foreign by (simp add: foreign_laws_def)

sublocale foreign_types \<subseteq> selector: deep_copier "s_ok G" "s_foot G" "s_view G" "LabelSelector_DeepCopyInto F"
  using foreign by (simp add: foreign_laws_def)

sublocale foreign_types \<subseteq> conds: slice_of get_conds CondsC "c_ok G" "c_foot G" "c_view G" "Condition_DeepCopyInto F"
  using foreign by (simp add: foreign_laws_def slice_of_def cell_kind_def)

sublocale foreign_types \<subseteq> listmeta: deep_copier "l_ok G" "l_foot G" "l_view G" "ListMeta_DeepCopyInto F"
  using foreign by (simp add: foreign_laws_def)

context foreign_types
begin

lemma spec_okD:
  assumes "spec_ok G h x"
  shows "s_ok G h (h_ClusterSelector x)" "ptr_ok get_ref h (p_WorkloadCredentialRef x)"
    "ptr_ok get_ref h (p_AdminCredentialRef x)" "ptr_ok get_ref h (p_CertificateAuthorityRef x)"
    "DataNetwork_ok h (h_DataNetwork x)" "ExtraConfigs_ok h (h_ExtraConfigs x)"
  using assms by (simp_all add: spec_ok_def)

lemma spec_reads:
  assumes ok: "spec_ok G h x" and "agree (spec_foot G h x) h h'"
  shows "spec_ok G h' x \<and> spec_foot G h' x = spec_foot G h x \<and> spec_view G h' x = spec_view G h x"
proof -
  note o = spec_okD [OF ok]
  from assms(2) have a: "agree (s_foot G h (h_ClusterSelector x)) h h'" "agree (ptr_foot h (p_WorkloadCredentialRef x)) h h'"
    "agree (ptr_foot h (p_AdminCredentialRef x)) h h'" "agree (ptr_foot h (p_CertificateAuthorityRef x)) h h'"
    "agree (DataNetwork_foot h (h_DataNetwork x)) h h'" "agree (ExtraConfigs_foot h (h_ExtraConfigs x)) h h'"
    by (simp_all add: spec_foot_def)
  show ?thesis
    using selector.reads_foot [OF o(1) a(1)] refs.flat.reads_foot [OF o(2) a(2)] refs.flat.reads_foot [OF o(3) a(3)]
      refs.flat.reads_foot [OF o(4) a(4)] DataNetwork.reads_foot [OF o(5) a(5)] ExtraConfigs.reads_foot [OF o(6) a(6)]
    by (simp add: spec_ok_def spec_foot_def spec_view_def)
qed

lemma spec_fresh:
  assumes wf: "wf_store h" and ok: "spec_ok G h x" and c: "AKODeploymentConfigSpec_DeepCopyInto F x h = (y, h')"
  shows "\<exists>P. progress h h' P \<and> (P h' \<longrightarrow> copied (spec_ok G) (spec_foot G) (spec_view G) h h' x y)"
proof -
  note o = spec_okD [OF ok]
  from c obtain q1 q2 q3 q4 q5 q6 h1 h2 h3 h4 h5 where s:
      "LabelSelector_DeepCopyInto F (h_ClusterSelector x) h = (q1, h1)"
      "copy_cell get_ref RefC (p_WorkloadCredentialRef x) h1 = (q2, h2)"
      "copy_cell get_ref RefC (p_AdminCredentialRef x) h2 = (q3, h3)"
      "copy_cell get_ref RefC (p_CertificateAuthorityRef x) h3 = (q4, h4)"
      "DataNetwork_DeepCopyInto (h_DataNetwork x) h4 = (q5, h5)"
      "ExtraConfigs_DeepCopyInto (h_ExtraConfigs x) h5 = (q6, h')"
    and y: "y = x\<lparr>h_ClusterSelector := q1, p_WorkloadCredentialRef := q2, p_AdminCredentialRef := q3,
      p_CertificateAuthorityRef := q4, h_DataNetwork := q5, h_ExtraConfigs := q6\<rparr>"
    by (simp add: AKODeploymentConfigSpec_DeepCopyInto_def Let_def split: prod.splits)
  note p1 = selector.step [OF progress_start [OF wf] o(1) s(1)]
  note p2 = refs.flat.step [OF p1 o(2) s(2)]
  note p3 = refs.flat.step [OF p2 o(3) s(3)]
  note p4 = refs.flat.step [OF p3 o(4) s(4)]
  note p5 = DataNetwork.step [OF p4 o(5) s(5)]
  note p6 = ExtraConfigs.step [OF p5 o(6) s(6)]
  show ?thesis
    by (rule exI, rule conjI, rule p6) (simp add: copied_def y spec_ok_def spec_foot_def spec_view_def Int_Un_distrib2)
qed

lemma spec_foot_dom: "spec_ok G h x \<Longrightarrow> spec_foot G h x \<subseteq> dom (cells h)"
  by (simp add: spec_foot_def spec_ok_def selector.foot_dom refs.flat.foot_dom DataNetwork.foot_dom ExtraConfigs.foot_dom)

end

sublocale foreign_types \<subseteq> spec: deep_copier "spec_ok G" "spec_foot G" "spec_view G" "AKODeploymentConfigSpec_DeepCopyInto F"
  by (intro deep_copierI spec_reads spec_fresh spec_foot_dom)

context foreign_types
begin

lemma adc_okD:
  assumes "adc_ok G h x"
  shows "m_ok G h (h_ObjectMeta x)" "spec_ok G h (h_Spec x)" "slice_ok get_conds (c_ok G) h (p_Conditions (h_Status x))"
  using assms by (simp_all add: adc_ok_def)

lemma adc_reads:
  assumes ok: "adc_ok G h x" and "agree (adc_foot G h x) h h'"
  shows "adc_ok G h' x \<and> adc_foot G h' x = adc_foot G h x \<and> adc_view G h' x = adc_view G h x"
proof -
  note o = adc_okD [OF ok]
  from assms(2) have a: "agree (m_foot G h (h_ObjectMeta x)) h h'" "agree (spec_foot G h (h_Spec x)) h h'"
    "agree (slice_foot get_conds (c_foot G) h (p_Conditions (h_Status x))) h h'"
    by (simp_all add: adc_foot_def)
  show ?thesis
    using meta.reads_foot [OF o(1) a(1)] spec.reads_foot [OF o(2) a(2)] conds.slice.reads_foot [OF o(3) a(3)]
    by (simp add: adc_ok_def adc_foot_def adc_view_def status_view_def)
qed

lemma adc_fresh:
  assumes wf: "wf_store h" and ok: "adc_ok G h x" and c: "AKODeploymentConfig_DeepCopyInto F x h = (y, h')"
  shows "\<exists>P. progress h h' P \<and> (P h' \<longrightarrow> copied (adc_ok G) (adc_foot G) (adc_view G) h h' x y)"
proof -
  note o = adc_okD [OF ok]
  from c obtain q1 q2 q3 h1 h2 where s:
      "ObjectMeta_DeepCopyInto F (h_ObjectMeta x) h = (q1, h1)"
      "AKODeploymentConfigSpec_DeepCopyInto F (h_Spec x) h1 = (q2, h2)"
      "copy_slice get_conds CondsC (Condition_DeepCopyInto F) (p_Conditions (h_Status x)) h2 = (q3, h')"
    and y: "y = x\<lparr>h_ObjectMeta := q1, h_Spec := q2, h_Status := (h_Status x)\<lparr>p_Conditions := q3\<rparr>\<rparr>"
    by (simp add: AKODeploymentConfig_DeepCopyInto_def AKODeploymentConfigStatus_DeepCopyInto_def Let_def split: prod.splits)
  note p1 = meta.step [OF progress_start [OF wf] o(1) s(1)]
  note p2 = spec.step [OF p1 o(2) s(2)]
  note p3 = conds.slice.step [OF p2 o(3) s(3)]
  show ?thesis
    by (rule exI, rule conjI, rule p3)
      (simp add: copied_def y adc_ok_def adc_foot_def adc_view_def status_view_def Int_Un_distrib2)
qed

lemma adc_foot_dom: "adc_ok G h x \<Longrightarrow> adc_foot G h x \<subseteq> dom (cells h)"
  by (simp add: adc_foot_def adc_ok_def meta.foot_dom spec.foot_dom conds.slice.foot_dom)

end

sublocale foreign_types \<subseteq> adc: deep_copier "adc_ok G" "adc_foot G" "adc_view G" "AKODeploymentConfig_DeepCopyInto F"
  by (intro deep_copierI adc_reads adc_fresh adc_foot_dom)

sublocale foreign_types \<subseteq> items: slice_of get_items ItemsC "adc_ok G" "adc_foot G" "adc_view G" "AKODeploymentConfig_DeepCopyInto F"
  by unfold_locales simp

context foreign_types
begin

lemma list_okD:
  assumes "list_ok G h x"
  shows "l_ok G h (hl_ListMeta x)" "slice_ok get_items (adc_ok G) h (p_Items x)"
  using assms by (simp_all add: list_ok_def)

lemma list_reads:
  assumes ok: "list_ok G h x" and "agree (list_foot G h x) h h'"
  shows "list_ok G h' x \<and> list_foot G h' x = list_foot G h x \<and> list_view G h' x = list_view G h x"
proof -
  note o = list_okD [OF ok]
  from assms(2) have a: "agree (l_foot G h (hl_ListMeta x)) h h'" "agree (slice_foot get_items (adc_foot G) h (p_Items x)) h h'"
    by (simp_all add: list_foot_def)
  show ?thesis
    using listmeta.reads_foot [OF o(1) a(1)] items.slice.reads_foot [OF o(2) a(2)]
    by (simp add: list_ok_def list_foot_def list_view_def)
qed

lemma list_fresh:
  assumes wf: "wf_store h" and ok: "list_ok G h x" and c: "AKODeploymentConfigList_DeepCopyInto F x h = (y, h')"
  shows "\<exists>P. progress h h' P \<and> (P h' \<longrightarrow> copied (list_ok G) (list_foot G) (list_view G) h h' x y)"
proof -
  note o = list_okD [OF ok]
  from c obtain q1 q2 h1 where s: "ListMeta_DeepCopyInto F (hl_ListMeta x) h = (q1, h1)"
      "copy_slice get_items ItemsC (AKODeploymentConfig_DeepCopyInto F) (p_Items x) h1 = (q2, h')"
    and y: "y = x\<lparr>hl_ListMeta := q1, p_Items := q2\<rparr>"
    by (simp add: AKODeploymentConfigList_DeepCopyInto_def Let_def split: prod.splits)
  note p1 = listmeta.step [OF progress_start [OF wf] o(1) s(1)]
  note p2 = items.slice.step [OF p1 o(2) s(2)]
  show ?thesis
    by (rule exI, rule conjI, rule p2) (simp add: copied_def y list_ok_def list_foot_def list_view_def Int_Un_distrib2)
qed

lemma list_foot_dom: "list_ok G h x \<Longrightarrow> list_foot G h x \<subseteq> dom (cells h)"
  by (simp add: list_foot_def list_ok_def listmeta.foot_dom items.slice.foot_dom)

end

sublocale foreign_types \<subseteq> list: deep_copier "list_ok G" "list_foot G" "list_view G" "AKODeploymentConfigList_DeepCopyInto F"
  by (intro deep_copierI list_reads list_fresh list_foot_dom)

context foreign_types
begin

text \<open>The contract at the two kinds, for use outside.\<close>

lemmas adc_independent = adc.independent
lemmas list_copied = list.copy_fresh

end

section \<open>Plain structs and the other \<open>DeepCopy\<close> methods\<close>

text \<open>Structs without pointers are assigned.\<close>

definition SecretRef_DeepCopyInto :: "SecretRef \<Rightarrow> 'a store \<Rightarrow> SecretRef \<times> 'a store" where
  "SecretRef_DeepCopyInto = assign"

definition SecretRef_DeepCopy :: "SecretRef option \<Rightarrow> 'a store \<Rightarrow> SecretRef option \<times> 'a store" where
  "SecretRef_DeepCopy = deep_copy_ptr SecretRef_DeepCopyInto"

definition IPPool_DeepCopyInto :: "IPPool \<Rightarrow> 'a store \<Rightarrow> IPPool \<times> 'a store" where
  "IPPool_DeepCopyInto = assign"

definition IPPool_DeepCopy :: "IPPool option \<Rightarrow> 'a store \<Rightarrow> IPPool option \<times> 'a store" where
  "IPPool_DeepCopy = deep_copy_ptr IPPool_DeepCopyInto"

definition VIPNetwork_DeepCopyInto :: "VIPNetwork \<Rightarrow> 'a store \<Rightarrow> VIPNetwork \<times> 'a store" where
  "VIPNetwork_DeepCopyInto = assign"

definition VIPNetwork_DeepCopy :: "VIPNetwork option \<Rightarrow> 'a store \<Rightarrow> VIPNetwork option \<times> 'a store" where
  "VIPNetwork_DeepCopy = deep_copy_ptr VIPNetwork_DeepCopyInto"

definition ControlPlaneNetwork_DeepCopyInto :: "ControlPlaneNetwork \<Rightarrow> 'a store \<Rightarrow> ControlPlaneNetwork \<times> 'a store" where
  "ControlPlaneNetwork_DeepCopyInto = assign"

definition ControlPlaneNetwork_DeepCopy :: "ControlPlaneNetwork option \<Rightarrow> 'a store \<Rightarrow> ControlPlaneNetwork option \<times> 'a store" where
  "ControlPlaneNetwork_DeepCopy = deep_copy_ptr ControlPlaneNetwork_DeepCopyInto"

definition AVITenant_DeepCopyInto :: "AVITenant \<Rightarrow> 'a store \<Rightarrow> AVITenant \<times> 'a store" where
  "AVITenant_DeepCopyInto = assign"

definition AVITenant_DeepCopy :: "AVITenant option \<Rightarrow> 'a store \<Rightarrow> AVITenant option \<times> 'a store" where
  "AVITenant_DeepCopy = deep_copy_ptr AVITenant_DeepCopyInto"

definition AKOLogConfig_DeepCopyInto :: "AKOLogConfig \<Rightarrow> 'a store \<Rightarrow> AKOLogConfig \<times> 'a store" where
  "AKOLogConfig_DeepCopyInto = assign"

definition AKOLogConfig_DeepCopy :: "AKOLogConfig option \<Rightarrow> 'a store \<Rightarrow> AKOLogConfig option \<times> 'a store" where
  "AKOLogConfig_DeepCopy = deep_copy_ptr AKOLogConfig_DeepCopyInto"

definition NodePortSelector_DeepCopyInto :: "NodePortSelector \<Rightarrow> 'a store \<Rightarrow> NodePortSelector \<times> 'a store" where
  "NodePortSelector_DeepCopyInto = assign"

definition NodePortSelector_DeepCopy :: "NodePortSelector option \<Rightarrow> 'a store \<Rightarrow> NodePortSelector option \<times> 'a store" where
  "NodePortSelector_DeepCopy = deep_copy_ptr NodePortSelector_DeepCopyInto"

definition AKOL4Config_DeepCopyInto :: "AKOL4Config \<Rightarrow> 'a store \<Rightarrow> AKOL4Config \<times> 'a store" where
  "AKOL4Config_DeepCopyInto = assign"

definition AKOL4Config_DeepCopy :: "AKOL4Config option \<Rightarrow> 'a store \<Rightarrow> AKOL4Config option \<times> 'a store" where
  "AKOL4Config_DeepCopy = deep_copy_ptr AKOL4Config_DeepCopyInto"

definition NamespaceSelector_DeepCopyInto :: "NamespaceSelector \<Rightarrow> 'a store \<Rightarrow> NamespaceSelector \<times> 'a store" where
  "NamespaceSelector_DeepCopyInto = assign"

definition NamespaceSelector_DeepCopy :: "NamespaceSelector option \<Rightarrow> 'a store \<Rightarrow> NamespaceSelector option \<times> 'a store" where
  "NamespaceSelector_DeepCopy = deep_copy_ptr NamespaceSelector_DeepCopyInto"

definition NodeNetwork_DeepCopy :: "NodeNetwork_h option \<Rightarrow> ('m, 's, 'c, 'x) heap \<Rightarrow> NodeNetwork_h option \<times> ('m, 's, 'c, 'x) heap" where
  "NodeNetwork_DeepCopy = deep_copy_ptr NodeNetwork_DeepCopyInto"

definition FeatureGates_DeepCopy :: "FeatureGates_h option \<Rightarrow> ('m, 's, 'c, 'x) heap \<Rightarrow> FeatureGates_h option \<times> ('m, 's, 'c, 'x) heap" where
  "FeatureGates_DeepCopy = deep_copy_ptr FeatureGates_DeepCopyInto"

definition AKORbacConfig_DeepCopy :: "AKORbacConfig_h option \<Rightarrow> ('m, 's, 'c, 'x) heap \<Rightarrow> AKORbacConfig_h option \<times> ('m, 's, 'c, 'x) heap" where
  "AKORbacConfig_DeepCopy = deep_copy_ptr AKORbacConfig_DeepCopyInto"

definition DataNetwork_DeepCopy :: "DataNetwork_h option \<Rightarrow> ('m, 's, 'c, 'x) heap \<Rightarrow> DataNetwork_h option \<times> ('m, 's, 'c, 'x) heap" where
  "DataNetwork_DeepCopy = deep_copy_ptr DataNetwork_DeepCopyInto"

definition NetworksConfig_DeepCopy :: "NetworksConfig_h option \<Rightarrow> ('m, 's, 'c, 'x) heap \<Rightarrow> NetworksConfig_h option \<times> ('m, 's, 'c, 'x) heap" where
  "NetworksConfig_DeepCopy = deep_copy_ptr NetworksConfig_DeepCopyInto"

definition AKOIngressConfig_DeepCopy :: "AKOIngressConfig_h option \<Rightarrow> ('m, 's, 'c, 'x) heap \<Rightarrow> AKOIngressConfig_h option \<times> ('m, 's, 'c, 'x) heap" where
  "AKOIngressConfig_DeepCopy = deep_copy_ptr AKOIngressConfig_DeepCopyInto"

definition ExtraConfigs_DeepCopy :: "ExtraConfigs_h option \<Rightarrow> ('m, 's, 'c, 'x) heap \<Rightarrow> ExtraConfigs_h option \<times> ('m, 's, 'c, 'x) heap" where
  "ExtraConfigs_DeepCopy = deep_copy_ptr ExtraConfigs_DeepCopyInto"

definition AKODeploymentConfigSpec_DeepCopy ::
  "('m, 's, 'c, 'l, 'x) foreign \<Rightarrow> 's AKODeploymentConfigSpec_h option \<Rightarrow> ('m, 's, 'c, 'x) heap \<Rightarrow> 's AKODeploymentConfigSpec_h option \<times> ('m, 's, 'c, 'x) heap" where
  "AKODeploymentConfigSpec_DeepCopy F = deep_copy_ptr (AKODeploymentConfigSpec_DeepCopyInto F)"

definition AKODeploymentConfigStatus_DeepCopy ::
  "('m, 's, 'c, 'l, 'x) foreign \<Rightarrow> AKODeploymentConfigStatus_h option \<Rightarrow> ('m, 's, 'c, 'x) heap \<Rightarrow> AKODeploymentConfigStatus_h option \<times> ('m, 's, 'c, 'x) heap" where
  "AKODeploymentConfigStatus_DeepCopy F = deep_copy_ptr (AKODeploymentConfigStatus_DeepCopyInto F)"

section \<open>An instance\<close>

text \<open>
  Metadata that keeps its labels in a cell of its own, and plain values for the other types of other
  packages.
\<close>

type_synonym ref_meta = "ObjectMeta \<times> addr option"

type_synonym ref_heap = "(ref_meta, LabelSelector, Condition, labels) heap"

definition refF :: "(ref_meta, LabelSelector, Condition, string, labels) foreign" where
  "refF = \<lparr>ObjectMeta_DeepCopyInto = (\<lambda>m h. case copy_cell get_foreign ForeignC (snd m) h of (q, h) \<Rightarrow> ((fst m, q), h)),
     LabelSelector_DeepCopyInto = assign, Condition_DeepCopyInto = assign, ListMeta_DeepCopyInto = assign\<rparr>"

definition refG :: "(ref_meta, LabelSelector, Condition, string, labels, string) foreign_view" where
  "refG = \<lparr>m_ok = (\<lambda>h m. ptr_ok get_foreign h (snd m)), m_foot = (\<lambda>h m. ptr_foot h (snd m)),
     m_view = (\<lambda>h m. (fst m)\<lparr>Labels := (case ptr_view get_foreign h (snd m) of None \<Rightarrow> Map.empty | Some l \<Rightarrow> l)\<rparr>),
     s_ok = (\<lambda>_ _. True), s_foot = (\<lambda>_ _. {}), s_view = (\<lambda>_ s. s),
     c_ok = (\<lambda>_ _. True), c_foot = (\<lambda>_ _. {}), c_view = (\<lambda>_ c. c),
     l_ok = (\<lambda>_ _. True), l_foot = (\<lambda>_ _. {}), l_view = (\<lambda>_ l. l)\<rparr>"

lemma ref_meta_copier: "deep_copier (m_ok refG) (m_foot refG) (m_view refG) (ObjectMeta_DeepCopyInto refF)"
proof unfold_locales
  show "m_foot refG h x \<subseteq> dom (cells h)" if "m_ok refG h x" for h x
    using that foreigns.flat.foot_dom by (simp add: refG_def)
  show "m_ok refG h' x \<and> m_foot refG h' x = m_foot refG h x \<and> m_view refG h' x = m_view refG h x"
    if "m_ok refG h x" "agree (m_foot refG h x) h h'" for h h' x
    using that foreigns.flat.reads_foot [of h "snd x" h'] by (simp add: refG_def)
  show "wf_store h' \<and> extends h h' \<and> copied (m_ok refG) (m_foot refG) (m_view refG) h h' x y"
    if "wf_store h" "m_ok refG h x" "ObjectMeta_DeepCopyInto refF x h = (y, h')" for h h' x y
    using that foreigns.flat.copy_fresh [of h "snd x" "snd y" h']
    by (simp add: refG_def refF_def copied_def split: prod.splits) (metis snd_conv fst_conv)
qed

interpretation ref_types: foreign_types refF refG
proof
  show "foreign_laws refF refG"
    unfolding foreign_laws_def
    by (intro conjI ref_meta_copier) (simp_all add: refF_def refG_def plain.deep_copier_axioms)
qed

definition heap0 :: ref_heap where
  "heap0 = \<lparr>lim = 4, cells = [0 \<mapsto> IntC 1, 1 \<mapsto> RefC \<lparr>ref_Name = ''creds'', ref_Namespace = ''avi''\<rparr>,
     2 \<mapsto> ForeignC [''team'' \<mapsto> ''blue''], 3 \<mapsto> PoolsC []]\<rparr>"

definition heapExtra :: ExtraConfigs_h where
  "heapExtra = \<lparr>p_ReplicaCount = Some 0, p_PrimaryInstance = None, h_Log = Log zeroExtraConfigs,
     h_FullSyncFrequency = [], p_ApiServerPort = None, p_EnableEvents = None, p_DisableStaticRouteSync = None,
     h_CniPlugin = [], p_EnableEVH = None, p_Layer7Only = None, h_NamespaceSelector = ec_NamespaceSelector zeroExtraConfigs,
     p_ServicesAPI = None, p_VIPPerNamespace = None, p_IstioEnabled = None, p_BlockedNamespaceList = None,
     h_IpFamily = [], p_UseDefaultSecretsOnly = None,
     h_NetworksConfig = \<lparr>p_EnableRHI = None, p_BGPPeerLabels = None, h_NsxtT1LR = []\<rparr>,
     h_IngressConfigs = \<lparr>p_DisableIngressClass = None, p_DefaultIngressController = None, h_ServiceType = [],
       h_ShardVSSize = [], h_PassthroughShardSize = [], p_NodeNetworkList = None, p_NoPGForSNI = None, p_EnableMCI = None\<rparr>,
     h_L4Configs = L4Configs zeroExtraConfigs, h_NodePortSelector = ec_NodePortSelector zeroExtraConfigs,
     h_Rbac = \<lparr>h_PspPolicyAPIVersion = [], p_PspEnabled = None\<rparr>, h_FeatureGates = \<lparr>p_GatewayAPI = None\<rparr>\<rparr>"

definition heapADC :: "(ref_meta, LabelSelector) AKODeploymentConfig_h" where
  "heapADC = \<lparr>h_TypeMeta = (AkoDeploymentConfigVersion, AkoDeploymentConfigKind), h_ObjectMeta = (emptyMeta, Some 2),
     h_Spec = \<lparr>h_CloudName = ''Default-Cloud'', h_Controller = ''10.0.0.1'', h_ControllerVersion = [], h_ServiceEngineGroup = [],
       h_ClusterSelector = \<lparr>MatchLabels = [], MatchExpressions = []\<rparr>, p_WorkloadCredentialRef = None,
       p_AdminCredentialRef = Some 1, p_CertificateAuthorityRef = Some 1,
       h_Tenant = Tenant exampleSpec, h_DataNetwork = \<lparr>h_dn_Name = [], h_dn_CIDR = [], p_IPPools = Some 3\<rparr>,
       h_ControlPlaneNetwork = spec_ControlPlaneNetwork exampleSpec, h_ExtraConfigs = heapExtra\<rparr>,
     h_Status = \<lparr>h_ObservedGeneration = 0, p_Conditions = None\<rparr>\<rparr>"

lemma heap0_ok: "wf_store heap0" "adc_ok refG heap0 heapADC"
  by (auto simp: wf_store_def heap0_def split: if_splits)
    (simp add: adc_ok_def refG_def heapADC_def spec_ok_def ptr_ok_def deref_def heap0_def DataNetwork_ok_def ExtraConfigs_ok_def
      heapExtra_def NetworksConfig_ok_def AKOIngressConfig_ok_def slice_ok_def AKORbacConfig_ok_def FeatureGates_ok_def)

section \<open>Properties\<close>

text \<open>
  C7. A deep copy of an AKODeploymentConfig reads as the same object and is independent of it: they share
  no cell, no later writes to cells of the copy are seen through the original, and none to cells of
  the original through the copy. This holds for any deep copies of the metadata, selectors and
  conditions.
\<close>

theorem deep_copy_independent:
  assumes "foreign_laws F G" "wf_store h" "adc_ok G h x" "AKODeploymentConfig_DeepCopy F (Some x) h = (c, h')"
  shows "\<exists>y. c = Some y \<and> adc_view G h' y = adc_view G h x \<and> adc_foot G h' y \<inter> adc_foot G h' x = {} \<and>
    (\<forall>h2. agree (- adc_foot G h' y) h' h2 \<longrightarrow> adc_view G h2 x = adc_view G h x) \<and>
    (\<forall>h2. agree (- adc_foot G h' x) h' h2 \<longrightarrow> adc_view G h2 y = adc_view G h x)"
proof -
  from assms(4) obtain y where y: "c = Some y" "AKODeploymentConfig_DeepCopyInto F x h = (y, h')"
    by (auto simp: AKODeploymentConfig_DeepCopy_def deep_copy_ptr_def split: prod.splits)
  with foreign_types.adc_independent [OF foreign_types.intro [OF assms(1)] assms(2,3) y(2)] show ?thesis by blast
qed

theorem deep_copy_independent_witness:
  "\<exists>y h'. AKODeploymentConfig_DeepCopy refF (Some heapADC) heap0 = (Some y, h') \<and>
     adc_view refG h' y = adc_view refG heap0 heapADC \<and>
     (\<forall>a v. a \<in> adc_foot refG h' y \<longrightarrow> adc_view refG (set_cell a v h') heapADC = adc_view refG heap0 heapADC)"
proof -
  obtain c h' where c: "AKODeploymentConfig_DeepCopy refF (Some heapADC) heap0 = (c, h')" by fastforce
  from deep_copy_independent [OF ref_types.foreign heap0_ok c] obtain y where
    y: "c = Some y" "adc_view refG h' y = adc_view refG heap0 heapADC"
      "\<forall>h2. agree (- adc_foot refG h' y) h' h2 \<longrightarrow> adc_view refG h2 heapADC = adc_view refG heap0 heapADC" by blast
  moreover have "agree (- adc_foot refG h' y) h' (set_cell a v h')" if "a \<in> adc_foot refG h' y" for a v
    using that by (intro agree_set_cell) simp
  ultimately show ?thesis using c by blast
qed

text \<open>
  C17. Copying a list of AKODeploymentConfigs through the interface of the API machinery is type safe: nil
  is copied to nil; otherwise the result is a list whose pointers all lead to cells of their types,
  outside of all that was allocated before, with the same contents, and no existing cell is written.
\<close>

theorem list_copy_typed:
  assumes "foreign_laws F G" "wf_store h" "\<And>x. p = Some x \<Longrightarrow> list_ok G h x"
    and "AKODeploymentConfigList_DeepCopyObject F p h = (c, h')"
  shows "wf_store h' \<and> extends h h' \<and>
    (case c of
       None \<Rightarrow> p = None \<and> h' = h
     | Some (AdcObj _) \<Rightarrow> False
     | Some (AdcListObj y) \<Rightarrow> \<exists>x. p = Some x \<and> list_ok G h' y \<and>
         list_foot G h' y \<inter> dom (cells h) = {} \<and> list_view G h' y = list_view G h x)"
proof (cases p)
  case None
  with assms(2,4) show ?thesis
    by (auto simp: AKODeploymentConfigList_DeepCopyObject_def AKODeploymentConfigList_DeepCopy_def deep_copy_ptr_def)
next
  case (Some x)
  with assms(4) obtain y where y: "c = Some (AdcListObj y)" "AKODeploymentConfigList_DeepCopyInto F x h = (y, h')"
    by (auto simp: AKODeploymentConfigList_DeepCopyObject_def AKODeploymentConfigList_DeepCopy_def deep_copy_ptr_def
        split: prod.splits)
  with foreign_types.list_copied [OF foreign_types.intro [OF assms(1)] assms(2) assms(3) [OF Some] y(2)] Some
  show ?thesis by (auto simp: copied_def)
qed

definition heapList :: "string AKODeploymentConfigList_h" where
  "heapList = \<lparr>hl_TypeMeta = ([], []), hl_ListMeta = ''17'', p_Items = Some 4\<rparr>"

definition heap1 :: ref_heap where
  "heap1 = heap0\<lparr>lim := 5, cells := (cells heap0)(4 \<mapsto> ItemsC [heapADC, heapADC])\<rparr>"

lemma heap1_ok: "wf_store heap1" "list_ok refG heap1 heapList"
proof -
  show "wf_store heap1" using heap0_ok(1) by (auto simp: wf_store_def heap1_def heap0_def split: if_splits)
  have "extends heap0 heap1" by (auto simp: extends_def map_le_def heap1_def heap0_def)
  then have "adc_ok refG heap1 heapADC" by (rule ref_types.adc.extends_same(1) [OF heap0_ok(2)])
  then show "list_ok refG heap1 heapList"
    by (simp add: list_ok_def heapList_def slice_ok_def deref_def heap1_def refG_def)
qed

theorem list_copy_typed_witness:
  "\<exists>y h'. AKODeploymentConfigList_DeepCopyObject refF (Some heapList) heap1 = (Some (AdcListObj y), h') \<and>
     list_ok refG h' y \<and> list_view refG h' y = list_view refG heap1 heapList \<and> cells h' 4 = cells heap1 4"
proof -
  obtain c h' where c: "AKODeploymentConfigList_DeepCopyObject refF (Some heapList) heap1 = (c, h')" by fastforce
  have "list_ok refG heap1 x" if "Some heapList = Some x" for x using that heap1_ok(2) by simp
  note t = list_copy_typed [OF ref_types.foreign heap1_ok(1) this c]
  then have "cells h' 4 = cells heap1 4" by (auto simp: extends_def map_le_def heap1_def)
  with t c show ?thesis by (auto split: option.splits Object.splits)
qed

end
