(* ===== verification/Avi_Client.thy ===== *)
theory Avi_Client
  imports Api_Types
begin

text \<open>
  \<open>src/pkg/aviclient\<close>: the objects of the AVI controller, the interface \<open>Client\<close> through which the
  operator talks to it, and \<open>realAviClient\<close>, its implementation over the AVI SDK.

  The SDK is not part of the repository. Its client is a record \<open>sdk\<close> of operations on the world
  and its constructor \<open>clients.NewAviClient\<close> a parameter. In the SDK's models, fields marked as
  required are plain values here; the optional ones are options, and reading a missing one panics
  as in the code.
\<close>

section \<open>The objects of the AVI controller\<close>

record IPAddr =
  Addr :: string
  addr_Type :: string

record IPAddrPrefix =
  prefix_IPAddr :: IPAddr
  prefix_Mask :: int

record StaticIPRange =
  Begin :: IPAddr
  End :: IPAddr

record Subnet =
  Prefix :: IPAddrPrefix
  StaticIPRanges :: "StaticIPRange list"

record Network =
  nw_Name :: string
  nw_URL :: "string option"
  ConfiguredSubnets :: "Subnet list"

record Cloud =
  cloud_Name :: string
  IPAMProviderRef :: "string option"

text \<open>\<open>InternalProfile.UsableNetworks\<close>, by their references.\<close>

record IPAMDNSProviderProfile =
  ipam_UUID :: string
  InternalProfile :: "string option list option"

record Permission =
  Resource :: string
  perm_Type :: string

record Role =
  role_Name :: string
  role_URL :: "string option"
  role_TenantRef :: "string option"
  Privileges :: "Permission list"

record UserRole =
  AllTenants :: "bool option"
  RoleRef :: "string option"
  TenantRef :: "string option"

record User =
  user_Name :: string
  Username :: "string option"
  Password :: "string option"
  DefaultTenantRef :: "string option"
  Access :: "UserRole list"

record Tenant =
  tenant_URL :: "string option"

text \<open>Objects the operator only passes through.\<close>

record AviObject =
  avi_Name :: string

section \<open>The client interface\<close>

text \<open>
  \<open>NetworkGetByName\<close> and \<open>ServiceEngineGroupGetByName\<close> may panic: see \<open>GetObjectByName\<close>.
\<close>

record 'w Client =
  ServiceEngineGroupGetByName :: "string \<Rightarrow> string \<Rightarrow> 'w \<Rightarrow> (error + AviObject) outcome \<times> 'w"
  ServiceEngineGroupCreate :: "AviObject \<Rightarrow> 'w \<Rightarrow> (error + AviObject) \<times> 'w"
  NetworkGetByName :: "string \<Rightarrow> string \<Rightarrow> 'w \<Rightarrow> (error + Network) outcome \<times> 'w"
  NetworkCreate :: "Network \<Rightarrow> 'w \<Rightarrow> (error + Network) \<times> 'w"
  NetworkUpdate :: "Network \<Rightarrow> 'w \<Rightarrow> (error + Network) \<times> 'w"
  CloudGetByName :: "string \<Rightarrow> 'w \<Rightarrow> (error + Cloud) \<times> 'w"
  CloudCreate :: "Cloud \<Rightarrow> 'w \<Rightarrow> (error + Cloud) \<times> 'w"
  UserGetByName :: "string \<Rightarrow> 'w \<Rightarrow> (error + User) \<times> 'w"
  UserDeleteByName :: "string \<Rightarrow> 'w \<Rightarrow> error option \<times> 'w"
  UserCreate :: "User \<Rightarrow> 'w \<Rightarrow> (error + User) \<times> 'w"
  UserUpdate :: "User \<Rightarrow> 'w \<Rightarrow> (error + User) \<times> 'w"
  TenantGet :: "string \<Rightarrow> 'w \<Rightarrow> (error + Tenant) \<times> 'w"
  RoleGetByName :: "string \<Rightarrow> 'w \<Rightarrow> (error + Role) \<times> 'w"
  RoleCreate :: "Role \<Rightarrow> 'w \<Rightarrow> (error + Role) \<times> 'w"
  RoleUpdate :: "Role \<Rightarrow> 'w \<Rightarrow> (error + Role) \<times> 'w"
  IPAMDNSProviderProfileGet :: "string \<Rightarrow> 'w \<Rightarrow> (error + IPAMDNSProviderProfile) \<times> 'w"
  IPAMDNSProviderProfileUpdate :: "IPAMDNSProviderProfile \<Rightarrow> 'w \<Rightarrow> (error + IPAMDNSProviderProfile) \<times> 'w"
  VirtualServiceGetByName :: "string \<Rightarrow> 'w \<Rightarrow> (error + AviObject) \<times> 'w"
  PoolGetByName :: "string \<Rightarrow> 'w \<Rightarrow> (error + AviObject) \<times> 'w"
  AviCertificateConfig :: string
  GetControllerVersion :: "'w \<Rightarrow> (error + string) \<times> 'w"

section \<open>The SDK\<close>

text \<open>
  The SDK's client. \<open>sdk_GetCollectionRaw\<close> answers the count of a collection and its raw JSON;
  \<open>sdk_elems\<close>, \<open>sdk_decodeNetwork\<close> and \<open>sdk_decodeObject\<close> are \<open>json.Unmarshal\<close> into a list of raw
  messages, a network and another object.
\<close>

record 'w sdk =
  sdk_GetCollectionRaw :: "string \<Rightarrow> 'w \<Rightarrow> (error + int \<times> string) \<times> 'w"
  sdk_elems :: "string \<Rightarrow> error + string list"
  sdk_decodeNetwork :: "string \<Rightarrow> error + Network"
  sdk_decodeObject :: "string \<Rightarrow> error + AviObject"
  sdk_client :: "'w Client"

record Transport =
  RootCAs :: string
  tls_ServerName :: string

datatype session_option =
    SetPassword string
  | SetTransport "Transport option"
  | SetVersion string
  | SetInsecure

type_synonym 'w sdk_new = "string \<Rightarrow> string \<Rightarrow> session_option list \<Rightarrow> 'w \<Rightarrow> (error + 'w sdk) \<times> 'w"

section \<open>Construction\<close>

record AviClientConfig =
  ServerIP :: string
  cfg_Username :: string
  cfg_Password :: string
  CA :: string
  cfg_Transport :: "Transport option"
  ServerName :: string

definition ErrEmptyInput :: error where
  "ErrEmptyInput = Err ''input is empty''"

text \<open>The options of the session.\<close>

definition client_transport :: "AviClientConfig \<Rightarrow> Transport option" where
  "client_transport config =
     (let transport = (if CA config \<noteq> [] then Some \<lparr>RootCAs = CA config, tls_ServerName = ServerName config\<rparr> else None)
      in if cfg_Transport config \<noteq> None then cfg_Transport config else transport)"

definition client_options :: "AviClientConfig \<Rightarrow> string \<Rightarrow> session_option list" where
  "client_options config version =
     [SetPassword (cfg_Password config), SetTransport (client_transport config)]
     @ (if version \<noteq> [] then [SetVersion version] else [])
     @ (if CA config = [] then [SetInsecure] else [])"

section \<open>Queries by name\<close>

text \<open>\<open>url.QueryEscape\<close>\<close>

definition hex_upper :: "nat \<Rightarrow> char" where
  "hex_upper d = char_of (if d < 10 then 48 + d else 55 + d)"

definition escape_char :: "char \<Rightarrow> string" where
  "escape_char c =
     (let n = of_char c :: nat
      in if 97 \<le> n \<and> n \<le> 122 \<or> 65 \<le> n \<and> n \<le> 90 \<or> 48 \<le> n \<and> n \<le> 57 \<or> n \<in> {45, 95, 46, 126} then [c]
         else if n = 32 then ''+''
         else [CHR ''%'', hex_upper (n div 16), hex_upper (n mod 16)])"

definition QueryEscape :: "string \<Rightarrow> string" where
  "QueryEscape s = concat (map escape_char s)"

text \<open>
  A collection with one object whose list of results is empty would panic at \<open>elems[0]\<close>.
\<close>

definition GetObjectByName ::
  "'w sdk \<Rightarrow> (string \<Rightarrow> error + 'a) \<Rightarrow> string \<Rightarrow> string \<Rightarrow> string \<Rightarrow> 'w \<Rightarrow> (error + 'a) outcome \<times> 'w" where
  "GetObjectByName S decode obj name cloudName w =
     (let uri = ''/api/'' @ obj @ ''/?include_name&name='' @ QueryEscape name @ ''&cloud_ref.name='' @ QueryEscape cloudName
      in case sdk_GetCollectionRaw S uri w of
           (Inl err, w) \<Rightarrow> (Ret (Inl err), w)
         | (Inr (count, results), w) \<Rightarrow>
             (if count = 0 then (Ret (Inl (Err (''No object of type '' @ obj @ '' with name '' @ name @ '' is found''))), w)
              else if 1 < count then (Ret (Inl (Err (''More than one object of type '' @ obj @ '' with name '' @ name @ '' is found''))), w)
              else case sdk_elems S results of
                     Inl err \<Rightarrow> (Ret (Inl err), w)
                   | Inr [] \<Rightarrow> (Panic, w)
                   | Inr (e # _) \<Rightarrow> (Ret (decode e), w)))"

text \<open>
  \<open>realAviClient\<close>: the methods of the interface, two of them by \<open>GetObjectByName\<close>, the certificate
  from the configuration and the others forwarded to the SDK.
\<close>

definition realAviClient :: "AviClientConfig \<Rightarrow> 'w sdk \<Rightarrow> 'w Client" where
  "realAviClient config S = (sdk_client S)\<lparr>
     ServiceEngineGroupGetByName := GetObjectByName S (sdk_decodeObject S) ''serviceenginegroup'',
     NetworkGetByName := GetObjectByName S (sdk_decodeNetwork S) ''network'',
     AviCertificateConfig := CA config\<rparr>"

definition NewAviClient :: "'w sdk_new \<Rightarrow> AviClientConfig \<Rightarrow> string \<Rightarrow> 'w \<Rightarrow> (error + 'w Client) \<times> 'w" where
  "NewAviClient new config version w =
     (case new (ServerIP config) (cfg_Username config) (client_options config version) w of
        (Inl err, w) \<Rightarrow> (Inl err, w)
      | (Inr c, w) \<Rightarrow> (Inr (realAviClient config c), w))"

definition secret_config :: "string \<Rightarrow> Secret \<Rightarrow> Secret \<Rightarrow> AviClientConfig" where
  "secret_config controllerIP adminCredential aviControllerCA =
     \<lparr>ServerIP = controllerIP, cfg_Username = data_get adminCredential ''username'',
      cfg_Password = data_get adminCredential ''password'',
      CA = data_get aviControllerCA ''certificateAuthorityData'',
      cfg_Transport = None, ServerName = []\<rparr>"

definition NewAviClientFromSecrets ::
  "'w sdk_new \<Rightarrow> 'w kapi \<Rightarrow> string \<Rightarrow> SecretRef \<Rightarrow> SecretRef \<Rightarrow> string \<Rightarrow> 'w \<Rightarrow> (error + 'w Client) \<times> 'w" where
  "NewAviClientFromSecrets new K controllerIP cred ca version w =
     (if controllerIP = [] then (Inl ErrEmptyInput, w)
      else if ref_Name cred = [] \<or> ref_Namespace cred = [] \<or> ref_Name ca = [] \<or> ref_Namespace ca = []
      then (Inl ErrEmptyInput, w)
      else case kGet (Secrets K) w (ref_Namespace cred, ref_Name cred) of
             (Inl err, w) \<Rightarrow> (Inl err, w)
           | (Inr adminCredential, w) \<Rightarrow>
               (case kGet (Secrets K) w (ref_Namespace ca, ref_Name ca) of
                  (Inl err, w) \<Rightarrow> (Inl err, w)
                | (Inr aviControllerCA, w) \<Rightarrow>
                    NewAviClient new (secret_config controllerIP adminCredential aviControllerCA) version w))"

section \<open>References and errors\<close>

definition GetUUIDFromRef :: "string \<Rightarrow> string" where
  "GetUUIDFromRef ref = (let parts = strings_Split ref (CHR ''/'') in if parts = [] then [] else last parts)"

text \<open>
  The regular expression \<open>a.*b\<close> somewhere in a text: an occurrence of \<open>a\<close>, then one of \<open>b\<close> with no
  newline between them.
\<close>

fun match_gap :: "string \<Rightarrow> string \<Rightarrow> string \<Rightarrow> bool" where
  "match_gap a b [] = (a = [] \<and> b = [])"
| "match_gap a b (c # cs) =
     (prefix a (c # cs) \<and> sublist b (takeWhile (\<lambda>x. x \<noteq> CHR 0x0A) (drop (length a) (c # cs))) \<or> match_gap a b cs)"

definition IsAviUserAlreadyExistsError :: "error option \<Rightarrow> bool" where
  "IsAviUserAlreadyExistsError err =
     (case err of None \<Rightarrow> False | Some e \<Rightarrow> strings_Contains (Error_msg e) ''User with this Username already exist'')"

definition IsAviUserNonExistentError :: "error option \<Rightarrow> bool" where
  "IsAviUserNonExistentError err =
     (case err of None \<Rightarrow> False
      | Some e \<Rightarrow> match_gap ''No object of type user with name '' ''is found'' (Error_msg e))"

definition IsAviRoleNonExistentError :: "error option \<Rightarrow> bool" where
  "IsAviRoleNonExistentError err =
     (case err of None \<Rightarrow> False
      | Some e \<Rightarrow> match_gap ''No object of type role with name '' ''is found'' (Error_msg e))"

section \<open>Properties\<close>

lemma strings_Split_append: "strings_Split (p @ sep # u) sep = strings_Split p sep @ strings_Split u sep"
  by (induction p) (auto split: list.splits)

lemma strings_Split_single: "sep \<notin> set u \<Longrightarrow> strings_Split u sep = [u]"
  by (induction u) auto

text \<open>
  The identifier of a reference is its last segment: whatever precedes the last slash, the text
  after it is returned.
\<close>

theorem GetUUIDFromRef_last:
  assumes "CHR ''/'' \<notin> set u"
  shows "GetUUIDFromRef (p @ ''/'' @ u) = u"
  by (simp add: GetUUIDFromRef_def Let_def strings_Split_append strings_Split_single [OF assms])

theorem GetUUIDFromRef_last_witness:
  "GetUUIDFromRef (''https://10.0.0.1/api/ipamdnsproviderprofile'' @ ''/'' @ ''ipam-1'') = ''ipam-1''"
  by (rule GetUUIDFromRef_last) simp

lemma match_gap_here:
  assumes "CHR 0x0A \<notin> set m" "CHR 0x0A \<notin> set b" "a \<noteq> []"
  shows "match_gap a b (a @ m @ b)"
proof -
  have "takeWhile (\<lambda>x. x \<noteq> CHR 0x0A) (m @ b) = m @ b"
    using assms by (intro takeWhile_eq_all_conv [THEN iffD2]) auto
  then have "sublist b (takeWhile (\<lambda>x. x \<noteq> CHR 0x0A) (m @ b))" by (simp only: sublist_append_leftI)
  moreover obtain c cs where "a = c # cs" using assms(3) by (cases a) auto
  ultimately show ?thesis by (simp del: takeWhile_append)
qed

lemma match_gap_append: "match_gap a b s \<Longrightarrow> match_gap a b (p @ s)"
  by (induction p) auto

text \<open>
  The error of a missing object, with any prefix added by wrapping, is recognised for a user and
  for a role, whatever its name (on one line).
\<close>

lemma missing_user_recognised:
  assumes "CHR 0x0A \<notin> set n"
  shows "IsAviUserNonExistentError (Some (Err (p @ ''No object of type user with name '' @ n @ '' is found'')))"
  using match_gap_append [OF match_gap_here [of "n @ '' ''" "''is found''" "''No object of type user with name ''"], of p] assms
  by (simp add: IsAviUserNonExistentError_def)

lemma missing_role_recognised:
  assumes "CHR 0x0A \<notin> set n"
  shows "IsAviRoleNonExistentError (Some (Err (p @ ''No object of type role with name '' @ n @ '' is found'')))"
  using match_gap_append [OF match_gap_here [of "n @ '' ''" "''is found''" "''No object of type role with name ''"], of p] assms
  by (simp add: IsAviRoleNonExistentError_def)

lemma client_options_insecure: "SetInsecure \<in> set (client_options c v) \<longleftrightarrow> CA c = []"
  by (auto simp: client_options_def)

lemma realAviClient_CA [simp]: "AviCertificateConfig (realAviClient c S) = CA c"
  by (simp add: realAviClient_def)

text \<open>
  A client made from secrets authenticates with the user name and password of the referenced
  credential Secret, reports the certificate of the referenced CA Secret, and verifies the
  controller against exactly that certificate: certificate checks are off only when the CA Secret
  holds no certificate data.
\<close>

theorem NewAviClientFromSecrets_config:
  assumes "NewAviClientFromSecrets new K ip cred ca v w = (Inr cl, w')"
  shows "\<exists>s1 w1 s2 w2 S opts.
           kGet (Secrets K) w (ref_Namespace cred, ref_Name cred) = (Inr s1, w1) \<and>
           kGet (Secrets K) w1 (ref_Namespace ca, ref_Name ca) = (Inr s2, w2) \<and>
           new ip (data_get s1 ''username'') opts w2 = (Inr S, w') \<and>
           SetPassword (data_get s1 ''password'') \<in> set opts \<and>
           AviCertificateConfig cl = data_get s2 AviCertificateKey \<and>
           (SetInsecure \<in> set opts \<longleftrightarrow> data_get s2 AviCertificateKey = []) \<and>
           (data_get s2 AviCertificateKey \<noteq> [] \<longrightarrow>
              SetTransport (Some \<lparr>RootCAs = data_get s2 AviCertificateKey, tls_ServerName = []\<rparr>) \<in> set opts)"
proof -
  from assms obtain s1 w1 s2 w2 where get:
      "kGet (Secrets K) w (ref_Namespace cred, ref_Name cred) = (Inr s1, w1)"
      "kGet (Secrets K) w1 (ref_Namespace ca, ref_Name ca) = (Inr s2, w2)"
    and cl: "NewAviClient new (secret_config ip s1 s2) v w2 = (Inr cl, w')"
    by (auto simp: NewAviClientFromSecrets_def split: if_splits prod.splits sum.splits)
  let ?opts = "client_options (secret_config ip s1 s2) v"
  from cl obtain S where "new ip (data_get s1 ''username'') ?opts w2 = (Inr S, w')"
    "cl = realAviClient (secret_config ip s1 s2) S"
    by (auto simp: NewAviClient_def secret_config_def split: prod.splits sum.splits)
  moreover have "SetInsecure \<in> set ?opts \<longleftrightarrow> data_get s2 AviCertificateKey = []"
    unfolding client_options_insecure by (simp add: secret_config_def AviCertificateKey_def)
  ultimately show ?thesis
    using get by (intro exI conjI)
      (auto simp: client_options_def client_transport_def secret_config_def AviCertificateKey_def)
qed

end
