(* ===== verification/Fake_Avi.thy ===== *)
theory Fake_Avi
  imports Avi_Client
begin

text \<open>
  \<open>src/pkg/aviclient/fake_avi_client.go\<close>: the AVI client that stands in for the controller in the
  integration tests. It is a struct of clients, one for each kind of object, whose methods call
  functions that the test sets; a function that was not set is nil and its call panics. The functions
  of a test work on a world of any type.

  The results are those of Go, a pointer and an error. The functions that the \<open>Create\<close> methods install
  hold the object as it was when it was created.
\<close>

section \<open>Functions\<close>

type_synonym 'a ret = "'a option \<times> error option"

type_synonym ('a, 'r, 'w) fn = "('a \<Rightarrow> 'w \<Rightarrow> 'r \<times> 'w) option"

definition call_fn :: "('a, 'r, 'w) fn \<Rightarrow> 'a \<Rightarrow> 'w \<Rightarrow> 'r outcome \<times> 'w" where
  "call_fn f x w = (case f of None \<Rightarrow> (Panic, w) | Some g \<Rightarrow> (case g x w of (r, w) \<Rightarrow> (Ret r, w)))"

text \<open>A method on a client pointer, and a method that changes the client.\<close>

definition on_client :: "'c option \<Rightarrow> ('c \<Rightarrow> 'w \<Rightarrow> 'r outcome \<times> 'w) \<Rightarrow> 'w \<Rightarrow> 'r outcome \<times> 'w" where
  "on_client c m w = (case c of None \<Rightarrow> (Panic, w) | Some c \<Rightarrow> m c w)"

section \<open>The clients\<close>

record 'w ServiceEngineGroupClient =
  seg_getByNameFn :: "(string, AviObject ret, 'w) fn"

definition ServiceEngineGroupClient_SetGetByNameFn :: "(string, AviObject ret, 'w) fn \<Rightarrow> 'w ServiceEngineGroupClient \<Rightarrow> 'w ServiceEngineGroupClient" where
  "ServiceEngineGroupClient_SetGetByNameFn fn client = client\<lparr>seg_getByNameFn := fn\<rparr>"

definition ServiceEngineGroupClient_GetByName :: "'w ServiceEngineGroupClient \<Rightarrow> string \<Rightarrow> 'w \<Rightarrow> (AviObject ret) outcome \<times> 'w" where
  "ServiceEngineGroupClient_GetByName client name w = call_fn (seg_getByNameFn client) name w"

record 'w NetworkClient =
  nc_getByNameFn :: "(string, Network ret, 'w) fn"
  nc_updateFn :: "(Network option, Network ret, 'w) fn"

definition NetworkClient_SetGetByNameFn :: "(string, Network ret, 'w) fn \<Rightarrow> 'w NetworkClient \<Rightarrow> 'w NetworkClient" where
  "NetworkClient_SetGetByNameFn fn client = client\<lparr>nc_getByNameFn := fn\<rparr>"

definition NetworkClient_GetByName :: "'w NetworkClient \<Rightarrow> string \<Rightarrow> 'w \<Rightarrow> (Network ret) outcome \<times> 'w" where
  "NetworkClient_GetByName client name w = call_fn (nc_getByNameFn client) name w"

definition NetworkClient_SetUpdateFn :: "(Network option, Network ret, 'w) fn \<Rightarrow> 'w NetworkClient \<Rightarrow> 'w NetworkClient" where
  "NetworkClient_SetUpdateFn fn client = client\<lparr>nc_updateFn := fn\<rparr>"

definition NetworkClient_Update :: "'w NetworkClient \<Rightarrow> Network option \<Rightarrow> 'w \<Rightarrow> (Network ret) outcome \<times> 'w" where
  "NetworkClient_Update client obj w = call_fn (nc_updateFn client) obj w"

record 'w CloudClient =
  cc_getByNameCloudFn :: "(string, Cloud ret, 'w) fn"

definition CloudClient_SetGetByNameCloudFunc :: "(string, Cloud ret, 'w) fn \<Rightarrow> 'w CloudClient \<Rightarrow> 'w CloudClient" where
  "CloudClient_SetGetByNameCloudFunc fn client = client\<lparr>cc_getByNameCloudFn := fn\<rparr>"

definition CloudClient_GetByName :: "'w CloudClient \<Rightarrow> string \<Rightarrow> 'w \<Rightarrow> (Cloud ret) outcome \<times> 'w" where
  "CloudClient_GetByName client name w = call_fn (cc_getByNameCloudFn client) name w"

record 'w IPAMDNSProviderProfileClient =
  getIPAMFn :: "(string, IPAMDNSProviderProfile ret, 'w) fn"
  updateIPAMFn :: "(IPAMDNSProviderProfile option, IPAMDNSProviderProfile ret, 'w) fn"

definition IPAMDNSProviderProfileClient_SetGetIPAMFunc :: "(string, IPAMDNSProviderProfile ret, 'w) fn \<Rightarrow> 'w IPAMDNSProviderProfileClient \<Rightarrow> 'w IPAMDNSProviderProfileClient" where
  "IPAMDNSProviderProfileClient_SetGetIPAMFunc fn client = client\<lparr>getIPAMFn := fn\<rparr>"

definition IPAMDNSProviderProfileClient_Get :: "'w IPAMDNSProviderProfileClient \<Rightarrow> string \<Rightarrow> 'w \<Rightarrow> (IPAMDNSProviderProfile ret) outcome \<times> 'w" where
  "IPAMDNSProviderProfileClient_Get client name w = call_fn (getIPAMFn client) name w"

definition IPAMDNSProviderProfileClient_SetUpdateIPAMFn :: "(IPAMDNSProviderProfile option, IPAMDNSProviderProfile ret, 'w) fn \<Rightarrow> 'w IPAMDNSProviderProfileClient \<Rightarrow> 'w IPAMDNSProviderProfileClient" where
  "IPAMDNSProviderProfileClient_SetUpdateIPAMFn fn client = client\<lparr>updateIPAMFn := fn\<rparr>"

definition IPAMDNSProviderProfileClient_Update :: "'w IPAMDNSProviderProfileClient \<Rightarrow> IPAMDNSProviderProfile option \<Rightarrow> 'w \<Rightarrow> (IPAMDNSProviderProfile ret) outcome \<times> 'w" where
  "IPAMDNSProviderProfileClient_Update client obj w = call_fn (updateIPAMFn client) obj w"

record 'w UserClient =
  getByNameUserFn :: "(string, User ret, 'w) fn"
  deleteByNameUserFn :: "(string, error option, 'w) fn"
  createUserFunc :: "(User option, User ret, 'w) fn"
  updateUserFunc :: "(User option, User ret, 'w) fn"

definition UserClient_SetGetByNameUserFunc :: "(string, User ret, 'w) fn \<Rightarrow> 'w UserClient \<Rightarrow> 'w UserClient" where
  "UserClient_SetGetByNameUserFunc fn client = client\<lparr>getByNameUserFn := fn\<rparr>"

definition UserClient_GetByName :: "'w UserClient \<Rightarrow> string \<Rightarrow> 'w \<Rightarrow> (User ret) outcome \<times> 'w" where
  "UserClient_GetByName client name w = call_fn (getByNameUserFn client) name w"

definition UserClient_SetDeleteByNameUserFunc :: "(string, error option, 'w) fn \<Rightarrow> 'w UserClient \<Rightarrow> 'w UserClient" where
  "UserClient_SetDeleteByNameUserFunc fn client = client\<lparr>deleteByNameUserFn := fn\<rparr>"

definition UserClient_DeleteByName :: "'w UserClient \<Rightarrow> string \<Rightarrow> 'w \<Rightarrow> (error option) outcome \<times> 'w" where
  "UserClient_DeleteByName client name w = call_fn (deleteByNameUserFn client) name w"

definition UserClient_SetCreateUserFunc :: "(User option, User ret, 'w) fn \<Rightarrow> 'w UserClient \<Rightarrow> 'w UserClient" where
  "UserClient_SetCreateUserFunc fn client = client\<lparr>createUserFunc := fn\<rparr>"

definition UserClient_Create :: "'w UserClient \<Rightarrow> User option \<Rightarrow> 'w \<Rightarrow> (User ret) outcome \<times> 'w" where
  "UserClient_Create client obj w = call_fn (createUserFunc client) obj w"

definition UserClient_SetUpdateUserFunc :: "(User option, User ret, 'w) fn \<Rightarrow> 'w UserClient \<Rightarrow> 'w UserClient" where
  "UserClient_SetUpdateUserFunc fn client = client\<lparr>updateUserFunc := fn\<rparr>"

definition UserClient_Update :: "'w UserClient \<Rightarrow> User option \<Rightarrow> 'w \<Rightarrow> (User ret) outcome \<times> 'w" where
  "UserClient_Update client obj w = call_fn (updateUserFunc client) obj w"

record 'w TenantClient =
  getTenantFn :: "(string, Tenant ret, 'w) fn"

definition TenantClient_SetGetTenantFunc :: "(string, Tenant ret, 'w) fn \<Rightarrow> 'w TenantClient \<Rightarrow> 'w TenantClient" where
  "TenantClient_SetGetTenantFunc fn client = client\<lparr>getTenantFn := fn\<rparr>"

definition TenantClient_Get :: "'w TenantClient \<Rightarrow> string \<Rightarrow> 'w \<Rightarrow> (Tenant ret) outcome \<times> 'w" where
  "TenantClient_Get client name w = call_fn (getTenantFn client) name w"

record 'w RoleClient =
  getByNameRoleFn :: "(string, Role ret, 'w) fn"
  createRoleFunc :: "(Role option, Role ret, 'w) fn"
  updateRoleFunc :: "(Role option, Role ret, 'w) fn"

definition RoleClient_SetGetByNameRoleFunc :: "(string, Role ret, 'w) fn \<Rightarrow> 'w RoleClient \<Rightarrow> 'w RoleClient" where
  "RoleClient_SetGetByNameRoleFunc fn client = client\<lparr>getByNameRoleFn := fn\<rparr>"

definition RoleClient_GetByName :: "'w RoleClient \<Rightarrow> string \<Rightarrow> 'w \<Rightarrow> (Role ret) outcome \<times> 'w" where
  "RoleClient_GetByName client name w = call_fn (getByNameRoleFn client) name w"

definition RoleClient_SetCreateRoleFunc :: "(Role option, Role ret, 'w) fn \<Rightarrow> 'w RoleClient \<Rightarrow> 'w RoleClient" where
  "RoleClient_SetCreateRoleFunc fn client = client\<lparr>createRoleFunc := fn\<rparr>"

definition RoleClient_Create :: "'w RoleClient \<Rightarrow> Role option \<Rightarrow> 'w \<Rightarrow> (Role ret) outcome \<times> 'w" where
  "RoleClient_Create client obj w = call_fn (createRoleFunc client) obj w"

definition RoleClient_SetUpdateRoleFunc :: "(Role option, Role ret, 'w) fn \<Rightarrow> 'w RoleClient \<Rightarrow> 'w RoleClient" where
  "RoleClient_SetUpdateRoleFunc fn client = client\<lparr>updateRoleFunc := fn\<rparr>"

definition RoleClient_Update :: "'w RoleClient \<Rightarrow> Role option \<Rightarrow> 'w \<Rightarrow> (Role ret) outcome \<times> 'w" where
  "RoleClient_Update client obj w = call_fn (updateRoleFunc client) obj w"

record 'w PoolClient =
  pc_getByNameFn :: "(string, AviObject ret, 'w) fn"

definition PoolClient_SetGetByNameFn :: "(string, AviObject ret, 'w) fn \<Rightarrow> 'w PoolClient \<Rightarrow> 'w PoolClient" where
  "PoolClient_SetGetByNameFn fn client = client\<lparr>pc_getByNameFn := fn\<rparr>"

definition PoolClient_GetByName :: "'w PoolClient \<Rightarrow> string \<Rightarrow> 'w \<Rightarrow> (AviObject ret) outcome \<times> 'w" where
  "PoolClient_GetByName client name w = call_fn (pc_getByNameFn client) name w"

record 'w VirtualServiceClient =
  vsc_getByNameFn :: "(string, AviObject ret, 'w) fn"

definition VirtualServiceClient_SetGetByNameFn :: "(string, AviObject ret, 'w) fn \<Rightarrow> 'w VirtualServiceClient \<Rightarrow> 'w VirtualServiceClient" where
  "VirtualServiceClient_SetGetByNameFn fn client = client\<lparr>vsc_getByNameFn := fn\<rparr>"

definition VirtualServiceClient_GetByName :: "'w VirtualServiceClient \<Rightarrow> string \<Rightarrow> 'w \<Rightarrow> (AviObject ret) outcome \<times> 'w" where
  "VirtualServiceClient_GetByName client name w = call_fn (vsc_getByNameFn client) name w"

section \<open>The fake client\<close>

record 'w FakeAviClient =
  fc_ServiceEngineGroup :: "'w ServiceEngineGroupClient option"
  fc_Network :: "'w NetworkClient option"
  fc_Cloud :: "'w CloudClient option"
  fc_IPAMDNSProviderProfile :: "'w IPAMDNSProviderProfileClient option"
  fc_User :: "'w UserClient option"
  fc_Tenant :: "'w TenantClient option"
  fc_Role :: "'w RoleClient option"
  fc_Pool :: "'w PoolClient option"
  fc_VirtualService :: "'w VirtualServiceClient option"

definition NewFakeAviClient :: "'w FakeAviClient" where
  "NewFakeAviClient = \<lparr>
     fc_ServiceEngineGroup = Some \<lparr>seg_getByNameFn = None\<rparr>,
     fc_Network = Some \<lparr>nc_getByNameFn = None, nc_updateFn = None\<rparr>,
     fc_Cloud = Some \<lparr>cc_getByNameCloudFn = None\<rparr>,
     fc_IPAMDNSProviderProfile = Some \<lparr>getIPAMFn = None, updateIPAMFn = None\<rparr>,
     fc_User = Some \<lparr>getByNameUserFn = None, deleteByNameUserFn = None, createUserFunc = None, updateUserFunc = None\<rparr>,
     fc_Tenant = Some \<lparr>getTenantFn = None\<rparr>,
     fc_Role = Some \<lparr>getByNameRoleFn = None, createRoleFunc = None, updateRoleFunc = None\<rparr>,
     fc_Pool = None,
     fc_VirtualService = None\<rparr>"

definition Fake_ServiceEngineGroupGetByName :: "'w FakeAviClient \<Rightarrow> string \<Rightarrow> string \<Rightarrow> 'w \<Rightarrow> (AviObject ret) outcome \<times> 'w" where
  "Fake_ServiceEngineGroupGetByName r name cloudName w = on_client (fc_ServiceEngineGroup r) (\<lambda>c. ServiceEngineGroupClient_GetByName c name) w"

definition Fake_NetworkGetByName :: "'w FakeAviClient \<Rightarrow> string \<Rightarrow> string \<Rightarrow> 'w \<Rightarrow> (Network ret) outcome \<times> 'w" where
  "Fake_NetworkGetByName r name cloudName w = on_client (fc_Network r) (\<lambda>c. NetworkClient_GetByName c name) w"

definition Fake_NetworkUpdate :: "'w FakeAviClient \<Rightarrow> Network option \<Rightarrow> 'w \<Rightarrow> (Network ret) outcome \<times> 'w" where
  "Fake_NetworkUpdate r obj w = on_client (fc_Network r) (\<lambda>c. NetworkClient_Update c obj) w"

definition Fake_CloudGetByName :: "'w FakeAviClient \<Rightarrow> string \<Rightarrow> 'w \<Rightarrow> (Cloud ret) outcome \<times> 'w" where
  "Fake_CloudGetByName r name w = on_client (fc_Cloud r) (\<lambda>c. CloudClient_GetByName c name) w"

definition Fake_IPAMDNSProviderProfileGet :: "'w FakeAviClient \<Rightarrow> string \<Rightarrow> 'w \<Rightarrow> (IPAMDNSProviderProfile ret) outcome \<times> 'w" where
  "Fake_IPAMDNSProviderProfileGet r name w = on_client (fc_IPAMDNSProviderProfile r) (\<lambda>c. IPAMDNSProviderProfileClient_Get c name) w"

definition Fake_IPAMDNSProviderProfileUpdate :: "'w FakeAviClient \<Rightarrow> IPAMDNSProviderProfile option \<Rightarrow> 'w \<Rightarrow> (IPAMDNSProviderProfile ret) outcome \<times> 'w" where
  "Fake_IPAMDNSProviderProfileUpdate r obj w = on_client (fc_IPAMDNSProviderProfile r) (\<lambda>c. IPAMDNSProviderProfileClient_Update c obj) w"

definition Fake_UserGetByName :: "'w FakeAviClient \<Rightarrow> string \<Rightarrow> 'w \<Rightarrow> (User ret) outcome \<times> 'w" where
  "Fake_UserGetByName r name w = on_client (fc_User r) (\<lambda>c. UserClient_GetByName c name) w"

definition Fake_UserDeleteByName :: "'w FakeAviClient \<Rightarrow> string \<Rightarrow> 'w \<Rightarrow> (error option) outcome \<times> 'w" where
  "Fake_UserDeleteByName r name w = on_client (fc_User r) (\<lambda>c. UserClient_DeleteByName c name) w"

definition Fake_UserCreate :: "'w FakeAviClient \<Rightarrow> User option \<Rightarrow> 'w \<Rightarrow> (User ret) outcome \<times> 'w" where
  "Fake_UserCreate r obj w = on_client (fc_User r) (\<lambda>c. UserClient_Create c obj) w"

definition Fake_UserUpdate :: "'w FakeAviClient \<Rightarrow> User option \<Rightarrow> 'w \<Rightarrow> (User ret) outcome \<times> 'w" where
  "Fake_UserUpdate r obj w = on_client (fc_User r) (\<lambda>c. UserClient_Update c obj) w"

definition Fake_TenantGet :: "'w FakeAviClient \<Rightarrow> string \<Rightarrow> 'w \<Rightarrow> (Tenant ret) outcome \<times> 'w" where
  "Fake_TenantGet r name w = on_client (fc_Tenant r) (\<lambda>c. TenantClient_Get c name) w"

definition Fake_RoleGetByName :: "'w FakeAviClient \<Rightarrow> string \<Rightarrow> 'w \<Rightarrow> (Role ret) outcome \<times> 'w" where
  "Fake_RoleGetByName r name w = on_client (fc_Role r) (\<lambda>c. RoleClient_GetByName c name) w"

definition Fake_RoleCreate :: "'w FakeAviClient \<Rightarrow> Role option \<Rightarrow> 'w \<Rightarrow> (Role ret) outcome \<times> 'w" where
  "Fake_RoleCreate r obj w = on_client (fc_Role r) (\<lambda>c. RoleClient_Create c obj) w"

definition Fake_RoleUpdate :: "'w FakeAviClient \<Rightarrow> Role option \<Rightarrow> 'w \<Rightarrow> (Role ret) outcome \<times> 'w" where
  "Fake_RoleUpdate r obj w = on_client (fc_Role r) (\<lambda>c. RoleClient_Update c obj) w"

definition Fake_VirtualServiceGetByName :: "'w FakeAviClient \<Rightarrow> string \<Rightarrow> 'w \<Rightarrow> (AviObject ret) outcome \<times> 'w" where
  "Fake_VirtualServiceGetByName r name w = on_client (fc_VirtualService r) (\<lambda>c. VirtualServiceClient_GetByName c name) w"

definition Fake_PoolGetByName :: "'w FakeAviClient \<Rightarrow> string \<Rightarrow> 'w \<Rightarrow> (AviObject ret) outcome \<times> 'w" where
  "Fake_PoolGetByName r name w = on_client (fc_Pool r) (\<lambda>c. PoolClient_GetByName c name) w"

text \<open>
  The \<open>Create\<close> methods of three kinds install a function that answers every name with the object; the
  call of the setter on a nil client panics.
\<close>

definition created :: "string \<Rightarrow> 'a option \<Rightarrow> (string, 'a ret, 'w) fn" where
  "created what obj = Some (\<lambda>name w. (if obj = None then (None, Some (Err (''can'' @ [CHR 0x27] @ ''t find '' @ what))) else (obj, None), w))"

definition Fake_ServiceEngineGroupCreate :: "'w FakeAviClient \<Rightarrow> AviObject option \<Rightarrow> (AviObject ret) outcome \<times> 'w FakeAviClient" where
  "Fake_ServiceEngineGroupCreate r obj =
     (case fc_ServiceEngineGroup r of
        None \<Rightarrow> (Panic, r)
      | Some c \<Rightarrow> (Ret (obj, None), r\<lparr>fc_ServiceEngineGroup := Some (ServiceEngineGroupClient_SetGetByNameFn (created ''service engine group'' obj) c)\<rparr>))"

definition Fake_NetworkCreate :: "'w FakeAviClient \<Rightarrow> Network option \<Rightarrow> (Network ret) outcome \<times> 'w FakeAviClient" where
  "Fake_NetworkCreate r obj =
     (case fc_Network r of
        None \<Rightarrow> (Panic, r)
      | Some c \<Rightarrow> (Ret (obj, None), r\<lparr>fc_Network := Some (NetworkClient_SetGetByNameFn (created ''network'' obj) c)\<rparr>))"

definition Fake_CloudCreate :: "'w FakeAviClient \<Rightarrow> Cloud option \<Rightarrow> (Cloud ret) outcome \<times> 'w FakeAviClient" where
  "Fake_CloudCreate r obj =
     (case fc_Cloud r of
        None \<Rightarrow> (Panic, r)
      | Some c \<Rightarrow> (Ret (obj, None), r\<lparr>fc_Cloud := Some (CloudClient_SetGetByNameCloudFunc (created ''cloud'' obj) c)\<rparr>))"

definition Fake_AviCertificateConfig :: "'w FakeAviClient \<Rightarrow> string \<times> error option" where
  "Fake_AviCertificateConfig r = ([], None)"

definition Fake_GetControllerVersion :: "'w FakeAviClient \<Rightarrow> string \<times> error option" where
  "Fake_GetControllerVersion r = ([], None)"

section \<open>Properties\<close>

lemmas fake_defs = NewFakeAviClient_def on_client_def call_fn_def created_def
  ServiceEngineGroupClient_SetGetByNameFn_def ServiceEngineGroupClient_GetByName_def
  NetworkClient_SetGetByNameFn_def NetworkClient_GetByName_def NetworkClient_Update_def
  CloudClient_SetGetByNameCloudFunc_def CloudClient_GetByName_def

text \<open>
  A created object is found again, by every name and in every cloud, and nothing else of the client
  changes. Creating nil makes every look-up an error.
\<close>

lemma fake_create_get:
  assumes "fc_Network r = Some c"
  shows "\<exists>r'. Fake_NetworkCreate r obj = (Ret (obj, None), r') \<and>
    (\<forall>name cloud w. \<exists>e. Fake_NetworkGetByName r' name cloud w = (Ret (obj, e), w) \<and> (e = None \<longleftrightarrow> obj \<noteq> None)) \<and>
    (\<forall>x w. Fake_NetworkUpdate r' x w = Fake_NetworkUpdate r x w) \<and> r' = r\<lparr>fc_Network := fc_Network r'\<rparr>"
  using assms by (simp add: Fake_NetworkCreate_def Fake_NetworkGetByName_def Fake_NetworkUpdate_def fake_defs)

text \<open>
  On a new fake client every call to a function that a test has not set panics. For virtual services
  and pools there is no client at all, so that not even a setter can be called.
\<close>

lemma new_fake_panics:
  "Fake_NetworkGetByName NewFakeAviClient n cl w = (Panic, w)" "Fake_NetworkUpdate NewFakeAviClient nw w = (Panic, w)"
  "Fake_UserGetByName NewFakeAviClient n w = (Panic, w)" "Fake_RoleGetByName NewFakeAviClient n w = (Panic, w)"
  "Fake_VirtualServiceGetByName NewFakeAviClient n w = (Panic, w)" "fc_VirtualService NewFakeAviClient = None"
  "Fake_PoolGetByName NewFakeAviClient n w = (Panic, w)" "fc_Pool NewFakeAviClient = None"
  by (simp_all add: Fake_NetworkGetByName_def Fake_NetworkUpdate_def Fake_UserGetByName_def Fake_RoleGetByName_def
      Fake_VirtualServiceGetByName_def Fake_PoolGetByName_def UserClient_GetByName_def RoleClient_GetByName_def fake_defs)

end
