(* ===== verification/Go_Net.thy ===== *)
theory Go_Net
  imports Prelude
begin

text \<open>
  What the program uses of Go's \<open>net\<close> package (Go 1.22): \<open>IP\<close> values as byte slices,
  \<open>ParseIP\<close>, \<open>ParseCIDR\<close>, \<open>IP.To4\<close>, \<open>IP.To16\<close>, \<open>IP.String\<close>, \<open>IPMask.Size\<close>,
  \<open>IPNet.Contains\<close>, and \<open>bytes.Compare\<close>. A nil slice is the empty list, so a failed
  \<open>ParseIP\<close> returns \<open>[]\<close>. The parsers follow \<open>net/netip\<close>: strict dotted decimal without
  leading zeros, and the eight-group hexadecimal form with at most one ellipsis and an optional
  dotted-decimal tail.
\<close>

unbundle bit_operations_syntax

type_synonym byte = "8 word"
type_synonym IP = "byte list"

section \<open>Addresses\<close>

definition v4InV6Prefix :: "byte list" where
  "v4InV6Prefix = replicate 10 0 @ [255, 255]"

definition To4 :: "IP \<Rightarrow> IP" where
  "To4 ip =
     (if length ip = 4 then ip
      else if length ip = 16 \<and> take 12 ip = v4InV6Prefix then drop 12 ip
      else [])"

definition To16 :: "IP \<Rightarrow> IP" where
  "To16 ip =
     (if length ip = 4 then v4InV6Prefix @ ip
      else if length ip = 16 then ip
      else [])"

fun bytes_Compare :: "byte list \<Rightarrow> byte list \<Rightarrow> int" where
  "bytes_Compare [] [] = 0"
| "bytes_Compare [] (_ # _) = -1"
| "bytes_Compare (_ # _) [] = 1"
| "bytes_Compare (a # as) (b # bs) =
     (if a < b then -1 else if b < a then 1 else bytes_Compare as bs)"

section \<open>Parsing\<close>

text \<open>
  The scan of \<open>parseIPv4Fields\<close>: \<open>pd\<close> says that the previous byte was a dot or there is none,
  \<open>val\<close> and \<open>dl\<close> are the value and the number of digits of the current field, \<open>fs\<close> the fields
  already read.
\<close>

fun parseIPv4Fields :: "string \<Rightarrow> bool \<Rightarrow> nat \<Rightarrow> nat \<Rightarrow> byte list \<Rightarrow> byte list option" where
  "parseIPv4Fields [] pd val dl fs =
     (if length fs < 3 then None else Some (fs @ [of_nat val]))"
| "parseIPv4Fields (c # cs) pd val dl fs =
     (case digit_val c of
        Some d \<Rightarrow>
          (if dl = 1 \<and> val = 0 then None
           else if 255 < val * 10 + d then None
           else parseIPv4Fields cs False (val * 10 + d) (Suc dl) fs)
      | None \<Rightarrow>
          (if c = CHR ''.'' then
             (if pd \<or> cs = [] \<or> length fs = 3 then None
              else parseIPv4Fields cs True 0 0 (fs @ [of_nat val]))
           else None))"

definition hex_val :: "char \<Rightarrow> nat option" where
  "hex_val c =
     (let n = of_char c :: nat
      in if 48 \<le> n \<and> n \<le> 57 then Some (n - 48)
         else if 97 \<le> n \<and> n \<le> 102 then Some (n - 87)
         else if 65 \<le> n \<and> n \<le> 70 then Some (n - 55)
         else None)"

text \<open>The hexadecimal run at the head of a string: its length, its value and the rest; a fifth digit fails.\<close>

fun hex_run :: "string \<Rightarrow> nat \<Rightarrow> nat \<Rightarrow> (nat \<times> nat \<times> string) option" where
  "hex_run [] off acc = Some (off, acc, [])"
| "hex_run (c # cs) off acc =
     (case hex_val c of
        None \<Rightarrow> Some (off, acc, c # cs)
      | Some h \<Rightarrow> (if 3 < off then None else hex_run cs (Suc off) (acc * 16 + h)))"

text \<open>
  The loop of \<open>parseIPv6\<close>: the bytes read so far and the position of the ellipsis. It runs while
  fewer than 16 bytes are read, and two bytes are added before every further round.
\<close>

function parseIPv6_loop :: "string \<Rightarrow> byte list \<Rightarrow> nat option \<Rightarrow> (byte list \<times> nat option) option" where
  "parseIPv6_loop s ip ellipsis =
     (if 16 \<le> length ip then (if s = [] then Some (ip, ellipsis) else None)
      else case hex_run s 0 0 of
        None \<Rightarrow> None
      | Some (off, acc, rest) \<Rightarrow>
          (if off = 0 then None
           else if rest \<noteq> [] \<and> hd rest = CHR ''.'' then
             (if ellipsis = None \<and> length ip \<noteq> 12 then None
              else if 16 < length ip + 4 then None
              else case parseIPv4Fields s True 0 0 [] of
                     None \<Rightarrow> None
                   | Some q \<Rightarrow> Some (ip @ q, ellipsis))
           else
             (let ip' = ip @ [of_nat (acc div 256), of_nat (acc mod 256)]
              in if rest = [] then Some (ip', ellipsis)
                 else if hd rest \<noteq> CHR '':'' then None
                 else if tl rest = [] then None
                 else if hd (tl rest) = CHR '':'' then
                   (if ellipsis \<noteq> None then None
                    else if tl (tl rest) = [] then Some (ip', Some (length ip'))
                    else parseIPv6_loop (tl (tl rest)) ip' (Some (length ip')))
                 else parseIPv6_loop (tl rest) ip' ellipsis)))"
  by pat_completeness auto
termination
  by (relation "measure (\<lambda>(s, ip, e). 16 - length ip)") auto

declare parseIPv6_loop.simps [simp del]

text \<open>An address with a zone (a percent sign) parses in \<open>netip\<close> but is refused by both callers in \<open>net\<close>.\<close>

definition parseIPv6 :: "string \<Rightarrow> byte list option" where
  "parseIPv6 s =
     (if CHR ''%'' \<in> set s then None
      else
        (let (s', ell) = (case s of
               a # b # r \<Rightarrow> if a = CHR '':'' \<and> b = CHR '':'' then (r, Some 0) else (s, None)
             | _ \<Rightarrow> (s, None))
         in if ell = Some 0 \<and> s' = [] then Some (replicate 16 0)
            else case parseIPv6_loop s' [] ell of
                   None \<Rightarrow> None
                 | Some (ip, e) \<Rightarrow>
                     (if length ip < 16 then
                        (case e of
                           None \<Rightarrow> None
                         | Some k \<Rightarrow> Some (take k ip @ replicate (16 - length ip) 0 @ drop k ip))
                      else if e \<noteq> None then None
                      else Some ip)))"

text \<open>\<open>netip.ParseAddr\<close>: the first dot, colon or percent sign selects the syntax.\<close>

datatype netip_addr = Addr4 "byte list" | Addr6 "byte list"

definition ParseAddr :: "string \<Rightarrow> netip_addr option" where
  "ParseAddr s =
     (case find (\<lambda>c. c = CHR ''.'' \<or> c = CHR '':'' \<or> c = CHR ''%'') s of
        None \<Rightarrow> None
      | Some c \<Rightarrow>
          (if c = CHR ''.'' then map_option Addr4 (parseIPv4Fields s True 0 0 [])
           else if c = CHR '':'' then map_option Addr6 (parseIPv6 s)
           else None))"

fun As16 :: "netip_addr \<Rightarrow> IP" where
  "As16 (Addr4 b) = v4InV6Prefix @ b"
| "As16 (Addr6 b) = b"

fun BitLen :: "netip_addr \<Rightarrow> nat" where
  "BitLen (Addr4 _) = 32"
| "BitLen (Addr6 _) = 128"

definition ParseIP :: "string \<Rightarrow> IP" where
  "ParseIP s = (case ParseAddr s of None \<Rightarrow> [] | Some a \<Rightarrow> As16 a)"

section \<open>Networks\<close>

record IPNet =
  net_IP :: IP
  net_Mask :: "byte list"

fun mask_bytes :: "nat \<Rightarrow> nat \<Rightarrow> byte list" where
  "mask_bytes n 0 = []"
| "mask_bytes n (Suc l) =
     (if 8 \<le> n then 255 # mask_bytes (n - 8) l
      else NOT (drop_bit n 255) # mask_bytes 0 l)"

definition CIDRMask :: "nat \<Rightarrow> nat \<Rightarrow> byte list" where
  "CIDRMask ones bits = mask_bytes ones (bits div 8)"

fun leading_ones :: "nat \<Rightarrow> byte \<Rightarrow> nat" where
  "leading_ones 0 v = 0"
| "leading_ones (Suc k) v = (if v AND 128 = 0 then 0 else Suc (leading_ones k (push_bit 1 v)))"

text \<open>The number of leading one bits of a mask, \<open>-1\<close> where a one follows a zero (\<open>simpleMaskLength\<close>).\<close>

fun simpleMaskLength :: "byte list \<Rightarrow> int" where
  "simpleMaskLength [] = 0"
| "simpleMaskLength (v # vs) =
     (if v = 255 then (let n = simpleMaskLength vs in if n < 0 then -1 else 8 + n)
      else if push_bit (leading_ones 8 v) v \<noteq> 0 \<or> (\<exists>x \<in> set vs. x \<noteq> 0) then -1
      else int (leading_ones 8 v))"

definition Mask_Size_ones :: "byte list \<Rightarrow> int" where
  "Mask_Size_ones m = (if simpleMaskLength m = -1 then 0 else simpleMaskLength m)"

definition IP_Mask :: "IP \<Rightarrow> byte list \<Rightarrow> IP" where
  "IP_Mask ip0 m0 =
     (let m = (if length m0 = 16 \<and> length ip0 = 4 \<and> (\<forall>x \<in> set (take 12 m0). x = 255)
               then drop 12 m0 else m0);
          ip = (if length m = 4 \<and> length ip0 = 16 \<and> take 12 ip0 = v4InV6Prefix
                then drop 12 ip0 else ip0)
      in if length ip \<noteq> length m then [] else map2 (AND) ip m)"

definition ParseCIDR :: "string \<Rightarrow> (IP \<times> IPNet) option" where
  "ParseCIDR s =
     (case dropWhile (\<lambda>c. c \<noteq> CHR ''/'') s of
        [] \<Rightarrow> None
      | _ # ms \<Rightarrow>
          (case ParseAddr (takeWhile (\<lambda>c. c \<noteq> CHR ''/'') s) of
             None \<Rightarrow> None
           | Some a \<Rightarrow>
               (case parse_dec ms of
                  None \<Rightarrow> None
                | Some n \<Rightarrow>
                    (if BitLen a < n then None
                     else (let m = CIDRMask n (BitLen a)
                           in Some (As16 a, \<lparr>net_IP = IP_Mask (As16 a) m, net_Mask = m\<rparr>))))))"

definition networkNumberAndMask :: "IPNet \<Rightarrow> IP \<times> byte list" where
  "networkNumberAndMask n =
     (let ip = (if To4 (net_IP n) \<noteq> [] then To4 (net_IP n) else net_IP n);
          m = net_Mask n
      in if To4 (net_IP n) = [] \<and> length (net_IP n) \<noteq> 16 then ([], [])
         else if length m = 4 then (if length ip \<noteq> 4 then ([], []) else (ip, m))
         else if length m = 16 then (ip, if length ip = 4 then drop 12 m else m)
         else ([], []))"

definition IPNet_Contains :: "IPNet \<Rightarrow> IP \<Rightarrow> bool" where
  "IPNet_Contains n ip =
     (let (nn, m) = networkNumberAndMask n;
          ip = (if To4 ip \<noteq> [] then To4 ip else ip)
      in length ip = length nn \<and> map2 (AND) nn m = map2 (AND) ip m)"

section \<open>Printing\<close>

text \<open>\<open>IP.String\<close>: dotted decimal for IPv4 and IPv4-mapped addresses, else the RFC 5952 form.\<close>

definition hex_digit :: "nat \<Rightarrow> char" where
  "hex_digit d = char_of (if d < 10 then 48 + d else 87 + d)"

definition appendHex :: "nat \<Rightarrow> string" where
  "appendHex x =
     map hex_digit
       ((if x \<ge> 4096 then [x div 4096] else []) @
        (if x \<ge> 256 then [x div 256 mod 16] else []) @
        (if x \<ge> 16 then [x div 16 mod 16] else []) @ [x mod 16])"

definition v6u16 :: "IP \<Rightarrow> nat \<Rightarrow> nat" where
  "v6u16 ip i = unat (ip ! (2 * i)) * 256 + unat (ip ! (2 * i + 1))"

definition zero_run :: "IP \<Rightarrow> nat \<Rightarrow> nat" where
  "zero_run ip i = length (takeWhile (\<lambda>j. v6u16 ip j = 0) [i..<8])"

text \<open>The first of the longest runs of at least two zero groups, as start and length.\<close>

definition best_run :: "IP \<Rightarrow> (nat \<times> nat) option" where
  "best_run ip =
     fold (\<lambda>i best. let l = zero_run ip i
                     in if 2 \<le> l \<and> (case best of None \<Rightarrow> True | Some (_, bl) \<Rightarrow> bl < l)
                        then Some (i, l) else best)
       [0..<8] None"

definition join_hex :: "IP \<Rightarrow> nat list \<Rightarrow> string" where
  "join_hex ip is =
     (case is of
        [] \<Rightarrow> []
      | i # r \<Rightarrow> appendHex (v6u16 ip i) @ concat (map (\<lambda>j. CHR '':'' # appendHex (v6u16 ip j)) r))"

definition v6_String :: "IP \<Rightarrow> string" where
  "v6_String ip =
     (case best_run ip of
        None \<Rightarrow> join_hex ip [0..<8]
      | Some (st, l) \<Rightarrow> join_hex ip [0..<st] @ ''::'' @ join_hex ip [st + l..<8])"

definition v4_String :: "IP \<Rightarrow> string" where
  "v4_String b =
     itoa_nat (unat (b ! 0)) @ ''.'' @ itoa_nat (unat (b ! 1)) @ ''.'' @
     itoa_nat (unat (b ! 2)) @ ''.'' @ itoa_nat (unat (b ! 3))"

definition IP_String :: "IP \<Rightarrow> string" where
  "IP_String ip =
     (if ip = [] then ''<nil>''
      else if To4 ip \<noteq> [] then v4_String (To4 ip)
      else if length ip = 16 then v6_String ip
      else ''?'' @ concat (map (\<lambda>b. [hex_digit (unat b div 16), hex_digit (unat b mod 16)]) ip))"

section \<open>Properties of the parsers\<close>

lemma parseIPv4Fields_length:
  "parseIPv4Fields s pd v dl fs = Some r \<Longrightarrow> length fs \<le> 3 \<Longrightarrow> length r = 4"
proof (induction s arbitrary: pd v dl fs)
  case Nil
  then show ?case by (auto split: if_splits)
next
  case (Cons c cs)
  from Cons.prems show ?case
    by (auto split: option.splits if_splits intro: Cons.IH dest!: Cons.IH)
qed

lemma parseIPv6_loop_bounds:
  "parseIPv6_loop s ip e = Some (r, e') \<Longrightarrow> length ip \<le> 16 \<Longrightarrow> even (length ip)
     \<Longrightarrow> (\<forall>k. e = Some k \<longrightarrow> k \<le> length ip)
     \<Longrightarrow> length r \<le> 16 \<and> (\<forall>k. e' = Some k \<longrightarrow> k \<le> length r)"
proof (induction s ip e rule: parseIPv6_loop.induct)
  case (1 s ip e)
  show ?case
  proof (cases "16 \<le> length ip")
    case True
    with "1.prems" show ?thesis by (auto simp: parseIPv6_loop.simps [of s ip e] split: if_splits)
  next
    case False
    with "1.prems"(3) have le: "length ip + 2 \<le> 16" by presburger
    from "1.prems"(4) have ek: "\<forall>k. e = Some k \<longrightarrow> k \<le> Suc (Suc (length ip))" by auto
    from "1.prems"(1) False obtain off acc rest where h: "hex_run s 0 0 = Some (off, acc, rest)" "off \<noteq> 0"
      by (auto simp: parseIPv6_loop.simps [of s ip e] split: option.splits if_splits)
    show ?thesis
    proof (cases "rest \<noteq> [] \<and> hd rest = CHR ''.''")
      case True
      with "1.prems" False h show ?thesis
        by (auto simp: parseIPv6_loop.simps [of s ip e] split: option.splits if_splits
            dest!: parseIPv4Fields_length)
    next
      case no_dot: False
      let ?ip' = "ip @ [of_nat (acc div 256), of_nat (acc mod 256)]"
      show ?thesis
      proof (cases "rest = [] \<or> hd rest \<noteq> CHR '':'' \<or> tl rest = [] \<or>
                    hd (tl rest) = CHR '':'' \<and> (e \<noteq> None \<or> tl (tl rest) = [])")
        case True
        with "1.prems" False no_dot h le show ?thesis
          by (auto simp: parseIPv6_loop.simps [of s ip e] Let_def split: if_splits)
      next
        case rec: False
        show ?thesis
        proof (cases "hd (tl rest) = CHR '':''")
          case True
          have "parseIPv6_loop (tl (tl rest)) ?ip' (Some (length ?ip')) = Some (r, e')"
            using "1.prems"(1) False no_dot h rec True
            by (auto simp: parseIPv6_loop.simps [of s ip e] Let_def)
          then show ?thesis
            using "1.IH"(1) [OF False h(1) refl refl h(2) no_dot refl] rec True "1.prems" le by auto
        next
          case c: False
          have "parseIPv6_loop (tl rest) ?ip' e = Some (r, e')"
            using "1.prems"(1) False no_dot h rec c
            by (auto simp: parseIPv6_loop.simps [of s ip e] Let_def)
          then show ?thesis
            using "1.IH"(2) [OF False h(1) refl refl h(2) no_dot refl] rec c "1.prems" le ek by simp
        qed
      qed
    qed
  qed
qed

lemma parseIPv6_length: "parseIPv6 s = Some r \<Longrightarrow> length r = 16"
  by (auto simp: parseIPv6_def split: option.splits if_splits list.splits prod.splits
      dest!: parseIPv6_loop_bounds)

lemma ParseAddr_length:
  "ParseAddr s = Some a \<Longrightarrow> (case a of Addr4 b \<Rightarrow> length b = 4 | Addr6 b \<Rightarrow> length b = 16)"
  by (auto simp: ParseAddr_def split: option.splits if_splits
      dest!: parseIPv4Fields_length parseIPv6_length)

lemma length_v4InV6Prefix [simp]: "length v4InV6Prefix = 12"
  by (simp add: v4InV6Prefix_def)

lemma length_As16: "ParseAddr s = Some a \<Longrightarrow> length (As16 a) = 16"
  by (drule ParseAddr_length) (cases a; simp)

lemma ParseIP_length: "ParseIP s \<noteq> [] \<Longrightarrow> length (ParseIP s) = 16"
  by (auto simp: ParseIP_def length_As16 split: option.splits)

lemma ParseCIDR_addr:
  assumes "ParseCIDR s = Some (a, n)"
  shows "length a = 16" "To16 a \<noteq> []"
proof -
  from assms show l: "length a = 16"
    by (auto simp: ParseCIDR_def Let_def length_As16 split: list.splits option.splits if_splits)
  then show "To16 a \<noteq> []" by (auto simp: To16_def)
qed

subsection \<open>Masks\<close>

lemma length_mask_bytes [simp]: "length (mask_bytes n l) = l"
  by (induction n l rule: mask_bytes.induct) auto

lemma mask_bytes_0: "mask_bytes 0 l = replicate l 0"
  by (induction l) auto

lemma mask_byte_cases:
  assumes "n < 8"
  shows "leading_ones 8 (NOT (drop_bit n 255)) = n"
    and "push_bit n (NOT (drop_bit n 255) :: byte) = 0"
    and "NOT (drop_bit n 255) \<noteq> (255 :: byte)"
proof -
  have "list_all (\<lambda>n. leading_ones 8 (NOT (drop_bit n 255)) = n
           \<and> push_bit n (NOT (drop_bit n 255) :: byte) = 0
           \<and> NOT (drop_bit n 255) \<noteq> (255 :: byte)) [0, 1, 2, 3, 4, 5, 6, 7]"
    by code_simp
  moreover from assms have "n \<in> set [0, 1, 2, 3, 4, 5, 6, 7]" by auto
  ultimately show "leading_ones 8 (NOT (drop_bit n 255)) = n"
    and "push_bit n (NOT (drop_bit n 255) :: byte) = 0"
    and "NOT (drop_bit n 255) \<noteq> (255 :: byte)"
    unfolding list_all_iff by blast+
qed

lemma simpleMaskLength_mask_bytes: "n \<le> 8 * l \<Longrightarrow> simpleMaskLength (mask_bytes n l) = int n"
proof (induction l arbitrary: n)
  case 0
  then show ?case by simp
next
  case (Suc l)
  show ?case
  proof (cases "8 \<le> n")
    case True
    with Suc.prems have "n - 8 \<le> 8 * l" by simp
    from Suc.IH [OF this] True show ?thesis by (simp add: Let_def)
  next
    case False
    then show ?thesis using mask_byte_cases [of n] by (simp add: mask_bytes_0)
  qed
qed

lemma ParseCIDR_mask:
  assumes "ParseCIDR s = Some (a, n)"
  shows "0 \<le> Mask_Size_ones (net_Mask n)" "Mask_Size_ones (net_Mask n) \<le> 128"
proof -
  from assms obtain b k where b: "net_Mask n = CIDRMask k (BitLen b)" "k \<le> BitLen b"
    by (auto simp: ParseCIDR_def Let_def split: list.splits option.splits if_splits)
  then have "simpleMaskLength (net_Mask n) = int k"
    by (cases b) (simp_all add: CIDRMask_def simpleMaskLength_mask_bytes)
  with b show "0 \<le> Mask_Size_ones (net_Mask n)" "Mask_Size_ones (net_Mask n) \<le> 128"
    by (cases b; simp add: Mask_Size_ones_def)+
qed

subsection \<open>The byte order\<close>

lemma bytes_Compare_refl [simp]: "bytes_Compare a a = 0"
  by (induction a) auto

lemma bytes_Compare_values: "bytes_Compare a b \<in> {-1, 0, 1}"
  by (induction a b rule: bytes_Compare.induct) auto

lemma bytes_Compare_eq_0: "bytes_Compare a b = 0 \<longleftrightarrow> a = b"
  by (induction a b rule: bytes_Compare.induct) auto

lemma bytes_Compare_antisym: "bytes_Compare b a = - bytes_Compare a b"
  by (induction a b rule: bytes_Compare.induct) auto

lemma bytes_Compare_less_trans:
  "bytes_Compare a b < 0 \<Longrightarrow> bytes_Compare b c < 0 \<Longrightarrow> bytes_Compare a c < 0"
proof (induction a b arbitrary: c rule: bytes_Compare.induct)
  case (2 b bs)
  then show ?case by (cases c) auto
next
  case (4 a as b bs)
  then show ?case by (cases c) (auto split: if_splits)
qed auto

subsection \<open>Printing and parsing IPv4\<close>

lemma parseIPv4Fields_octet:
  assumes "n < 256"
  shows "\<exists>dl. parseIPv4Fields (itoa_nat n @ rest) pd 0 0 fs = parseIPv4Fields rest False n dl fs"
proof -
  consider "n < 10" | "10 \<le> n" "n < 100" | "100 \<le> n" by linarith
  then show ?thesis
  proof cases
    case 1
    then show ?thesis by (auto simp: itoa_nat.simps [of n])
  next
    case 2
    then have "itoa_nat n = [digit_char (n div 10), digit_char (n mod 10)]"
      by (simp add: itoa_nat.simps [of n] itoa_nat.simps [of "n div 10"])
    moreover have "n div 10 < 10" "n mod 10 < 10" "n div 10 \<noteq> 0" "n div 10 * 10 + n mod 10 = n"
      using 2 by auto
    ultimately show ?thesis using assms by auto
  next
    case 3
    have d: "n div 10 div 10 = n div 100" by simp
    have lt: "\<not> n < 10" "\<not> n div 10 < 10" "n div 10 div 10 < 10" using 3 assms by auto
    from lt d have "itoa_nat n = [digit_char (n div 100), digit_char (n div 10 mod 10), digit_char (n mod 10)]"
      by (simp add: itoa_nat.simps [of n] itoa_nat.simps [of "n div 10"] itoa_nat.simps [of "n div 100"])
    moreover have "n div 100 < 10" "n div 10 mod 10 < 10" "n mod 10 < 10" "n div 100 \<noteq> 0"
      "n div 100 * 10 + n div 10 mod 10 = n div 10" "n div 10 * 10 + n mod 10 = n" "n div 10 \<le> 25"
      using 3 assms div_mult_mod_eq [of "n div 10" 10] d by auto
    ultimately show ?thesis using assms by auto
  qed
qed

lemma digit_val_dot [simp]: "digit_val (CHR ''.'') = None"
  by (simp add: digit_val_def)

lemma parseIPv4Fields_dotted:
  "parseIPv4Fields (v4_String [a, b, c, d]) True 0 0 [] = Some [a, b, c, d]"
proof -
  have lt: "unat (x :: byte) < 256" for x using unsigned_less [of x] by simp
  have step: "\<exists>dl. parseIPv4Fields (itoa_nat (unat x) @ rest) pd 0 0 fs
                   = parseIPv4Fields rest False (unat x) dl fs" for x :: byte and rest pd fs
    using parseIPv4Fields_octet [OF lt] .
  obtain d1 where 1: "parseIPv4Fields (v4_String [a, b, c, d]) True 0 0 [] =
      parseIPv4Fields (''.'' @ itoa_nat (unat b) @ ''.'' @ itoa_nat (unat c) @ ''.'' @ itoa_nat (unat d)) False (unat a) d1 []"
    using step [of a "''.'' @ itoa_nat (unat b) @ ''.'' @ itoa_nat (unat c) @ ''.'' @ itoa_nat (unat d)"]
    by (auto simp: v4_String_def)
  obtain d2 where 2: "parseIPv4Fields (itoa_nat (unat b) @ ''.'' @ itoa_nat (unat c) @ ''.'' @ itoa_nat (unat d)) True 0 0 [a]
     = parseIPv4Fields (''.'' @ itoa_nat (unat c) @ ''.'' @ itoa_nat (unat d)) False (unat b) d2 [a]"
    using step by blast
  obtain d3 where 3: "parseIPv4Fields (itoa_nat (unat c) @ ''.'' @ itoa_nat (unat d)) True 0 0 [a, b]
     = parseIPv4Fields (''.'' @ itoa_nat (unat d)) False (unat c) d3 [a, b]"
    using step by blast
  obtain d4 where 4: "parseIPv4Fields (itoa_nat (unat d)) True 0 0 [a, b, c]
     = parseIPv4Fields [] False (unat d) d4 [a, b, c]"
    using step [of d "[]" True "[a, b, c]"] by auto
  from 1 2 3 4 show ?thesis by simp
qed
lemma itoa_nat_digits: "c \<in> set (itoa_nat n) \<Longrightarrow> digit_val c \<noteq> None"
proof (induction n rule: itoa_nat.induct)
  case (1 n)
  then show ?case by (auto simp: itoa_nat.simps [of n] split: if_splits)
qed

lemma itoa_nat_no_sep:
  "c \<in> set (itoa_nat n) \<Longrightarrow> \<not> (c = CHR ''.'' \<or> c = CHR '':'' \<or> c = CHR ''%'')"
  using itoa_nat_digits [of c n] by (auto simp: digit_val_def)

lemma find_skip: "\<forall>c \<in> set xs. \<not> P c \<Longrightarrow> P y \<Longrightarrow> find P (xs @ y # r) = Some y"
  by (induction xs) auto

lemma ParseIP_v4_String:
  assumes "length b = 4"
  shows "ParseIP (v4_String b) = v4InV6Prefix @ b"
proof -
  from assms obtain x y z w where b: "b = [x, y, z, w]"
    by (auto simp: numeral_eq_Suc length_Suc_conv)
  have "find (\<lambda>c. c = CHR ''.'' \<or> c = CHR '':'' \<or> c = CHR ''%'') (v4_String b) = Some (CHR ''.'')"
    unfolding v4_String_def append_Cons append_Nil by (rule find_skip) (auto dest: itoa_nat_no_sep)
  then have "ParseAddr (v4_String b) = Some (Addr4 b)"
    using parseIPv4Fields_dotted [of x y z w]
    by (simp add: ParseAddr_def b)
  then show ?thesis by (simp add: ParseIP_def)
qed

end
