(* ===== verification/Ref_Avi.thy ===== *)
theory Ref_Avi
  imports Avi_Client Ref_World
begin

text \<open>
  A reference AVI controller, kept in memory beside the reference API server, on which the
  witnesses run. No definition of the model depends on it.
\<close>

record amem = mem +
  a_version :: string
  a_networks :: "Network list"
  a_clouds :: "Cloud list"
  a_ipams :: "IPAMDNSProviderProfile list"
  a_users :: "User list"
  a_roles :: "Role list"

definition amem0 :: amem where
  "amem0 = mem.extend mem0
     \<lparr>a_version = ''22.1.3'', a_networks = [], a_clouds = [], a_ipams = [], a_users = [], a_roles = []\<rparr>"

definition missing :: "string \<Rightarrow> string \<Rightarrow> error" where
  "missing t n = Err (''No object of type '' @ t @ '' with name '' @ n @ '' is found'')"

definition lookup_by :: "string \<Rightarrow> ('a \<Rightarrow> string) \<Rightarrow> 'a list \<Rightarrow> string \<Rightarrow> error + 'a" where
  "lookup_by t key xs n = (case find (\<lambda>x. key x = n) xs of None \<Rightarrow> Inl (missing t n) | Some x \<Rightarrow> Inr x)"

definition replace_by :: "('a \<Rightarrow> string) \<Rightarrow> 'a \<Rightarrow> 'a list \<Rightarrow> 'a list" where
  "replace_by key x xs = map (\<lambda>y. if key y = key x then x else y) xs"

definition ref_client :: "amem Client" where
  "ref_client = \<lparr>
     ServiceEngineGroupGetByName = (\<lambda>n c w. (Ret (Inl (missing ''serviceenginegroup'' n)), w)),
     ServiceEngineGroupCreate = (\<lambda>x w. (Inr x, w)),
     NetworkGetByName = (\<lambda>n c w. (Ret (lookup_by ''network'' nw_Name (a_networks w) n), w)),
     NetworkCreate = (\<lambda>x w. (Inr x, w\<lparr>a_networks := x # a_networks w\<rparr>)),
     NetworkUpdate = (\<lambda>x w. (Inr x, w\<lparr>a_networks := replace_by nw_Name x (a_networks w)\<rparr>)),
     CloudGetByName = (\<lambda>n w. (lookup_by ''cloud'' cloud_Name (a_clouds w) n, w)),
     CloudCreate = (\<lambda>x w. (Inr x, w\<lparr>a_clouds := x # a_clouds w\<rparr>)),
     UserGetByName = (\<lambda>n w. (lookup_by ''user'' user_Name (a_users w) n, w)),
     UserDeleteByName = (\<lambda>n w. (None, w\<lparr>a_users := filter (\<lambda>u. user_Name u \<noteq> n) (a_users w)\<rparr>)),
     UserCreate = (\<lambda>x w. (Inr x, w\<lparr>a_users := x # a_users w\<rparr>)),
     UserUpdate = (\<lambda>x w. (Inr x, w\<lparr>a_users := replace_by user_Name x (a_users w)\<rparr>)),
     TenantGet = (\<lambda>n w. (Inr \<lparr>tenant_URL = Some n\<rparr>, w)),
     RoleGetByName = (\<lambda>n w. (lookup_by ''role'' role_Name (a_roles w) n, w)),
     RoleCreate = (\<lambda>x w. (Inr x, w\<lparr>a_roles := x # a_roles w\<rparr>)),
     RoleUpdate = (\<lambda>x w. (Inr x, w\<lparr>a_roles := replace_by role_Name x (a_roles w)\<rparr>)),
     IPAMDNSProviderProfileGet = (\<lambda>n w. (lookup_by ''ipamdnsproviderprofile'' ipam_UUID (a_ipams w) n, w)),
     IPAMDNSProviderProfileUpdate = (\<lambda>x w. (Inr x, w\<lparr>a_ipams := replace_by ipam_UUID x (a_ipams w)\<rparr>)),
     VirtualServiceGetByName = (\<lambda>n w. (Inl (missing ''virtualservice'' n), w)),
     PoolGetByName = (\<lambda>n w. (Inl (missing ''pool'' n), w)),
     AviCertificateConfig = [],
     GetControllerVersion = (\<lambda>w. (Inr (a_version w), w))\<rparr>"

definition ref_sdk :: "amem sdk" where
  "ref_sdk = \<lparr>sdk_GetCollectionRaw = (\<lambda>uri w. (Inr (0, []), w)), sdk_elems = (\<lambda>s. Inr []),
     sdk_decodeNetwork = (\<lambda>s. Inl (Err ''json'')), sdk_decodeObject = (\<lambda>s. Inl (Err ''json'')),
     sdk_client = ref_client\<rparr>"

text \<open>The controller refuses a session without a password.\<close>

definition ref_new :: "amem sdk_new" where
  "ref_new ip user opts w = (if SetPassword [] \<in> set opts then (Inl (Err ''unauthorized''), w) else (Inr ref_sdk, w))"

definition exampleSecret :: "SecretRef \<Rightarrow> (string \<times> string) list \<Rightarrow> Secret" where
  "exampleSecret r kvs = emptySecret\<lparr>Name := ref_Name r, Namespace := ref_Namespace r, Data := Some (map_of kvs)\<rparr>"

definition credRef :: SecretRef where
  "credRef = \<lparr>ref_Name = AviCredentialName, ref_Namespace = TKGSystemNamespace\<rparr>"

definition caRef :: SecretRef where
  "caRef = \<lparr>ref_Name = AviCAName, ref_Namespace = TKGSystemNamespace\<rparr>"

text \<open>A world with the two Secrets of the controller.\<close>

definition secretWorld :: amem where
  "secretWorld = amem0\<lparr>m_secrets :=
     [exampleSecret credRef [(''username'', ''admin''), (''password'', ''pw'')],
      exampleSecret caRef [(AviCertificateKey, ''cert'')]]\<rparr>"

lemmas avi_defs = ref_client_def ref_sdk_def ref_new_def amem0_def mem.defs lookup_by_def replace_by_def missing_def
  exampleSecret_def credRef_def caRef_def secretWorld_def emptySecret_def

lemma client_example:
  "\<exists>cl. NewAviClientFromSecrets ref_new mem_kapi ''10.0.0.1'' credRef caRef ''22.1.3'' secretWorld = (Inr cl, secretWorld)"
  by (simp add: NewAviClientFromSecrets_def NewAviClient_def client_options_def secret_config_def data_get_def
      avi_defs ref_defs emptyMeta_def ObjectMeta.defs AviCredentialName_def AviCAName_def TKGSystemNamespace_def
      AviCertificateKey_def)

theorem NewAviClientFromSecrets_config_witness:
  "\<exists>cl w'. NewAviClientFromSecrets ref_new mem_kapi ''10.0.0.1'' credRef caRef ''22.1.3'' secretWorld = (Inr cl, w') \<and>
     (\<exists>s2 w2. kGet (Secrets mem_kapi) secretWorld (ref_Namespace caRef, ref_Name caRef) = (Inr s2, w2) \<and>
        AviCertificateConfig cl = data_get s2 AviCertificateKey)"
proof -
  from client_example obtain cl where cl:
    "NewAviClientFromSecrets ref_new mem_kapi ''10.0.0.1'' credRef caRef ''22.1.3'' secretWorld = (Inr cl, secretWorld)" by blast
  moreover have "snd (kGet (Secrets mem_kapi) secretWorld k) = secretWorld" for k
    by (simp add: ref_defs)
  ultimately show ?thesis
    using NewAviClientFromSecrets_config [OF cl] by (metis snd_conv)
qed

end
