(* ===== verification/Avi_Network.thy ===== *)
theory Avi_Network
  imports Go_Net Ref_Avi "HOL-Library.Multiset"
begin

text \<open>
  The data network in the AVI controller: \<open>EnsureAviNetwork\<close> and its helpers at the end of
  \<open>src/controllers/akodeploymentconfig/akodeploymentconfig_controller_avi_phase.go\<close>, which bring the
  static ranges of a subnet in line with the IP pools of an AKODeploymentConfig, and
  \<open>AddUsableNetwork\<close> of \<open>src/pkg/netprovider\<close>.

  \<open>sort.Slice\<close> sorts in place and is documented as not stable, so it is a parameter \<open>srt\<close> with the
  hypothesis \<open>slice_sort_laws\<close>: for a strict weak order it permutes the slice into sorted order.
\<close>

section \<open>Ranges\<close>

definition GetAddr :: "string \<Rightarrow> string \<Rightarrow> IPAddr" where
  "GetAddr addr addrType = \<lparr>Addr = addr, addr_Type = addrType\<rparr>"

definition CreateStaticRangeFromIPPools :: "IPPool list \<Rightarrow> StaticIPRange list" where
  "CreateStaticRangeFromIPPools ipPools =
     map (\<lambda>p. \<lparr>Begin = GetAddr (pool_Start p) (pool_Type p), End = GetAddr (pool_End p) (pool_Type p)\<rparr>) ipPools"

definition AviNetworkContainsSubnet :: "Network \<Rightarrow> string \<Rightarrow> int \<Rightarrow> nat option" where
  "AviNetworkContainsSubnet network startAddr ones =
     find_index (\<lambda>s. Addr (prefix_IPAddr (Prefix s)) = startAddr \<and> prefix_Mask (Prefix s) = ones)
       (ConfiguredSubnets network)"

definition isIPLessThan :: "string \<Rightarrow> string \<Rightarrow> bool" where
  "isIPLessThan a b \<longleftrightarrow> bytes_Compare (ParseIP a) (ParseIP b) < 0"

definition range_less :: "StaticIPRange \<Rightarrow> StaticIPRange \<Rightarrow> bool" where
  "range_less r s \<longleftrightarrow> isIPLessThan (Addr (Begin r)) (Addr (Begin s))"

type_synonym slice_sort =
  "(StaticIPRange \<Rightarrow> StaticIPRange \<Rightarrow> bool) \<Rightarrow> StaticIPRange list \<Rightarrow> StaticIPRange list"

definition SortStaticRanges :: "slice_sort \<Rightarrow> StaticIPRange list \<Rightarrow> StaticIPRange list" where
  "SortStaticRanges srt staticRanges = srt range_less staticRanges"

text \<open>The comparison sorts both slices in place: the answer and the slices as they are left.\<close>

definition IsStaticIPRangeEqual ::
  "slice_sort \<Rightarrow> StaticIPRange list \<Rightarrow> StaticIPRange list \<Rightarrow> bool \<times> StaticIPRange list \<times> StaticIPRange list" where
  "IsStaticIPRangeEqual srt r1 r2 =
     (let r1 = SortStaticRanges srt r1; r2 = SortStaticRanges srt r2
      in (list_all2 (\<lambda>a b. Addr (Begin a) = Addr (Begin b) \<and> Addr (End a) = Addr (End b)) r1 r2, r1, r2))"

definition EnsureStaticRanges ::
  "slice_sort \<Rightarrow> Subnet \<Rightarrow> IPPool list option \<Rightarrow> string \<Rightarrow> bool \<times> Subnet" where
  "EnsureStaticRanges srt subnet ipPools addrType =
     (case ipPools of
        None \<Rightarrow> (False, subnet)
      | Some ps \<Rightarrow>
          (case IsStaticIPRangeEqual srt (CreateStaticRangeFromIPPools ps) (StaticIPRanges subnet) of
             (eq, newStaticIPRanges, old) \<Rightarrow>
               (\<not> eq, subnet\<lparr>StaticIPRanges := (if \<not> eq then newStaticIPRanges else old)\<rparr>)))"

definition EnsureAviNetwork ::
  "slice_sort \<Rightarrow> Network \<Rightarrow> string \<Rightarrow> IPNet \<Rightarrow> int \<Rightarrow> IPPool list option \<Rightarrow> bool \<times> Network" where
  "EnsureAviNetwork srt network addrType cidr ones ipPools =
     (case AviNetworkContainsSubnet network (IP_String (net_IP cidr)) ones of
        Some index \<Rightarrow>
          (case EnsureStaticRanges srt (ConfiguredSubnets network ! index) ipPools addrType of
             (modified, subnet) \<Rightarrow>
               (modified, network\<lparr>ConfiguredSubnets := (ConfiguredSubnets network)[index := subnet]\<rparr>))
      | None \<Rightarrow>
          (let subnet = \<lparr>Prefix = \<lparr>prefix_IPAddr = GetAddr (IP_String (net_IP cidr)) addrType, prefix_Mask = ones\<rparr>,
                         StaticIPRanges = CreateStaticRangeFromIPPools (case ipPools of None \<Rightarrow> [] | Some ps \<Rightarrow> ps)\<rparr>
           in (True, network\<lparr>ConfiguredSubnets := ConfiguredSubnets network @ [subnet]\<rparr>)))"

section \<open>Usable networks\<close>

text \<open>The search among the usable networks; a missing URL or reference is dereferenced and panics.\<close>

fun network_usable :: "string option \<Rightarrow> string option list \<Rightarrow> bool outcome" where
  "network_usable url [] = Ret False"
| "network_usable url (nwRef # rest) =
     (case (url, nwRef) of
        (Some u, Some r) \<Rightarrow> if strings_Contains u r then Ret True else network_usable url rest
      | _ \<Rightarrow> Panic)"

definition AddUsableNetwork ::
  "lib \<Rightarrow> 'w Client \<Rightarrow> string \<Rightarrow> string \<Rightarrow> 'w \<Rightarrow> (error option) outcome \<times> 'w" where
  "AddUsableNetwork L client cloudName networkName w =
     (case CloudGetByName client cloudName w of
        (Inl err, w) \<Rightarrow> (Ret (Wrap L (Some err) (''Failed to find cloud '' @ cloudName @ '', requeue the request'' @ [CHR 0x0A])), w)
      | (Inr cloud, w) \<Rightarrow>
          (case IPAMProviderRef cloud of
             None \<Rightarrow> (Ret (Wrap L None ''No IPAM Provider is registered for the cloud, requeue the request''), w)
           | Some ref \<Rightarrow>
               (case IPAMDNSProviderProfileGet client (GetUUIDFromRef ref) w of
                  (Inl err, w) \<Rightarrow> (Ret (Wrap L (Some err) ''Failed to find IPAM profile''), w)
                | (Inr ipam, w) \<Rightarrow>
                    (case NetworkGetByName client networkName cloudName w of
                       (Panic, w) \<Rightarrow> (Panic, w)
                     | (Ret (Inl err), w) \<Rightarrow>
                         (Ret (Wrap L (Some err) (''Failed to get Data Network '' @ networkName @ '' from AVI Controller'' @ [CHR 0x0A])), w)
                     | (Ret (Inr network), w) \<Rightarrow>
                         (case InternalProfile ipam of
                            None \<Rightarrow> (Panic, w)
                          | Some usable \<Rightarrow>
                              (case network_usable (nw_URL network) usable of
                                 Panic \<Rightarrow> (Panic, w)
                               | Ret True \<Rightarrow> (Ret None, w)
                               | Ret False \<Rightarrow>
                                   (case IPAMDNSProviderProfileUpdate client
                                           (ipam\<lparr>InternalProfile := Some (usable @ [nw_URL network])\<rparr>) w of
                                      (Inl err, w) \<Rightarrow>
                                        (Ret (Wrap L (Some err) (''Failed to add usable network '' @ nw_Name network @ [CHR 0x0A])), w)
                                    | (Inr _, w) \<Rightarrow> (Ret None, w))))))))"

section \<open>Sorting: an interface\<close>

text \<open>A strict weak order, and what it gives to every client of a sort.\<close>

locale strict_weak_order =
  fixes less :: "'a \<Rightarrow> 'a \<Rightarrow> bool"
  assumes irrefl: "\<not> less x x"
    and trans: "less x y \<Longrightarrow> less y z \<Longrightarrow> less x z"
    and neg_trans: "\<not> less x y \<Longrightarrow> \<not> less y z \<Longrightarrow> \<not> less x z"
begin

lemma through: "strict_weak_order (\<lambda>x y. less (f x) (f y))"
  by unfold_locales (auto intro: trans dest: neg_trans simp: irrefl)

lemma asym: "less x y \<Longrightarrow> \<not> less y x"
  using irrefl trans by blast

lemma sorted_unique:
  assumes "sorted_wrt (\<lambda>x y. \<not> less y x) xs" "sorted_wrt (\<lambda>x y. \<not> less y x) ys" "mset xs = mset ys"
    and "\<And>x y. x \<in> set xs \<Longrightarrow> y \<in> set xs \<Longrightarrow> \<not> less x y \<Longrightarrow> \<not> less y x \<Longrightarrow> x = y"
  shows "xs = ys"
  using assms
proof (induction xs arbitrary: ys)
  case (Cons x xs)
  then obtain y ys' where ys: "ys = y # ys'" by (cases ys) auto
  from Cons.prems(3) have set_eq: "set (x # xs) = set ys" by (rule mset_eq_setD)
  have "\<not> less y x"
    using Cons.prems(1) set_eq ys irrefl [of x] by auto
  moreover have "\<not> less x y"
    using Cons.prems(2) set_eq ys irrefl [of x] by auto
  ultimately have "x = y" using Cons.prems(4) [of x y] set_eq ys by auto
  with Cons ys show ?case by auto
qed simp

end

definition slice_sort_laws :: "slice_sort \<Rightarrow> bool" where
  "slice_sort_laws srt \<longleftrightarrow>
     (\<forall>less xs. strict_weak_order less \<longrightarrow>
        mset (srt less xs) = mset xs \<and> sorted_wrt (\<lambda>x y. \<not> less y x) (srt less xs))"

text \<open>The order the code sorts by is one.\<close>

interpretation ip: strict_weak_order isIPLessThan
proof (unfold_locales, goal_cases)
  case (1 x) show ?case by (simp add: isIPLessThan_def)
next
  case (2 x y z) then show ?case unfolding isIPLessThan_def by (rule bytes_Compare_less_trans)
next
  case (3 x y z)
  show ?case
  proof
    assume "isIPLessThan x z"
    with 3 show False
      unfolding isIPLessThan_def
      by (metis bytes_Compare_less_trans bytes_Compare_antisym bytes_Compare_eq_0 linorder_neqE_linordered_idom neg_less_0_iff_less)
  qed
qed

interpretation range: strict_weak_order range_less
  unfolding range_less_def by (rule ip.through)

section \<open>The ranges of a subnet\<close>

definition bounds :: "StaticIPRange \<Rightarrow> string \<times> string" where
  "bounds r = (Addr (Begin r), Addr (End r))"

definition pool_bounds :: "IPPool \<Rightarrow> string \<times> string" where
  "pool_bounds p = (pool_Start p, pool_End p)"

text \<open>No two pools begin at the same address.\<close>

definition distinct_starts :: "(string \<times> string) list \<Rightarrow> bool" where
  "distinct_starts bs \<longleftrightarrow> distinct (map (\<lambda>b. ParseIP (fst b)) bs)"

lemma bounds_create [simp]: "map bounds (CreateStaticRangeFromIPPools ps) = map pool_bounds ps"
  by (simp add: CreateStaticRangeFromIPPools_def bounds_def pool_bounds_def GetAddr_def)

lemma range_less_bounds: "range_less r s \<longleftrightarrow> isIPLessThan (fst (bounds r)) (fst (bounds s))"
  by (simp add: range_less_def bounds_def)

interpretation bound: strict_weak_order "\<lambda>a b. isIPLessThan (fst a) (fst b)"
  by (rule ip.through)

lemma isIPLessThan_eq: "\<not> isIPLessThan a b \<Longrightarrow> \<not> isIPLessThan b a \<Longrightarrow> ParseIP a = ParseIP b"
  unfolding isIPLessThan_def
  by (metis bytes_Compare_antisym bytes_Compare_eq_0 linorder_neqE_linordered_idom neg_less_0_iff_less)

lemma SortStaticRanges_mset:
  assumes "slice_sort_laws srt"
  shows "mset (SortStaticRanges srt rs) = mset rs"
  using assms range.strict_weak_order_axioms by (auto simp: slice_sort_laws_def SortStaticRanges_def)

lemma SortStaticRanges_sorted:
  assumes "slice_sort_laws srt"
  shows "sorted_wrt (\<lambda>a b. \<not> isIPLessThan (fst b) (fst a)) (map bounds (SortStaticRanges srt rs))"
  using assms range.strict_weak_order_axioms
  by (auto simp: slice_sort_laws_def SortStaticRanges_def sorted_wrt_map range_less_bounds)

lemma SortStaticRanges_bounds:
  assumes "slice_sort_laws srt" "distinct_starts (map bounds r1)" "mset (map bounds r1) = mset (map bounds r2)"
  shows "map bounds (SortStaticRanges srt r1) = map bounds (SortStaticRanges srt r2)"
proof (rule bound.sorted_unique)
  have m: "mset (map bounds (SortStaticRanges srt r)) = mset (map bounds r)" for r
    using SortStaticRanges_mset [OF assms(1), of r] by simp
  show "mset (map bounds (SortStaticRanges srt r1)) = mset (map bounds (SortStaticRanges srt r2))"
    using m [of r1] m [of r2] assms(3) by simp
  fix x y assume "x \<in> set (map bounds (SortStaticRanges srt r1))" "y \<in> set (map bounds (SortStaticRanges srt r1))"
    and n: "\<not> isIPLessThan (fst x) (fst y)" "\<not> isIPLessThan (fst y) (fst x)"
  then have "x \<in> set (map bounds r1)" "y \<in> set (map bounds r1)"
    using mset_eq_setD [OF m [of r1]] by auto
  with assms(2) isIPLessThan_eq [OF n] show "x = y"
    by (auto simp: distinct_starts_def distinct_map inj_on_def)
qed (use SortStaticRanges_sorted [OF assms(1)] in auto)

lemma same_bounds:
  "list_all2 (\<lambda>a b. Addr (Begin a) = Addr (Begin b) \<and> Addr (End a) = Addr (End b)) r1 r2 \<longleftrightarrow> map bounds r1 = map bounds r2"
  by (induction r1 arbitrary: r2) (auto simp: bounds_def list_all2_Cons1 Cons_eq_map_conv map_eq_Cons_conv)

lemma IsStaticIPRangeEqual_eq:
  "IsStaticIPRangeEqual srt r1 r2 =
    (map bounds (SortStaticRanges srt r1) = map bounds (SortStaticRanges srt r2), SortStaticRanges srt r1, SortStaticRanges srt r2)"
  by (simp add: IsStaticIPRangeEqual_def Let_def same_bounds)

lemma sorted_bounds_mset:
  assumes "slice_sort_laws srt"
  shows "mset (map bounds (SortStaticRanges srt rs)) = mset (map bounds rs)"
  using SortStaticRanges_mset [OF assms, of rs] by simp

lemma sorted_bounds_sound:
  assumes "slice_sort_laws srt" "map bounds (SortStaticRanges srt r1) = map bounds (SortStaticRanges srt r2)"
  shows "mset (map bounds r1) = mset (map bounds r2)"
  using sorted_bounds_mset [OF assms(1), of r1] sorted_bounds_mset [OF assms(1), of r2] assms(2) by simp

text \<open>
  C20. The comparison of ranges against equality of the multisets of their first and last addresses, for
  any sorting routine that sorts (stable or not). If it answers true the multisets are equal. If the ranges
  of the first list begin at different addresses, it answers true exactly if they are; for two ranges with
  the same beginning the order of an unstable sort may make it answer false on equal multisets. It loses
  no range.
\<close>

theorem IsStaticIPRangeEqual_correct:
  assumes "slice_sort_laws srt"
  shows "\<exists>eq s1 s2. IsStaticIPRangeEqual srt r1 r2 = (eq, s1, s2) \<and> mset s1 = mset r1 \<and> mset s2 = mset r2 \<and>
    (eq \<longrightarrow> mset (map bounds r1) = mset (map bounds r2)) \<and>
    (distinct_starts (map bounds r1) \<longrightarrow> (eq \<longleftrightarrow> mset (map bounds r1) = mset (map bounds r2)))"
  using sorted_bounds_sound [OF assms, of r1 r2] SortStaticRanges_bounds [OF assms, of r1 r2]
  by (simp add: IsStaticIPRangeEqual_eq SortStaticRanges_mset [OF assms] del: mset_map) blast

text \<open>Insertion sort, as an instance of the sorting routine.\<close>

fun insert_by :: "('a \<Rightarrow> 'a \<Rightarrow> bool) \<Rightarrow> 'a \<Rightarrow> 'a list \<Rightarrow> 'a list" where
  "insert_by lt x [] = [x]"
| "insert_by lt x (y # ys) = (if lt y x then y # insert_by lt x ys else x # y # ys)"

fun isort_by :: "('a \<Rightarrow> 'a \<Rightarrow> bool) \<Rightarrow> 'a list \<Rightarrow> 'a list" where
  "isort_by lt [] = []"
| "isort_by lt (x # xs) = insert_by lt x (isort_by lt xs)"

lemma insert_by_mset [simp]: "mset (insert_by lt x ys) = add_mset x (mset ys)"
  by (induction ys) auto

lemma insert_by_sorted:
  assumes "strict_weak_order lt" "sorted_wrt (\<lambda>x y. \<not> lt y x) ys"
  shows "sorted_wrt (\<lambda>x y. \<not> lt y x) (insert_by lt x ys)"
  using assms(2)
proof (induction ys)
  case (Cons y ys)
  have s: "set (insert_by lt x ys) = insert x (set ys)"
    using mset_eq_setD [of "insert_by lt x ys" "x # ys"] by simp
  show ?case
  proof (cases "lt y x")
    case True
    with Cons s strict_weak_order.asym [OF assms(1) True] show ?thesis by auto
  next
    case False
    with Cons.prems strict_weak_order.neg_trans [OF assms(1), of _ y x] show ?thesis by auto
  qed
qed simp

lemma isort_by_laws [simp]: "slice_sort_laws isort_by"
  unfolding slice_sort_laws_def
proof (intro allI impI conjI)
  fix lt :: "StaticIPRange \<Rightarrow> StaticIPRange \<Rightarrow> bool" and xs assume l: "strict_weak_order lt"
  show "mset (isort_by lt xs) = mset xs" by (induction xs) auto
  show "sorted_wrt (\<lambda>x y. \<not> lt y x) (isort_by lt xs)"
    by (induction xs) (auto intro: insert_by_sorted [OF l])
qed

definition exampleRange :: "string \<Rightarrow> string \<Rightarrow> StaticIPRange" where
  "exampleRange a b = \<lparr>Begin = GetAddr a ''V4'', End = GetAddr b ''V4''\<rparr>"

lemma ParseIP_pools:
  "ParseIP ''10.0.0.10'' = [0,0,0,0,0,0,0,0,0,0,0xff,0xff,10,0,0,10]"
  "ParseIP ''10.0.0.20'' = [0,0,0,0,0,0,0,0,0,0,0xff,0xff,10,0,0,20]"
  by code_simp+

theorem IsStaticIPRangeEqual_correct_witness:
  "fst (IsStaticIPRangeEqual isort_by [exampleRange ''10.0.0.10'' ''10.0.0.15'', exampleRange ''10.0.0.20'' ''10.0.0.25'']
     [exampleRange ''10.0.0.20'' ''10.0.0.25'', exampleRange ''10.0.0.10'' ''10.0.0.15''])"
  using IsStaticIPRangeEqual_correct [OF isort_by_laws,
      of "[exampleRange ''10.0.0.10'' ''10.0.0.15'', exampleRange ''10.0.0.20'' ''10.0.0.25'']"
         "[exampleRange ''10.0.0.20'' ''10.0.0.25'', exampleRange ''10.0.0.10'' ''10.0.0.15'']"]
  by (auto simp: distinct_starts_def exampleRange_def bounds_def GetAddr_def ParseIP_pools)

section \<open>The network\<close>

definition has_prefix :: "Subnet \<Rightarrow> IPNet \<Rightarrow> int \<Rightarrow> bool" where
  "has_prefix s cidr ones \<longleftrightarrow>
     Addr (prefix_IPAddr (Prefix s)) = IP_String (net_IP cidr) \<and> prefix_Mask (Prefix s) = ones"

text \<open>A subnet carries the given pools (or any ranges, when no pools are configured).\<close>

definition carries_pools :: "Subnet \<Rightarrow> IPPool list option \<Rightarrow> bool" where
  "carries_pools s ipPools =
     (case ipPools of None \<Rightarrow> True
      | Some ps \<Rightarrow> mset (map bounds (StaticIPRanges s)) = mset (map pool_bounds ps))"

definition pools_ok :: "IPPool list option \<Rightarrow> bool" where
  "pools_ok ipPools = (case ipPools of None \<Rightarrow> True | Some ps \<Rightarrow> distinct_starts (map pool_bounds ps))"

lemma EnsureStaticRanges_correct:
  assumes "slice_sort_laws srt"
  shows "case EnsureStaticRanges srt s ipPools t of (m, s') \<Rightarrow>
           (\<not> m \<longrightarrow> carries_pools s ipPools) \<and> (pools_ok ipPools \<and> m \<longrightarrow> \<not> carries_pools s ipPools) \<and>
           carries_pools s' ipPools \<and> Prefix s' = Prefix s \<and>
           (\<not> m \<longrightarrow> mset (StaticIPRanges s') = mset (StaticIPRanges s))"
proof (cases ipPools)
  case None
  then show ?thesis by (simp add: EnsureStaticRanges_def carries_pools_def)
next
  case (Some ps)
  let ?c = "CreateStaticRangeFromIPPools ps"
  have b: "mset (map bounds ?c) = mset (map pool_bounds ps)" by (simp only: bounds_create)
  have d: "pools_ok ipPools \<longleftrightarrow> distinct_starts (map bounds ?c)" by (simp add: Some pools_ok_def)
  define same where "same \<longleftrightarrow> map bounds (SortStaticRanges srt ?c) = map bounds (SortStaticRanges srt (StaticIPRanges s))"
  have sound: "same \<Longrightarrow> carries_pools s ipPools"
    using sorted_bounds_sound [OF assms, of ?c "StaticIPRanges s"] unfolding same_def b by (simp only: Some carries_pools_def option.case)
  have complete: "pools_ok ipPools \<Longrightarrow> carries_pools s ipPools \<Longrightarrow> same"
    using SortStaticRanges_bounds [OF assms, of ?c "StaticIPRanges s"] unfolding d same_def b by (simp only: Some carries_pools_def option.case)
  have p: "carries_pools (s\<lparr>StaticIPRanges := SortStaticRanges srt rs\<rparr>) ipPools \<longleftrightarrow> mset (map bounds rs) = mset (map pool_bounds ps)" for rs
    using sorted_bounds_mset [OF assms, of rs] by (simp add: Some carries_pools_def del: mset_map)
  have e: "EnsureStaticRanges srt s ipPools t =
      (\<not> same, s\<lparr>StaticIPRanges := SortStaticRanges srt (if same then StaticIPRanges s else ?c)\<rparr>)"
    by (simp add: Some EnsureStaticRanges_def IsStaticIPRangeEqual_eq same_def)
  have "same \<Longrightarrow> mset (map bounds (StaticIPRanges s)) = mset (map pool_bounds ps)"
    using sound by (simp only: Some carries_pools_def option.case)
  then show ?thesis
    unfolding e using sound complete p [of "StaticIPRanges s"] p [of ?c] b SortStaticRanges_mset [OF assms]
    by (cases same) (simp_all del: mset_map, blast+)
qed

lemma contains_subnet:
  "AviNetworkContainsSubnet n (IP_String (net_IP cidr)) ones = find_index (\<lambda>s. has_prefix s cidr ones) (ConfiguredSubnets n)"
  by (simp add: AviNetworkContainsSubnet_def has_prefix_def)

lemma EnsureAviNetwork_settled:
  assumes "slice_sort_laws srt" "pools_ok ipPools"
    and "find_index (\<lambda>s. has_prefix s cidr ones) (ConfiguredSubnets n) = Some i"
    and "carries_pools (ConfiguredSubnets n ! i) ipPools"
  shows "\<not> fst (EnsureAviNetwork srt n t cidr ones ipPools)"
  using EnsureStaticRanges_correct [OF assms(1), of "ConfiguredSubnets n ! i" ipPools t] assms(2-4)
  by (auto simp: EnsureAviNetwork_def contains_subnet split: prod.splits)

text \<open>
  C19. \<open>EnsureAviNetwork\<close> brings the network to the intended state, for any pools: afterwards the first subnet
  with the CIDR of the data network carries exactly the configured pools (they replace the ranges that
  were there; where no pools are configured, the ranges stay), every other subnet is as before, and if the
  answer is that nothing changed, nothing did. If the pools begin at different addresses, the answer is that
  something changed only if the state was not right before, and applied to its own result the function has
  nothing to update.
\<close>

theorem EnsureAviNetwork_correct:
  assumes "slice_sort_laws srt" "EnsureAviNetwork srt n t cidr ones ipPools = (m, n')"
  shows "\<exists>i < length (ConfiguredSubnets n').
           find_index (\<lambda>s. has_prefix s cidr ones) (ConfiguredSubnets n') = Some i \<and>
           carries_pools (ConfiguredSubnets n' ! i) ipPools \<and>
           (\<forall>j < length (ConfiguredSubnets n). j \<noteq> i \<longrightarrow> ConfiguredSubnets n' ! j = ConfiguredSubnets n ! j) \<and>
           (\<not> m \<longrightarrow> mset (StaticIPRanges (ConfiguredSubnets n' ! i)) = mset (StaticIPRanges (ConfiguredSubnets n ! i))) \<and>
           (pools_ok ipPools \<and> m \<longrightarrow> find_index (\<lambda>s. has_prefix s cidr ones) (ConfiguredSubnets n) = None \<or>
              \<not> carries_pools (ConfiguredSubnets n ! i) ipPools)
         \<and> nw_Name n' = nw_Name n \<and> nw_URL n' = nw_URL n
         \<and> (pools_ok ipPools \<longrightarrow> fst (EnsureAviNetwork srt n' t cidr ones ipPools) = False)"
proof (cases "find_index (\<lambda>s. has_prefix s cidr ones) (ConfiguredSubnets n)")
  case None
  let ?s = "\<lparr>Prefix = \<lparr>prefix_IPAddr = GetAddr (IP_String (net_IP cidr)) t, prefix_Mask = ones\<rparr>,
             StaticIPRanges = CreateStaticRangeFromIPPools (case ipPools of None \<Rightarrow> [] | Some ps \<Rightarrow> ps)\<rparr>"
  from None assms(2) have n': "n' = n\<lparr>ConfiguredSubnets := ConfiguredSubnets n @ [?s]\<rparr>" and m
    by (auto simp: EnsureAviNetwork_def contains_subnet Let_def)
  have i: "find_index (\<lambda>s. has_prefix s cidr ones) (ConfiguredSubnets n') = Some (length (ConfiguredSubnets n))"
  proof -
    have "has_prefix ?s cidr ones" by (simp add: has_prefix_def GetAddr_def)
    with find_index_snoc [OF None, of ?s] show ?thesis by (simp add: n')
  qed
  have c: "carries_pools ?s ipPools"
    by (simp add: carries_pools_def bounds_create split: option.splits flip: mset_map)
  have "\<not> fst (EnsureAviNetwork srt n' t cidr ones ipPools)" if "pools_ok ipPools"
    by (rule EnsureAviNetwork_settled [OF assms(1) that i]) (use c in \<open>simp add: n'\<close>)
  with i c \<open>m\<close> None show ?thesis by (auto simp: n' nth_append)
next
  case (Some i)
  let ?old = "ConfiguredSubnets n ! i"
  obtain s where s: "EnsureStaticRanges srt ?old ipPools t = (m, s)"
    and n': "n' = n\<lparr>ConfiguredSubnets := (ConfiguredSubnets n)[i := s]\<rparr>"
    using assms(2) by (auto simp: EnsureAviNetwork_def contains_subnet Some split: prod.splits)
  note e = EnsureStaticRanges_correct [OF assms(1), of ?old ipPools t, unfolded s, simplified]
  note f = find_index_SomeD [OF Some]
  have i: "find_index (\<lambda>s. has_prefix s cidr ones) (ConfiguredSubnets n') = Some i"
  proof -
    have "has_prefix s cidr ones" using f e by (simp add: has_prefix_def)
    with find_index_update [OF Some] show ?thesis by (simp add: n')
  qed
  have "\<not> fst (EnsureAviNetwork srt n' t cidr ones ipPools)" if "pools_ok ipPools"
    by (rule EnsureAviNetwork_settled [OF assms(1) that i]) (use e f in \<open>simp add: n'\<close>)
  with i e f show ?thesis by (auto simp: n')
qed

definition exampleNetwork :: Network where
  "exampleNetwork = \<lparr>nw_Name = ''VM Network'', nw_URL = Some ''https://10.0.0.1/api/network/net-1#VM Network'', ConfiguredSubnets = []\<rparr>"

definition exampleCidr :: IPNet where
  "exampleCidr = \<lparr>net_IP = [10, 0, 0, 0], net_Mask = [255, 255, 255, 0]\<rparr>"

definition examplePools :: "IPPool list option" where
  "examplePools = Some [\<lparr>pool_Start = ''10.0.0.20'', pool_End = ''10.0.0.25'', pool_Type = ''V4''\<rparr>,
                        \<lparr>pool_Start = ''10.0.0.10'', pool_End = ''10.0.0.15'', pool_Type = ''V4''\<rparr>]"

lemma examplePools_ok: "pools_ok examplePools"
  by (simp add: pools_ok_def examplePools_def distinct_starts_def pool_bounds_def ParseIP_pools)

theorem EnsureAviNetwork_correct_witness:
  "fst (EnsureAviNetwork isort_by exampleNetwork ''V4'' exampleCidr 24 examplePools) \<and>
   \<not> fst (EnsureAviNetwork isort_by (snd (EnsureAviNetwork isort_by exampleNetwork ''V4'' exampleCidr 24 examplePools))
        ''V4'' exampleCidr 24 examplePools)"
proof
  show "fst (EnsureAviNetwork isort_by exampleNetwork ''V4'' exampleCidr 24 examplePools)"
    by (simp add: EnsureAviNetwork_def AviNetworkContainsSubnet_def exampleNetwork_def)
  show "\<not> fst (EnsureAviNetwork isort_by (snd (EnsureAviNetwork isort_by exampleNetwork ''V4'' exampleCidr 24 examplePools))
        ''V4'' exampleCidr 24 examplePools)"
    using EnsureAviNetwork_correct [OF isort_by_laws surjective_pairing] examplePools_ok by blast
qed

section \<open>Usable networks\<close>

lemma network_usable_True:
  "network_usable url refs = Ret True \<Longrightarrow> \<exists>u r. url = Some u \<and> Some r \<in> set refs \<and> strings_Contains u r"
  by (induction refs) (auto split: option.splits if_splits)

lemma network_usable_False:
  "network_usable url refs = Ret False \<Longrightarrow> Some r \<in> set refs \<Longrightarrow> \<not> strings_Contains (the url) r"
  by (induction refs) (auto split: option.splits if_splits)

text \<open>
  \<open>AddUsableNetwork\<close> reports success for a cloud with an IPAM provider only if the network is among
  the usable networks of the profile: it found a reference contained in the network's URL, or it
  wrote the profile back with the URL appended and nothing removed.
\<close>

theorem AddUsableNetwork_success:
  assumes "wrap_laws L"
    and "CloudGetByName cl cloudName w = (Inr cloud, w1)" "IPAMProviderRef cloud = Some ref"
    and "AddUsableNetwork L cl cloudName networkName w = (Ret None, w')"
  shows "\<exists>ipam w2 network w3 refs.
           IPAMDNSProviderProfileGet cl (GetUUIDFromRef ref) w1 = (Inr ipam, w2) \<and>
           NetworkGetByName cl networkName cloudName w2 = (Ret (Inr network), w3) \<and>
           InternalProfile ipam = Some refs \<and>
           ((\<exists>u r. nw_URL network = Some u \<and> Some r \<in> set refs \<and> strings_Contains u r \<and> w' = w3) \<or>
            (\<exists>ipam'. IPAMDNSProviderProfileUpdate cl (ipam\<lparr>InternalProfile := Some (refs @ [nw_URL network])\<rparr>) w3 = (Inr ipam', w')))"
  using assms
  by (auto simp: AddUsableNetwork_def wrap_laws_def split: prod.splits sum.splits option.splits outcome.splits bool.splits)
    (auto dest!: network_usable_True)

definition cloudWorld :: amem where
  "cloudWorld = amem0\<lparr>a_clouds := [\<lparr>cloud_Name = ''cloud'', IPAMProviderRef = Some ''https://10.0.0.1/api/ipam-1''\<rparr>],
     a_ipams := [\<lparr>ipam_UUID = ''ipam-1'', InternalProfile = Some []\<rparr>], a_networks := [exampleNetwork]\<rparr>"

lemma cloudWorld_run:
  "\<exists>w'. AddUsableNetwork ref_lib ref_client ''cloud'' ''VM Network'' cloudWorld = (Ret None, w') \<and>
     map InternalProfile (a_ipams w') = [Some [nw_URL exampleNetwork]]"
proof -
  have "GetUUIDFromRef ''https://10.0.0.1/api/ipam-1'' = ''ipam-1''" by code_simp
  then show ?thesis by (simp add: AddUsableNetwork_def avi_defs cloudWorld_def exampleNetwork_def)
qed

theorem AddUsableNetwork_success_witness:
  "\<exists>w' ipam w2. AddUsableNetwork ref_lib ref_client ''cloud'' ''VM Network'' cloudWorld = (Ret None, w') \<and>
     IPAMDNSProviderProfileGet ref_client (GetUUIDFromRef ''https://10.0.0.1/api/ipam-1'') cloudWorld = (Inr ipam, w2)"
proof -
  have c: "CloudGetByName ref_client ''cloud'' cloudWorld =
      (Inr \<lparr>cloud_Name = ''cloud'', IPAMProviderRef = Some ''https://10.0.0.1/api/ipam-1''\<rparr>, cloudWorld)"
    by (simp add: avi_defs cloudWorld_def)
  from cloudWorld_run obtain w' where
    r: "AddUsableNetwork ref_lib ref_client ''cloud'' ''VM Network'' cloudWorld = (Ret None, w')" by blast
  from AddUsableNetwork_success [OF ref_wrap_laws c _ r, simplified] r show ?thesis by blast
qed

text \<open>
  For a cloud without an IPAM provider the error is lost: \<open>errors.Wrap\<close> is applied to the nil error of
  the successful lookup, so the call reports success and adds nothing.
\<close>

theorem AddUsableNetwork_no_ipam:
  assumes "wrap_laws L"
    and "CloudGetByName cl cloudName w = (Inr cloud, w1)" "IPAMProviderRef cloud = None"
  shows "AddUsableNetwork L cl cloudName networkName w = (Ret None, w1)"
  using assms by (simp add: AddUsableNetwork_def wrap_laws_def)

theorem AddUsableNetwork_no_ipam_witness:
  "AddUsableNetwork ref_lib ref_client ''cloud'' ''VM Network''
     (amem0\<lparr>a_clouds := [\<lparr>cloud_Name = ''cloud'', IPAMProviderRef = None\<rparr>]\<rparr>) =
   (Ret None, amem0\<lparr>a_clouds := [\<lparr>cloud_Name = ''cloud'', IPAMProviderRef = None\<rparr>]\<rparr>)"
  by (rule AddUsableNetwork_no_ipam [OF ref_wrap_laws, where cloud = "\<lparr>cloud_Name = ''cloud'', IPAMProviderRef = None\<rparr>"])
    (simp_all add: avi_defs)

end
