(* ===== verification/Ako_Role.thy ===== *)
theory Ako_Role
  imports Ref_Avi "HOL-Library.Multiset"
begin

text \<open>
  The role of the AKO users in the AVI controller: \<open>src/controllers/akodeploymentconfig/user/ako_role.go\<close>
  and \<open>syncAkoUserRole\<close> of \<open>user_controller.go\<close> next to it.

  A Go map is iterated in an unspecified order: \<open>syncAkoUserRole\<close> takes the order as an argument,
  with the hypothesis \<open>map_order\<close> that it lists every entry once.
\<close>

section \<open>The permissions\<close>

definition AkoRolePermissionEntries :: "(string \<times> string) list" where
  "AkoRolePermissionEntries =
     [
      (''PERMISSION_VIRTUALSERVICE'', ''WRITE_ACCESS''),
      (''PERMISSION_POOL'', ''WRITE_ACCESS''),
      (''PERMISSION_POOLGROUP'', ''WRITE_ACCESS''),
      (''PERMISSION_HTTPPOLICYSET'', ''WRITE_ACCESS''),
      (''PERMISSION_NETWORKSECURITYPOLICY'', ''WRITE_ACCESS''),
      (''PERMISSION_AUTOSCALE'', ''WRITE_ACCESS''),
      (''PERMISSION_DNSPOLICY'', ''WRITE_ACCESS''),
      (''PERMISSION_NETWORKPROFILE'', ''WRITE_ACCESS''),
      (''PERMISSION_APPLICATIONPROFILE'', ''WRITE_ACCESS''),
      (''PERMISSION_APPLICATIONPERSISTENCEPROFILE'', ''WRITE_ACCESS''),
      (''PERMISSION_HEALTHMONITOR'', ''WRITE_ACCESS''),
      (''PERMISSION_ANALYTICSPROFILE'', ''WRITE_ACCESS''),
      (''PERMISSION_IPAMDNSPROVIDERPROFILE'', ''WRITE_ACCESS''),
      (''PERMISSION_CUSTOMIPAMDNSPROFILE'', ''WRITE_ACCESS''),
      (''PERMISSION_TRAFFICCLONEPROFILE'', ''WRITE_ACCESS''),
      (''PERMISSION_VSDATASCRIPTSET'', ''WRITE_ACCESS''),
      (''PERMISSION_PKIPROFILE'', ''WRITE_ACCESS''),
      (''PERMISSION_SSLKEYANDCERTIFICATE'', ''WRITE_ACCESS''),
      (''PERMISSION_SERVICEENGINEGROUP'', ''WRITE_ACCESS''),
      (''PERMISSION_NETWORK'', ''WRITE_ACCESS''),
      (''PERMISSION_VRFCONTEXT'', ''WRITE_ACCESS''),
      (''PERMISSION_L4POLICYSET'', ''WRITE_ACCESS''),
      (''PERMISSION_IPADDRGROUP'', ''READ_ACCESS''),
      (''PERMISSION_STRINGGROUP'', ''READ_ACCESS''),
      (''PERMISSION_PROTOCOLPARSER'', ''READ_ACCESS''),
      (''PERMISSION_SSLPROFILE'', ''READ_ACCESS''),
      (''PERMISSION_AUTHPROFILE'', ''READ_ACCESS''),
      (''PERMISSION_PINGACCESSAGENT'', ''READ_ACCESS''),
      (''PERMISSION_CERTIFICATEMANAGEMENTPROFILE'', ''READ_ACCESS''),
      (''PERMISSION_HARDWARESECURITYMODULEGROUP'', ''READ_ACCESS''),
      (''PERMISSION_SSOPOLICY'', ''READ_ACCESS''),
      (''PERMISSION_WAFPROFILE'', ''READ_ACCESS''),
      (''PERMISSION_WAFPOLICY'', ''READ_ACCESS''),
      (''PERMISSION_CLOUD'', ''READ_ACCESS''),
      (''PERMISSION_SYSTEMCONFIGURATION'', ''READ_ACCESS''),
      (''PERMISSION_CONTROLLER'', ''READ_ACCESS''),
      (''PERMISSION_TENANT'', ''READ_ACCESS''),
      (''PERMISSION_NATPOLICY'', ''NO_ACCESS''),
      (''PERMISSION_WAFPOLICYPSMGROUP'', ''NO_ACCESS''),
      (''PERMISSION_ERRORPAGEPROFILE'', ''NO_ACCESS''),
      (''PERMISSION_ERRORPAGEBODY'', ''NO_ACCESS''),
      (''PERMISSION_ALERTCONFIG'', ''NO_ACCESS''),
      (''PERMISSION_ALERT'', ''NO_ACCESS''),
      (''PERMISSION_ACTIONGROUPCONFIG'', ''NO_ACCESS''),
      (''PERMISSION_ALERTSYSLOGCONFIG'', ''NO_ACCESS''),
      (''PERMISSION_ALERTEMAILCONFIG'', ''NO_ACCESS''),
      (''PERMISSION_SNMPTRAPPROFILE'', ''NO_ACCESS''),
      (''PERMISSION_TRAFFIC_CAPTURE'', ''NO_ACCESS''),
      (''PERMISSION_SERVICEENGINE'', ''NO_ACCESS''),
      (''PERMISSION_USER_CREDENTIAL'', ''NO_ACCESS''),
      (''PERMISSION_REBOOT'', ''NO_ACCESS''),
      (''PERMISSION_UPGRADE'', ''NO_ACCESS''),
      (''PERMISSION_TECHSUPPORT'', ''NO_ACCESS''),
      (''PERMISSION_INTERNAL'', ''NO_ACCESS''),
      (''PERMISSION_CONTROLLERSITE'', ''NO_ACCESS''),
      (''PERMISSION_IMAGE'', ''NO_ACCESS''),
      (''PERMISSION_USER'', ''NO_ACCESS''),
      (''PERMISSION_ROLE'', ''NO_ACCESS''),
      (''PERMISSION_GSLB'', ''NO_ACCESS''),
      (''PERMISSION_GSLBSERVICE'', ''NO_ACCESS''),
      (''PERMISSION_GSLBGEODBPROFILE'', ''NO_ACCESS'')
     ]"

definition AkoRolePermissionMap :: "string \<rightharpoonup> string" where
  "AkoRolePermissionMap = map_of AkoRolePermissionEntries"

definition perm :: "string \<Rightarrow> string \<Rightarrow> Permission" where
  "perm t r = \<lparr>Resource = r, perm_Type = t\<rparr>"

text \<open>The list in two parts: applications and their profiles, then operations and administration.\<close>

definition applicationPermissions :: "Permission list" where
  "applicationPermissions =
     [
      perm ''WRITE_ACCESS'' ''PERMISSION_VIRTUALSERVICE'',
      perm ''WRITE_ACCESS'' ''PERMISSION_POOL'',
      perm ''WRITE_ACCESS'' ''PERMISSION_POOLGROUP'',
      perm ''WRITE_ACCESS'' ''PERMISSION_HTTPPOLICYSET'',
      perm ''WRITE_ACCESS'' ''PERMISSION_NETWORKSECURITYPOLICY'',
      perm ''WRITE_ACCESS'' ''PERMISSION_AUTOSCALE'',
      perm ''WRITE_ACCESS'' ''PERMISSION_DNSPOLICY'',
      perm ''WRITE_ACCESS'' ''PERMISSION_NETWORKPROFILE'',
      perm ''WRITE_ACCESS'' ''PERMISSION_APPLICATIONPROFILE'',
      perm ''WRITE_ACCESS'' ''PERMISSION_APPLICATIONPERSISTENCEPROFILE'',
      perm ''WRITE_ACCESS'' ''PERMISSION_HEALTHMONITOR'',
      perm ''WRITE_ACCESS'' ''PERMISSION_ANALYTICSPROFILE'',
      perm ''WRITE_ACCESS'' ''PERMISSION_IPAMDNSPROVIDERPROFILE'',
      perm ''WRITE_ACCESS'' ''PERMISSION_CUSTOMIPAMDNSPROFILE'',
      perm ''WRITE_ACCESS'' ''PERMISSION_TRAFFICCLONEPROFILE'',
      perm ''READ_ACCESS'' ''PERMISSION_IPADDRGROUP'',
      perm ''READ_ACCESS'' ''PERMISSION_STRINGGROUP'',
      perm ''WRITE_ACCESS'' ''PERMISSION_VSDATASCRIPTSET'',
      perm ''READ_ACCESS'' ''PERMISSION_PROTOCOLPARSER'',
      perm ''READ_ACCESS'' ''PERMISSION_SSLPROFILE'',
      perm ''READ_ACCESS'' ''PERMISSION_AUTHPROFILE'',
      perm ''READ_ACCESS'' ''PERMISSION_PINGACCESSAGENT'',
      perm ''WRITE_ACCESS'' ''PERMISSION_PKIPROFILE'',
      perm ''WRITE_ACCESS'' ''PERMISSION_SSLKEYANDCERTIFICATE'',
      perm ''READ_ACCESS'' ''PERMISSION_CERTIFICATEMANAGEMENTPROFILE'',
      perm ''READ_ACCESS'' ''PERMISSION_HARDWARESECURITYMODULEGROUP'',
      perm ''READ_ACCESS'' ''PERMISSION_SSOPOLICY'',
      perm ''NO_ACCESS'' ''PERMISSION_NATPOLICY'',
      perm ''READ_ACCESS'' ''PERMISSION_WAFPROFILE'',
      perm ''READ_ACCESS'' ''PERMISSION_WAFPOLICY'',
      perm ''NO_ACCESS'' ''PERMISSION_WAFPOLICYPSMGROUP'',
      perm ''NO_ACCESS'' ''PERMISSION_ERRORPAGEPROFILE'',
      perm ''NO_ACCESS'' ''PERMISSION_ERRORPAGEBODY''
     ]"

definition operationsPermissions :: "Permission list" where
  "operationsPermissions =
     [
      perm ''NO_ACCESS'' ''PERMISSION_ALERTCONFIG'',
      perm ''NO_ACCESS'' ''PERMISSION_ALERT'',
      perm ''NO_ACCESS'' ''PERMISSION_ACTIONGROUPCONFIG'',
      perm ''NO_ACCESS'' ''PERMISSION_ALERTSYSLOGCONFIG'',
      perm ''NO_ACCESS'' ''PERMISSION_ALERTEMAILCONFIG'',
      perm ''NO_ACCESS'' ''PERMISSION_SNMPTRAPPROFILE'',
      perm ''NO_ACCESS'' ''PERMISSION_TRAFFIC_CAPTURE'',
      perm ''READ_ACCESS'' ''PERMISSION_CLOUD'',
      perm ''NO_ACCESS'' ''PERMISSION_SERVICEENGINE'',
      perm ''WRITE_ACCESS'' ''PERMISSION_SERVICEENGINEGROUP'',
      perm ''WRITE_ACCESS'' ''PERMISSION_NETWORK'',
      perm ''WRITE_ACCESS'' ''PERMISSION_VRFCONTEXT'',
      perm ''NO_ACCESS'' ''PERMISSION_USER_CREDENTIAL'',
      perm ''READ_ACCESS'' ''PERMISSION_SYSTEMCONFIGURATION'',
      perm ''READ_ACCESS'' ''PERMISSION_CONTROLLER'',
      perm ''NO_ACCESS'' ''PERMISSION_REBOOT'',
      perm ''NO_ACCESS'' ''PERMISSION_UPGRADE'',
      perm ''NO_ACCESS'' ''PERMISSION_TECHSUPPORT'',
      perm ''NO_ACCESS'' ''PERMISSION_INTERNAL'',
      perm ''NO_ACCESS'' ''PERMISSION_CONTROLLERSITE'',
      perm ''NO_ACCESS'' ''PERMISSION_IMAGE'',
      perm ''NO_ACCESS'' ''PERMISSION_USER'',
      perm ''NO_ACCESS'' ''PERMISSION_ROLE'',
      perm ''READ_ACCESS'' ''PERMISSION_TENANT'',
      perm ''NO_ACCESS'' ''PERMISSION_GSLB'',
      perm ''NO_ACCESS'' ''PERMISSION_GSLBSERVICE'',
      perm ''NO_ACCESS'' ''PERMISSION_GSLBGEODBPROFILE'',
      perm ''WRITE_ACCESS'' ''PERMISSION_L4POLICYSET''
     ]"

definition AkoRolePermission :: "Permission list" where
  "AkoRolePermission = applicationPermissions @ operationsPermissions"

definition deprecatePermissionMap :: "string \<rightharpoonup> string" where
  "deprecatePermissionMap = [''PERMISSION_PINGACCESSAGENT'' \<mapsto> ''v30.2.1'']"

definition deprecated :: "lib \<Rightarrow> string \<Rightarrow> string \<Rightarrow> bool" where
  "deprecated L version resource =
     (case deprecatePermissionMap resource of None \<Rightarrow> False | Some v \<Rightarrow> semver_Compare L version v \<ge> 0)"

definition filterAkoRolePermissionByVersion :: "lib \<Rightarrow> Permission list \<Rightarrow> string \<Rightarrow> Permission list" where
  "filterAkoRolePermissionByVersion L permissions version =
     filter (\<lambda>p. \<not> deprecated L version (Resource p)) permissions"

section \<open>Synchronising a role\<close>

text \<open>The first loop: wrong types are corrected; the resources that are part of the AKO role are noted.\<close>

fun fix_types :: "Permission list \<Rightarrow> Permission list \<times> string list \<times> bool" where
  "fix_types [] = ([], [], False)"
| "fix_types (p # ps) =
     (case fix_types ps of
        (ps', existing, updated) \<Rightarrow>
          (case AkoRolePermissionMap (Resource p) of
             None \<Rightarrow> (p # ps', existing, updated)
           | Some desiredType \<Rightarrow>
               (if perm_Type p \<noteq> desiredType
                then (p\<lparr>perm_Type := desiredType\<rparr> # ps', Resource p # existing, True)
                else (p # ps', Resource p # existing, updated))))"

text \<open>The second loop: what is missing and not deprecated is appended.\<close>

definition missing_permissions :: "lib \<Rightarrow> (string \<times> string) list \<Rightarrow> string list \<Rightarrow> string \<Rightarrow> Permission list" where
  "missing_permissions L order existing version =
     map (\<lambda>(r, t). perm t r)
       (filter (\<lambda>(r, t). r \<notin> set existing \<and> \<not> deprecated L version r) order)"

definition syncAkoUserRole :: "lib \<Rightarrow> (string \<times> string) list \<Rightarrow> Role \<Rightarrow> string \<Rightarrow> bool \<times> Role" where
  "syncAkoUserRole L order role version =
     (case fix_types (Privileges role) of
        (privileges, existing, updated) \<Rightarrow>
          (let added = missing_permissions L order existing version
           in (updated \<or> added \<noteq> [], role\<lparr>Privileges := privileges @ added\<rparr>)))"

definition map_order :: "(string \<times> string) list \<Rightarrow> bool" where
  "map_order order \<longleftrightarrow> mset order = mset AkoRolePermissionEntries"

section \<open>Properties\<close>

lemma entries_distinct: "distinct (map fst AkoRolePermissionEntries)"
  by code_simp

lemma AkoRolePermissionMap_iff: "AkoRolePermissionMap r = Some t \<longleftrightarrow> (r, t) \<in> set AkoRolePermissionEntries"
  using entries_distinct by (simp add: AkoRolePermissionMap_def)

text \<open>The list for new roles and the map for existing ones hold the same permissions.\<close>

lemma list_in_map: "p \<in> set AkoRolePermission \<Longrightarrow> AkoRolePermissionMap (Resource p) = Some (perm_Type p)"
proof -
  have "list_all (\<lambda>p. AkoRolePermissionMap (Resource p) = Some (perm_Type p)) AkoRolePermission" by code_simp
  then show "p \<in> set AkoRolePermission \<Longrightarrow> AkoRolePermissionMap (Resource p) = Some (perm_Type p)"
    by (simp add: list_all_iff)
qed

lemma map_in_list: "(r, t) \<in> set AkoRolePermissionEntries \<Longrightarrow> r \<in> Resource ` set AkoRolePermission"
proof -
  have "list_all (\<lambda>e. List.member (map Resource AkoRolePermission) (fst e)) AkoRolePermissionEntries" by code_simp
  then show "(r, t) \<in> set AkoRolePermissionEntries \<Longrightarrow> r \<in> Resource ` set AkoRolePermission"
    by (force simp: list_all_iff)
qed

text \<open>A permission with the type the AKO role wants for its resource, if it wants one.\<close>

definition fixed :: "Permission \<Rightarrow> Permission" where
  "fixed p = (case AkoRolePermissionMap (Resource p) of None \<Rightarrow> p | Some t \<Rightarrow> p\<lparr>perm_Type := t\<rparr>)"

lemma fix_types_eq:
  "fix_types ps = (map fixed ps, filter (\<lambda>r. AkoRolePermissionMap r \<noteq> None) (map Resource ps),
                   \<exists>p \<in> set ps. fixed p \<noteq> p)"
proof (induction ps)
  case (Cons p ps)
  have "(\<lparr>Resource = Resource p, perm_Type = t\<rparr> = p) = (perm_Type p = t)" for t by (cases p) auto
  with Cons show ?case by (cases p) (auto simp: fixed_def split: option.splits)
qed simp

lemma fixed_Resource [simp]: "Resource (fixed p) = Resource p"
  by (simp add: fixed_def split: option.splits)

lemma fixed_type: "AkoRolePermissionMap (Resource p) = Some t \<Longrightarrow> perm_Type (fixed p) = t"
  by (simp add: fixed_def)

lemma fixed_idem [simp]: "fixed (fixed p) = fixed p"
  by (simp add: fixed_def split: option.splits)

lemma fixed_unchanged: "map fixed ps = ps \<longleftrightarrow> (\<forall>p \<in> set ps. fixed p = p)"
  by (induction ps) auto

text \<open>What the code wants of a role.\<close>

definition role_ok :: "lib \<Rightarrow> string \<Rightarrow> Permission list \<Rightarrow> bool" where
  "role_ok L version ps \<longleftrightarrow>
     (\<forall>p \<in> set ps. \<forall>t. AkoRolePermissionMap (Resource p) = Some t \<longrightarrow> perm_Type p = t) \<and>
     (\<forall>r t. AkoRolePermissionMap r = Some t \<longrightarrow> deprecated L version r \<or> (\<exists>p \<in> set ps. Resource p = r))"

lemma role_ok_fixed: "role_ok L version ps \<Longrightarrow> p \<in> set ps \<Longrightarrow> fixed p = p"
  by (cases p) (auto simp: role_ok_def fixed_def split: option.splits)

lemma sync_eq:
  "syncAkoUserRole L order role version =
     (let added = missing_permissions L order (filter (\<lambda>r. AkoRolePermissionMap r \<noteq> None) (map Resource (Privileges role))) version
      in ((\<exists>p \<in> set (Privileges role). fixed p \<noteq> p) \<or> added \<noteq> [], role\<lparr>Privileges := map fixed (Privileges role) @ added\<rparr>))"
  by (simp add: syncAkoUserRole_def fix_types_eq Let_def)

lemma missing_iff:
  assumes "map_order order"
  shows "p \<in> set (missing_permissions L order existing version) \<longleftrightarrow>
     AkoRolePermissionMap (Resource p) = Some (perm_Type p) \<and> Resource p \<notin> set existing \<and> \<not> deprecated L version (Resource p)"
proof -
  have "set order = set AkoRolePermissionEntries"
    using assms mset_eq_setD by (auto simp: map_order_def)
  then show ?thesis
    by (cases p) (force simp: missing_permissions_def AkoRolePermissionMap_iff perm_def)
qed

lemma sync_role:
  assumes "map_order order"
  shows "\<exists>added. syncAkoUserRole L order role version =
           (\<not> role_ok L version (Privileges role), role\<lparr>Privileges := map fixed (Privileges role) @ added\<rparr>) \<and>
         role_ok L version (map fixed (Privileges role) @ added) \<and>
         (\<forall>p \<in> set added. AkoRolePermissionMap (Resource p) = Some (perm_Type p)) \<and>
         (role_ok L version (Privileges role) \<longrightarrow> role\<lparr>Privileges := map fixed (Privileges role) @ added\<rparr> = role)"
proof -
  let ?ps = "Privileges role"
  define added where "added = missing_permissions L order (filter (\<lambda>r. AkoRolePermissionMap r \<noteq> None) (map Resource ?ps)) version"
  have mem: "p \<in> set added \<longleftrightarrow> AkoRolePermissionMap (Resource p) = Some (perm_Type p) \<and>
      Resource p \<notin> Resource ` set ?ps \<and> \<not> deprecated L version (Resource p)" for p
    unfolding added_def missing_iff [OF assms] by auto
  have ex: "\<exists>p \<in> set added. Resource p = r"
    if "AkoRolePermissionMap r = Some t" "r \<notin> Resource ` set ?ps" "\<not> deprecated L version r" for r t
    using that mem [of "perm t r"] by (intro bexI [of _ "perm t r"]) (auto simp: perm_def)
  have ok: "role_ok L version (map fixed ?ps @ added)"
    unfolding role_ok_def
  proof (intro conjI ballI allI impI)
    fix p t assume "p \<in> set (map fixed ?ps @ added)" "AkoRolePermissionMap (Resource p) = Some t"
    then show "perm_Type p = t" using mem [of p] by (auto simp: fixed_type)
  next
    fix r t assume "AkoRolePermissionMap r = Some t"
    then show "deprecated L version r \<or> (\<exists>p \<in> set (map fixed ?ps @ added). Resource p = r)"
      using ex [of r t] by (cases "r \<in> Resource ` set ?ps") (auto simp: bex_Un)
  qed
  have iff: "role_ok L version ?ps \<longleftrightarrow> (\<forall>p \<in> set ?ps. fixed p = p) \<and> added = []"
  proof
    assume r: "role_ok L version ?ps"
    then have "p \<notin> set added" for p using mem [of p] unfolding role_ok_def by (metis imageI)
    then have "added = []" by (cases added) auto
    with r role_ok_fixed show "(\<forall>p \<in> set ?ps. fixed p = p) \<and> added = []" by blast
  next
    assume "(\<forall>p \<in> set ?ps. fixed p = p) \<and> added = []"
    then have "map fixed ?ps @ added = ?ps" by (simp add: fixed_unchanged)
    with ok show "role_ok L version ?ps" by simp
  qed
  then have same: "role_ok L version ?ps \<Longrightarrow> role\<lparr>Privileges := map fixed ?ps @ added\<rparr> = role"
    by (simp add: fixed_unchanged [THEN iffD2])
  have "syncAkoUserRole L order role version =
      ((\<exists>p \<in> set ?ps. fixed p \<noteq> p) \<or> added \<noteq> [], role\<lparr>Privileges := map fixed ?ps @ added\<rparr>)"
    unfolding sync_eq added_def Let_def ..
  with ok iff same mem show ?thesis by (intro exI [of _ added]) auto
qed

text \<open>
  C21. \<open>syncAkoUserRole\<close> makes a role right and nothing more, in whatever order the map is iterated: the
  result has every wanted permission with its type, except that deprecated ones are not added; the
  permissions the role had stay in place, with their types changed only where the AKO role says so;
  everything added is a permission of the AKO role; and the answer is true exactly if the role was
  changed, which is the case exactly if it was not right.
\<close>

theorem syncAkoUserRole_correct:
  assumes "map_order order"
  shows "\<exists>added. syncAkoUserRole L order role version =
           (\<not> role_ok L version (Privileges role), role\<lparr>Privileges := map fixed (Privileges role) @ added\<rparr>) \<and>
         role_ok L version (map fixed (Privileges role) @ added) \<and>
         (\<forall>p \<in> set added. AkoRolePermissionMap (Resource p) = Some (perm_Type p)) \<and>
         (role_ok L version (Privileges role) \<longrightarrow> role\<lparr>Privileges := map fixed (Privileges role) @ added\<rparr> = role)"
  by (rule sync_role [OF assms])

lemma entries_order: "map_order AkoRolePermissionEntries"
  by (simp add: map_order_def)

theorem syncAkoUserRole_correct_witness:
  "\<exists>added. snd (syncAkoUserRole ref_lib AkoRolePermissionEntries \<lparr>role_Name = [], role_URL = None, role_TenantRef = None, Privileges = []\<rparr> ''v22.1.3'') =
     \<lparr>role_Name = [], role_URL = None, role_TenantRef = None, Privileges = added\<rparr> \<and> role_ok ref_lib ''v22.1.3'' added"
  using syncAkoUserRole_correct [OF entries_order, of ref_lib "\<lparr>role_Name = [], role_URL = None, role_TenantRef = None, Privileges = []\<rparr>" "''v22.1.3''"]
  by auto

text \<open>
  A role that was just created needs no synchronisation: the list of permissions new roles are
  created with, filtered for the controller's version, is right by the map that existing roles are
  synchronised with.
\<close>

lemma new_role_in_sync:
  "role_ok L version (filterAkoRolePermissionByVersion L AkoRolePermission version)"
  unfolding role_ok_def filterAkoRolePermissionByVersion_def
proof (intro conjI ballI allI impI)
  fix p t assume "p \<in> set (filter (\<lambda>p. \<not> deprecated L version (Resource p)) AkoRolePermission)"
    "AkoRolePermissionMap (Resource p) = Some t"
  then show "perm_Type p = t" using list_in_map [of p] by simp
next
  fix r t assume "AkoRolePermissionMap r = Some t"
  with map_in_list [of r t] show "deprecated L version r \<or>
      (\<exists>p \<in> set (filter (\<lambda>p. \<not> deprecated L version (Resource p)) AkoRolePermission). Resource p = r)"
    by (auto simp: AkoRolePermissionMap_iff)
qed

end
