(* ===== verification/Go_Json.thy ===== *)
theory Go_Json
  imports Go_Net
begin

text \<open>
  Strings in \<open>encoding/json\<close>: \<open>json.Marshal\<close> and \<open>json.Unmarshal\<close> of a Go string, on bytes. Marshalling replaces
  every byte that does not belong to a valid UTF-8 sequence by the replacement character, so a string
  is read back as it was exactly if it is valid UTF-8.
\<close>

section \<open>UTF-8\<close>

definition byte_in :: "nat \<Rightarrow> nat \<Rightarrow> char \<Rightarrow> bool" where
  "byte_in lo hi c \<longleftrightarrow> lo \<le> of_char c \<and> of_char c \<le> hi"

text \<open>Sequences of two, three and four bytes at the head of a string as \<open>utf8.DecodeRune\<close> accepts them, and their length (0 if there is none).\<close>

definition rune2 :: "string \<Rightarrow> bool" where
  "rune2 s \<longleftrightarrow> 2 \<le> length s \<and> byte_in 0xC2 0xDF (s ! 0) \<and> byte_in 0x80 0xBF (s ! 1)"

definition rune3 :: "string \<Rightarrow> bool" where
  "rune3 s \<longleftrightarrow> 3 \<le> length s \<and> byte_in 0xE0 0xEF (s ! 0) \<and>
     byte_in (if s ! 0 = CHR 0xE0 then 0xA0 else 0x80) (if s ! 0 = CHR 0xED then 0x9F else 0xBF) (s ! 1) \<and> byte_in 0x80 0xBF (s ! 2)"

definition rune4 :: "string \<Rightarrow> bool" where
  "rune4 s \<longleftrightarrow> 4 \<le> length s \<and> byte_in 0xF0 0xF4 (s ! 0) \<and>
     byte_in (if s ! 0 = CHR 0xF0 then 0x90 else 0x80) (if s ! 0 = CHR 0xF4 then 0x8F else 0xBF) (s ! 1) \<and>
     byte_in 0x80 0xBF (s ! 2) \<and> byte_in 0x80 0xBF (s ! 3)"

definition rune_len :: "string \<Rightarrow> nat" where
  "rune_len s =
     (if s \<noteq> [] \<and> byte_in 0 0x7F (s ! 0) then 1
      else if rune2 s then 2 else if rune3 s then 3 else if rune4 s then 4 else 0)"

text \<open>\<open>utf8.EncodeRune\<close> for a code point.\<close>

definition utf8_encode :: "nat \<Rightarrow> string" where
  "utf8_encode r =
     (if r < 0x80 then [char_of r]
      else if r < 0x800 then [char_of (0xC0 + r div 64), char_of (0x80 + r mod 64)]
      else if r < 0x10000 then [char_of (0xE0 + r div 4096), char_of (0x80 + r div 64 mod 64), char_of (0x80 + r mod 64)]
      else [char_of (0xF0 + r div 262144), char_of (0x80 + r div 4096 mod 64), char_of (0x80 + r div 64 mod 64), char_of (0x80 + r mod 64)])"

definition replacement :: string where
  "replacement = [CHR 0xEF, CHR 0xBF, CHR 0xBD]"

fun to_valid_utf8 :: "string \<Rightarrow> string" where
  "to_valid_utf8 [] = []"
| "to_valid_utf8 (c # cs) =
     (let k = rune_len (c # cs)
      in if k = 0 then replacement @ to_valid_utf8 cs
         else take k (c # cs) @ to_valid_utf8 (drop (k - 1) cs))"

fun valid_utf8 :: "string \<Rightarrow> bool" where
  "valid_utf8 [] \<longleftrightarrow> True"
| "valid_utf8 (c # cs) \<longleftrightarrow> rune_len (c # cs) \<noteq> 0 \<and> valid_utf8 (drop (rune_len (c # cs) - 1) cs)"

section \<open>Marshal\<close>

definition hex_lower :: "nat \<Rightarrow> char" where
  "hex_lower d = char_of (if d < 10 then 48 + d else 87 + d)"

definition json_u :: "nat \<Rightarrow> string" where
  "json_u n = [CHR 0x5C] @ ''u00'' @ [hex_lower (n div 16), hex_lower (n mod 16)]"

definition json_escape_char :: "char \<Rightarrow> string" where
  "json_escape_char c =
     (let n = of_char c :: nat
      in if n = 34 then [CHR 0x5C, CHR 0x22]
         else if n = 92 then [CHR 0x5C, CHR 0x5C]
         else if n = 8 then [CHR 0x5C, CHR ''b'']
         else if n = 9 then [CHR 0x5C, CHR ''t'']
         else if n = 10 then [CHR 0x5C, CHR ''n'']
         else if n = 12 then [CHR 0x5C, CHR ''f'']
         else if n = 13 then [CHR 0x5C, CHR ''r'']
         else if n < 32 \<or> n = 60 \<or> n = 62 \<or> n = 38 then json_u n
         else [c])"

text \<open>The two line separators are escaped, other sequences of several bytes pass.\<close>

fun json_escape :: "string \<Rightarrow> string" where
  "json_escape [] = []"
| "json_escape (c # cs) =
     (let k = rune_len (c # cs)
      in if k = 0 then [CHR 0x5C] @ ''ufffd'' @ json_escape cs
         else if k = 1 then json_escape_char c @ json_escape cs
         else
           (let r = take k (c # cs)
            in (if r = [CHR 0xE2, CHR 0x80, CHR 0xA8] then [CHR 0x5C] @ ''u2028''
                else if r = [CHR 0xE2, CHR 0x80, CHR 0xA9] then [CHR 0x5C] @ ''u2029'' else r) @
               json_escape (drop (k - 1) cs)))"

definition json_string :: "string \<Rightarrow> string" where
  "json_string s = [CHR 0x22] @ json_escape s @ [CHR 0x22]"

section \<open>Unmarshal\<close>

fun getu4 :: "string \<Rightarrow> (nat \<times> string) option" where
  "getu4 (a # b # c # d # t) =
     (case (hex_val a, hex_val b, hex_val c, hex_val d) of
        (Some x, Some y, Some z, Some u) \<Rightarrow> Some (((x * 16 + y) * 16 + z) * 16 + u, t)
      | _ \<Rightarrow> None)"
| "getu4 _ = None"

lemma getu4_length: "getu4 s = Some (r, t) \<Longrightarrow> length s = length t + 4"
  by (induction s rule: getu4.induct) (auto split: option.splits)

text \<open>The second half of a surrogate pair, if one follows.\<close>

fun low_surrogate :: "string \<Rightarrow> (nat \<times> string) option" where
  "low_surrogate (b # u # t) =
     (if b = CHR 0x5C \<and> u = CHR ''u'' then
        (case getu4 t of Some (r, t') \<Rightarrow> (if 0xDC00 \<le> r \<and> r < 0xE000 then Some (r, t') else None) | None \<Rightarrow> None)
      else None)"
| "low_surrogate _ = None"

lemma low_surrogate_length: "low_surrogate s = Some (r, t) \<Longrightarrow> length t < length s"
  by (induction s rule: low_surrogate.induct) (auto split: if_splits option.splits dest: getu4_length)

definition escape_value :: "char \<Rightarrow> char option" where
  "escape_value e =
     (if e = CHR 0x22 \<or> e = CHR 0x5C \<or> e = CHR ''/'' then Some e
      else if e = CHR ''b'' then Some (CHR 0x08)
      else if e = CHR ''f'' then Some (CHR 0x0C)
      else if e = CHR ''n'' then Some (CHR 0x0A)
      else if e = CHR ''r'' then Some (CHR 0x0D)
      else if e = CHR ''t'' then Some (CHR 0x09)
      else None)"

text \<open>The inside of a quoted string; \<open>None\<close> where the scanner or \<open>unquote\<close> rejects it.\<close>

function json_unescape :: "string \<Rightarrow> string option" where
  "json_unescape [] = Some []"
| "json_unescape (c # cs) =
     (if c = CHR 0x5C then
        (case cs of
           [] \<Rightarrow> None
         | e # t \<Rightarrow>
             (if e = CHR ''u'' then
                (case getu4 t of
                   None \<Rightarrow> None
                 | Some (r, t') \<Rightarrow>
                     (if 0xD800 \<le> r \<and> r < 0xE000 then
                        (case (if r < 0xDC00 then low_surrogate t' else None) of
                           Some (r', t'') \<Rightarrow>
                             map_option ((@) (utf8_encode ((r - 0xD800) * 1024 + (r' - 0xDC00) + 0x10000))) (json_unescape t'')
                         | None \<Rightarrow> map_option ((@) replacement) (json_unescape t'))
                      else map_option ((@) (utf8_encode r)) (json_unescape t')))
              else
                (case escape_value e of
                   None \<Rightarrow> None
                 | Some x \<Rightarrow> map_option ((#) x) (json_unescape t))))
      else if c = CHR 0x22 \<or> of_char c < (32 :: nat) then None
      else
        (let k = rune_len (c # cs)
         in if k = 0 then map_option ((@) replacement) (json_unescape cs)
            else map_option ((@) (take k (c # cs))) (json_unescape (drop (k - 1) cs))))"
  by pat_completeness auto

termination
  by (relation "measure length") (auto split: if_splits dest!: getu4_length low_surrogate_length)

definition json_unquote :: "string \<Rightarrow> string option" where
  "json_unquote s =
     (if 2 \<le> length s \<and> hd s = CHR 0x22 \<and> last s = CHR 0x22 then json_unescape (butlast (tl s)) else None)"

section \<open>The round trip\<close>

lemma rune_len_take:
  assumes "rune_len s \<noteq> 0"
  shows "rune_len (take (rune_len s) s @ t) = rune_len s"
proof -
  have nth: "(take k s @ t) ! i = s ! i" if "i < k" "k \<le> length s" for i k using that by (simp add: nth_append)
  consider "s \<noteq> []" "byte_in 0 0x7F (s ! 0)" | "rune2 s" | "rune3 s" | "rune4 s" using assms by (auto simp: rune_len_def split: if_splits)
  then show ?thesis
  proof cases
    case 1
    then show ?thesis by (simp add: rune_len_def nth_append)
  next
    case 2
    then have "rune_len s = 2" by (auto simp: rune_len_def rune2_def byte_in_def)
    moreover have "rune2 (take 2 s @ t)" using 2 by (simp add: rune2_def nth)
    ultimately show ?thesis by (auto simp: rune_len_def rune2_def byte_in_def)
  next
    case 3
    then have "rune_len s = 3" by (auto simp: rune_len_def rune2_def rune3_def byte_in_def)
    moreover have "rune3 (take 3 s @ t)" using 3 by (simp add: rune3_def nth)
    ultimately show ?thesis by (auto simp: rune_len_def rune2_def rune3_def byte_in_def)
  next
    case 4
    then have "rune_len s = 4" by (auto simp: rune_len_def rune2_def rune3_def rune4_def byte_in_def)
    moreover have "rune4 (take 4 s @ t)" using 4 by (simp add: rune4_def nth)
    ultimately show ?thesis by (auto simp: rune_len_def rune2_def rune3_def rune4_def byte_in_def)
  qed
qed

lemma rune_len_ascii: "rune_len (c # cs) = Suc 0 \<longleftrightarrow> of_char c < (128 :: nat)"
  by (auto simp: rune_len_def byte_in_def)

lemma valid_to_valid: "valid_utf8 s \<Longrightarrow> to_valid_utf8 s = s"
proof (induction s rule: to_valid_utf8.induct)
  case (2 c cs)
  then have "rune_len (c # cs) \<noteq> 0" "to_valid_utf8 (drop (rune_len (c # cs) - 1) cs) = drop (rune_len (c # cs) - 1) cs" by auto
  then show ?case by (cases "rune_len (c # cs)") (auto simp: Let_def)
qed simp

lemma ascii_valid: "(\<And>c. c \<in> set s \<Longrightarrow> of_char c < (128 :: nat)) \<Longrightarrow> valid_utf8 s"
proof (induction s)
  case (Cons c cs)
  then have "rune_len (c # cs) = Suc 0" by (simp add: rune_len_ascii)
  with Cons show ?case by simp
qed simp

lemma append_one: "(@) [x] = (#) x"
  by (rule ext) simp

lemma escape_char_readback:
  assumes "of_char c < (128 :: nat)"
  shows "json_unescape (json_escape_char c @ t) = map_option ((#) c) (json_unescape t)"
proof -
  have hex: "hex_val (hex_lower d) = Some d" if "d < 16" for d
    using that by (auto simp: hex_val_def hex_lower_def Let_def)
  define n :: nat where "n = of_char c"
  have c: "c = char_of n" and n: "n < 128" using assms by (simp_all add: n_def)
  have u: "json_unescape (json_u n @ t) = map_option ((#) c) (json_unescape t)"
  proof -
    have "hex_val (CHR ''0'') = Some 0" by (simp add: hex_val_def)
    moreover have "n div 16 < 16" "n mod 16 < 16" "n div 16 * 16 + n mod 16 = n" using n by simp_all
    ultimately show ?thesis using n by (simp add: json_u_def hex utf8_encode_def c append_one)
  qed
  consider "n \<in> {34, 92, 8, 9, 10, 12, 13}" | "n < 32 \<or> n = 60 \<or> n = 62 \<or> n = 38" "n \<notin> {34, 92, 8, 9, 10, 12, 13}"
    | "32 \<le> n" "n \<notin> {34, 92, 60, 62, 38}" by force
  then show ?thesis
  proof cases
    case 1
    have ch: "char_of (34 :: nat) = CHR 0x22" "char_of (92 :: nat) = CHR 0x5C" "char_of (8 :: nat) = CHR 0x08" "char_of (9 :: nat) = CHR 0x09"
      "char_of (10 :: nat) = CHR 0x0A" "char_of (12 :: nat) = CHR 0x0C" "char_of (13 :: nat) = CHR 0x0D"
      by (simp_all add: char_of_eq_iff take_bit_eq_mod)
    from 1 show ?thesis by (auto simp: json_escape_char_def n_def [symmetric] escape_value_def c ch)
  next
    case 2
    then have "json_escape_char c = json_u n" unfolding json_escape_char_def n_def [symmetric] Let_def by auto
    with u show ?thesis by simp
  next
    case 3
    then have "json_escape_char c = [c]" unfolding json_escape_char_def n_def [symmetric] Let_def by auto
    moreover have "c \<noteq> CHR 0x5C" "c \<noteq> CHR 0x22" using 3 n_def by auto
    moreover have "rune_len (c # t) = Suc 0" using n by (simp add: rune_len_ascii n_def)
    ultimately show ?thesis using 3 by (simp add: n_def append_one)
  qed
qed

lemma u_readback:
  "json_unescape (CHR 0x5C # ''u2028'' @ t) = map_option ((@) [CHR 0xE2, CHR 0x80, CHR 0xA8]) (json_unescape t)"
  "json_unescape (CHR 0x5C # ''u2029'' @ t) = map_option ((@) [CHR 0xE2, CHR 0x80, CHR 0xA9]) (json_unescape t)"
  "json_unescape (CHR 0x5C # ''ufffd'' @ t) = map_option ((@) replacement) (json_unescape t)"
proof -
  have d: "getu4 (''2028'' @ t) = Some (8232, t)" "getu4 (''2029'' @ t) = Some (8233, t)" "getu4 (''fffd'' @ t) = Some (65533, t)"
    by (simp_all add: hex_val_def)
  have e: "utf8_encode 8232 = [CHR 0xE2, CHR 0x80, CHR 0xA8]" "utf8_encode 8233 = [CHR 0xE2, CHR 0x80, CHR 0xA9]"
    "utf8_encode 65533 = replacement"
    by (simp_all add: utf8_encode_def replacement_def char_of_eq_iff take_bit_eq_mod)
  have u: "json_unescape (CHR 0x5C # CHR ''u'' # s) = map_option ((@) (utf8_encode r)) (json_unescape t)"
    if "getu4 s = Some (r, t)" "r < 0xD800 \<or> 0xE000 \<le> r" for s r t
    using that by (subst json_unescape.simps) auto
  show "json_unescape (CHR 0x5C # ''u2028'' @ t) = map_option ((@) [CHR 0xE2, CHR 0x80, CHR 0xA8]) (json_unescape t)"
    "json_unescape (CHR 0x5C # ''u2029'' @ t) = map_option ((@) [CHR 0xE2, CHR 0x80, CHR 0xA9]) (json_unescape t)"
    "json_unescape (CHR 0x5C # ''ufffd'' @ t) = map_option ((@) replacement) (json_unescape t)"
    using u [OF d(1)] u [OF d(2)] u [OF d(3)] by (simp_all add: e)
qed

lemma rune_readback:
  assumes "rune_len (c # cs) \<noteq> 0" "rune_len (c # cs) \<noteq> Suc 0"
  shows "json_unescape (take (rune_len (c # cs)) (c # cs) @ t) = map_option ((@) (take (rune_len (c # cs)) (c # cs))) (json_unescape t)"
proof -
  let ?k = "rune_len (c # cs)"
  obtain j where j: "?k = Suc j" using assms(1) by (cases ?k) auto
  have l: "j \<le> length cs" using j by (auto simp: rune_len_def rune2_def rune3_def rune4_def split: if_splits)
  have "\<not> of_char c < (128 :: nat)" using assms(2) by (simp add: rune_len_ascii)
  then have c: "c \<noteq> CHR 0x5C" "c \<noteq> CHR 0x22" "\<not> of_char c < (32 :: nat)" by auto
  have "rune_len (c # take j cs @ t) = Suc j" using rune_len_take [OF assms(1), of t] by (simp add: j)
  with c l show ?thesis by (simp add: j Let_def)
qed

lemma json_escape_readback: "json_unescape (json_escape s) = Some (to_valid_utf8 s)"
proof (induction s rule: json_escape.induct)
  case (2 c cs)
  let ?k = "rune_len (c # cs)" and ?r = "take (rune_len (c # cs)) (c # cs)" and ?t = "json_escape (drop (rune_len (c # cs) - 1) cs)"
  consider "?k = 0" | "?k = Suc 0" | "?k \<noteq> 0" "?k \<noteq> Suc 0" by blast
  then show ?case
  proof cases
    case 1
    then have "json_escape (c # cs) = CHR 0x5C # ''ufffd'' @ json_escape cs" "to_valid_utf8 (c # cs) = replacement @ to_valid_utf8 cs"
      by (simp_all add: Let_def)
    then show ?thesis using 2(1) [OF refl 1] u_readback(3) by simp
  next
    case 2
    then have "of_char c < (128 :: nat)" by (simp add: rune_len_ascii)
    moreover have "json_unescape (json_escape cs) = Some (to_valid_utf8 cs)" using "2.IH"(2) [OF refl] 2 by simp
    moreover have "json_escape (c # cs) = json_escape_char c @ json_escape cs" "to_valid_utf8 (c # cs) = c # to_valid_utf8 cs"
      using 2 by (simp_all add: Let_def)
    ultimately show ?thesis by (simp add: escape_char_readback)
  next
    case 3
    have IH: "json_unescape ?t = Some (to_valid_utf8 (drop (?k - 1) cs))" using "2.IH"(3) [OF refl] 3 by simp
    have e: "json_escape (c # cs) = (if ?r = [CHR 0xE2, CHR 0x80, CHR 0xA8] then [CHR 0x5C] @ ''u2028''
        else if ?r = [CHR 0xE2, CHR 0x80, CHR 0xA9] then [CHR 0x5C] @ ''u2029'' else ?r) @ ?t"
      using 3 by (simp add: Let_def)
    have v: "to_valid_utf8 (c # cs) = ?r @ to_valid_utf8 (drop (?k - 1) cs)" using 3 by (simp add: Let_def)
    show ?thesis unfolding e v using IH u_readback(1,2) rune_readback [OF 3] by simp
  qed
qed simp

text \<open>What is marshalled is read back, with the bytes replaced that are not valid UTF-8.\<close>

lemma json_string_readback: "json_unquote (json_string s) = Some (to_valid_utf8 s)"
  by (simp add: json_unquote_def json_string_def json_escape_readback butlast_append)

section \<open>Addresses are ASCII\<close>

definition ascii :: "string \<Rightarrow> bool" where
  "ascii s \<longleftrightarrow> (\<forall>c \<in> set s. of_char c < (128 :: nat))"

lemma ascii_simps [simp]:
  "ascii []" "ascii (c # s) \<longleftrightarrow> of_char c < (128 :: nat) \<and> ascii s" "ascii (s @ t) \<longleftrightarrow> ascii s \<and> ascii t"
  by (auto simp: ascii_def)

lemma parseIPv4Fields_ascii: "parseIPv4Fields s pd val dl fs \<noteq> None \<Longrightarrow> ascii s"
  by (induction s pd val dl fs rule: parseIPv4Fields.induct) (auto simp: digit_val_def Let_def split: if_splits option.splits)

lemma hex_run_ascii: "hex_run s off acc = Some (off', acc', rest) \<Longrightarrow> ascii rest \<Longrightarrow> ascii s"
  by (induction s off acc rule: hex_run.induct) (auto simp: hex_val_def Let_def split: if_splits option.splits)

lemma parseIPv6_loop_ascii: "parseIPv6_loop s ip e \<noteq> None \<Longrightarrow> ascii s"
proof (induction s ip e rule: parseIPv6_loop.induct)
  case (1 s ip e)
  show ?case
  proof (cases "16 \<le> length ip")
    case True
    with 1(3) show ?thesis by (subst (asm) parseIPv6_loop.simps) (auto split: if_splits)
  next
    case False
    with 1(3) obtain off acc rest where h: "hex_run s 0 0 = Some (off, acc, rest)"
      by (subst (asm) parseIPv6_loop.simps) (auto split: option.splits)
    show ?thesis
    proof (cases "rest \<noteq> [] \<and> hd rest = CHR ''.''")
      case True
      with 1(3) False h show ?thesis
        by (subst (asm) parseIPv6_loop.simps) (auto split: if_splits option.splits intro: parseIPv4Fields_ascii)
    next
      case nodot: False
      let ?ip = "ip @ [of_nat (acc div 256), of_nat (acc mod 256)]"
      note IH = 1(1,2) [OF False h refl refl _ nodot refl]
      from 1(3) False h nodot have n: "off \<noteq> 0" "rest = [] \<or> hd rest = CHR '':'' \<and> tl rest \<noteq> [] \<and>
          (if hd (tl rest) = CHR '':'' then e = None \<and> (tl (tl rest) = [] \<or> parseIPv6_loop (tl (tl rest)) ?ip (Some (length ?ip)) \<noteq> None)
           else parseIPv6_loop (tl rest) ?ip e \<noteq> None)"
        by (subst (asm) parseIPv6_loop.simps, auto simp: Let_def split: if_splits)+
      have "ascii rest"
      proof (cases rest)
        case (Cons a t)
        with n(2) obtain b u where t: "a = CHR '':''" "t = b # u" by (cases t) auto
        show ?thesis
        proof (cases "b = CHR '':''")
          case True
          with Cons t n IH(1) have "u = [] \<or> ascii u" by auto
          with Cons t True show ?thesis by auto
        next
          case False
          with Cons t n IH(2) have "ascii (b # u)" by auto
          with Cons t show ?thesis by simp
        qed
      qed simp
      with hex_run_ascii [OF h] show ?thesis .
    qed
  qed
qed

lemma parseIPv6_ascii:
  assumes "parseIPv6 s \<noteq> None"
  shows "ascii s"
proof (cases "\<exists>r. s = CHR '':'' # CHR '':'' # r")
  case True
  then obtain r where s: "s = CHR '':'' # CHR '':'' # r" by blast
  with assms have "r = [] \<or> parseIPv6_loop r [] (Some 0) \<noteq> None"
    by (auto simp: parseIPv6_def split: if_splits option.splits)
  then have "ascii r" using parseIPv6_loop_ascii by (elim disjE) simp_all
  with s show ?thesis by simp
next
  case False
  with assms have "parseIPv6_loop s [] None \<noteq> None"
    by (auto simp: parseIPv6_def Let_def split: if_splits list.splits option.splits)
  then show ?thesis by (rule parseIPv6_loop_ascii)
qed

lemma ParseIP_valid: "ParseIP s \<noteq> [] \<Longrightarrow> valid_utf8 s"
proof -
  assume "ParseIP s \<noteq> []"
  then have "ascii s"
    by (auto simp: ParseIP_def ParseAddr_def split: option.splits if_splits intro: parseIPv4Fields_ascii parseIPv6_ascii)
  then show ?thesis by (intro ascii_valid) (simp add: ascii_def)
qed

end
