(* ===== verification/Operator_Lib.thy ===== *)
theory Operator_Lib
  imports Api_Types Go_Json
begin

text \<open>
  \<open>src/pkg/ako-operator/lib.go\<close>: the questions the controllers ask about a cluster, answered from
  the cluster's topology variables (clusters made from a ClusterClass) or from the process
  environment, and the control plane endpoint and port.
\<close>

section \<open>Definitions\<close>

definition DeployInBootstrapCluster :: string where
  "DeployInBootstrapCluster = ''bootstrap_cluster''"

definition IsControlPlaneHAProvider :: string where
  "IsControlPlaneHAProvider = ''avi_control_plane_ha_provider''"

definition ClusterControlPlaneAnnotations :: string where
  "ClusterControlPlaneAnnotations = ''tkg.tanzu.vmware.com/cluster-controlplane-endpoint''"

definition ControlPlaneEndpointPort :: string where
  "ControlPlaneEndpointPort = ''control_plane_endpoint_port''"

definition ClusterClassEnabled :: string where
  "ClusterClassEnabled = ''cluster_class_enabled''"

definition KubeVipLoadBalancerProvider :: string where
  "KubeVipLoadBalancerProvider = ''kubeVipLoadBalancerProvider''"

definition AviAPIServerHAProvider :: string where
  "AviAPIServerHAProvider = ''aviAPIServerHAProvider''"

definition ApiServerEndpoint :: string where
  "ApiServerEndpoint = ''apiServerEndpoint''"

definition ApiServerPortVar :: string where
  "ApiServerPortVar = ''apiServerPort''"

definition IsBootStrapCluster :: "environ \<Rightarrow> bool" where
  "IsBootStrapCluster env \<longleftrightarrow> Getenv env DeployInBootstrapCluster = ''True''"

definition IsClusterClassEnabled :: "environ \<Rightarrow> bool" where
  "IsClusterClassEnabled env \<longleftrightarrow> Getenv env ClusterClassEnabled = ''True''"

definition IsClusterClassBasedCluster :: "Cluster \<Rightarrow> bool" where
  "IsClusterClassBasedCluster cluster \<longleftrightarrow> Topology cluster \<noteq> None"

text \<open>The value of the first topology variable with a name: the loops over \<open>Spec.Topology.Variables\<close>.\<close>

definition topology_var :: "Cluster \<Rightarrow> string \<Rightarrow> json option" where
  "topology_var cluster n =
     (case Topology cluster of
        None \<Rightarrow> None
      | Some vars \<Rightarrow> map_option var_Value (find (\<lambda>v. var_Name v = n) vars))"

definition IsControlPlaneVIPProvider :: "environ \<Rightarrow> Cluster \<Rightarrow> error + bool" where
  "IsControlPlaneVIPProvider env cluster =
     (case topology_var cluster AviAPIServerHAProvider of
        Some raw \<Rightarrow> unmarshal_bool raw False
      | None \<Rightarrow> Inr (Getenv env IsControlPlaneHAProvider = ''True''))"

definition IsLoadBalancerProvider :: "Cluster \<Rightarrow> error + bool" where
  "IsLoadBalancerProvider cluster =
     (case topology_var cluster KubeVipLoadBalancerProvider of
        Some raw \<Rightarrow>
          (case unmarshal_bool raw False of
             Inl err \<Rightarrow> Inl err
           | Inr kubeVipLoadBalancerProvider \<Rightarrow> Inr (\<not> kubeVipLoadBalancerProvider))
      | None \<Rightarrow> Inr True)"

text \<open>
  The endpoint is returned with the error, since one caller ignores the error: a variable that
  does not unmarshal leaves the annotation's value.
\<close>

definition GetControlPlaneEndpoint :: "Cluster \<Rightarrow> string \<times> error option" where
  "GetControlPlaneEndpoint cluster =
     (let apiServerEndpoint =
            (case Annotations cluster ClusterControlPlaneAnnotations of None \<Rightarrow> [] | Some v \<Rightarrow> v)
      in case topology_var cluster ApiServerEndpoint of
           Some raw \<Rightarrow>
             (case unmarshal_string raw apiServerEndpoint of
                Inl err \<Rightarrow> (apiServerEndpoint, Some err)
              | Inr e \<Rightarrow> (e, None))
         | None \<Rightarrow>
             (if apiServerEndpoint = [] then (EndpointHost cluster, None)
              else (apiServerEndpoint, None)))"

fun set_var :: "ClusterVariable list \<Rightarrow> string \<Rightarrow> json \<Rightarrow> ClusterVariable list" where
  "set_var [] n raw = [\<lparr>var_Name = n, var_Value = raw\<rparr>]"
| "set_var (v # vs) n raw =
     (if var_Name v = n then v\<lparr>var_Value := raw\<rparr> # vs else v # set_var vs n raw)"

text \<open>
  A variable is modelled by the value of its raw JSON document (\<open>json\<close>), so what \<open>json.Marshal\<close> writes is
  decoded when it is stored.
\<close>

definition raw_string :: "string \<Rightarrow> json" where
  "raw_string raw = (case json_unquote raw of Some s \<Rightarrow> JStr s | None \<Rightarrow> JBad)"

definition SetControlPlaneEndpoint :: "Cluster \<Rightarrow> string \<Rightarrow> Cluster" where
  "SetControlPlaneEndpoint cluster endpoint =
     (case Topology cluster of
        None \<Rightarrow> cluster
      | Some vars \<Rightarrow> cluster\<lparr>Topology := Some (set_var vars ApiServerEndpoint (raw_string (json_string endpoint)))\<rparr>)"

definition validatePortNumber :: "int \<Rightarrow> bool" where
  "validatePortNumber number \<longleftrightarrow> number > 0 \<and> number < 65536"

text \<open>The conversion \<open>int32(i)\<close>.\<close>

definition to_int32 :: "int \<Rightarrow> int" where
  "to_int32 i = sint (word_of_int i :: 32 word)"

definition port_error :: "int \<Rightarrow> error" where
  "port_error p = Err (''port number '' @ strconv_Itoa p @ '' is not in valid range [1,65535]'')"

definition GetControlPlaneEndpointPort :: "environ \<Rightarrow> Cluster \<Rightarrow> int \<times> error option" where
  "GetControlPlaneEndpointPort env cluster =
     (if IsClusterClassBasedCluster cluster then
        (case topology_var cluster ApiServerPortVar of
           Some raw \<Rightarrow>
             (case unmarshal_int raw 6443 of
                Inl err \<Rightarrow> (6443, Some err)
              | Inr apiServerPort \<Rightarrow>
                  (if \<not> validatePortNumber apiServerPort then (6443, Some (port_error apiServerPort))
                   else (to_int32 apiServerPort, None)))
         | None \<Rightarrow> (to_int32 6443, None))
      else
        (case env ControlPlaneEndpointPort of
           Some port \<Rightarrow>
             (case strconv_Atoi port of
                None \<Rightarrow> (6443, Some (Err (''strconv.Atoi: parsing '' @ port)))
              | Some apiServerPort \<Rightarrow>
                  (if \<not> validatePortNumber apiServerPort then (6443, Some (port_error apiServerPort))
                   else (to_int32 apiServerPort, None)))
         | None \<Rightarrow> (6443, None)))"

section \<open>Lemmas\<close>

lemma to_int32_port: "validatePortNumber p \<Longrightarrow> to_int32 p = p"
  by (simp add: to_int32_def validatePortNumber_def int_word_sint)

lemma endpoint_port_range: "validatePortNumber (fst (GetControlPlaneEndpointPort env c))"
proof -
  have d: "validatePortNumber 6443" by (simp add: validatePortNumber_def)
  show ?thesis
    using to_int32_port [OF d]
    by (auto simp: GetControlPlaneEndpointPort_def d to_int32_port split: option.splits sum.splits if_splits)
qed

lemma find_set_var: "find (\<lambda>v. var_Name v = n) (set_var vs n raw) \<noteq> None
    \<and> map_option var_Value (find (\<lambda>v. var_Name v = n) (set_var vs n raw)) = Some raw"
  by (induction vs) auto

lemma find_set_var_other:
  "m \<noteq> n \<Longrightarrow> find (\<lambda>v. var_Name v = m) (set_var vs n raw) = find (\<lambda>v. var_Name v = m) vs"
  by (induction vs) auto

lemma raw_string_readback [simp]: "raw_string (json_string s) = JStr (to_valid_utf8 s)"
  by (simp add: raw_string_def json_string_readback)

lemma topology_var_set:
  "topology_var (SetControlPlaneEndpoint c e) n =
     (if Topology c \<noteq> None \<and> n = ApiServerEndpoint then Some (JStr (to_valid_utf8 e)) else topology_var c n)"
  using find_set_var [of ApiServerEndpoint _ "JStr (to_valid_utf8 e)"]
  by (auto simp: topology_var_def SetControlPlaneEndpoint_def find_set_var_other split: option.splits)

lemma SetControlPlaneEndpoint_frame [frame_simps]:
  "Annotations (SetControlPlaneEndpoint c e) = Annotations c"
  "Name (SetControlPlaneEndpoint c e) = Name c"
  "Namespace (SetControlPlaneEndpoint c e) = Namespace c"
  "Labels (SetControlPlaneEndpoint c e) = Labels c"
  "Finalizers (SetControlPlaneEndpoint c e) = Finalizers c"
  "DeletionTimestamp (SetControlPlaneEndpoint c e) = DeletionTimestamp c"
  "Conditions (SetControlPlaneEndpoint c e) = Conditions c"
  "EndpointHost (SetControlPlaneEndpoint c e) = EndpointHost c"
  "Topology (SetControlPlaneEndpoint c e) = None \<longleftrightarrow> Topology c = None"
  by (simp_all add: SetControlPlaneEndpoint_def split: option.splits)

section \<open>Properties\<close>

text \<open>
  C37. The endpoint written to a ClusterClass cluster is read back through its JSON encoding: as it was if it
  is valid UTF-8, and otherwise with the offending bytes replaced. No other topology variable is changed by
  writing it, and a cluster that is not based on a ClusterClass is not changed at all.
\<close>

theorem endpoint_roundtrip:
  "if IsClusterClassBasedCluster c
   then GetControlPlaneEndpoint (SetControlPlaneEndpoint c e) = (to_valid_utf8 e, None) \<and>
     (valid_utf8 e \<longrightarrow> GetControlPlaneEndpoint (SetControlPlaneEndpoint c e) = (e, None)) \<and>
     (\<forall>n. n \<noteq> ApiServerEndpoint \<longrightarrow> topology_var (SetControlPlaneEndpoint c e) n = topology_var c n)
   else SetControlPlaneEndpoint c e = c"
proof (cases "IsClusterClassBasedCluster c")
  case True
  then have "GetControlPlaneEndpoint (SetControlPlaneEndpoint c e) = (to_valid_utf8 e, None)"
    "n \<noteq> ApiServerEndpoint \<longrightarrow> topology_var (SetControlPlaneEndpoint c e) n = topology_var c n" for n
    by (auto simp: IsClusterClassBasedCluster_def GetControlPlaneEndpoint_def topology_var_set frame_simps)
  with True valid_to_valid [of e] show ?thesis by auto
qed (simp add: IsClusterClassBasedCluster_def SetControlPlaneEndpoint_def)

theorem endpoint_roundtrip_witness:
  "GetControlPlaneEndpoint
     (SetControlPlaneEndpoint (exampleCluster\<lparr>Topology := Some [\<lparr>var_Name = ''cni'', var_Value = JNull\<rparr>]\<rparr>) ''10.1.2.3'')
   = (''10.1.2.3'', None)"
proof -
  let ?c = "exampleCluster\<lparr>Topology := Some [\<lparr>var_Name = ''cni'', var_Value = JNull\<rparr>]\<rparr>"
  have v: "valid_utf8 ''10.1.2.3''" by (rule ascii_valid) auto
  have cc: "IsClusterClassBasedCluster ?c" by (simp add: IsClusterClassBasedCluster_def)
  from endpoint_roundtrip [of ?c "''10.1.2.3''", unfolded if_P [OF cc]] v show ?thesis by blast
qed

text \<open>
  C38. The control plane port is a valid TCP port on every path, errors included: the value returned
  is in the range 1 to 65535, the conversion to \<open>int32\<close> does not change it, and without an error it
  is the number configured (or 6443 where none is).
\<close>

theorem endpoint_port_valid:
  "validatePortNumber (fst (GetControlPlaneEndpointPort env c)) \<and>
   (case GetControlPlaneEndpointPort env c of
      (p, Some e) \<Rightarrow> p = 6443
    | (p, None) \<Rightarrow>
        if IsClusterClassBasedCluster c
        then (case topology_var c ApiServerPortVar of
                None \<Rightarrow> p = 6443 | Some raw \<Rightarrow> unmarshal_int raw 6443 = Inr p)
        else (case env ControlPlaneEndpointPort of
                None \<Rightarrow> p = 6443 | Some s \<Rightarrow> strconv_Atoi s = Some p))"
proof -
  have d: "validatePortNumber 6443" by (simp add: validatePortNumber_def)
  show ?thesis
    using to_int32_port [OF d]
    by (auto simp: GetControlPlaneEndpointPort_def d to_int32_port split: option.splits sum.splits if_splits)
qed

end
