(* ===== verification/Cluster_Mapping.thy ===== *)
theory Cluster_Mapping
  imports Operator_Lib Ref_World
begin

text \<open>
  \<open>src/pkg/ako-operator/akodeploymentconfig_cluster_mapping_helper.go\<close> and the watch handlers of
  \<open>src/pkg/handlers\<close>: which clusters an AKODeploymentConfig takes, which AKODeploymentConfig takes a
  cluster, and the label that records it.
\<close>

section \<open>Definitions\<close>

definition SkipCluster :: "lib \<Rightarrow> environ \<Rightarrow> Cluster \<Rightarrow> bool" where
  "SkipCluster L env cluster =
     (if cond_IsFalse L (Conditions cluster) ReadyCondition \<and>
         DeletionTimestamp cluster = None \<and>
         \<not> IsBootStrapCluster env
      then True else False)"

definition isDefaultWcADC :: "string \<Rightarrow> bool" where
  "isDefaultWcADC adcName \<longleftrightarrow> adcName = WorkloadClusterAkoDeploymentConfig"

definition defaultADCHasEmptySelector :: "lib \<Rightarrow> 'w kapi \<Rightarrow> 'w \<Rightarrow> bool \<times> 'w" where
  "defaultADCHasEmptySelector L K w =
     (case kGet (ADCs K) w ([], WorkloadClusterAkoDeploymentConfig) of
        (Inl err, w) \<Rightarrow> (False, w)
      | (Inr defaultAdc, w) \<Rightarrow>
          (case LabelSelectorAsSelector L (ClusterSelector (Spec defaultAdc)) of
             Inl err \<Rightarrow> (False, w)
           | Inr selector \<Rightarrow> (sel_Empty selector, w)))"

text \<open>
  The loop that removes clusters that are not ready, the management cluster, and clusters taken by
  another AKODeploymentConfig.
\<close>

fun select_clusters ::
  "lib \<Rightarrow> 'w kapi \<Rightarrow> environ \<Rightarrow> AKODeploymentConfig \<Rightarrow> 'w \<Rightarrow> Cluster list \<Rightarrow> Cluster list \<times> 'w" where
  "select_clusters L K env obj w [] = ([], w)"
| "select_clusters L K env obj w (cluster # rest) =
     (if SkipCluster L env cluster then select_clusters L K env obj w rest
      else if Namespace cluster = TKGSystemNamespace \<and> Name obj \<noteq> ManagementClusterAkoDeploymentConfig
      then select_clusters L K env obj w rest
      else case Labels cluster AviClusterLabel of
        Some adcName \<Rightarrow>
          (if adcName \<noteq> Name obj then
             (if \<not> isDefaultWcADC adcName then select_clusters L K env obj w rest
              else case defaultADCHasEmptySelector L K w of
                (emptySel, w1) \<Rightarrow>
                  (if \<not> emptySel then select_clusters L K env obj w1 rest
                   else (case select_clusters L K env obj w1 rest of (cs, w2) \<Rightarrow> (cluster # cs, w2))))
           else (case select_clusters L K env obj w rest of (cs, w2) \<Rightarrow> (cluster # cs, w2)))
      | None \<Rightarrow> (case select_clusters L K env obj w rest of (cs, w2) \<Rightarrow> (cluster # cs, w2)))"

definition ListAkoDeploymentConfigSelectClusters ::
  "lib \<Rightarrow> 'w kapi \<Rightarrow> environ \<Rightarrow> AKODeploymentConfig \<Rightarrow> 'w \<Rightarrow> (error + Cluster list) \<times> 'w" where
  "ListAkoDeploymentConfigSelectClusters L K env obj w =
     (case LabelSelectorAsSelector L (ClusterSelector (Spec obj)) of
        Inl err \<Rightarrow> (Inl err, w)
      | Inr selector \<Rightarrow>
          (case ListClusters K w selector of
             (Inl err, w) \<Rightarrow> (Inl err, w)
           | (Inr clusters, w) \<Rightarrow>
               (case select_clusters L K env obj w clusters of
                  (newItems, w) \<Rightarrow>
                    (case NewAggregate L [] of
                       Some err \<Rightarrow> (Inl err, w)
                     | None \<Rightarrow> (Inr newItems, w)))))"

text \<open>The loop over all AKODeploymentConfigs; the accumulator is \<open>defaultAdc\<close>.\<close>

fun match_adc ::
  "lib \<Rightarrow> Cluster \<Rightarrow> AKODeploymentConfig list \<Rightarrow> AKODeploymentConfig option \<Rightarrow> AKODeploymentConfig option" where
  "match_adc L cluster [] defaultAdc =
     (case defaultAdc of
        Some d \<Rightarrow> (if Name d = WorkloadClusterAkoDeploymentConfig then Some d else None)
      | None \<Rightarrow> None)"
| "match_adc L cluster (adc # rest) defaultAdc =
     (case LabelSelectorAsSelector L (ClusterSelector (Spec adc)) of
        Inl err \<Rightarrow> match_adc L cluster rest defaultAdc
      | Inr selector \<Rightarrow>
          (if sel_Empty selector then
             match_adc L cluster rest (if isDefaultWcADC (Name adc) then Some adc else defaultAdc)
           else if sel_Matches selector (Labels cluster) then Some adc
           else match_adc L cluster rest defaultAdc))"

definition GetAKODeploymentConfigForCluster ::
  "lib \<Rightarrow> 'w kapi \<Rightarrow> Cluster \<Rightarrow> 'w \<Rightarrow> (error + AKODeploymentConfig option) \<times> 'w" where
  "GetAKODeploymentConfigForCluster L K cluster w =
     (case ListADCs K w of
        (Inl err, w) \<Rightarrow> (Inl err, w)
      | (Inr items, w) \<Rightarrow> (Inr (match_adc L cluster items None), w))"

definition ApplyClusterLabel :: "Cluster \<Rightarrow> AKODeploymentConfig \<Rightarrow> Cluster" where
  "ApplyClusterLabel cluster obj = cluster\<lparr>Labels := (Labels cluster)(AviClusterLabel \<mapsto> Name obj)\<rparr>"

definition RemoveClusterLabel :: "Cluster \<Rightarrow> Cluster" where
  "RemoveClusterLabel cluster = cluster\<lparr>Labels := (Labels cluster)(AviClusterLabel := None)\<rparr>"

text \<open>The watch handlers: the requests a changed cluster enqueues, as object keys.\<close>

definition AkoDeploymentConfigForCluster ::
  "lib \<Rightarrow> 'w kapi \<Rightarrow> environ \<Rightarrow> Cluster \<Rightarrow> 'w \<Rightarrow> key list \<times> 'w" where
  "AkoDeploymentConfigForCluster L K env cluster w =
     (if SkipCluster L env cluster then ([], w)
      else case GetAKODeploymentConfigForCluster L K cluster w of
        (Inl err, w) \<Rightarrow> ([], w)
      | (Inr None, w) \<Rightarrow> ([], w)
      | (Inr (Some adcForCluster), w) \<Rightarrow> ([([], Name adcForCluster)], w))"

definition MachinesForCluster ::
  "lib \<Rightarrow> 'w kapi \<Rightarrow> environ \<Rightarrow> Cluster \<Rightarrow> 'w \<Rightarrow> key list \<times> 'w" where
  "MachinesForCluster L K env cluster w =
     (if SkipCluster L env cluster then ([], w)
      else case ListMachines K w (Namespace cluster) [ClusterNameLabel \<mapsto> Name cluster] of
        (Inl err, w) \<Rightarrow> ([], w)
      | (Inr machines, w) \<Rightarrow> (map (\<lambda>m. (Namespace m, Name m)) machines, w))"

section \<open>Specification\<close>

text \<open>An AKODeploymentConfig with a non-empty selector that matches the cluster's labels.\<close>

definition custom_match :: "lib \<Rightarrow> Cluster \<Rightarrow> AKODeploymentConfig \<Rightarrow> bool" where
  "custom_match L cluster adc =
     (case LabelSelectorAsSelector L (ClusterSelector (Spec adc)) of
        Inl _ \<Rightarrow> False
      | Inr s \<Rightarrow> \<not> sel_Empty s \<and> sel_Matches s (Labels cluster))"

text \<open>The default AKODeploymentConfig with an empty selector: it takes every cluster left over.\<close>

definition default_match :: "lib \<Rightarrow> AKODeploymentConfig \<Rightarrow> bool" where
  "default_match L adc =
     (case LabelSelectorAsSelector L (ClusterSelector (Spec adc)) of
        Inl _ \<Rightarrow> False
      | Inr s \<Rightarrow> sel_Empty s \<and> Name adc = WorkloadClusterAkoDeploymentConfig)"

text \<open>The abstract choice: the first custom match, else the last default.\<close>

definition chosen_adc :: "lib \<Rightarrow> Cluster \<Rightarrow> AKODeploymentConfig list \<Rightarrow> AKODeploymentConfig option" where
  "chosen_adc L cluster adcs =
     (case find (custom_match L cluster) adcs of
        Some a \<Rightarrow> Some a
      | None \<Rightarrow> find (default_match L) (rev adcs))"

text \<open>
  What may be taken by \<open>obj\<close>: ready, not a foreign management cluster, and not labelled with another
  AKODeploymentConfig, unless this is the default one while it selects everything (\<open>overridable\<close>).
\<close>

definition default_selects_all :: "lib \<Rightarrow> 'w kapi \<Rightarrow> 'w \<Rightarrow> bool" where
  "default_selects_all L K w \<longleftrightarrow>
     (\<exists>adc selector w'. kGet (ADCs K) w ([], WorkloadClusterAkoDeploymentConfig) = (Inr adc, w') \<and>
        LabelSelectorAsSelector L (ClusterSelector (Spec adc)) = Inr selector \<and> sel_Empty selector)"

definition may_take :: "lib \<Rightarrow> environ \<Rightarrow> AKODeploymentConfig \<Rightarrow> bool \<Rightarrow> Cluster \<Rightarrow> bool" where
  "may_take L env obj overridable cluster \<longleftrightarrow>
     \<not> SkipCluster L env cluster \<and>
     (Namespace cluster = TKGSystemNamespace \<longrightarrow> Name obj = ManagementClusterAkoDeploymentConfig) \<and>
     (\<forall>a. Labels cluster AviClusterLabel = Some a \<longrightarrow>
        a = Name obj \<or> a = WorkloadClusterAkoDeploymentConfig \<and> overridable)"

section \<open>Lemmas\<close>

lemma ApplyClusterLabel_frame [frame_simps]:
  "Name (ApplyClusterLabel c a) = Name c" "Namespace (ApplyClusterLabel c a) = Namespace c"
  "Finalizers (ApplyClusterLabel c a) = Finalizers c"
  "DeletionTimestamp (ApplyClusterLabel c a) = DeletionTimestamp c"
  "Conditions (ApplyClusterLabel c a) = Conditions c" "Topology (ApplyClusterLabel c a) = Topology c"
  "Labels (ApplyClusterLabel c a) AviClusterLabel = Some (Name a)"
  by (simp_all add: ApplyClusterLabel_def)

lemma RemoveClusterLabel_frame [frame_simps]:
  "Name (RemoveClusterLabel c) = Name c" "Namespace (RemoveClusterLabel c) = Namespace c"
  "Finalizers (RemoveClusterLabel c) = Finalizers c"
  "DeletionTimestamp (RemoveClusterLabel c) = DeletionTimestamp c"
  "Conditions (RemoveClusterLabel c) = Conditions c" "Topology (RemoveClusterLabel c) = Topology c"
  "Labels (RemoveClusterLabel c) AviClusterLabel = None"
  by (simp_all add: RemoveClusterLabel_def)

lemma match_adc_eq:
  "(\<forall>d. acc = Some d \<longrightarrow> Name d = WorkloadClusterAkoDeploymentConfig) \<Longrightarrow>
   match_adc L c adcs acc =
     (case find (custom_match L c) adcs of
        Some a \<Rightarrow> Some a
      | None \<Rightarrow> (case find (default_match L) (rev adcs) of Some d \<Rightarrow> Some d | None \<Rightarrow> acc))"
proof (induction adcs arbitrary: acc)
  case Nil
  then show ?case by (auto split: option.splits)
next
  case (Cons a adcs)
  have fa: "find P (xs @ [y]) = (case find P xs of Some z \<Rightarrow> Some z | None \<Rightarrow> if P y then Some y else None)"
    for P and xs :: "AKODeploymentConfig list" and y by (induction xs) auto
  show ?case
    using Cons.prems
    by (cases "LabelSelectorAsSelector L (ClusterSelector (Spec a))")
      (auto simp: Cons.IH custom_match_def [of L c a] default_match_def [of L a] isDefaultWcADC_def fa
        split: option.splits)
qed

lemma match_adc_chosen: "match_adc L c adcs None = chosen_adc L c adcs"
  by (auto simp: match_adc_eq chosen_adc_def split: option.splits)

lemma default_selects_all_iff: "default_selects_all L K w \<longleftrightarrow> fst (defaultADCHasEmptySelector L K w)"
  by (auto simp: default_selects_all_def defaultADCHasEmptySelector_def split: prod.splits sum.splits)

lemma select_clusters_Cons:
  "fst (select_clusters L K env obj w (x # xs)) =
     (if may_take L env obj (default_selects_all L K w) x then [x] else []) @
     fst (select_clusters L K env obj (snd (select_clusters L K env obj w [x])) xs)"
  "snd (select_clusters L K env obj w (x # xs)) = snd (select_clusters L K env obj (snd (select_clusters L K env obj w [x])) xs)"
  by (auto simp: may_take_def default_selects_all_iff isDefaultWcADC_def split: option.splits prod.splits)

text \<open>
  The loop keeps exactly what may be taken; whether the default one can be overridden is asked when the
  cluster is examined.
\<close>

lemma select_clusters_iff:
  "c \<in> set (fst (select_clusters L K env obj w cs)) \<longleftrightarrow>
     (\<exists>pre post. cs = pre @ c # post \<and>
        may_take L env obj (default_selects_all L K (snd (select_clusters L K env obj w pre))) c)"
proof (induction cs arbitrary: w)
  case (Cons x xs)
  let ?w = "snd (select_clusters L K env obj w [x])"
  have "(\<exists>pre post. x # xs = pre @ c # post \<and> may_take L env obj (default_selects_all L K (snd (select_clusters L K env obj w pre))) c) \<longleftrightarrow>
      x = c \<and> may_take L env obj (default_selects_all L K w) c \<or>
      (\<exists>pre post. xs = pre @ c # post \<and> may_take L env obj (default_selects_all L K (snd (select_clusters L K env obj ?w pre))) c)"
    (is "?l \<longleftrightarrow> ?r")
  proof
    assume ?l
    then obtain pre post where p: "x # xs = pre @ c # post" "may_take L env obj (default_selects_all L K (snd (select_clusters L K env obj w pre))) c"
      by blast
    show ?r
    proof (cases pre)
      case Nil
      with p show ?thesis by simp
    next
      case (Cons y ys)
      with p have "xs = ys @ c # post" "y = x" by simp_all
      with p Cons select_clusters_Cons(2) [of L K env obj w x ys] show ?thesis by metis
    qed
  next
    assume ?r
    then show ?l
    proof (elim disjE exE conjE)
      assume "x = c" "may_take L env obj (default_selects_all L K w) c"
      then show ?l by (intro exI [of _ "[]"] exI [of _ xs]) simp
    next
      fix pre post
      assume "xs = pre @ c # post" "may_take L env obj (default_selects_all L K (snd (select_clusters L K env obj ?w pre))) c"
      then show ?l using select_clusters_Cons(2) [of L K env obj w x pre] by (intro exI [of _ "x # pre"] exI [of _ post]) (simp del: select_clusters.simps)
    qed
  qed
  with Cons.IH [of ?w] show ?case by (auto simp: select_clusters_Cons(1) simp del: select_clusters.simps)
qed simp

lemma select_clusters_sound:
  assumes "select_clusters L K env obj w cs = (r, w')" "c \<in> set r"
  shows "\<exists>overridable. may_take L env obj overridable c"
  using assms select_clusters_iff [of c L K env obj w cs] by auto

lemma select_clusters_own:
  assumes "select_clusters L K env obj w cs = (r, w')" "c \<in> set cs" "\<not> SkipCluster L env c"
    and "Namespace c = TKGSystemNamespace \<Longrightarrow> Name obj = ManagementClusterAkoDeploymentConfig"
    and "Labels c AviClusterLabel \<in> {None, Some (Name obj)}"
  shows "c \<in> set r"
  using assms(1,2)
proof (induction cs arbitrary: w r)
  case Nil
  then show ?case by simp
next
  case (Cons x xs)
  show ?case
  proof (cases "c = x")
    case True
    with Cons.prems(1) assms(3-5) show ?thesis by (auto split: prod.splits if_splits)
  next
    case False
    with Cons.prems show ?thesis by (auto dest: Cons.IH split: if_splits option.splits prod.splits)
  qed
qed

section \<open>Properties\<close>

text \<open>
  C10. Which AKODeploymentConfig a cluster gets: when the list of AKODeploymentConfigs can be read, it
  is the first one whose selector is non-empty and matches the cluster's labels; only if there is
  none it is the default one (\<open>install-ako-for-all\<close>) with an empty selector; otherwise none.
  Selectors that do not convert are passed over.
\<close>

theorem GetAKODeploymentConfigForCluster_chosen:
  "GetAKODeploymentConfigForCluster L K c w =
     (case ListADCs K w of
        (Inl e, w') \<Rightarrow> (Inl e, w')
      | (Inr adcs, w') \<Rightarrow> (Inr (chosen_adc L c adcs), w'))"
  by (simp add: GetAKODeploymentConfigForCluster_def match_adc_chosen split: prod.splits sum.splits)

text \<open>
  C11. A cluster belongs to one AKODeploymentConfig. The clusters selected for \<open>obj\<close> are exactly those of the
  API server's answer for \<open>obj\<close>'s own selector that are not skipped, are the management cluster only for the
  management cluster's AKODeploymentConfig, and do not carry the label of another AKODeploymentConfig;
  the label of the default one is overridden only if, when the cluster is examined, the default
  AKODeploymentConfig exists and has an empty selector.
\<close>

theorem ListSelectClusters_sound:
  assumes "ListAkoDeploymentConfigSelectClusters L K env obj w = (Inr cs, w')"
  shows "\<exists>s all w1. LabelSelectorAsSelector L (ClusterSelector (Spec obj)) = Inr s \<and> ListClusters K w s = (Inr all, w1) \<and>
    (\<forall>c. c \<in> set cs \<longleftrightarrow>
       (\<exists>pre post. all = pre @ c # post \<and>
          may_take L env obj (default_selects_all L K (snd (select_clusters L K env obj w1 pre))) c))"
proof -
  from assms obtain s all w1 where l: "LabelSelectorAsSelector L (ClusterSelector (Spec obj)) = Inr s" "ListClusters K w s = (Inr all, w1)"
    "cs = fst (select_clusters L K env obj w1 all)"
    by (auto simp: ListAkoDeploymentConfigSelectClusters_def split: sum.splits prod.splits option.splits)
  then show ?thesis using select_clusters_iff by metis
qed

text \<open>
  Nothing that is the AKODeploymentConfig's own is dropped: a cluster the API server lists for the
  selector, that is not skipped, is not a foreign management cluster, and is unlabelled or labelled
  with this AKODeploymentConfig, is in the result.
\<close>

theorem ListSelectClusters_complete:
  assumes "ListAkoDeploymentConfigSelectClusters L K env obj w = (Inr cs, w')"
    and "LabelSelectorAsSelector L (ClusterSelector (Spec obj)) = Inr s"
    and "ListClusters K w s = (Inr all, w1)" and "c \<in> set all" and "\<not> SkipCluster L env c"
    and "Namespace c = TKGSystemNamespace \<Longrightarrow> Name obj = ManagementClusterAkoDeploymentConfig"
    and "Labels c AviClusterLabel \<in> {None, Some (Name obj)}"
  shows "c \<in> set cs"
proof -
  from assms(1-3) obtain w2 where "select_clusters L K env obj w1 all = (cs, w2)"
    by (auto simp: ListAkoDeploymentConfigSelectClusters_def split: prod.splits option.splits)
  from select_clusters_own [OF this assms(4-7)] show ?thesis .
qed

section \<open>Witnesses\<close>

definition blueCluster :: Cluster where
  "blueCluster = exampleCluster\<lparr>Labels := [''team'' \<mapsto> ''blue'']\<rparr>"

definition blueWorld :: mem where
  "blueWorld = mem0\<lparr>m_clusters := [blueCluster], m_adcs := [exampleADC]\<rparr>"

lemma ListSelect_example:
  "ListAkoDeploymentConfigSelectClusters ref_lib mem_kapi Map.empty exampleADC blueWorld = (Inr [blueCluster], blueWorld)"
  by (simp add: ListAkoDeploymentConfigSelectClusters_def SkipCluster_def blueCluster_def blueWorld_def
      ref_defs example_defs ref_status_def TKGSystemNamespace_def AviClusterLabel_def)

theorem ListSelectClusters_sound_witness:
  "\<exists>overridable. may_take ref_lib Map.empty exampleADC overridable blueCluster"
  using ListSelectClusters_sound [OF ListSelect_example] by auto

theorem ListSelectClusters_complete_witness:
  "\<exists>cs. fst (ListAkoDeploymentConfigSelectClusters ref_lib mem_kapi Map.empty exampleADC blueWorld) = Inr cs
     \<and> blueCluster \<in> set cs"
proof -
  have "blueCluster \<in> set [blueCluster]"
  proof (rule ListSelectClusters_complete [OF ListSelect_example])
    show "LabelSelectorAsSelector ref_lib (ClusterSelector (Spec exampleADC)) =
      Inr \<lparr>sel_Empty = False, sel_Matches = (\<lambda>l. l ''team'' = Some ''blue'')\<rparr>"
    by (simp add: ref_defs example_defs)
    show "ListClusters mem_kapi blueWorld \<lparr>sel_Empty = False, sel_Matches = (\<lambda>l. l ''team'' = Some ''blue'')\<rparr> = (Inr [blueCluster], blueWorld)"
    by (simp add: ref_defs blueWorld_def blueCluster_def)
  qed (simp_all add: SkipCluster_def ref_defs blueCluster_def example_defs ref_status_def TKGSystemNamespace_def AviClusterLabel_def)
  then show ?thesis by (simp add: ListSelect_example)
qed

end
