(* ===== verification/Phases.thy ===== *)
theory Phases
  imports Cluster_Mapping
begin

text \<open>
  \<open>src/controllers/akodeploymentconfig/phases/phases.go\<close>: running a list of reconcile phases on an
  AKODeploymentConfig, and running a list of phases on each cluster it selects.

  A phase that runs either returns, or panics, or blocks forever on a lock (datatype \<open>run\<close>). What a
  phase changes (the object it is given, the reconciler, the world) is a state that is returned in
  every case.
\<close>

datatype 'a run = Done 'a | Crashed | Blocked

fun run_of :: "'a outcome \<Rightarrow> 'a run" where
  "run_of (Ret x) = Done x"
| "run_of Panic = Crashed"

type_synonym verdict = "Result \<times> error option"

section \<open>Running phases\<close>

text \<open>The loop: results are merged as long as there is no error; errors are collected.\<close>

fun run_phases ::
  "lib \<Rightarrow> ('s \<Rightarrow> verdict run \<times> 's) list \<Rightarrow> Result \<Rightarrow> error list \<Rightarrow> 's \<Rightarrow> (Result \<times> error list) run \<times> 's" where
  "run_phases L [] res errs s = (Done (res, errs), s)"
| "run_phases L (phase # phases) res errs s =
     (case phase s of
        (Done (phaseResult, err), s) \<Rightarrow>
          (let errs = (case err of None \<Rightarrow> errs | Some e \<Rightarrow> errs @ [e])
           in run_phases L phases (if errs = [] then LowestNonZeroResult L res phaseResult else res) errs s)
      | (Crashed, s) \<Rightarrow> (Crashed, s)
      | (Blocked, s) \<Rightarrow> (Blocked, s))"

definition ReconcilePhases :: "lib \<Rightarrow> ('s \<Rightarrow> verdict run \<times> 's) list \<Rightarrow> 's \<Rightarrow> verdict run \<times> 's" where
  "ReconcilePhases L phases s =
     (case run_phases L phases zeroResult [] s of
        (Done (res, errs), s) \<Rightarrow> (Done (res, NewAggregate L errs), s)
      | (Crashed, s) \<Rightarrow> (Crashed, s)
      | (Blocked, s) \<Rightarrow> (Blocked, s))"

section \<open>Running phases on clusters\<close>

type_synonym 'w cluster_phase = "Cluster \<Rightarrow> AKODeploymentConfig \<Rightarrow> 'w \<Rightarrow> verdict run \<times> Cluster \<times> 'w"

text \<open>The phases of one cluster, after its label is set.\<close>

definition cluster_phases ::
  "lib \<Rightarrow> AKODeploymentConfig \<Rightarrow> 'w cluster_phase list \<Rightarrow> 'w cluster_phase list \<Rightarrow> Result \<Rightarrow> Cluster \<Rightarrow> 'w
     \<Rightarrow> (Result \<times> error list) run \<times> Cluster \<times> 'w" where
  "cluster_phases L obj normalPhases deletePhases res cluster w =
     (let cluster = ApplyClusterLabel cluster obj;
          phases = (if being_deleted cluster then deletePhases else normalPhases)
      in run_phases L (map (\<lambda>phase (c, w). phase c obj w) phases) res [] (cluster, w))"

text \<open>
  The loop over the clusters. The error of the patch is logged only. The condition that the patch
  also records the observed generation is not modelled (the field is not part of the model).
\<close>

fun reconcile_clusters ::
  "lib \<Rightarrow> 'w kapi \<Rightarrow> AKODeploymentConfig \<Rightarrow> 'w cluster_phase list \<Rightarrow> 'w cluster_phase list \<Rightarrow>
     Cluster list \<Rightarrow> Result \<Rightarrow> error list \<Rightarrow> 'w \<Rightarrow> verdict run \<times> 'w" where
  "reconcile_clusters L K obj normalPhases deletePhases [] res allErrs w = (Done (res, NewAggregate L allErrs), w)"
| "reconcile_clusters L K obj normalPhases deletePhases (cluster # rest) res allErrs w =
     (case IsLoadBalancerProvider cluster of
        Inl err \<Rightarrow> reconcile_clusters L K obj normalPhases deletePhases rest res (allErrs @ [err]) w
      | Inr False \<Rightarrow> reconcile_clusters L K obj normalPhases deletePhases rest res allErrs w
      | Inr True \<Rightarrow>
          (case kNewHelper (Clusters K) w cluster of
             (Some err, w) \<Rightarrow>
               (Done (res, Wrap L (Some err) (''failed to init patch helper for '' @ Kind cluster @ '' '' @ Namespace cluster @ ''/'' @ Name cluster)), w)
           | (None, w) \<Rightarrow>
               (case cluster_phases L obj normalPhases deletePhases res cluster w of
                  (Crashed, _, w) \<Rightarrow> (Crashed, w)
                | (Blocked, _, w) \<Rightarrow> (Blocked, w)
                | (Done (res, errs), cluster', w) \<Rightarrow>
                    (let allErrs = (case NewAggregate L errs of None \<Rightarrow> allErrs | Some clusterErr \<Rightarrow> allErrs @ [clusterErr])
                     in reconcile_clusters L K obj normalPhases deletePhases rest res allErrs
                          (snd (kPatch (Clusters K) w cluster cluster'))))))"

definition ReconcileClustersPhases ::
  "lib \<Rightarrow> 'w kapi \<Rightarrow> environ \<Rightarrow> 'w cluster_phase list \<Rightarrow> 'w cluster_phase list \<Rightarrow>
     AKODeploymentConfig \<Rightarrow> 'w \<Rightarrow> verdict run \<times> 'w" where
  "ReconcileClustersPhases L K env normalPhases deletePhases obj w =
     (case ListAkoDeploymentConfigSelectClusters L K env obj w of
        (Inl err, w) \<Rightarrow> (Done (zeroResult, Some err), w)
      | (Inr clusters, w) \<Rightarrow>
          (if clusters = [] then (Done (zeroResult, None), w)
           else reconcile_clusters L K obj normalPhases deletePhases clusters zeroResult [] w))"

section \<open>What running phases means\<close>

text \<open>The run of a list of phases: the verdicts of all phases, in order, and the last state.\<close>

fun all_verdicts :: "('s \<Rightarrow> verdict run \<times> 's) list \<Rightarrow> 's \<Rightarrow> (verdict list) run \<times> 's" where
  "all_verdicts [] s = (Done [], s)"
| "all_verdicts (p # ps) s =
     (case p s of
        (Done v, s) \<Rightarrow>
          (case all_verdicts ps s of
             (Done vs, s) \<Rightarrow> (Done (v # vs), s)
           | (Crashed, s) \<Rightarrow> (Crashed, s)
           | (Blocked, s) \<Rightarrow> (Blocked, s))
      | (Crashed, s) \<Rightarrow> (Crashed, s)
      | (Blocked, s) \<Rightarrow> (Blocked, s))"

definition errors_of :: "verdict list \<Rightarrow> error list" where
  "errors_of vs = List.map_filter snd vs"

lemma errors_of_simps [simp]:
  "errors_of [] = []" "errors_of ((r, None) # vs) = errors_of vs" "errors_of ((r, Some e) # vs) = e # errors_of vs"
  by (simp_all add: errors_of_def List.map_filter_simps)

lemma run_phases_verdicts:
  "run_phases L ps res errs s =
     (case all_verdicts ps s of
        (Done vs, s') \<Rightarrow>
          (Done (fold (\<lambda>v (res, errs). let errs = (case snd v of None \<Rightarrow> errs | Some e \<Rightarrow> errs @ [e])
                   in (if errs = [] then LowestNonZeroResult L res (fst v) else res, errs)) vs (res, errs)), s')
      | (Crashed, s') \<Rightarrow> (Crashed, s')
      | (Blocked, s') \<Rightarrow> (Blocked, s'))"
  by (induction ps arbitrary: res errs s) (auto simp: Let_def split: prod.splits run.splits option.splits)

lemma fold_verdicts_errs:
  "snd (fold (\<lambda>v (res, errs). let errs = (case snd v of None \<Rightarrow> errs | Some e \<Rightarrow> errs @ [e])
       in (if errs = [] then LowestNonZeroResult L res (fst v) else res, errs)) vs (res, errs)) = errs @ errors_of vs"
proof (induction vs arbitrary: res errs)
  case (Cons v vs)
  then show ?case by (cases v) (auto simp: Let_def split: option.splits)
qed simp

lemma fold_verdicts_res:
  "errors_of vs = [] \<Longrightarrow>
   fst (fold (\<lambda>v (res, errs). let errs = (case snd v of None \<Rightarrow> errs | Some e \<Rightarrow> errs @ [e])
       in (if errs = [] then LowestNonZeroResult L res (fst v) else res, errs)) vs (res, [])) =
   fold (\<lambda>v res. LowestNonZeroResult L res (fst v)) vs res"
proof (induction vs arbitrary: res)
  case (Cons v vs)
  then show ?case by (cases v; cases "snd v") (auto simp: Let_def)
qed simp

lemma lowest_requeue:
  assumes "result_laws L" "Requeue res \<or> (\<exists>v \<in> set vs. Requeue (fst v))"
    and "\<forall>v \<in> set vs. Requeue (fst v) \<or> fst v = zeroResult" "Requeue res \<or> res = zeroResult"
  shows "Requeue (fold (\<lambda>v res. LowestNonZeroResult L res (fst v)) vs res)"
  using assms(2-)
proof (induction vs arbitrary: res)
  case (Cons v vs)
  let ?r = "LowestNonZeroResult L res (fst v)"
  have "\<not> Requeue zeroResult" by (simp add: zeroResult_def)
  then have "Requeue ?r \<or> ?r = zeroResult" "Requeue res \<or> Requeue (fst v) \<Longrightarrow> Requeue ?r"
    using assms(1) Cons.prems(2,3) unfolding result_laws_def by (metis list.set_intros(1))+
  with Cons show ?case by auto
qed simp

text \<open>
  C23. All phases are run: an error of one phase does not keep the later ones from running on the state
  it left. The run reports an error exactly if some phase did; without errors the result is the
  phases' results merged in order. A phase that panics or blocks ends the run.
\<close>

theorem ReconcilePhases_runs_all:
  assumes "aggregate_laws L"
  shows "case all_verdicts ps s of
           (Done vs, s') \<Rightarrow>
             (\<exists>res err. ReconcilePhases L ps s = (Done (res, err), s') \<and>
                (err = None \<longleftrightarrow> (\<forall>v \<in> set vs. snd v = None)) \<and>
                (err = None \<longrightarrow> res = fold (\<lambda>v res. LowestNonZeroResult L res (fst v)) vs zeroResult))
         | (Crashed, s') \<Rightarrow> ReconcilePhases L ps s = (Crashed, s')
         | (Blocked, s') \<Rightarrow> ReconcilePhases L ps s = (Blocked, s')"
proof -
  have none: "errors_of vs = [] \<longleftrightarrow> (\<forall>v \<in> set vs. snd v = None)" for vs
    by (induction vs) (auto simp: errors_of_def List.map_filter_simps split: option.splits)
  obtain x s' where x: "all_verdicts ps s = (x, s')" by (cases "all_verdicts ps s")
  show ?thesis
  proof (cases x)
    case (Done vs)
    obtain res errs where f: "fold (\<lambda>v (res, errs). let errs = (case snd v of None \<Rightarrow> errs | Some e \<Rightarrow> errs @ [e])
        in (if errs = [] then LowestNonZeroResult L res (fst v) else res, errs)) vs (zeroResult, []) = (res, errs)"
      by fastforce
    from fold_verdicts_errs [of L vs zeroResult "[]", unfolded f] have "errs = errors_of vs" by simp
    moreover from fold_verdicts_res [of vs L zeroResult, unfolded f]
    have "errors_of vs = [] \<Longrightarrow> res = fold (\<lambda>v res. LowestNonZeroResult L res (fst v)) vs zeroResult" by simp
    ultimately show ?thesis
      using assms by (simp add: x Done ReconcilePhases_def run_phases_verdicts f aggregate_laws_def none)
  qed (simp_all add: x ReconcilePhases_def run_phases_verdicts)
qed

lemma two_phases:
  "all_verdicts [\<lambda>s. (Done (zeroResult, Some (Err ''a'')), s + 1), \<lambda>s. (Done (zeroResult, None), s + (2::nat))] 0 =
     (Done [(zeroResult, Some (Err ''a'')), (zeroResult, None)], 3)"
  by simp

theorem ReconcilePhases_runs_all_witness:
  "\<exists>res err. ReconcilePhases ref_lib [\<lambda>s. (Done (zeroResult, Some (Err ''a'')), s + 1), \<lambda>s. (Done (zeroResult, None), s + 2)] (0::nat) =
     (Done (res, err), 3) \<and> err \<noteq> None"
  using ReconcilePhases_runs_all [OF ref_aggregate_laws,
      of "[\<lambda>s. (Done (zeroResult, Some (Err ''a'')), s + 1), \<lambda>s. (Done (zeroResult, None), s + 2)]" "0::nat"]
  unfolding two_phases by auto

section \<open>Phases that keep a relation: an interface\<close>

text \<open>
  The contract of one cluster phase: on a cluster that is being deleted (\<open>d\<close>) or one that is not,
  however the API server answers, the cluster before and after are related. A relation that is
  reflexive and transitive, keeps the deletion mark and allows the label to be set, is kept by any
  list of such phases.
\<close>

locale cluster_phase =
  fixes phase :: "'w cluster_phase" and d :: bool and R :: "Cluster \<Rightarrow> Cluster \<Rightarrow> bool"
  assumes step: "being_deleted c = d \<Longrightarrow> phase c obj w = (r, c', w') \<Longrightarrow> R c c'"

locale cluster_relation =
  fixes R :: "Cluster \<Rightarrow> Cluster \<Rightarrow> bool"
  assumes refl: "R c c"
    and trans: "R a b \<Longrightarrow> R b c \<Longrightarrow> R a c"
    and keeps: "R c c' \<Longrightarrow> being_deleted c' = being_deleted c"
    and label: "R c (ApplyClusterLabel c obj)"
begin

lemma run_phases_keep:
  assumes "\<And>p. p \<in> set ps \<Longrightarrow> cluster_phase p (being_deleted c) R"
    and "run_phases L (map (\<lambda>phase (c, w). phase c obj w) ps) res errs (c, w) = (r, c', w')"
  shows "R c c'"
  using assms
proof (induction ps arbitrary: res errs c w)
  case Nil
  then show ?case by (simp add: refl)
next
  case (Cons p ps)
  obtain v c1 w1 where p: "p c obj w = (v, c1, w1)" by (cases "p c obj w") auto
  have R: "R c c1" using Cons.prems(1) [of p] cluster_phase.step [of p "being_deleted c" R, OF _ _ p] by simp
  moreover have "R c1 c'"
    using Cons.IH [of c1] Cons.prems p keeps [OF R] by (auto simp: Let_def refl split: run.splits prod.splits)
  ultimately show ?case by (rule trans)
qed

lemma cluster_phases_keep:
  assumes "\<And>p. p \<in> set normal \<Longrightarrow> cluster_phase p False R" "\<And>p. p \<in> set del \<Longrightarrow> cluster_phase p True R"
    and "cluster_phases L obj normal del res c w = (r, c', w')"
  shows "R c c'"
  using run_phases_keep [of "if being_deleted (ApplyClusterLabel c obj) then del else normal"
      "ApplyClusterLabel c obj" L obj res "[]" w r c' w'] assms label [of c obj] trans
  by (cases "being_deleted (ApplyClusterLabel c obj)") (auto simp: cluster_phases_def Let_def)

end

section \<open>The cleanup protocol\<close>

text \<open>
  What a reconciliation may do to a cluster. Identity and deletion mark stay; a cleanup condition
  once true stays true; the credentials are cleaned up only after the AVI resources; and the
  finalizer of a cluster that is being deleted is removed only when both are cleaned up.
\<close>

definition resources_clean :: "lib \<Rightarrow> Cluster \<Rightarrow> bool" where
  "resources_clean L c \<longleftrightarrow> cond_IsTrue L (Conditions c) AviResourceCleanupSucceededCondition"

definition user_clean :: "lib \<Rightarrow> Cluster \<Rightarrow> bool" where
  "user_clean L c \<longleftrightarrow> cond_IsTrue L (Conditions c) AviUserCleanupSucceededCondition"

definition cleanup_step :: "lib \<Rightarrow> Cluster \<Rightarrow> Cluster \<Rightarrow> bool" where
  "cleanup_step L c c' \<longleftrightarrow>
     Name c' = Name c \<and> Namespace c' = Namespace c \<and> DeletionTimestamp c' = DeletionTimestamp c \<and>
     (resources_clean L c \<longrightarrow> resources_clean L c') \<and>
     (user_clean L c \<longrightarrow> user_clean L c') \<and>
     (user_clean L c' \<longrightarrow> user_clean L c \<or> resources_clean L c') \<and>
     (being_deleted c \<and> ClusterFinalizer \<in> set (Finalizers c) \<and> ClusterFinalizer \<notin> set (Finalizers c') \<longrightarrow>
        resources_clean L c' \<and> user_clean L c')"

lemma cleanup_conditions_distinct [simp]:
  "AviUserCleanupSucceededCondition \<noteq> AviResourceCleanupSucceededCondition"
  "AviResourceCleanupSucceededCondition \<noteq> AviUserCleanupSucceededCondition"
  "ClusterIpFamilyValidationSucceededCondition \<noteq> AviResourceCleanupSucceededCondition"
  "ClusterIpFamilyValidationSucceededCondition \<noteq> AviUserCleanupSucceededCondition"
  by (simp_all add: AviUserCleanupSucceededCondition_def AviResourceCleanupSucceededCondition_def
      ClusterIpFamilyValidationSucceededCondition_def)

lemma ApplyClusterLabel_keeps [simp]:
  "Name (ApplyClusterLabel c obj) = Name c" "Namespace (ApplyClusterLabel c obj) = Namespace c"
  "DeletionTimestamp (ApplyClusterLabel c obj) = DeletionTimestamp c" "Conditions (ApplyClusterLabel c obj) = Conditions c"
  "Finalizers (ApplyClusterLabel c obj) = Finalizers c" "being_deleted (ApplyClusterLabel c obj) = being_deleted c"
  "Topology (ApplyClusterLabel c obj) = Topology c"
  by (simp_all add: ApplyClusterLabel_def being_deleted_def)

text \<open>The relation every phase keeps, given what is documented of conditions and finalizers.\<close>

definition protocol :: "lib \<Rightarrow> Cluster \<Rightarrow> Cluster \<Rightarrow> bool" where
  "protocol L c c' \<longleftrightarrow> DeletionTimestamp c' = DeletionTimestamp c \<and>
     (condition_laws L \<and> finalizer_laws L \<longrightarrow> cleanup_step L c c')"

lemma cleanup_step_refl [simp]: "cleanup_step L c c"
  by (simp add: cleanup_step_def)

lemma cleanup_step_trans: "cleanup_step L a b \<Longrightarrow> cleanup_step L b c \<Longrightarrow> cleanup_step L a c"
  by (auto simp: cleanup_step_def being_deleted_def)

interpretation cleanup: cluster_relation "protocol L" for L
proof (unfold_locales, goal_cases)
  case (1 c) show ?case by (simp add: protocol_def)
next
  case (2 a b c) then show ?case by (auto simp: protocol_def intro: cleanup_step_trans)
next
  case (3 c c') then show ?case by (simp add: protocol_def being_deleted_def)
next
  case (4 c obj) show ?case by (simp add: protocol_def cleanup_step_def resources_clean_def user_clean_def)
qed

text \<open>Changing anything else of a cluster keeps the protocol.\<close>

lemma cleanup_step_frame:
  assumes "Name c' = Name c" "Namespace c' = Namespace c" "DeletionTimestamp c' = DeletionTimestamp c"
    "Finalizers c' = Finalizers c" "resources_clean L c' \<longleftrightarrow> resources_clean L c" "user_clean L c' \<longleftrightarrow> user_clean L c"
  shows "cleanup_step L c c'"
  using assms by (auto simp: cleanup_step_def)

section \<open>Errors of the patch\<close>

definition with_patch :: "'w kapi \<Rightarrow> ('w \<Rightarrow> Cluster \<Rightarrow> Cluster \<Rightarrow> error option \<times> 'w) \<Rightarrow> 'w kapi" where
  "with_patch K p = K\<lparr>Clusters := (Clusters K)\<lparr>kPatch := p\<rparr>\<rparr>"

lemma with_patch_simps [simp]:
  "ADCs (with_patch K p) = ADCs K" "ListClusters (with_patch K p) = ListClusters K"
  "kNewHelper (Clusters (with_patch K p)) = kNewHelper (Clusters K)" "kPatch (Clusters (with_patch K p)) = p"
  by (simp_all add: with_patch_def)

lemma select_clusters_with_patch: "select_clusters L (with_patch K p) env obj w cs = select_clusters L K env obj w cs"
  by (induction L K env obj w cs rule: select_clusters.induct)
    (auto simp: defaultADCHasEmptySelector_def split: option.splits prod.splits)

lemma ListSelect_with_patch:
  "ListAkoDeploymentConfigSelectClusters L (with_patch K p) env obj w = ListAkoDeploymentConfigSelectClusters L K env obj w"
  by (auto simp: ListAkoDeploymentConfigSelectClusters_def select_clusters_with_patch split: sum.splits prod.splits)

lemma reconcile_clusters_with_patch:
  assumes "\<And>w c c'. snd (p w c c') = snd (kPatch (Clusters K) w c c')"
  shows "reconcile_clusters L (with_patch K p) obj normal del cs res errs w = reconcile_clusters L K obj normal del cs res errs w"
proof (induction cs arbitrary: res errs w)
  case (Cons c cs)
  then show ?case
    by (simp add: assms split: sum.split bool.split prod.split option.split run.split)
qed simp

text \<open>
  C40. Failures to write a cluster back are not reported: whatever errors the patch of a cluster returns,
  the verdict of the reconciliation is the same (the code aggregates the error into a local variable
  that is only logged). So a lost update is not retried by the error path.
\<close>

theorem patch_errors_unreported:
  assumes "\<And>w c c'. snd (p w c c') = snd (kPatch (Clusters K) w c c')"
  shows "ReconcileClustersPhases L (with_patch K p) env normal del obj w = ReconcileClustersPhases L K env normal del obj w"
  by (simp add: ReconcileClustersPhases_def ListSelect_with_patch reconcile_clusters_with_patch [OF assms]
      split: prod.split sum.split)

definition failing_patch :: "mem \<Rightarrow> Cluster \<Rightarrow> Cluster \<Rightarrow> error option \<times> mem" where
  "failing_patch w c c' = (Some (Err ''conflict''), snd (kPatch (Clusters mem_kapi) w c c'))"

lemma blue_verdict:
  "fst (ReconcileClustersPhases ref_lib mem_kapi Map.empty [] [] exampleADC blueWorld) = Done (zeroResult, None)"
proof -
  have "kNewHelper (Clusters mem_kapi) blueWorld blueCluster = (None, blueWorld)" by (simp add: mem_kapi_def list_api_def)
  moreover have "NewAggregate ref_lib [] = None" by (simp add: ref_lib_def)
  moreover have "Topology blueCluster = None" by (simp add: blueCluster_def exampleCluster_def ObjectMeta.defs)
  ultimately show ?thesis
    by (simp add: ReconcileClustersPhases_def ListSelect_example IsLoadBalancerProvider_def topology_var_def cluster_phases_def)
qed

theorem patch_errors_unreported_witness:
  "fst (ReconcileClustersPhases ref_lib (with_patch mem_kapi failing_patch) Map.empty [] [] exampleADC blueWorld) =
     Done (zeroResult, None)"
  using patch_errors_unreported [where p = failing_patch and K = mem_kapi, of ref_lib Map.empty "[]" "[]" exampleADC blueWorld]
    blue_verdict by (simp add: failing_patch_def)

end
