(* ===== verification/Ip_Family.thy ===== *)
theory Ip_Family
  imports Go_Net Api_Types
begin

text \<open>
  \<open>src/pkg/utils/get_ipfamily.go\<close> and \<open>get_objects.go\<close>: the IP family of a CIDR, of a list of
  CIDRs and of a cluster, and the names of the secrets the operator keeps per cluster.
\<close>

section \<open>Definitions\<close>

definition InvalidIPFamily :: string where
  "InvalidIPFamily = ''INVALID''"

definition IPv4IpFamily :: string where
  "IPv4IpFamily = ''V4''"

definition IPv6IpFamily :: string where
  "IPv6IpFamily = ''V6''"

definition DualStackIPFamily :: string where
  "DualStackIPFamily = ''Dual-Stack''"

definition DualStackIPv6Primary :: string where
  "DualStackIPv6Primary = ''V6,V4''"

definition DualStackIPv4Primary :: string where
  "DualStackIPv4Primary = ''V4,V6''"

lemmas family_defs =
  InvalidIPFamily_def IPv4IpFamily_def IPv6IpFamily_def DualStackIPFamily_def
  DualStackIPv6Primary_def DualStackIPv4Primary_def

definition GetIPFamilyFromCidr :: "string \<Rightarrow> string" where
  "GetIPFamilyFromCidr cidr =
     (case ParseCIDR cidr of
        None \<Rightarrow> InvalidIPFamily
      | Some (addr, _) \<Rightarrow> (if To4 addr = [] then IPv6IpFamily else IPv4IpFamily))"

text \<open>The loop over the CIDRs keeps the pair \<open>(foundIPv4, foundIPv6)\<close>.\<close>

fun found_families :: "string list \<Rightarrow> bool \<Rightarrow> bool \<Rightarrow> bool \<times> bool" where
  "found_families [] found4 found6 = (found4, found6)"
| "found_families (cidr # cidrs) found4 found6 =
     (let cidrType = GetIPFamilyFromCidr cidr
      in if cidrType = IPv4IpFamily then found_families cidrs True found6
         else if cidrType = IPv6IpFamily then found_families cidrs found4 True
         else found_families cidrs found4 found6)"

definition ipFamilyFromCIDRStrings :: "string list \<Rightarrow> error + string" where
  "ipFamilyFromCIDRStrings cidrs =
     (if 2 < length cidrs then Inl (Err ''too many CIDRs specified'')
      else (let (foundIPv4, foundIPv6) = found_families cidrs False False
            in if foundIPv4 \<and> foundIPv6 then Inr DualStackIPFamily
               else if foundIPv4 then Inr IPv4IpFamily
               else if foundIPv6 then Inr IPv6IpFamily
               else Inl (Err ''Invalid IP Family'')))"

definition podCIDRs :: "Cluster \<Rightarrow> string list" where
  "podCIDRs c =
     (case Spec_ClusterNetwork c of
        None \<Rightarrow> []
      | Some n \<Rightarrow> (case Pods n of None \<Rightarrow> [] | Some bs \<Rightarrow> bs))"

definition serviceCIDRs :: "Cluster \<Rightarrow> string list" where
  "serviceCIDRs c =
     (case Spec_ClusterNetwork c of
        None \<Rightarrow> []
      | Some n \<Rightarrow> (case Services n of None \<Rightarrow> [] | Some bs \<Rightarrow> bs))"

text \<open>The family of a list of CIDRs, the empty string (the zero value) for an empty list.\<close>

definition familyOrZero :: "string list \<Rightarrow> error + string" where
  "familyOrZero cidrs = (if cidrs = [] then Inr [] else ipFamilyFromCIDRStrings cidrs)"

definition dualPrimary :: "string list \<Rightarrow> string" where
  "dualPrimary cidrs =
     (if GetIPFamilyFromCidr (hd cidrs) = IPv4IpFamily then DualStackIPv4Primary else DualStackIPv6Primary)"

definition GetClusterIPFamily :: "Cluster \<Rightarrow> error + string" where
  "GetClusterIPFamily c =
     (let pods = podCIDRs c; svcs = serviceCIDRs c
      in if pods = [] \<and> svcs = [] then Inr IPv4IpFamily
         else case familyOrZero pods of
           Inl e \<Rightarrow> Inl (Err (''pods: '' @ Error_msg e))
         | Inr podsIPFamily \<Rightarrow>
             (case familyOrZero svcs of
                Inl e \<Rightarrow> Inl (Err (''services: '' @ Error_msg e))
              | Inr servicesIPFamily \<Rightarrow>
                  (if podsIPFamily \<noteq> servicesIPFamily \<and> pods \<noteq> [] \<and> svcs \<noteq> []
                   then Inl (Err ''pods and services IP family mismatch'')
                   else if podsIPFamily = DualStackIPFamily then Inr (dualPrimary pods)
                   else if servicesIPFamily = DualStackIPFamily then Inr (dualPrimary svcs)
                   else if pods = [] then Inr servicesIPFamily
                   else Inr podsIPFamily)))"

definition GetPrimaryIPFamily :: "Cluster \<Rightarrow> error + string" where
  "GetPrimaryIPFamily c =
     (case GetClusterIPFamily c of
        Inl e \<Rightarrow> Inl (Err (''Invalid IP Family: '' @ Error_msg e))
      | Inr ipFamily \<Rightarrow>
          (if ipFamily = IPv4IpFamily \<or> ipFamily = DualStackIPv4Primary then Inr IPv4IpFamily
           else Inr IPv6IpFamily))"

definition AVIUserSecretName :: "Cluster \<Rightarrow> string" where
  "AVIUserSecretName cluster = Name cluster @ ''-avi-credentials''"

definition AKOAddonSecretName :: "Cluster \<Rightarrow> string" where
  "AKOAddonSecretName cluster = Name cluster @ ''-load-balancer-and-ingress-service-addon''"

definition AKOAddonSecretNameForClusterClass :: "Cluster \<Rightarrow> string" where
  "AKOAddonSecretNameForClusterClass cluster = Name cluster @ ''-load-balancer-and-ingress-service-data-values''"

section \<open>Specification\<close>

text \<open>The family of a CIDR as a value of its own, and the family that decides a list: its first valid CIDR.\<close>

datatype family = V4 | V6

definition cidr_family :: "string \<Rightarrow> family option" where
  "cidr_family cidr =
     (case ParseCIDR cidr of
        None \<Rightarrow> None
      | Some (addr, _) \<Rightarrow> Some (if To4 addr = [] then V6 else V4))"

definition families :: "string list \<Rightarrow> family list" where
  "families cidrs = List.map_filter cidr_family cidrs"

fun family_name :: "family \<Rightarrow> string" where
  "family_name V4 = IPv4IpFamily"
| "family_name V6 = IPv6IpFamily"

text \<open>The CIDRs that decide a cluster's primary family: the pods', or the services' where there are none.\<close>

definition deciding_cidrs :: "Cluster \<Rightarrow> string list" where
  "deciding_cidrs c = (if podCIDRs c \<noteq> [] then podCIDRs c else serviceCIDRs c)"

text \<open>The lists the code accepts, and the name it gives an accepted non-empty list.\<close>

definition cidrs_ok :: "string list \<Rightarrow> bool" where
  "cidrs_ok cidrs \<longleftrightarrow> cidrs = [] \<or> length cidrs \<le> 2 \<and> families cidrs \<noteq> []"

definition list_family :: "string list \<Rightarrow> string" where
  "list_family cidrs =
     (if set (families cidrs) = UNIV then DualStackIPFamily else family_name (hd (families cidrs)))"

section \<open>Lemmas\<close>

lemma family_distinct [simp]:
  "IPv4IpFamily \<noteq> IPv6IpFamily" "IPv6IpFamily \<noteq> IPv4IpFamily"
  "InvalidIPFamily \<noteq> IPv4IpFamily" "InvalidIPFamily \<noteq> IPv6IpFamily"
  "DualStackIPFamily \<noteq> IPv4IpFamily" "DualStackIPFamily \<noteq> IPv6IpFamily"
  "IPv4IpFamily \<noteq> DualStackIPFamily" "IPv6IpFamily \<noteq> DualStackIPFamily"
  "DualStackIPv6Primary \<noteq> IPv4IpFamily" "DualStackIPv6Primary \<noteq> DualStackIPv4Primary"
  "DualStackIPv4Primary \<noteq> IPv4IpFamily" "IPv6IpFamily \<noteq> DualStackIPv4Primary"
  "DualStackIPFamily \<noteq> []" "[] \<noteq> DualStackIPFamily" "IPv4IpFamily \<noteq> []" "IPv6IpFamily \<noteq> []"
  by (simp_all add: family_defs)

lemma GetIPFamilyFromCidr_eq:
  "GetIPFamilyFromCidr cidr =
     (case cidr_family cidr of None \<Rightarrow> InvalidIPFamily | Some f \<Rightarrow> family_name f)"
  by (auto simp: GetIPFamilyFromCidr_def cidr_family_def split: option.splits)

lemma families_simps [simp]:
  "families [] = []"
  "families (c # cs) = (case cidr_family c of None \<Rightarrow> families cs | Some f \<Rightarrow> f # families cs)"
  by (simp_all add: families_def List.map_filter_def split: option.splits)

lemma found_families_eq:
  "found_families cidrs a b = (a \<or> V4 \<in> set (families cidrs), b \<or> V6 \<in> set (families cidrs))"
proof (induction cidrs arbitrary: a b)
  case (Cons c cs)
  then show ?case
    by (cases "cidr_family c"; cases "the (cidr_family c)") (auto simp: GetIPFamilyFromCidr_eq Let_def)
qed simp

lemma ipFamilyFromCIDRStrings_eq:
  "ipFamilyFromCIDRStrings cidrs =
     (if 2 < length cidrs then Inl (Err ''too many CIDRs specified'')
      else if set (families cidrs) = {} then Inl (Err ''Invalid IP Family'')
      else if set (families cidrs) = UNIV then Inr DualStackIPFamily
      else Inr (family_name (hd (families cidrs))))"
proof -
  have U: "(UNIV :: family set) = {V4, V6}" using family.exhaust by auto
  show ?thesis
    by (cases "families cidrs"; cases "hd (families cidrs)")
      (auto simp: ipFamilyFromCIDRStrings_def found_families_eq U split: if_splits dest: family.exhaust,
       (metis family.exhaust)+)
qed

text \<open>Two CIDRs that give both families are both valid, so the first one decides.\<close>

lemma dual_first:
  assumes "length cidrs \<le> 2" "set (families cidrs) = UNIV"
  shows "cidr_family (hd cidrs) = Some (hd (families cidrs))"
proof -
  from assms(2) have "V4 \<in> set (families cidrs)" "V6 \<in> set (families cidrs)" by auto
  then obtain a b where "cidrs = [a, b]" using assms(1)
    by (cases cidrs; cases "tl cidrs") (auto split: option.splits)
  with \<open>V4 \<in> _\<close> \<open>V6 \<in> _\<close> show ?thesis by (auto split: option.splits)
qed

lemma dualPrimary_eq:
  assumes "ipFamilyFromCIDRStrings cidrs = Inr DualStackIPFamily"
  shows "dualPrimary cidrs =
           (if hd (families cidrs) = V4 then DualStackIPv4Primary else DualStackIPv6Primary)"
proof -
  from assms have "length cidrs \<le> 2" "set (families cidrs) = UNIV"
    by (cases "hd (families cidrs)"; auto simp: ipFamilyFromCIDRStrings_eq split: if_splits)+
  from dual_first [OF this] show ?thesis
    by (cases "hd (families cidrs)") (simp_all add: dualPrimary_def GetIPFamilyFromCidr_eq)
qed

lemma familyOrZero_Inr:
  "familyOrZero cidrs = Inr f \<longleftrightarrow>
     cidrs_ok cidrs \<and>
     f = (if cidrs = [] then [] else if set (families cidrs) = UNIV then DualStackIPFamily
          else family_name (hd (families cidrs)))"
  by (auto simp: familyOrZero_def cidrs_ok_def ipFamilyFromCIDRStrings_eq)

lemma family_name_simps [simp]:
  "family_name f \<noteq> DualStackIPFamily" "DualStackIPFamily \<noteq> family_name f"
  "family_name f \<noteq> []" "[] \<noteq> family_name f"
  "family_name f = IPv4IpFamily \<longleftrightarrow> f = V4" "family_name f \<noteq> DualStackIPv4Primary"
  "family_name f = family_name g \<longleftrightarrow> f = g"
  by (cases f; cases g; simp add: family_defs)+

lemma same_families:
  assumes "families a \<noteq> []" "families b \<noteq> []"
  shows "set (families a) = set (families b) \<longleftrightarrow>
     (if set (families a) = UNIV then DualStackIPFamily else family_name (hd (families a))) =
     (if set (families b) = UNIV then DualStackIPFamily else family_name (hd (families b)))"
proof -
  have single: "set fs = {hd fs}" if "fs \<noteq> []" "set fs \<noteq> UNIV" for fs :: "family list"
  proof -
    have "x = hd fs" if "x \<in> set fs" for x
    proof (rule ccontr)
      assume "x \<noteq> hd fs"
      then have "{x, hd fs} = UNIV" by (metis (full_types) UNIV_eq_I family.exhaust insertCI)
      with that \<open>fs \<noteq> []\<close> have "set fs = UNIV" by auto
      with \<open>set fs \<noteq> UNIV\<close> show False ..
    qed
    with \<open>fs \<noteq> []\<close> show ?thesis by auto
  qed
  show ?thesis
    using single [of "families a"] single [of "families b"] assms
    by (cases "set (families a) = UNIV"; cases "set (families b) = UNIV") force+
qed

lemma dualPrimary_cases:
  assumes "cidrs_ok cidrs" "cidrs \<noteq> []" "list_family cidrs = DualStackIPFamily"
  shows "dualPrimary cidrs = (if hd (families cidrs) = V4 then DualStackIPv4Primary else DualStackIPv6Primary)"
proof (rule dualPrimary_eq)
  from assms show "ipFamilyFromCIDRStrings cidrs = Inr DualStackIPFamily"
    by (auto simp: cidrs_ok_def ipFamilyFromCIDRStrings_eq list_family_def split: if_splits)
qed

text \<open>The cluster family, before it is reduced to the primary one.\<close>

lemma GetClusterIPFamily_Inr:
  "GetClusterIPFamily c = Inr f \<longleftrightarrow>
     cidrs_ok (podCIDRs c) \<and> cidrs_ok (serviceCIDRs c) \<and>
     (podCIDRs c = [] \<or> serviceCIDRs c = [] \<or>
      set (families (podCIDRs c)) = set (families (serviceCIDRs c))) \<and>
     f = (let ds = deciding_cidrs c
          in if ds = [] then IPv4IpFamily
             else if list_family ds \<noteq> DualStackIPFamily then list_family ds
             else if hd (families ds) = V4 then DualStackIPv4Primary else DualStackIPv6Primary)"
proof (cases "cidrs_ok (podCIDRs c) \<and> cidrs_ok (serviceCIDRs c)")
  case False
  have bad: "\<exists>e. familyOrZero ds = Inl e" if "\<not> cidrs_ok ds" for ds
    using that by (cases "familyOrZero ds") (auto simp: familyOrZero_Inr)
  have "\<not> (podCIDRs c = [] \<and> serviceCIDRs c = [])" using False by (auto simp: cidrs_ok_def)
  with False bad [of "podCIDRs c"] bad [of "serviceCIDRs c"] have "\<exists>e. GetClusterIPFamily c = Inl e"
    by (auto simp: GetClusterIPFamily_def Let_def split: sum.splits)
  with False show ?thesis by auto
next
  case True
  then have ok: "cidrs_ok (podCIDRs c)" "cidrs_ok (serviceCIDRs c)" by auto
  have fam: "familyOrZero ds = Inr (if ds = [] then [] else list_family ds)" if "cidrs_ok ds" for ds
    using that by (auto simp: familyOrZero_Inr list_family_def)
  have ne: "list_family ds \<noteq> []" for ds by (simp add: list_family_def)
  have same: "list_family (podCIDRs c) = list_family (serviceCIDRs c) \<longleftrightarrow>
      set (families (podCIDRs c)) = set (families (serviceCIDRs c))"
    if "podCIDRs c \<noteq> []" "serviceCIDRs c \<noteq> []"
    using same_families [of "podCIDRs c" "serviceCIDRs c"] ok that by (simp add: list_family_def cidrs_ok_def)
  show ?thesis
    using ok fam ne same dualPrimary_cases
    by (cases "podCIDRs c = []"; cases "serviceCIDRs c = []")
      (auto simp: GetClusterIPFamily_def Let_def deciding_cidrs_def)
qed

text \<open>
  The primary IP family of a cluster. \<open>GetPrimaryIPFamily\<close> succeeds exactly when the pod and the
  service CIDR lists are each empty or hold at most two CIDRs with at least one valid one, and,
  where both are given, the same set of families; the result is then the family of the first
  valid CIDR of the pods (of the services where the pods have none), and V4 where both are empty.
\<close>

theorem GetPrimaryIPFamily_spec:
  "GetPrimaryIPFamily c = Inr f \<longleftrightarrow>
     cidrs_ok (podCIDRs c) \<and> cidrs_ok (serviceCIDRs c) \<and>
     (podCIDRs c = [] \<or> serviceCIDRs c = [] \<or>
      set (families (podCIDRs c)) = set (families (serviceCIDRs c))) \<and>
     f = family_name (case families (deciding_cidrs c) of [] \<Rightarrow> V4 | g # _ \<Rightarrow> g)"
proof -
  have nd: "families ds \<noteq> []" if "cidrs_ok ds" "ds \<noteq> []" for ds using that by (simp add: cidrs_ok_def)
  have ok: "cidrs_ok (deciding_cidrs c)" if "cidrs_ok (podCIDRs c)" "cidrs_ok (serviceCIDRs c)"
    using that by (simp add: deciding_cidrs_def)
  have red: "GetPrimaryIPFamily c = Inr f \<longleftrightarrow>
      (\<exists>g. GetClusterIPFamily c = Inr g \<and>
           f = (if g = IPv4IpFamily \<or> g = DualStackIPv4Primary then IPv4IpFamily else IPv6IpFamily))"
    by (cases "GetClusterIPFamily c") (auto simp: GetPrimaryIPFamily_def)
  have fin: "(if g = IPv4IpFamily \<or> g = DualStackIPv4Primary then IPv4IpFamily else IPv6IpFamily)
      = family_name (case families (deciding_cidrs c) of [] \<Rightarrow> V4 | g # _ \<Rightarrow> g)"
    if "GetClusterIPFamily c = Inr g" for g
    using that nd [of "deciding_cidrs c"] ok
    by (cases "families (deciding_cidrs c)"; cases "hd (families (deciding_cidrs c))")
      (auto simp: GetClusterIPFamily_Inr Let_def list_family_def split: if_splits)
  show ?thesis unfolding red using fin by (auto simp: GetClusterIPFamily_Inr)
qed

end
