(* ===== verification/Avi_User.thy ===== *)
theory Avi_User
  imports Ako_Role Password Phases Ip_Family
begin

text \<open>
  \<open>src/controllers/akodeploymentconfig/user/user_controller.go\<close>: every workload cluster has its own AVI user,
  with credentials kept in a Secret of the management cluster and a role with AKO's permissions.

  The AVI client \<open>cl\<close> is the reconciler's field \<open>aviClient\<close>; \<open>ord\<close> gives the order in which the map of
  permissions is iterated and \<open>rnd\<close> the random generator, both as functions of the world.
\<close>

section \<open>The role\<close>

definition ensureAkoUserRole ::
  "lib \<Rightarrow> 'w Client \<Rightarrow> ('w \<Rightarrow> (string \<times> string) list) \<Rightarrow> string \<Rightarrow> 'w \<Rightarrow> (error + Role) \<times> 'w" where
  "ensureAkoUserRole L cl ord version w =
     (case RoleGetByName cl AkoUserRoleName w of
        (Inl err, w) \<Rightarrow> (Inl err, w)
      | (Inr role, w) \<Rightarrow>
          (case syncAkoUserRole L (ord w) role version of
             (updated, role) \<Rightarrow> (if updated then RoleUpdate cl role w else (Inr role, w))))"

definition getOrCreateAkoUserRole ::
  "lib \<Rightarrow> 'w Client \<Rightarrow> ('w \<Rightarrow> (string \<times> string) list) \<Rightarrow> string option \<Rightarrow> string \<Rightarrow> 'w \<Rightarrow> (error + Role) \<times> 'w" where
  "getOrCreateAkoUserRole L cl ord roleTenantRef version w =
     (case RoleGetByName cl AkoUserRoleName w of
        (Inl err, w) \<Rightarrow>
          (if IsAviRoleNonExistentError (Some err)
           then RoleCreate cl \<lparr>role_Name = AkoUserRoleName, role_URL = None, role_TenantRef = roleTenantRef,
                  Privileges = filterAkoRolePermissionByVersion L AkoRolePermission version\<rparr> w
           else (Inl err, w))
      | (Inr role, w) \<Rightarrow> ensureAkoUserRole L cl ord version w)"

section \<open>The user\<close>

text \<open>\<open>semver\<close> wants a leading v.\<close>

definition semverVersion :: "string \<Rightarrow> string" where
  "semverVersion version = (if 0 < length version \<and> version ! 0 \<noteq> CHR ''v'' then ''v'' @ version else version)"

definition newAviUser :: "lib \<Rightarrow> string \<Rightarrow> string \<Rightarrow> string \<Rightarrow> string option \<Rightarrow> string option \<Rightarrow> User" where
  "newAviUser L version aviUsername aviPassword tenantURL roleURL =
     \<lparr>user_Name = aviUsername,
      Username = (if semver_Compare L version AVIControllerEnterpriseOnlyVersion \<ge> 0 then Some aviUsername else None),
      Password = Some aviPassword, DefaultTenantRef = tenantURL,
      Access = [\<lparr>AllTenants = Some False, RoleRef = roleURL, TenantRef = tenantURL\<rparr>]\<rparr>"

definition createOrUpdateAviUser ::
  "lib \<Rightarrow> 'w Client \<Rightarrow> ('w \<Rightarrow> (string \<times> string) list) \<Rightarrow> string \<Rightarrow> string \<Rightarrow> string \<Rightarrow> 'w \<Rightarrow> error option \<times> 'w" where
  "createOrUpdateAviUser L cl ord aviUsername aviPassword tenantName w =
     (case GetControllerVersion cl w of
        (Inl err, w) \<Rightarrow> (Some err, w)
      | (Inr version, w) \<Rightarrow>
          (let version = semverVersion version
           in case UserGetByName cl aviUsername w of
                (Inl err, w) \<Rightarrow>
                  (if IsAviUserNonExistentError (Some err) then
                     (let tenantName = (if tenantName = [] then ''admin'' else tenantName)
                      in case TenantGet cl tenantName w of
                           (Inl err, w) \<Rightarrow> (Some err, w)
                         | (Inr tenant, w) \<Rightarrow>
                             (case getOrCreateAkoUserRole L cl ord (tenant_URL tenant) version w of
                                (Inl err, w) \<Rightarrow> (Some err, w)
                              | (Inr role, w) \<Rightarrow>
                                  (case UserCreate cl (newAviUser L version aviUsername aviPassword (tenant_URL tenant) (role_URL role)) w of
                                     (Inl err, w) \<Rightarrow> (Some err, w)
                                   | (Inr _, w) \<Rightarrow> (None, w))))
                   else (Some err, w))
              | (Inr aviUser, w) \<Rightarrow>
                  (case ensureAkoUserRole L cl ord version w of
                     (Inl err, w) \<Rightarrow> (Some err, w)
                   | (Inr _, w) \<Rightarrow>
                       (if Password aviUser \<noteq> Some aviPassword then
                          (case UserUpdate cl (aviUser\<lparr>Password := Some aviPassword\<rparr>) w of
                             (Inl err, w) \<Rightarrow> (Some err, w)
                           | (Inr _, w) \<Rightarrow> (None, w))
                        else (None, w)))))"

section \<open>The secrets\<close>

definition mcAVISecretNameNameSpace :: "string \<Rightarrow> string \<Rightarrow> string \<times> string" where
  "mcAVISecretNameNameSpace clusterName clusterNamespace = (clusterName @ ''-'' @ ''avi-credentials'', clusterNamespace)"

definition createAviUserSecret ::
  "string \<Rightarrow> string \<Rightarrow> string \<Rightarrow> string \<Rightarrow> string \<Rightarrow> AKODeploymentConfig \<Rightarrow> bool \<Rightarrow> Secret" where
  "createAviUserSecret name namespace username password aviCA obj isWorkloadCluster =
     (let secret = emptySecret\<lparr>Name := name, Namespace := namespace, secret_Type := AviClusterSecretType\<rparr>;
          secret = (if \<not> isWorkloadCluster
                    then secret\<lparr>OwnerReferences :=
                      [\<lparr>or_APIVersion = AkoDeploymentConfigVersion, or_Kind = AkoDeploymentConfigKind, or_Name = Name obj,
                        or_UID = UID obj, or_Controller = Some True, or_BlockOwnerDeletion = Some True\<rparr>]\<rparr>
                    else secret)
      in secret\<lparr>Data := Some [''username'' \<mapsto> username, ''password'' \<mapsto> password, AviCertificateKey \<mapsto> aviCA]\<rparr>)"

text \<open>A key of another Secret's data, copied as it is: missing keys are copied as empty values.\<close>

definition deployManagementClusterSecret ::
  "lib \<Rightarrow> 'w kapi \<Rightarrow> Cluster \<Rightarrow> AKODeploymentConfig \<Rightarrow> Secret \<Rightarrow> 'w \<Rightarrow> error option \<times> 'w" where
  "deployManagementClusterSecret L K cluster obj aviControllerCA w =
     (case kGet (Secrets K) w (ref_Namespace (AdminCredentialRef (Spec obj)), ref_Name (AdminCredentialRef (Spec obj))) of
        (Inl err, w) \<Rightarrow> (Some err, w)
      | (Inr adminCredential, w) \<Rightarrow>
          (let secret = emptySecret\<lparr>Name := AVIUserSecretName cluster, Namespace := Namespace cluster,
                 secret_Type := AviClusterSecretType,
                 Data := Some [''username'' \<mapsto> data_get adminCredential ''username'',
                               ''password'' \<mapsto> data_get adminCredential ''password'',
                               AviCertificateKey \<mapsto> data_get aviControllerCA AviCertificateKey]\<rparr>
           in case kCreate (Secrets K) w secret of
                (Inl err, w) \<Rightarrow>
                  (if IsAlreadyExists L err then
                     (case kUpdate (Secrets K) w secret of
                        (Inl err, w) \<Rightarrow> (Some err, w)
                      | (Inr _, w) \<Rightarrow> (None, w))
                   else (Some err, w))
              | (Inr _, w) \<Rightarrow> (None, w)))"

definition getAVIControllerCA :: "'w kapi \<Rightarrow> AKODeploymentConfig \<Rightarrow> 'w \<Rightarrow> (error + Secret) \<times> 'w" where
  "getAVIControllerCA K obj w =
     kGet (Secrets K) w (ref_Namespace (CertificateAuthorityRef (Spec obj)), ref_Name (CertificateAuthorityRef (Spec obj)))"

section \<open>Reconciling the user of a cluster\<close>

text \<open>The credentials the operator keeps: read and refreshed, or created with a new password.\<close>

definition ensureMcSecret ::
  "lib \<Rightarrow> 'w kapi \<Rightarrow> ('w \<Rightarrow> rand) \<Rightarrow> Cluster \<Rightarrow> AKODeploymentConfig \<Rightarrow> string \<Rightarrow> 'w \<Rightarrow> (error + Secret) outcome \<times> 'w" where
  "ensureMcSecret L K rnd cluster obj aviCA w =
     (case mcAVISecretNameNameSpace (Name cluster) (Namespace cluster) of
        (mcSecretName, mcSecretNamespace) \<Rightarrow>
          (case kGet (Secrets K) w (mcSecretNamespace, mcSecretName) of
             (Inl err, w) \<Rightarrow>
               (if IsNotFound L err then
                  (let aviUsername = Name cluster @ ''-'' @ Namespace cluster @ ''-ako-user''
                   in case GenereatePassword (rnd w) 10 True True True True of
                        Panic \<Rightarrow> (Panic, w)
                      | Ret aviPassword \<Rightarrow>
                          (let mcSecret = createAviUserSecret mcSecretName mcSecretNamespace aviUsername aviPassword aviCA obj False
                           in case kCreate (Secrets K) w mcSecret of (r, w) \<Rightarrow> (Ret r, w)))
                else (Ret (Inl err), w))
           | (Inr mcSecret, w) \<Rightarrow>
               (case data_set mcSecret AviCertificateKey aviCA of
                  Panic \<Rightarrow> (Panic, w)
                | Ret mcSecret \<Rightarrow> (case kUpdate (Secrets K) w mcSecret of (r, w) \<Rightarrow> (Ret r, w)))))"

definition reconcileAviUserNormal ::
  "lib \<Rightarrow> 'w kapi \<Rightarrow> 'w Client \<Rightarrow> ('w \<Rightarrow> (string \<times> string) list) \<Rightarrow> ('w \<Rightarrow> rand) \<Rightarrow>
     AKODeploymentConfig \<Rightarrow> Cluster \<Rightarrow> 'w \<Rightarrow> verdict run \<times> 'w" where
  "reconcileAviUserNormal L K cl ord rnd obj cluster w =
     (case getAVIControllerCA K obj w of
        (Inl err, w) \<Rightarrow> (Done (zeroResult, Some err), w)
      | (Inr aviControllerCASecret, w) \<Rightarrow>
          (let aviCA = data_get aviControllerCASecret AviCertificateKey
           in if Namespace cluster = TKGSystemNamespace then
                (case deployManagementClusterSecret L K cluster obj aviControllerCASecret w of
                   (err, w) \<Rightarrow> (Done (zeroResult, err), w))
              else case WorkloadCredentialRef (Spec obj) of
                Some ref \<Rightarrow>
                  (case kGet (Secrets K) w (ref_Namespace ref, ref_Name ref) of
                     (Inl err, w) \<Rightarrow> (Done (zeroResult, Some err), w)
                   | (Inr _, w) \<Rightarrow> (Done (zeroResult, None), w))
              | None \<Rightarrow>
                  (case ensureMcSecret L K rnd cluster obj aviCA w of
                     (Panic, w) \<Rightarrow> (Crashed, w)
                   | (Ret (Inl err), w) \<Rightarrow> (Done (zeroResult, Some err), w)
                   | (Ret (Inr mcSecret), w) \<Rightarrow>
                       (case createOrUpdateAviUser L cl ord (data_get mcSecret ''username'') (data_get mcSecret ''password'')
                               (tenant_Name (Tenant (Spec obj))) w of
                          (err, w) \<Rightarrow> (Done (zeroResult, err), w)))))"

text \<open>
  A Secret that is not found leaves the empty object, whose user name and key are empty; the calls
  after it run all the same.
\<close>

definition reconcileAviUserDelete :: "lib \<Rightarrow> 'w kapi \<Rightarrow> 'w Client \<Rightarrow> 'w cluster_phase" where
  "reconcileAviUserDelete L K cl cluster obj w =
     (let marked = cluster\<lparr>Conditions := cond_MarkTrue L (Conditions cluster) AviUserCleanupSucceededCondition\<rparr>
      in if Namespace cluster = TKGSystemNamespace then (Done (zeroResult, None), marked, w)
         else if cond_IsTrue L (Conditions cluster) AviUserCleanupSucceededCondition then (Done (zeroResult, None), cluster, w)
         else if WorkloadCredentialRef (Spec obj) \<noteq> None then (Done (zeroResult, None), marked, w)
         else case mcAVISecretNameNameSpace (Name cluster) (Namespace cluster) of
           (mcSecretName, mcSecretNamespace) \<Rightarrow>
             (case (case kGet (Secrets K) w (mcSecretNamespace, mcSecretName) of
                      (Inl err, w) \<Rightarrow> (if \<not> IsNotFound L err then (Inl err, w) else (Inr emptySecret, w))
                    | (Inr secret, w) \<Rightarrow> (Inr secret, w)) of
                (Inl err, w) \<Rightarrow> (Done (zeroResult, Some err), cluster, w)
              | (Inr secret, w) \<Rightarrow>
                  (case UserDeleteByName cl (data_get secret ''username'') w of
                     (Some err, w) \<Rightarrow> (Done (zeroResult, Some err), cluster, w)
                   | (None, w) \<Rightarrow>
                       (case kDelete (Secrets K) w secret of
                          (Some err, w) \<Rightarrow>
                            (if \<not> IsGone L err then (Done (zeroResult, Some err), cluster, w)
                             else (Done (zeroResult, None), marked, w))
                        | (None, w) \<Rightarrow> (Done (zeroResult, None), marked, w)))))"

text \<open>The condition that records the cleanup, set to false if it is not there.\<close>

definition triggerUserCleanup :: "lib \<Rightarrow> Cluster \<Rightarrow> Cluster" where
  "triggerUserCleanup L cluster =
     (if \<not> cond_Has L (Conditions cluster) AviUserCleanupSucceededCondition
      then cluster\<lparr>Conditions := cond_MarkFalse L (Conditions cluster) AviUserCleanupSucceededCondition
             AviResourceCleanupReason ConditionSeverityInfo
             ''Cleaning up the AVI load balancing user credentials before deletion''\<rparr>
      else cluster)"

definition ReconcileAviUserDelete :: "lib \<Rightarrow> 'w kapi \<Rightarrow> 'w Client \<Rightarrow> 'w cluster_phase" where
  "ReconcileAviUserDelete L K cl cluster obj w =
     (if \<not> being_deleted cluster then (Done (zeroResult, None), cluster, w)
      else
        (let cluster = triggerUserCleanup L cluster
         in if cond_IsTrue L (Conditions cluster) AviResourceCleanupSucceededCondition
            then reconcileAviUserDelete L K cl cluster obj w
            else (Done (zeroResult, Some (Err (''requeue to wait AVI resource deletion for cluster: '' @ Namespace cluster @ ''/'' @ Name cluster))),
                  cluster, w)))"

definition ReconcileAviUser ::
  "lib \<Rightarrow> 'w kapi \<Rightarrow> 'w Client \<Rightarrow> ('w \<Rightarrow> (string \<times> string) list) \<Rightarrow> ('w \<Rightarrow> rand) \<Rightarrow> 'w cluster_phase" where
  "ReconcileAviUser L K cl ord rnd cluster obj w =
     (if being_deleted cluster then ReconcileAviUserDelete L K cl cluster obj w
      else (case reconcileAviUserNormal L K cl ord rnd obj cluster w of (v, w) \<Rightarrow> (v, cluster, w)))"

section \<open>Deleting the user\<close>

lemma reconcileAviUserDelete_cluster:
  assumes "reconcileAviUserDelete L K cl c obj w = (r, c', w')"
  shows "c' = c \<or> c' = c\<lparr>Conditions := cond_MarkTrue L (Conditions c) AviUserCleanupSucceededCondition\<rparr>"
  using assms
  by (auto simp: reconcileAviUserDelete_def Let_def mcAVISecretNameNameSpace_def
      split: if_splits prod.splits sum.splits option.splits)

lemma triggerUserCleanup_clean:
  assumes "condition_laws L"
  shows "resources_clean L (triggerUserCleanup L c) \<longleftrightarrow> resources_clean L c" "user_clean L (triggerUserCleanup L c) \<longleftrightarrow> user_clean L c"
proof -
  have mf: "cond_IsTrue L (cond_MarkFalse L cs t x y z) u \<longleftrightarrow> u \<noteq> t \<and> cond_IsTrue L cs u" for cs t u x y z
    using assms by (simp add: condition_laws_def)
  have "cond_IsTrue L cs t \<Longrightarrow> cond_Has L cs t" for cs t
    using assms by (simp add: condition_laws_def)
  then show "resources_clean L (triggerUserCleanup L c) \<longleftrightarrow> resources_clean L c" "user_clean L (triggerUserCleanup L c) \<longleftrightarrow> user_clean L c"
    by (auto simp: triggerUserCleanup_def resources_clean_def user_clean_def mf)
qed

lemma triggerUserCleanup_frame [simp]:
  "Name (triggerUserCleanup L c) = Name c" "Namespace (triggerUserCleanup L c) = Namespace c"
  "DeletionTimestamp (triggerUserCleanup L c) = DeletionTimestamp c" "Finalizers (triggerUserCleanup L c) = Finalizers c"
  by (simp_all add: triggerUserCleanup_def)

lemma triggerUserCleanup_step: "condition_laws L \<Longrightarrow> cleanup_step L c (triggerUserCleanup L c)"
  by (rule cleanup_step_frame) (simp_all add: triggerUserCleanup_clean)

lemma ReconcileAviUserDelete_step:
  assumes "condition_laws L" "ReconcileAviUserDelete L K cl c obj w = (r, c', w')"
  shows "cleanup_step L c c'"
proof (cases "being_deleted c")
  case True
  let ?c = "triggerUserCleanup L c"
  have mt: "cond_IsTrue L (cond_MarkTrue L cs t) u \<longleftrightarrow> u = t \<or> cond_IsTrue L cs u" for cs t u
    using assms(1) by (simp add: condition_laws_def)
  have "c' = ?c \<or> resources_clean L ?c \<and>
      c' = ?c\<lparr>Conditions := cond_MarkTrue L (Conditions ?c) AviUserCleanupSucceededCondition\<rparr>"
  proof (cases "cond_IsTrue L (Conditions ?c) AviResourceCleanupSucceededCondition")
    case clean: True
    with assms(2) True have "reconcileAviUserDelete L K cl ?c obj w = (r, c', w')"
      by (simp add: ReconcileAviUserDelete_def Let_def)
    from reconcileAviUserDelete_cluster [OF this] clean show ?thesis unfolding resources_clean_def by blast
  next
    case False
    with assms(2) True show ?thesis by (simp add: ReconcileAviUserDelete_def Let_def)
  qed
  then have "cleanup_step L ?c c'"
    by (rule disjE) (simp, simp add: cleanup_step_def resources_clean_def user_clean_def mt)
  with triggerUserCleanup_step [OF assms(1)] show ?thesis by (rule cleanup_step_trans)
next
  case False
  with assms(2) show ?thesis by (simp add: ReconcileAviUserDelete_def)
qed

lemma ReconcileAviUserDelete_timestamp:
  assumes "ReconcileAviUserDelete L K cl c obj w = (r, c', w')"
  shows "DeletionTimestamp c' = DeletionTimestamp c"
proof -
  have "reconcileAviUserDelete L K cl (triggerUserCleanup L c) obj w = (r, c', w') \<or> c' = triggerUserCleanup L c \<or> c' = c"
    using assms by (simp add: ReconcileAviUserDelete_def Let_def split: if_splits)
  then show ?thesis by (auto dest: reconcileAviUserDelete_cluster)
qed

interpretation user_delete: cluster_phase "ReconcileAviUserDelete L K cl" d "protocol L" for L K cl d
  by unfold_locales (auto simp: protocol_def ReconcileAviUserDelete_timestamp intro: ReconcileAviUserDelete_step)

lemma ReconcileAviUser_step:
  assumes "condition_laws L" "ReconcileAviUser L K cl ord rnd c obj w = (r, c', w')"
  shows "cleanup_step L c c'"
  using assms ReconcileAviUserDelete_step [OF assms(1)]
  by (auto simp: ReconcileAviUser_def split: if_splits prod.splits)

lemma ReconcileAviUser_timestamp:
  "ReconcileAviUser L K cl ord rnd c obj w = (r, c', w') \<Longrightarrow> DeletionTimestamp c' = DeletionTimestamp c"
  by (auto simp: ReconcileAviUser_def dest: ReconcileAviUserDelete_timestamp split: if_splits prod.splits)

interpretation user: cluster_phase "ReconcileAviUser L K cl ord rnd" d "protocol L" for L K cl ord rnd d
  by unfold_locales (auto simp: protocol_def ReconcileAviUser_timestamp intro: ReconcileAviUser_step)

text \<open>
  The AVI user outlives the AVI objects it owns: as long as the cluster is not being deleted, or its AVI
  resources are not known to be cleaned up, the deletion phase calls neither the AVI controller nor
  the API server (the world is unchanged); in the second case it asks for a retry.
\<close>

theorem user_kept_until_resources_clean:
  assumes "condition_laws L" "\<not> (being_deleted c \<and> resources_clean L c)"
  shows "\<exists>v c'. ReconcileAviUserDelete L K cl c obj w = (Done v, c', w) \<and> (user_clean L c' \<longleftrightarrow> user_clean L c) \<and>
           (being_deleted c \<longrightarrow> snd v \<noteq> None)"
  using assms triggerUserCleanup_clean [OF assms(1), of c]
  by (auto simp: ReconcileAviUserDelete_def Let_def resources_clean_def)

definition deletedCluster :: Cluster where
  "deletedCluster = exampleCluster\<lparr>Finalizers := [ClusterFinalizer], DeletionTimestamp := Some 1\<rparr>"

theorem user_kept_until_resources_clean_witness:
  "\<exists>v c'. ReconcileAviUserDelete ref_lib mem_kapi ref_client deletedCluster exampleADC amem0 = (Done v, c', amem0) \<and> snd v \<noteq> None"
proof -
  have "\<not> (being_deleted deletedCluster \<and> resources_clean ref_lib deletedCluster)" "being_deleted deletedCluster"
    by (simp_all add: deletedCluster_def resources_clean_def being_deleted_def exampleCluster_def ObjectMeta.defs
        ref_lib_def ref_status_def)
  then show ?thesis
    using user_kept_until_resources_clean [OF ref_condition_laws, of deletedCluster mem_kapi ref_client exampleADC amem0] by blast
qed

text \<open>
  Deleting the user is not idempotent. When the Secret with the credentials is already gone, for
  instance after an attempt that failed half way, the phase still asks the controller to delete a
  user with the empty name and the API server to delete an object without a name; an error of
  either is returned and the cleanup is not marked as done.
\<close>

theorem user_delete_not_idempotent:
  assumes "condition_laws L" "Namespace c \<noteq> TKGSystemNamespace" "\<not> user_clean L c" "WorkloadCredentialRef (Spec obj) = None"
    and "kGet (Secrets K) w (Namespace c, Name c @ ''-avi-credentials'') = (Inl nf, w1)" "IsNotFound L nf"
    and "(\<exists>e w2. UserDeleteByName cl [] w1 = (Some e, w2)) \<or>
         (\<exists>w2 e w3. UserDeleteByName cl [] w1 = (None, w2) \<and> kDelete (Secrets K) w2 emptySecret = (Some e, w3) \<and> \<not> IsGone L e)"
  shows "\<exists>e w'. reconcileAviUserDelete L K cl c obj w = (Done (zeroResult, Some e), c, w')"
proof -
  have "data_get emptySecret ''username'' = []"
    by (simp add: data_get_def emptySecret_def ObjectMeta.defs)
  then show ?thesis
    using assms by (auto simp: reconcileAviUserDelete_def mcAVISecretNameNameSpace_def user_clean_def Let_def)
qed

theorem user_delete_not_idempotent_witness:
  "\<exists>e w'. reconcileAviUserDelete ref_lib mem_kapi ref_client deletedCluster exampleADC amem0 =
     (Done (zeroResult, Some e), deletedCluster, w')"
  by (rule user_delete_not_idempotent [OF ref_condition_laws, where nf = not_found and ?w1.0 = amem0])
    (simp_all add: deletedCluster_def exampleADC_def exampleSpec_def exampleCluster_def emptyMeta_def ObjectMeta.defs
      TKGSystemNamespace_def user_clean_def ref_status_def avi_defs ref_defs)

section \<open>Creating the user\<close>

text \<open>
  C25. The credentials of a cluster are made once: a Secret that exists keeps its user name and password
  through every reconciliation, only the controller's certificate is refreshed; a Secret that does
  not exist is created for a user named after the cluster, with a password of ten characters that
  has a lower case and an upper case letter, a special character and a digit.
\<close>

theorem ensureMcSecret_credentials:
  assumes "rand_laws (rnd w1)"
    and "kGet (Secrets K) w (Namespace c, Name c @ ''-avi-credentials'') = (r, w1)"
  shows "case r of
           Inr s \<Rightarrow>
             (\<forall>m. Data s = Some m \<longrightarrow>
                (\<exists>s'. ensureMcSecret L K rnd c obj ca w = (case kUpdate (Secrets K) w1 s' of (x, w') \<Rightarrow> (Ret x, w')) \<and>
                   data_get s' AviCertificateKey = ca \<and> (\<forall>k. k \<noteq> AviCertificateKey \<longrightarrow> data_get s' k = data_get s k)))
         | Inl e \<Rightarrow>
             (if IsNotFound L e then
                (\<exists>s. ensureMcSecret L K rnd c obj ca w = (case kCreate (Secrets K) w1 s of (x, w') \<Rightarrow> (Ret x, w')) \<and>
                   Name s = Name c @ ''-avi-credentials'' \<and> Namespace s = Namespace c \<and>
                   data_get s ''username'' = Name c @ ''-'' @ Namespace c @ ''-ako-user'' \<and>
                   data_get s AviCertificateKey = ca \<and> length (data_get s ''password'') = 10 \<and>
                   (\<forall>cs \<in> {lowercases, uppercases, specials, numerics}. \<exists>ch \<in> set (data_get s ''password''). ch \<in> set cs))
              else ensureMcSecret L K rnd c obj ca w = (Ret (Inl e), w1))"
proof (cases r)
  case (Inr s)
  let ?s = "\<lambda>m. s\<lparr>Data := Some (m(AviCertificateKey \<mapsto> ca))\<rparr>"
  have "ensureMcSecret L K rnd c obj ca w = (case kUpdate (Secrets K) w1 (?s m) of (x, w') \<Rightarrow> (Ret x, w'))"
    if "Data s = Some m" for m
    using that Inr assms(2) by (simp add: ensureMcSecret_def mcAVISecretNameNameSpace_def data_set_def)
  moreover have "data_get (?s m) AviCertificateKey = ca \<and> (\<forall>k. k \<noteq> AviCertificateKey \<longrightarrow> data_get (?s m) k = data_get s k)"
    if "Data s = Some m" for m
    using that by (simp add: data_get_def)
  ultimately show ?thesis unfolding Inr sum.case by blast
next
  case (Inl e)
  obtain pw where pw: "GenereatePassword (rnd w1) 10 True True True True = Ret pw" "length pw = 10"
    "\<forall>cs \<in> {lowercases, uppercases, specials, numerics}. \<exists>ch \<in> set pw. ch \<in> set cs"
  proof -
    have "int (length (filter fst (classes True True True True))) \<le> 10" by (simp add: classes_def)
    with GenereatePassword_cases [OF assms(1), of True True True True 10] obtain pw where
      "GenereatePassword (rnd w1) 10 True True True True = Ret pw" "int (length pw) = 10"
      and cs: "\<forall>cs. (True, cs) \<in> set (classes True True True True) \<longrightarrow> (\<exists>ch \<in> set pw. ch \<in> set cs)" by auto
    moreover have "(True, cs) \<in> set (classes True True True True)" if "cs \<in> {lowercases, uppercases, specials, numerics}" for cs
      using that by (auto simp: classes_def)
    ultimately show ?thesis using that by auto
  qed
  let ?s = "createAviUserSecret (Name c @ ''-avi-credentials'') (Namespace c) (Name c @ ''-'' @ Namespace c @ ''-ako-user'') pw ca obj False"
  have "Name ?s = Name c @ ''-avi-credentials''" "Namespace ?s = Namespace c"
    "data_get ?s ''username'' = Name c @ ''-'' @ Namespace c @ ''-ako-user''" "data_get ?s ''password'' = pw"
    "data_get ?s AviCertificateKey = ca"
    by (simp_all add: createAviUserSecret_def Let_def data_get_def AviCertificateKey_def)
  moreover have "ensureMcSecret L K rnd c obj ca w =
      (if IsNotFound L e then (case kCreate (Secrets K) w1 ?s of (x, w') \<Rightarrow> (Ret x, w')) else (Ret (Inl e), w1))"
    using Inl pw(1) assms(2) by (simp add: ensureMcSecret_def mcAVISecretNameNameSpace_def)
  ultimately show ?thesis
    unfolding Inl sum.case using pw(2,3) by (cases "IsNotFound L e") (simp_all only: if_True if_False, metis)
qed

theorem ensureMcSecret_credentials_witness:
  "\<exists>s. ensureMcSecret ref_lib mem_kapi (\<lambda>_ _ _. 0) exampleCluster exampleADC ''cert'' mem0 =
      (case kCreate (Secrets mem_kapi) mem0 s of (x, w') \<Rightarrow> (Ret x, w')) \<and> length (data_get s ''password'') = 10"
proof -
  have g: "kGet (Secrets mem_kapi) mem0 (Namespace exampleCluster, Name exampleCluster @ ''-avi-credentials'') = (Inl not_found, mem0)"
    by (simp add: mem_kapi_def list_api_def mem0_def)
  have "IsNotFound ref_lib not_found" by (simp add: ref_defs)
  with ensureMcSecret_credentials [OF rand_zero g, of ref_lib exampleADC "''cert''"] show ?thesis by auto
qed

text \<open>
  With credentials managed by the customer nothing is provisioned: the Secret that the
  AKODeploymentConfig names is read and not used, so neither an AVI user nor the Secret from which
  the add-on secret takes its credentials is created, and the phase reports success.
\<close>

theorem customer_credentials_unused:
  assumes "Namespace c \<noteq> TKGSystemNamespace" "WorkloadCredentialRef (Spec obj) = Some ref"
    and "getAVIControllerCA K obj w = (Inr ca, w1)" "kGet (Secrets K) w1 (ref_Namespace ref, ref_Name ref) = (Inr s, w2)"
  shows "reconcileAviUserNormal L K cl ord rnd obj c w = (Done (zeroResult, None), w2)"
  using assms by (simp add: reconcileAviUserNormal_def)

definition customerADC :: AKODeploymentConfig where
  "customerADC = exampleADC\<lparr>Spec := (Spec exampleADC)\<lparr>CertificateAuthorityRef := caRef, WorkloadCredentialRef := Some credRef\<rparr>\<rparr>"

lemma secretWorld_get:
  "kGet (Secrets mem_kapi) secretWorld (ref_Namespace caRef, ref_Name caRef) =
     (Inr (exampleSecret caRef [(AviCertificateKey, ''cert'')]), secretWorld)"
  "kGet (Secrets mem_kapi) secretWorld (ref_Namespace credRef, ref_Name credRef) =
     (Inr (exampleSecret credRef [(''username'', ''admin''), (''password'', ''pw'')]), secretWorld)"
  by (simp_all add: avi_defs ref_defs emptyMeta_def ObjectMeta.defs AviCredentialName_def AviCAName_def)

theorem customer_credentials_unused_witness:
  "reconcileAviUserNormal ref_lib mem_kapi ref_client (\<lambda>_. AkoRolePermissionEntries) (\<lambda>_ _ _. 0) customerADC exampleCluster secretWorld =
     (Done (zeroResult, None), secretWorld)"
  by (rule customer_credentials_unused [OF _ _ _ secretWorld_get(2)])
    (simp_all add: customerADC_def getAVIControllerCA_def secretWorld_get exampleCluster_def emptyMeta_def ObjectMeta.defs
      TKGSystemNamespace_def)

section \<open>The users and roles of the AVI controller\<close>

text \<open>
  What the operator relies on of the AVI controller: it keeps users and roles by name. Creating and updating
  store the object (the controller may fill in the URL of a role and answers what it stored), reading
  changes nothing and returns what is stored, except that the password of a user may be left out.
\<close>

locale avi_directory =
  fixes cl :: "'w Client" and users :: "'w \<Rightarrow> string \<rightharpoonup> User" and roles :: "'w \<Rightarrow> string \<rightharpoonup> Role"
  assumes user_get: "UserGetByName cl n w = (r, w') \<Longrightarrow> users w' = users w \<and> roles w' = roles w"
    and user_found: "UserGetByName cl n w = (Inr u, w') \<Longrightarrow>
      \<exists>s. users w n = Some s \<and> user_Name s = n \<and> u = s\<lparr>Password := Password u\<rparr> \<and> (Password u = None \<or> Password u = Password s)"
    and user_missing: "UserGetByName cl n w = (Inl e, w') \<Longrightarrow> IsAviUserNonExistentError (Some e) \<Longrightarrow> users w n = None"
    and user_create: "UserCreate cl u w = (Inr v, w') \<Longrightarrow> users w' = (users w)(user_Name u \<mapsto> u) \<and> roles w' = roles w"
    and user_update: "UserUpdate cl u w = (Inr v, w') \<Longrightarrow> users w (user_Name u) \<noteq> None \<Longrightarrow>
      users w' = (users w)(user_Name u \<mapsto> u) \<and> roles w' = roles w"
    and role_get: "RoleGetByName cl n w = (r', w') \<Longrightarrow> users w' = users w \<and> roles w' = roles w"
    and role_found: "RoleGetByName cl n w = (Inr x, w') \<Longrightarrow> roles w n = Some x \<and> role_Name x = n"
    and role_create: "RoleCreate cl x w = (Inr y, w') \<Longrightarrow>
      users w' = users w \<and> roles w' = (roles w)(role_Name x \<mapsto> y) \<and> Privileges y = Privileges x"
    and role_update: "RoleUpdate cl x w = (Inr y, w') \<Longrightarrow> roles w (role_Name x) \<noteq> None \<Longrightarrow>
      users w' = users w \<and> roles w' = (roles w)(role_Name x \<mapsto> y) \<and> Privileges y = Privileges x"
    and tenant_get: "TenantGet cl n w = (t, w') \<Longrightarrow> users w' = users w \<and> roles w' = roles w"
    and version_get: "GetControllerVersion cl w = (v', w') \<Longrightarrow> users w' = users w \<and> roles w' = roles w"
begin

lemma ensureAkoUserRole_ok:
  assumes "map_order (ord w1)" "RoleGetByName cl AkoUserRoleName w = (g, w1)" "ensureAkoUserRole L cl ord version w = (Inr role, w')"
  shows "users w' = users w \<and> roles w' = (roles w)(AkoUserRoleName \<mapsto> role) \<and> role_ok L version (Privileges role)"
proof -
  from assms(2,3) obtain x where x: "RoleGetByName cl AkoUserRoleName w = (Inr x, w1)"
    by (cases g) (auto simp: ensureAkoUserRole_def)
  note g = role_get [OF x] role_found [OF x]
  from sync_role [OF assms(1), of L x version] obtain added where
    s: "syncAkoUserRole L (ord w1) x version = (\<not> role_ok L version (Privileges x), x\<lparr>Privileges := map fixed (Privileges x) @ added\<rparr>)"
    and ok: "role_ok L version (map fixed (Privileges x) @ added)" by blast
  show ?thesis
  proof (cases "role_ok L version (Privileges x)")
    case True
    with sync_role [OF assms(1), of L x version] s have "x\<lparr>Privileges := map fixed (Privileges x) @ added\<rparr> = x" by force
    with True assms(3) x s have "role = x" "w' = w1" by (auto simp: ensureAkoUserRole_def)
    with True g show ?thesis by (auto simp: fun_upd_idem)
  next
    case False
    with assms(3) x s have "RoleUpdate cl (x\<lparr>Privileges := map fixed (Privileges x) @ added\<rparr>) w1 = (Inr role, w')"
      by (simp add: ensureAkoUserRole_def)
    from role_update [OF this] g ok show ?thesis by auto
  qed
qed

lemma getOrCreateAkoUserRole_ok:
  assumes "\<And>w. map_order (ord w)" "getOrCreateAkoUserRole L cl ord tref version w = (Inr role, w')"
  shows "users w' = users w \<and> roles w' = (roles w)(AkoUserRoleName \<mapsto> role) \<and> role_ok L version (Privileges role)"
proof -
  obtain g w1 where g: "RoleGetByName cl AkoUserRoleName w = (g, w1)" by fastforce
  note same = role_get [OF g]
  show ?thesis
  proof (cases g)
    case (Inl e)
    with assms(2) g have "RoleCreate cl \<lparr>role_Name = AkoUserRoleName, role_URL = None, role_TenantRef = tref,
        Privileges = filterAkoRolePermissionByVersion L AkoRolePermission version\<rparr> w1 = (Inr role, w')"
      by (auto simp: getOrCreateAkoUserRole_def split: if_splits)
    from role_create [OF this] same new_role_in_sync show ?thesis by simp
  next
    case (Inr x)
    with assms(2) g have e: "ensureAkoUserRole L cl ord version w1 = (Inr role, w')" by (simp add: getOrCreateAkoUserRole_def)
    obtain g2 w2 where "RoleGetByName cl AkoUserRoleName w1 = (g2, w2)" by fastforce
    from ensureAkoUserRole_ok [OF assms(1) this e] same show ?thesis by simp
  qed
qed

lemma createOrUpdateAviUser_ok:
  assumes "\<And>w. map_order (ord w)" "createOrUpdateAviUser L cl ord name pw tenant w = (None, w')"
  shows "\<exists>v w1 u role. GetControllerVersion cl w = (Inr v, w1) \<and>
    users w' = (users w)(name \<mapsto> u) \<and> Password u = Some pw \<and>
    roles w' = (roles w)(AkoUserRoleName \<mapsto> role) \<and> role_ok L (semverVersion v) (Privileges role) \<and>
    (users w name = None \<longrightarrow> (\<exists>t. u = newAviUser L (semverVersion v) name pw t (role_URL role)))"
proof -
  from assms(2) obtain v w1 where v: "GetControllerVersion cl w = (Inr v, w1)"
    by (auto simp: createOrUpdateAviUser_def split: prod.splits sum.splits)
  note v' = version_get [OF v]
  obtain g w2 where g: "UserGetByName cl name w1 = (g, w2)" by fastforce
  note g' = user_get [OF g]
  show ?thesis
  proof (cases g)
    case (Inl e)
    with assms(2) v g have ne: "IsAviUserNonExistentError (Some e)" by (auto simp: createOrUpdateAviUser_def Let_def split: if_splits)
    with user_missing g Inl v' have none: "users w name = None" by metis
    from assms(2) v g Inl ne obtain t w3 role w4 y where
      t: "TenantGet cl (if tenant = [] then ''admin'' else tenant) w2 = (Inr t, w3)"
      and r: "getOrCreateAkoUserRole L cl ord (tenant_URL t) (semverVersion v) w3 = (Inr role, w4)"
      and c: "UserCreate cl (newAviUser L (semverVersion v) name pw (tenant_URL t) (role_URL role)) w4 = (Inr y, w')"
      by (auto simp: createOrUpdateAviUser_def Let_def split: prod.splits sum.splits)
    note user_create [OF c] getOrCreateAkoUserRole_ok [OF assms(1) r] tenant_get [OF t]
    with v v' g' none show ?thesis
      by (intro exI [of _ v] exI [of _ w1] exI [of _ "newAviUser L (semverVersion v) name pw (tenant_URL t) (role_URL role)"] exI [of _ role])
        (auto simp: newAviUser_def)
  next
    case (Inr u)
    from user_found [OF g [unfolded Inr]] v' obtain s where s: "users w name = Some s" "user_Name s = name"
      "u = s\<lparr>Password := Password u\<rparr>" "Password u = None \<or> Password u = Password s" by auto
    obtain er w3 where er: "ensureAkoUserRole L cl ord (semverVersion v) w2 = (er, w3)" by fastforce
    with assms(2) v g Inr obtain role where "er = Inr role" by (cases er) (auto simp: createOrUpdateAviUser_def Let_def)
    with er have r: "ensureAkoUserRole L cl ord (semverVersion v) w2 = (Inr role, w3)" by simp
    with assms(2) v g Inr have rest: "(if Password u \<noteq> Some pw then (case UserUpdate cl (u\<lparr>Password := Some pw\<rparr>) w3 of
          (Inl err, w) \<Rightarrow> (Some err, w) | (Inr _, w) \<Rightarrow> (None, w)) else (None, w3)) = (None, w')"
      by (simp add: createOrUpdateAviUser_def Let_def)
    obtain g2 w5 where "RoleGetByName cl AkoUserRoleName w2 = (g2, w5)" by fastforce
    note role = ensureAkoUserRole_ok [OF assms(1) this r]
    have name: "user_Name (u\<lparr>Password := p\<rparr>) = name" for p using s(2,3) by (metis User.ext_inject User.surjective User.update_convs(3))
    have "\<exists>u. users w' = (users w)(name \<mapsto> u) \<and> Password u = Some pw \<and> roles w' = roles w3"
    proof (cases "Password u = Some pw")
      case True
      with rest s role g' v' show ?thesis by (auto intro!: exI [of _ s] simp: fun_upd_idem)
    next
      case False
      with rest obtain y where "UserUpdate cl (u\<lparr>Password := Some pw\<rparr>) w3 = (Inr y, w')" by (auto split: prod.splits sum.splits)
      from user_update [OF this] role g' v' s(1) name show ?thesis by auto
    qed
    with v v' g' role s(1) show ?thesis by fastforce
  qed
qed

end

text \<open>
  C15. A cluster's AVI user is provisioned. If \<open>createOrUpdateAviUser\<close> succeeds, the AVI controller has the user
  with the password of the Secret, and the AKO role with every permission that the controller's version
  needs; a user that did not exist has this role in its tenant and no other access. No other user and no
  other role is touched.
\<close>

theorem user_provisioned:
  assumes "avi_directory cl users roles" "\<And>w. map_order (ord w)"
    and "createOrUpdateAviUser L cl ord name pw tenant w = (None, w')"
  shows "\<exists>v w1 u role. GetControllerVersion cl w = (Inr v, w1) \<and>
    users w' = (users w)(name \<mapsto> u) \<and> Password u = Some pw \<and>
    roles w' = (roles w)(AkoUserRoleName \<mapsto> role) \<and> role_ok L (semverVersion v) (Privileges role) \<and>
    (users w name = None \<longrightarrow> (\<exists>t. u = newAviUser L (semverVersion v) name pw t (role_URL role)))"
  using avi_directory.createOrUpdateAviUser_ok [OF assms] .

definition named :: "('a \<Rightarrow> string) \<Rightarrow> 'a list \<Rightarrow> string \<rightharpoonup> 'a" where
  "named key xs n = find (\<lambda>x. key x = n) xs"

lemma named_Cons: "named key (x # xs) = (named key xs)(key x \<mapsto> x)"
  by (auto simp: named_def)

lemma named_key: "named key xs n = Some x \<Longrightarrow> key x = n"
  by (auto simp: named_def find_Some_iff)

lemma named_replace: "named key xs (key x) \<noteq> None \<Longrightarrow> named key (replace_by key x xs) = (named key xs)(key x \<mapsto> x)"
proof
  have other: "named key (replace_by key x xs) n = named key xs n" if "n \<noteq> key x" for n
    using that by (induction xs) (auto simp: named_def replace_by_def)
  have own: "named key (replace_by key x xs) (key x) = Some x" if "named key xs (key x) \<noteq> None"
    using that by (induction xs) (auto simp: named_def replace_by_def)
  show "named key (replace_by key x xs) n = ((named key xs)(key x \<mapsto> x)) n" if "named key xs (key x) \<noteq> None" for n
    using own [OF that] other [of n] by simp
qed

lemma lookup_named: "lookup_by t key xs n = (case named key xs n of None \<Rightarrow> Inl (missing t n) | Some x \<Rightarrow> Inr x)"
  by (simp add: lookup_by_def named_def)

interpretation ref_directory: avi_directory ref_client "\<lambda>w. named user_Name (a_users w)" "\<lambda>w. named role_Name (a_roles w)"
  by unfold_locales
    (auto simp: ref_client_def lookup_named named_Cons named_replace dest: named_key split: option.splits)

lemma provision_example:
  "\<exists>w'. createOrUpdateAviUser ref_lib ref_client (\<lambda>_. AkoRolePermissionEntries) ''wc-ako'' ''secret'' [] amem0 = (None, w')"
proof -
  have "IsAviUserNonExistentError (Some (missing ''user'' ''wc-ako''))" "IsAviRoleNonExistentError (Some (missing ''role'' AkoUserRoleName))"
    using missing_user_recognised [of "''wc-ako''" "[]"] missing_role_recognised [of AkoUserRoleName "[]"]
    by (simp_all add: missing_def AkoUserRoleName_def)
  then show ?thesis
    by (simp add: createOrUpdateAviUser_def getOrCreateAkoUserRole_def ref_client_def lookup_named named_def amem0_def mem.defs Let_def)
qed

theorem user_provisioned_witness:
  "\<exists>w' u. createOrUpdateAviUser ref_lib ref_client (\<lambda>_. AkoRolePermissionEntries) ''wc-ako'' ''secret'' [] amem0 = (None, w') \<and>
     named user_Name (a_users w') ''wc-ako'' = Some u \<and> Password u = Some ''secret''"
proof -
  obtain w' where w': "createOrUpdateAviUser ref_lib ref_client (\<lambda>_. AkoRolePermissionEntries) ''wc-ako'' ''secret'' [] amem0 = (None, w')"
    using provision_example by blast
  from user_provisioned [OF ref_directory.avi_directory_axioms entries_order w'] w' show ?thesis by auto
qed

end
