(* ===== verification/Ako_Values.thy ===== *)
theory Ako_Values
  imports Ip_Family Operator_Lib Ref_World
begin

text \<open>
  \<open>src/pkg/ako/values.go\<close>: the data values of the AKO package, computed from an AKODeploymentConfig.
  Field names carry a prefix where the same name occurs in \<open>Api_Types\<close>. A pointer to a settings
  struct is an option, since values read back from YAML may lack it.

  The YAML package is a parameter (record \<open>yaml\<close>); \<open>json.Marshal\<close> of lists of strings and of the two
  network types is modelled.
\<close>

section \<open>The values\<close>

record AKOSettings =
  s_PrimaryInstance :: string
  s_LogLevel :: string
  s_FullSyncFrequency :: string
  s_ApiServerPort :: int
  DeleteConfig :: string
  s_DisableStaticRouteSync :: string
  s_ClusterName :: string
  s_CniPlugin :: string
  SyncNamespace :: string
  s_EnableEVH :: string
  s_Layer7Only :: string
  s_ServicesAPI :: string
  s_VIPPerNamespace :: string
  NamespaceSector :: NamespaceSelector
  s_EnableEvents :: string
  s_IstioEnabled :: string
  s_BlockedNamespaceList :: "string list"
  BlockedNamespaceListJson :: string
  s_IpFamily :: string
  s_UseDefaultSecretsOnly :: string

record NetworkSettings =
  SubnetIP :: string
  SubnetPrefix :: string
  n_NetworkName :: string
  ControlPlaneNetworkName :: string
  ControlPlaneNetworkCIDR :: string
  n_NodeNetworkList :: "NodeNetwork list"
  NodeNetworkListJson :: string
  n_VIPNetworkList :: "VIPNetwork list"
  VIPNetworkListJson :: string
  n_EnableRHI :: string
  n_NsxtT1LR :: string
  n_BGPPeerLabels :: "string list"
  BGPPeerLabelsJson :: string

record L7Settings =
  l7_DisableIngressClass :: bool
  DefaultIngController :: bool
  L7ShardingScheme :: string
  l7_ServiceType :: string
  l7_ShardVSSize :: string
  l7_PassthroughShardSize :: string
  l7_NoPGForSNI :: bool
  l7_EnableMCI :: string

record L4Settings =
  l4_DefaultDomain :: string
  l4_AutoFQDN :: string

record ControllerSettings =
  ServiceEngineGroupName :: string
  c_ControllerVersion :: string
  c_CloudName :: string
  ControllerIP :: string
  TenantName :: string

record NodePortValues =
  np_Key :: string
  np_Value :: string

record Rbac =
  r_PspEnabled :: bool
  PspPolicyApiVersion :: string

record FeatureGateValues =
  g_GatewayAPI :: string

record Avicredentials =
  av_Username :: string
  av_Password :: string
  CertificateAuthorityData :: string

record Config =
  TkgClusterRole :: string
  IsClusterService :: string
  cfg_ReplicaCount :: int
  cfg_AKOSettings :: "AKOSettings option"
  cfg_NetworkSettings :: "NetworkSettings option"
  cfg_L7Settings :: "L7Settings option"
  cfg_L4Settings :: "L4Settings option"
  cfg_ControllerSettings :: "ControllerSettings option"
  cfg_NodePortSelector :: "NodePortValues option"
  cfg_Rbac :: "Rbac option"
  cfg_PersistentVolumeClaim :: string
  cfg_MountPath :: string
  cfg_LogFile :: string
  cfg_AKOGatewayLogFile :: string
  cfg_Avicredentials :: Avicredentials
  cfg_FeatureGates :: "FeatureGateValues option"

record LoadBalancerAndIngressService =
  lb_Name :: string
  lb_Namespace :: string
  lb_Config :: Config

text \<open>\<open>Values\<close> has one field, the service.\<close>

type_synonym Values = LoadBalancerAndIngressService

record yaml =
  yaml_Marshal :: "Values \<Rightarrow> error + string"
  yaml_Unmarshal :: "string \<Rightarrow> error + Values"

section \<open>json.Marshal\<close>

text \<open>Strings are in \<open>Go_Json\<close>.\<close>

fun join_with :: "string \<Rightarrow> string list \<Rightarrow> string" where
  "join_with sep [] = []"
| "join_with sep [x] = x"
| "join_with sep (x # xs) = x @ sep @ join_with sep xs"

definition json_list :: "('a \<Rightarrow> string) \<Rightarrow> 'a list \<Rightarrow> string" where
  "json_list f xs = ''['' @ join_with '','' (map f xs) @ '']''"

definition json_fields :: "(string \<times> string) list \<Rightarrow> string" where
  "json_fields fs = ''{'' @ join_with '','' (map (\<lambda>(k, v). json_string k @ '':'' @ v) fs) @ ''}''"

definition json_NodeNetwork :: "NodeNetwork \<Rightarrow> string" where
  "json_NodeNetwork n = json_fields
     ((if nn_NetworkName n \<noteq> [] then [(''networkName'', json_string (nn_NetworkName n))] else [])
      @ (if nn_Cidrs n \<noteq> [] then [(''cidrs'', json_list json_string (nn_Cidrs n))] else []))"

definition json_VIPNetwork :: "VIPNetwork \<Rightarrow> string" where
  "json_VIPNetwork v = json_fields
     ([(''networkName'', json_string (vip_NetworkName v))]
      @ (if vip_CIDR v \<noteq> [] then [(''cidr'', json_string (vip_CIDR v))] else [])
      @ (if vip_V6CIDR v \<noteq> [] then [(''v6cidr'', json_string (vip_V6CIDR v))] else []))"

section \<open>Settings\<close>

text \<open>\<open>if x != nil { field = f(*x) }\<close> and \<open>if x != "" { field = x }\<close>.\<close>

definition set_if :: "'a option \<Rightarrow> ('a \<Rightarrow> 's \<Rightarrow> 's) \<Rightarrow> 's \<Rightarrow> 's" where
  "set_if x f s = (case x of None \<Rightarrow> s | Some v \<Rightarrow> f v s)"

definition set_nonempty :: "string \<Rightarrow> (string \<Rightarrow> 's \<Rightarrow> 's) \<Rightarrow> 's \<Rightarrow> 's" where
  "set_nonempty x f s = (if x \<noteq> [] then f x s else s)"

definition DefaultAKOSettings :: AKOSettings where
  "DefaultAKOSettings = \<lparr>s_PrimaryInstance = [], s_LogLevel = ''INFO'', s_FullSyncFrequency = ''1800'',
     s_ApiServerPort = 8080, DeleteConfig = ''false'', s_DisableStaticRouteSync = ''true'', s_ClusterName = [],
     s_CniPlugin = [], SyncNamespace = [], s_EnableEVH = [], s_Layer7Only = [], s_ServicesAPI = [],
     s_VIPPerNamespace = [], NamespaceSector = \<lparr>LabelKey = [], LabelValue = []\<rparr>, s_EnableEvents = [],
     s_IstioEnabled = [], s_BlockedNamespaceList = [], BlockedNamespaceListJson = [], s_IpFamily = [],
     s_UseDefaultSecretsOnly = []\<rparr>"

definition NewAKOSettings :: "string \<Rightarrow> AKODeploymentConfig \<Rightarrow> AKOSettings" where
  "NewAKOSettings clusterName obj =
     (let ec = spec_ExtraConfigs (Spec obj);
          s = DefaultAKOSettings\<lparr>s_ClusterName := clusterName, s_BlockedNamespaceList := BlockedNamespaceList ec\<rparr>;
          s = set_if (PrimaryInstance ec) (\<lambda>v. s_PrimaryInstance_update (\<lambda>_. strconv_FormatBool v)) s;
          s = set_nonempty (LogLevel (Log ec)) (\<lambda>v. s_LogLevel_update (\<lambda>_. v)) s;
          s = set_nonempty (FullSyncFrequency ec) (\<lambda>v. s_FullSyncFrequency_update (\<lambda>_. v)) s;
          s = set_if (ApiServerPort ec) (\<lambda>v. s_ApiServerPort_update (\<lambda>_. v)) s;
          s = set_if (DisableStaticRouteSync ec) (\<lambda>v. s_DisableStaticRouteSync_update (\<lambda>_. strconv_FormatBool v)) s;
          s = set_nonempty (CniPlugin ec) (\<lambda>v. s_CniPlugin_update (\<lambda>_. v)) s;
          s = set_if (EnableEVH ec) (\<lambda>v. s_EnableEVH_update (\<lambda>_. strconv_FormatBool v)) s;
          s = set_if (Layer7Only ec) (\<lambda>v. s_EnableEVH_update (\<lambda>_. strconv_FormatBool v)) s;
          s = set_if (EnableEvents ec) (\<lambda>v. s_EnableEVH_update (\<lambda>_. strconv_FormatBool v)) s;
          s = set_if (ServicesAPI ec) (\<lambda>v. s_ServicesAPI_update (\<lambda>_. strconv_FormatBool v)) s;
          s = set_if (VIPPerNamespace ec) (\<lambda>v. s_VIPPerNamespace_update (\<lambda>_. strconv_FormatBool v)) s;
          s = set_nonempty (LabelKey (ec_NamespaceSelector ec)) (\<lambda>v. NamespaceSector_update (LabelKey_update (\<lambda>_. v))) s;
          s = set_nonempty (LabelValue (ec_NamespaceSelector ec)) (\<lambda>v. NamespaceSector_update (LabelValue_update (\<lambda>_. v))) s;
          s = set_if (IstioEnabled ec) (\<lambda>v. s_IstioEnabled_update (\<lambda>_. strconv_FormatBool v)) s;
          s = set_if (UseDefaultSecretsOnly ec) (\<lambda>v. s_UseDefaultSecretsOnly_update (\<lambda>_. strconv_FormatBool v)) s;
          s = set_nonempty (IpFamily ec) (\<lambda>v. s_IpFamily_update (\<lambda>_. v)) s
      in if s_BlockedNamespaceList s \<noteq> []
         then s\<lparr>BlockedNamespaceListJson := json_list json_string (s_BlockedNamespaceList s)\<rparr> else s)"

definition DefaultNetworkSettings :: NetworkSettings where
  "DefaultNetworkSettings = \<lparr>SubnetIP = [], SubnetPrefix = [], n_NetworkName = [], ControlPlaneNetworkName = [],
     ControlPlaneNetworkCIDR = [], n_NodeNetworkList = [], NodeNetworkListJson = [], n_VIPNetworkList = [],
     VIPNetworkListJson = [], n_EnableRHI = [], n_NsxtT1LR = [], n_BGPPeerLabels = [], BGPPeerLabelsJson = []\<rparr>"

definition NewNetworkSettings :: "AKODeploymentConfig \<Rightarrow> error + NetworkSettings" where
  "NewNetworkSettings obj =
     (let dn = spec_DataNetwork (Spec obj); cp = spec_ControlPlaneNetwork (Spec obj);
          ec = spec_ExtraConfigs (Spec obj)
      in case ParseCIDR (dn_CIDR dn) of
           None \<Rightarrow> Inl (Err (''invalid CIDR address: '' @ dn_CIDR dn))
         | Some (ip, ipNet) \<Rightarrow>
             (let s = DefaultNetworkSettings\<lparr>n_NetworkName := dn_Name dn, SubnetIP := IP_String ip,
                        SubnetPrefix := strconv_Itoa (Mask_Size_ones (net_Mask ipNet)),
                        n_NodeNetworkList := NodeNetworkList (IngressConfigs ec),
                        n_VIPNetworkList :=
                          (if GetIPFamilyFromCidr (dn_CIDR dn) = ''V6''
                           then [\<lparr>vip_NetworkName = dn_Name dn, vip_CIDR = [], vip_V6CIDR = dn_CIDR dn\<rparr>]
                           else [\<lparr>vip_NetworkName = dn_Name dn, vip_CIDR = dn_CIDR dn, vip_V6CIDR = []\<rparr>])\<rparr>;
                  s = (if n_NodeNetworkList s \<noteq> []
                       then s\<lparr>NodeNetworkListJson := json_list json_NodeNetwork (n_NodeNetworkList s)\<rparr> else s);
                  s = (if n_VIPNetworkList s \<noteq> []
                       then s\<lparr>VIPNetworkListJson := json_list json_VIPNetwork (n_VIPNetworkList s)\<rparr> else s);
                  s = (if cpn_Name cp \<noteq> []
                       then s\<lparr>ControlPlaneNetworkName := cpn_Name cp, ControlPlaneNetworkCIDR := cpn_CIDR cp\<rparr>
                       else s\<lparr>ControlPlaneNetworkName := dn_Name dn, ControlPlaneNetworkCIDR := dn_CIDR dn\<rparr>);
                  s = set_if (EnableRHI (ec_NetworksConfig ec)) (\<lambda>v. n_EnableRHI_update (\<lambda>_. strconv_FormatBool v)) s;
                  s = set_nonempty (NsxtT1LR (ec_NetworksConfig ec)) (\<lambda>v. n_NsxtT1LR_update (\<lambda>_. v)) s;
                  s = s\<lparr>n_BGPPeerLabels := BGPPeerLabels (ec_NetworksConfig ec)\<rparr>
              in Inr (if n_BGPPeerLabels s \<noteq> []
                      then s\<lparr>BGPPeerLabelsJson := json_list json_string (n_BGPPeerLabels s)\<rparr> else s)))"

definition DefaultL7Settings :: L7Settings where
  "DefaultL7Settings = \<lparr>l7_DisableIngressClass = False, DefaultIngController = False, L7ShardingScheme = [],
     l7_ServiceType = ''NodePort'', l7_ShardVSSize = [], l7_PassthroughShardSize = [], l7_NoPGForSNI = False,
     l7_EnableMCI = []\<rparr>"

definition NewL7Settings :: "AKOIngressConfig \<Rightarrow> L7Settings" where
  "NewL7Settings config =
     (let s = DefaultL7Settings;
          s = set_if (DisableIngressClass config) (\<lambda>v. l7_DisableIngressClass_update (\<lambda>_. v)) s;
          s = set_if (DefaultIngressController config) (\<lambda>v. DefaultIngController_update (\<lambda>_. v)) s;
          s = set_nonempty (ShardVSSize config) (\<lambda>v. l7_ShardVSSize_update (\<lambda>_. v)) s;
          s = set_nonempty (ServiceType config) (\<lambda>v. l7_ServiceType_update (\<lambda>_. v)) s;
          s = set_nonempty (PassthroughShardSize config) (\<lambda>v. l7_PassthroughShardSize_update (\<lambda>_. v)) s;
          s = set_if (NoPGForSNI config) (\<lambda>v. l7_NoPGForSNI_update (\<lambda>_. v)) s
      in set_if (EnableMCI config) (\<lambda>v. l7_EnableMCI_update (\<lambda>_. strconv_FormatBool v)) s)"

definition DefaultL4Settings :: L4Settings where
  "DefaultL4Settings = \<lparr>l4_DefaultDomain = [], l4_AutoFQDN = []\<rparr>"

definition NewL4Settings :: "AKOL4Config \<Rightarrow> L4Settings" where
  "NewL4Settings config =
     set_nonempty (AutoFQDN config) (\<lambda>v. l4_AutoFQDN_update (\<lambda>_. v))
       (set_nonempty (DefaultDomain config) (\<lambda>v. l4_DefaultDomain_update (\<lambda>_. v)) DefaultL4Settings)"

definition DefaultControllerSettings :: ControllerSettings where
  "DefaultControllerSettings = \<lparr>ServiceEngineGroupName = [], c_ControllerVersion = [], c_CloudName = [],
     ControllerIP = [], TenantName = []\<rparr>"

definition NewControllerSettings :: "string \<Rightarrow> string \<Rightarrow> string \<Rightarrow> string \<Rightarrow> string \<Rightarrow> ControllerSettings" where
  "NewControllerSettings cloudName controllerIP controllerVersion serviceEngineGroup tenantName =
     DefaultControllerSettings\<lparr>c_CloudName := cloudName, ControllerIP := controllerIP,
       ServiceEngineGroupName := serviceEngineGroup, TenantName := tenantName,
       c_ControllerVersion := controllerVersion\<rparr>"

definition DefaultNodePortSelector :: NodePortValues where
  "DefaultNodePortSelector = \<lparr>np_Key = [], np_Value = []\<rparr>"

definition NewNodePortSelector :: "NodePortSelector \<Rightarrow> NodePortValues" where
  "NewNodePortSelector nodePortSelector =
     set_nonempty (nps_Value nodePortSelector) (\<lambda>v. np_Key_update (\<lambda>_. v))
       (set_nonempty (nps_Key nodePortSelector) (\<lambda>v. np_Key_update (\<lambda>_. v)) DefaultNodePortSelector)"

definition NewRbac :: "AKORbacConfig \<Rightarrow> Rbac" where
  "NewRbac config =
     \<lparr>r_PspEnabled = (case PspEnabled config of None \<Rightarrow> False | Some b \<Rightarrow> b),
      PspPolicyApiVersion = PspPolicyAPIVersion config\<rparr>"

definition DefaultFeatureGates :: FeatureGateValues where
  "DefaultFeatureGates = \<lparr>g_GatewayAPI = []\<rparr>"

definition NewFeatureGates :: "FeatureGates \<Rightarrow> FeatureGateValues" where
  "NewFeatureGates config =
     set_if (GatewayAPI config) (\<lambda>v. g_GatewayAPI_update (\<lambda>_. strconv_FormatBool v)) DefaultFeatureGates"

definition NewValues :: "AKODeploymentConfig option \<Rightarrow> string \<Rightarrow> error + Values" where
  "NewValues obj' clusterNameSpacedName =
     (case obj' of
        None \<Rightarrow> Inl (Err ''provided AKODeploymentConfig is nil'')
      | Some obj \<Rightarrow>
          (case NewNetworkSettings obj of
             Inl err \<Rightarrow> Inl err
           | Inr networkSettings \<Rightarrow>
               (let sp = Spec obj; ec = spec_ExtraConfigs sp
                in Inr \<lparr>lb_Name = ''ako-'' @ clusterNameSpacedName, lb_Namespace = AviNamespace,
                        lb_Config = \<lparr>TkgClusterRole = [], IsClusterService = [],
                          cfg_ReplicaCount = (case ReplicaCount ec of None \<Rightarrow> 1 | Some n \<Rightarrow> n),
                          cfg_AKOSettings = Some (NewAKOSettings clusterNameSpacedName obj),
                          cfg_NetworkSettings = Some networkSettings,
                          cfg_L7Settings = Some (NewL7Settings (IngressConfigs ec)),
                          cfg_L4Settings = Some (NewL4Settings (L4Configs ec)),
                          cfg_ControllerSettings = Some (NewControllerSettings (CloudName sp) (Controller sp)
                             (ControllerVersion sp) (ServiceEngineGroup sp) (tenant_Name (Tenant sp))),
                          cfg_NodePortSelector = Some (NewNodePortSelector (ec_NodePortSelector ec)),
                          cfg_Rbac = Some (NewRbac (ec_Rbac ec)),
                          cfg_PersistentVolumeClaim = PersistentVolumeClaim (Log ec),
                          cfg_MountPath = MountPath (Log ec), cfg_LogFile = LogFile (Log ec),
                          cfg_AKOGatewayLogFile = AKOGatewayLogFile (Log ec),
                          cfg_Avicredentials = \<lparr>av_Username = [], av_Password = [], CertificateAuthorityData = []\<rparr>,
                          cfg_FeatureGates = Some (NewFeatureGates (ec_FeatureGates ec))\<rparr>\<rparr>)))"

definition NewValuesFromBytes :: "yaml \<Rightarrow> string \<Rightarrow> error + Values" where
  "NewValuesFromBytes Y bytes = yaml_Unmarshal Y bytes"

definition YttYaml :: "yaml \<Rightarrow> Values \<Rightarrow> Cluster \<Rightarrow> error + string" where
  "YttYaml Y v cluster =
     (case yaml_Marshal Y v of
        Inl err \<Rightarrow> Inl err
      | Inr buf \<Rightarrow>
          (if IsClusterClassBasedCluster cluster then Inr buf
           else Inr (TKGDataValueFormatString @ buf)))"

text \<open>A name with a random number; \<open>int63n n\<close> is the generator's number below \<open>n\<close>.\<close>

definition GetName :: "(int \<Rightarrow> int) \<Rightarrow> string" where
  "GetName int63n = ''ako-'' @ strconv_Itoa (int63n 10000000000)"

section \<open>Properties\<close>

definition bool_or :: "bool option \<Rightarrow> string \<Rightarrow> string" where
  "bool_or x d = (case x of None \<Rightarrow> d | Some b \<Rightarrow> strconv_FormatBool b)"

definition text_or :: "string \<Rightarrow> string \<Rightarrow> string" where
  "text_or x d = (if x \<noteq> [] then x else d)"

lemmas settings_simps = set_if_def set_nonempty_def bool_or_def text_or_def

text \<open>A field through an optional assignment: unchanged, or the assigned field.\<close>

lemma set_if_keep: "(\<And>v t. f (g v t) = f t) \<Longrightarrow> f (set_if x g s) = f s"
  by (simp add: set_if_def split: option.splits)

lemma set_nonempty_keep: "(\<And>v t. f (g v t) = f t) \<Longrightarrow> f (set_nonempty x g s) = f s"
  by (simp add: set_nonempty_def)

lemma set_if_bool: "(\<And>v t. f (g v t) = strconv_FormatBool v) \<Longrightarrow> f (set_if x g s) = bool_or x (f s)"
  by (simp add: set_if_def bool_or_def split: option.splits)

lemma set_nonempty_text: "(\<And>v t. f (g v t) = v) \<Longrightarrow> f (set_nonempty x g s) = text_or x (f s)"
  by (simp add: set_nonempty_def text_or_def)

lemmas keep_if =
  set_if_keep [where f = s_PrimaryInstance]
  set_if_keep [where f = s_LogLevel]
  set_if_keep [where f = s_FullSyncFrequency]
  set_if_keep [where f = s_ApiServerPort]
  set_if_keep [where f = DeleteConfig]
  set_if_keep [where f = s_DisableStaticRouteSync]
  set_if_keep [where f = s_ClusterName]
  set_if_keep [where f = s_CniPlugin]
  set_if_keep [where f = s_EnableEVH]
  set_if_keep [where f = s_Layer7Only]
  set_if_keep [where f = s_ServicesAPI]
  set_if_keep [where f = s_VIPPerNamespace]
  set_if_keep [where f = NamespaceSector]
  set_if_keep [where f = s_EnableEvents]
  set_if_keep [where f = s_IstioEnabled]
  set_if_keep [where f = s_BlockedNamespaceList]
  set_if_keep [where f = s_IpFamily]
  set_if_keep [where f = s_UseDefaultSecretsOnly]

lemmas keep_nonempty =
  set_nonempty_keep [where f = s_PrimaryInstance]
  set_nonempty_keep [where f = s_LogLevel]
  set_nonempty_keep [where f = s_FullSyncFrequency]
  set_nonempty_keep [where f = s_ApiServerPort]
  set_nonempty_keep [where f = DeleteConfig]
  set_nonempty_keep [where f = s_DisableStaticRouteSync]
  set_nonempty_keep [where f = s_ClusterName]
  set_nonempty_keep [where f = s_CniPlugin]
  set_nonempty_keep [where f = s_EnableEVH]
  set_nonempty_keep [where f = s_Layer7Only]
  set_nonempty_keep [where f = s_ServicesAPI]
  set_nonempty_keep [where f = s_VIPPerNamespace]
  set_nonempty_keep [where f = NamespaceSector]
  set_nonempty_keep [where f = s_EnableEvents]
  set_nonempty_keep [where f = s_IstioEnabled]
  set_nonempty_keep [where f = s_BlockedNamespaceList]
  set_nonempty_keep [where f = s_IpFamily]
  set_nonempty_keep [where f = s_UseDefaultSecretsOnly]

lemmas put_bool =
  set_if_bool [where f = s_PrimaryInstance]
  set_if_bool [where f = s_DisableStaticRouteSync]
  set_if_bool [where f = s_EnableEVH]
  set_if_bool [where f = s_ServicesAPI]
  set_if_bool [where f = s_VIPPerNamespace]
  set_if_bool [where f = s_IstioEnabled]
  set_if_bool [where f = s_UseDefaultSecretsOnly]

lemmas put_text =
  set_nonempty_text [where f = s_LogLevel]
  set_nonempty_text [where f = s_FullSyncFrequency]
  set_nonempty_text [where f = s_CniPlugin]
  set_nonempty_text [where f = s_IpFamily]

text \<open>
  The AKO settings are the configured values, or AKO's defaults where the configuration is silent:
  the fields for the log level, the synchronisation frequency, the API server port, static routes,
  the CNI, the services API, namespaces, Istio, the IP family and secrets; and AKO objects are never
  set up for deletion.
\<close>

theorem NewAKOSettings_fields:
  "let ec = spec_ExtraConfigs (Spec obj); s = NewAKOSettings n obj
   in s_ClusterName s = n \<and> DeleteConfig s = ''false'' \<and>
      s_PrimaryInstance s = bool_or (PrimaryInstance ec) [] \<and>
      s_LogLevel s = text_or (LogLevel (Log ec)) ''INFO'' \<and>
      s_FullSyncFrequency s = text_or (FullSyncFrequency ec) ''1800'' \<and>
      s_ApiServerPort s = (case ApiServerPort ec of None \<Rightarrow> 8080 | Some p \<Rightarrow> p) \<and>
      s_DisableStaticRouteSync s = bool_or (DisableStaticRouteSync ec) ''true'' \<and>
      s_CniPlugin s = CniPlugin ec \<and>
      s_ServicesAPI s = bool_or (ServicesAPI ec) [] \<and>
      s_VIPPerNamespace s = bool_or (VIPPerNamespace ec) [] \<and>
      NamespaceSector s = ec_NamespaceSelector ec \<and>
      s_IstioEnabled s = bool_or (IstioEnabled ec) [] \<and>
      s_UseDefaultSecretsOnly s = bool_or (UseDefaultSecretsOnly ec) [] \<and>
      s_IpFamily s = IpFamily ec \<and>
      s_BlockedNamespaceList s = BlockedNamespaceList ec"
proof -
  have port: "s_ApiServerPort (set_if x (\<lambda>v. s_ApiServerPort_update (\<lambda>_. v)) s) = (case x of None \<Rightarrow> s_ApiServerPort s | Some p \<Rightarrow> p)"
    for x and s :: AKOSettings by (simp add: set_if_def split: option.splits)
  have ns: "NamespaceSector (set_nonempty (LabelValue n) (\<lambda>v. NamespaceSector_update (LabelValue_update (\<lambda>_. v)))
      (set_nonempty (LabelKey n) (\<lambda>v. NamespaceSector_update (LabelKey_update (\<lambda>_. v))) s)) = n"
    if "NamespaceSector s = \<lparr>LabelKey = [], LabelValue = []\<rparr>" for n and s :: AKOSettings
    using that by (cases n) (simp add: set_nonempty_def)
  show ?thesis
    unfolding NewAKOSettings_def Let_def if_distrib [of "\<lambda>f. f _"]
    by (intro conjI; (split if_split)?; (intro conjI impI)?;
        simp add: keep_if keep_nonempty put_bool put_text port ns DefaultAKOSettings_def text_or_def cong: option.case_cong)
qed

text \<open>
  The settings \<open>layer_7_only\<close> and \<open>enable_events\<close> are never passed on: both are written to the field
  for Enhanced Virtual Hosting, which so ends up with the value of the last of the three options
  that is configured.
\<close>

theorem NewAKOSettings_evh_clobbered:
  "let ec = spec_ExtraConfigs (Spec obj); s = NewAKOSettings n obj
   in s_Layer7Only s = [] \<and> s_EnableEvents s = [] \<and>
      s_EnableEVH s = bool_or (EnableEvents ec) (bool_or (Layer7Only ec) (bool_or (EnableEVH ec) []))"
  unfolding NewAKOSettings_def Let_def
  by (simp add: keep_if keep_nonempty put_bool DefaultAKOSettings_def)

text \<open>
  The value of the node port selector is lost: it overwrites the key, and the value passed to AKO is
  always empty.
\<close>

theorem NewNodePortSelector_value_lost:
  "np_Value (NewNodePortSelector s) = [] \<and> np_Key (NewNodePortSelector s) = text_or (nps_Value s) (nps_Key s)"
  by (simp add: NewNodePortSelector_def DefaultNodePortSelector_def settings_simps)

lemma ParseCIDR_ones:
  assumes "ParseCIDR s = Some (a, n)"
  shows "\<exists>k. parse_dec (tl (dropWhile (\<lambda>c. c \<noteq> CHR ''/'') s)) = Some k \<and> Mask_Size_ones (net_Mask n) = int k"
proof -
  from assms obtain b k where b: "net_Mask n = CIDRMask k (BitLen b)" "k \<le> BitLen b"
    "parse_dec (tl (dropWhile (\<lambda>c. c \<noteq> CHR ''/'') s)) = Some k"
    by (simp add: ParseCIDR_def Let_def not_less split: list.splits option.splits if_splits)
      (metis IPNet.select_convs(2))
  then have "simpleMaskLength (net_Mask n) = int k"
    by (cases b) (simp_all add: CIDRMask_def simpleMaskLength_mask_bytes)
  with b(3) show ?thesis by (simp add: Mask_Size_ones_def)
qed

lemma NewValues_exists:
  assumes "ParseCIDR (dn_CIDR (spec_DataNetwork (Spec obj))) \<noteq> None"
  shows "\<exists>v. NewValues (Some obj) n = Inr v"
  using assms by (auto simp: NewValues_def NewNetworkSettings_def Let_def)

text \<open>
  The values exist exactly if the CIDR of the data network parses. Then the subnet is its address and
  the number after its slash, the VIP network uses the IPv6 field exactly for an IPv6 network, and
  the control plane network is the configured one or, without a name, the data network.
\<close>

theorem NewValues_network:
  "let dn = spec_DataNetwork (Spec obj); cp = spec_ControlPlaneNetwork (Spec obj)
   in case ParseCIDR (dn_CIDR dn) of
        None \<Rightarrow> (\<exists>e. NewValues (Some obj) n = Inl e)
      | Some (ip, _) \<Rightarrow>
          (\<exists>v s k. NewValues (Some obj) n = Inr v \<and> cfg_NetworkSettings (lb_Config v) = Some s \<and>
             SubnetIP s = IP_String ip \<and>
             parse_dec (tl (dropWhile (\<lambda>c. c \<noteq> CHR ''/'') (dn_CIDR dn))) = Some k \<and> SubnetPrefix s = itoa_nat k \<and>
             n_VIPNetworkList s =
               [\<lparr>vip_NetworkName = dn_Name dn, vip_CIDR = (if To4 ip = [] then [] else dn_CIDR dn),
                 vip_V6CIDR = (if To4 ip = [] then dn_CIDR dn else [])\<rparr>] \<and>
             VIPNetworkListJson s = json_list json_VIPNetwork (n_VIPNetworkList s) \<and>
             ControlPlaneNetworkName s = text_or (cpn_Name cp) (dn_Name dn) \<and>
             ControlPlaneNetworkCIDR s = (if cpn_Name cp \<noteq> [] then cpn_CIDR cp else dn_CIDR dn))"
proof (cases "ParseCIDR (dn_CIDR (spec_DataNetwork (Spec obj)))")
  case None
  then show ?thesis by (simp add: NewValues_def NewNetworkSettings_def Let_def)
next
  case (Some an)
  obtain ip ipn where an: "an = (ip, ipn)" by fastforce
  from ParseCIDR_ones [OF Some [unfolded an]] obtain k where
    k: "parse_dec (tl (dropWhile (\<lambda>c. c \<noteq> CHR ''/'') (dn_CIDR (spec_DataNetwork (Spec obj))))) = Some k"
      "Mask_Size_ones (net_Mask ipn) = int k" by blast
  show ?thesis
    using Some an k
    by (simp add: NewValues_def NewNetworkSettings_def Let_def DefaultNetworkSettings_def settings_simps strconv_Itoa_def
        GetIPFamilyFromCidr_def IPv6IpFamily_def IPv4IpFamily_def split: option.split)
qed

section \<open>Reading values back\<close>

text \<open>
  What the program relies on of the YAML package: marshalled values read back as they were, except
  for the fields that are not written (tag \<open>yaml:"-"\<close>), and the ytt header, two comment lines and a
  document marker, does not change what is read.
\<close>

definition written_values :: "Values \<Rightarrow> Values" where
  "written_values v = v\<lparr>lb_Config := (lb_Config v)\<lparr>
     cfg_AKOSettings := map_option (s_BlockedNamespaceList_update (\<lambda>_. [])) (cfg_AKOSettings (lb_Config v)),
     cfg_NetworkSettings := map_option (\<lambda>s. s\<lparr>n_NodeNetworkList := [], n_VIPNetworkList := [], n_BGPPeerLabels := []\<rparr>)
       (cfg_NetworkSettings (lb_Config v))\<rparr>\<rparr>"

definition yaml_laws :: "yaml \<Rightarrow> bool" where
  "yaml_laws Y \<longleftrightarrow>
     (\<forall>v s. yaml_Marshal Y v = Inr s \<longrightarrow> yaml_Unmarshal Y s = Inr (written_values v)) \<and>
     (\<forall>v s. yaml_Marshal Y v = Inr s \<longrightarrow> yaml_Unmarshal Y (TKGDataValueFormatString @ s) = yaml_Unmarshal Y s)"

lemma YttYaml_readback:
  assumes "yaml_laws Y" "YttYaml Y v c = Inr s"
  shows "NewValuesFromBytes Y s = Inr (written_values v)"
  using assms by (auto simp: YttYaml_def NewValuesFromBytes_def yaml_laws_def split: sum.splits if_splits)

definition deleting :: "Values \<Rightarrow> bool" where
  "deleting v = (case cfg_AKOSettings (lb_Config v) of None \<Rightarrow> False | Some s \<Rightarrow> DeleteConfig s = ''true'')"

lemma deleting_written [simp]: "deleting (written_values v) = deleting v"
  by (simp add: deleting_def written_values_def split: option.splits)

end
