(* ===== verification/Cluster_Cleanup.thy ===== *)
theory Cluster_Cleanup
  imports Phases Ako_Values
begin

text \<open>
  The deletion of a cluster's AVI resources: \<open>src/controllers/akodeploymentconfig/cluster/cluster_controller.go\<close>
  and \<open>src/pkg/ako/ako.go\<close>. The operator asks AKO in the workload cluster to delete its AVI objects (the
  \<open>delete_config\<close> data value), waits until AKO reports that it has finished, and removes the cluster's
  finalizer once the AVI user is gone too.
\<close>

section \<open>AKO in the workload cluster\<close>

definition akoCleanUpAnnotationKey :: string where
  "akoCleanUpAnnotationKey = ''AviObjectDeletionStatus''"

definition akoCleanUpFinishedStatus :: string where
  "akoCleanUpFinishedStatus = ''Done''"

definition akoCleanUpTimeoutStatus :: string where
  "akoCleanUpTimeoutStatus = ''Timeout''"

definition CleanupFinished :: "lib \<Rightarrow> 'w remote \<Rightarrow> 'w \<Rightarrow> (error + bool) \<times> 'w" where
  "CleanupFinished L remoteClient w =
     (case kGet (r_StatefulSets remoteClient) w (AviNamespace, ''ako'') of
        (Inl err, w) \<Rightarrow> (if IsNotFound L err then (Inr True, w) else (Inl err, w))
      | (Inr ss, w) \<Rightarrow>
          (if Annotations ss akoCleanUpAnnotationKey = Some akoCleanUpFinishedStatus then (Inr True, w)
           else if Annotations ss akoCleanUpAnnotationKey = Some akoCleanUpTimeoutStatus then (Inr True, w)
           else (Inr False, w)))"

section \<open>The cluster\<close>

definition requeueAfterForAKODeletion :: int where
  "requeueAfterForAKODeletion = 1000000000"

definition akoAddonDataValueName :: string where
  "akoAddonDataValueName = ''load-balancer-and-ingress-service-data-values''"

text \<open>
  The part of \<open>cleanup\<close> that sets \<open>deleteConfig\<close> in the add-on secret; values without AKO settings are
  dereferenced, and a Secret without data assigned to.
\<close>

definition requestDeletion ::
  "yaml \<Rightarrow> 'w remote \<Rightarrow> Cluster \<Rightarrow> Secret \<Rightarrow> Values \<Rightarrow> 'w \<Rightarrow> (error option) outcome \<times> 'w" where
  "requestDeletion Y remoteClient obj akoAddonSecret values w =
     (case cfg_AKOSettings (lb_Config values) of
        None \<Rightarrow> (Panic, w)
      | Some settings \<Rightarrow>
          (if DeleteConfig settings \<noteq> ''true'' then
             (let values = values\<lparr>lb_Config := (lb_Config values)\<lparr>cfg_AKOSettings := Some (settings\<lparr>DeleteConfig := ''true''\<rparr>)\<rparr>\<rparr>
              in case YttYaml Y values obj of
                   Inl err \<Rightarrow> (Ret (Some (Err (''workload cluster '' @ Name obj @ '' ako add-on data values marshal error''))), w)
                 | Inr secretData \<Rightarrow>
                     (case data_set akoAddonSecret ''values.yaml'' secretData of
                        Panic \<Rightarrow> (Panic, w)
                      | Ret akoAddonSecret \<Rightarrow>
                          (case kUpdate (r_Secrets remoteClient) w akoAddonSecret of
                             (Inl err, w) \<Rightarrow> (Ret (Some err), w)
                           | (Inr _, w) \<Rightarrow> (Ret None, w))))
           else (Ret None, w)))"

text \<open>The remote part of \<open>cleanup\<close>: whether AKO has finished, or there is nothing to clean up.\<close>

definition remoteCleanup ::
  "lib \<Rightarrow> 'w kapi \<Rightarrow> yaml \<Rightarrow> Cluster \<Rightarrow> 'w \<Rightarrow> (error + bool) outcome \<times> 'w" where
  "remoteCleanup L K Y obj w =
     (case GetRemoteClient K w AKODeploymentConfigControllerName (Namespace obj, Name obj) of
        (Inl err, w) \<Rightarrow> (Ret (Inl err), w)
      | (Inr remoteClient, w) \<Rightarrow>
          (let secretName = (if IsClusterClassBasedCluster obj then AKOAddonSecretNameForClusterClass obj else akoAddonDataValueName)
           in case kGet (r_Secrets remoteClient) w (TKGSystemNamespace, secretName) of
                (Inl err, w) \<Rightarrow> (if IsNotFound L err then (Ret (Inr True), w) else (Ret (Inl err), w))
              | (Inr akoAddonSecret, w) \<Rightarrow>
                  (case NewValuesFromBytes Y (data_get akoAddonSecret ''values.yaml'') of
                     Inl err \<Rightarrow> (Ret (Inl err), w)
                   | Inr values \<Rightarrow>
                       (case requestDeletion Y remoteClient obj akoAddonSecret values w of
                          (Panic, w) \<Rightarrow> (Panic, w)
                        | (Ret (Some err), w) \<Rightarrow> (Ret (Inl err), w)
                        | (Ret None, w) \<Rightarrow>
                            (case CleanupFinished L remoteClient w of (r, w) \<Rightarrow> (Ret r, w))))))"

definition cleanup ::
  "lib \<Rightarrow> 'w kapi \<Rightarrow> yaml \<Rightarrow> Cluster \<Rightarrow> 'w \<Rightarrow> (error + bool) outcome \<times> Cluster \<times> 'w" where
  "cleanup L K Y obj w =
     (if cond_Has L (Conditions obj) AviResourceCleanupSucceededCondition \<and>
         cond_IsTrue L (Conditions obj) AviResourceCleanupSucceededCondition
      then (Ret (Inr True), obj, w)
      else
        (let obj = (if \<not> cond_Has L (Conditions obj) AviResourceCleanupSucceededCondition
                    then obj\<lparr>Conditions := cond_MarkFalse L (Conditions obj) AviResourceCleanupSucceededCondition
                           AviResourceCleanupReason ConditionSeverityInfo
                           ''Cleaning up the AVI load balancing resources before deletion''\<rparr>
                    else obj)
         in case remoteCleanup L K Y obj w of
              (Ret (Inr True), w) \<Rightarrow>
                (Ret (Inr True), obj\<lparr>Conditions := cond_MarkTrue L (Conditions obj) AviResourceCleanupSucceededCondition\<rparr>, w)
            | (r, w) \<Rightarrow> (r, obj, w)))"

definition ReconcileDelete :: "lib \<Rightarrow> 'w kapi \<Rightarrow> yaml \<Rightarrow> 'w cluster_phase" where
  "ReconcileDelete L K Y cluster obj w =
     (if ContainsFinalizer L (Finalizers cluster) ClusterFinalizer then
        (case cleanup L K Y cluster w of
           (Panic, cluster, w) \<Rightarrow> (Crashed, cluster, w)
         | (Ret (Inl err), cluster, w) \<Rightarrow> (Done (zeroResult, Some err), cluster, w)
         | (Ret (Inr finished), cluster, w) \<Rightarrow>
             (if finished \<and> cond_IsTrue L (Conditions cluster) AviUserCleanupSucceededCondition
              then (Done (zeroResult, None),
                    cluster\<lparr>Finalizers := RemoveFinalizer L (Finalizers cluster) ClusterFinalizer\<rparr>, w)
              else (Done (\<lparr>Requeue = True, RequeueAfter = requeueAfterForAKODeletion\<rparr>, None), cluster, w)))
      else (Done (zeroResult, None), cluster, w))"

section \<open>Properties\<close>

lemma cleanup_frame:
  assumes "cleanup L K Y c w = (r, c', w')"
  shows "Name c' = Name c" "Namespace c' = Namespace c" "DeletionTimestamp c' = DeletionTimestamp c"
    "Finalizers c' = Finalizers c" "Labels c' = Labels c" "Topology c' = Topology c"
  using assms by (auto simp: cleanup_def Let_def split: if_splits prod.splits outcome.splits sum.splits bool.splits)

lemma cleanup_conditions:
  assumes "condition_laws L" "cleanup L K Y c w = (r, c', w')"
  shows "resources_clean L c \<Longrightarrow> resources_clean L c'" "user_clean L c' \<longleftrightarrow> user_clean L c"
    "r = Ret (Inr True) \<longleftrightarrow> resources_clean L c'"
  using assms
  by (auto simp: cleanup_def Let_def resources_clean_def user_clean_def condition_laws_def
      split: if_splits prod.splits outcome.splits sum.splits bool.splits)

lemma ReconcileDelete_step:
  assumes "condition_laws L" "finalizer_laws L" "ReconcileDelete L K Y c obj w = (r, c', w')"
  shows "cleanup_step L c c'"
proof (cases "ContainsFinalizer L (Finalizers c) ClusterFinalizer")
  case True
  obtain r1 c1 w1 where cl: "cleanup L K Y c w = (r1, c1, w1)" by (cases "cleanup L K Y c w") auto
  note f = cleanup_frame [OF cl] and cs = cleanup_conditions [OF assms(1) cl]
  have fin: "ClusterFinalizer \<in> set (RemoveFinalizer L fs ClusterFinalizer) \<longleftrightarrow> False" for fs
    using assms(2) by (simp add: finalizer_laws_def)
  from f cs have "cleanup_step L c c1" by (auto simp: cleanup_step_def)
  moreover have "cleanup_step L c1 c'"
    using assms(3) True cl cs(3)
    by (auto simp: ReconcileDelete_def cleanup_step_def resources_clean_def user_clean_def
        split: outcome.splits sum.splits if_splits)
  ultimately show ?thesis by (rule cleanup_step_trans)
next
  case False
  with assms(3) show ?thesis by (simp add: ReconcileDelete_def)
qed

lemma ReconcileDelete_timestamp:
  "ReconcileDelete L K Y c obj w = (r, c', w') \<Longrightarrow> DeletionTimestamp c' = DeletionTimestamp c"
  by (auto simp: ReconcileDelete_def dest: cleanup_frame split: if_splits prod.splits outcome.splits sum.splits)

interpretation delete: cluster_phase "ReconcileDelete L K Y" d "protocol L" for L K Y d
  by unfold_locales (auto simp: protocol_def ReconcileDelete_timestamp intro: ReconcileDelete_step)

subsection \<open>What AKO says\<close>

text \<open>
  The answer of the workload cluster, in terms of the calls to its API server. AKO has been told to delete its
  objects if the add-on Secret read from the cluster says so, or if a Secret of the same name that says so has been written.
\<close>

definition told_to_delete :: "yaml \<Rightarrow> 'w remote \<Rightarrow> Secret \<Rightarrow> 'w \<Rightarrow> 'w \<Rightarrow> bool" where
  "told_to_delete Y R secret w w' \<longleftrightarrow>
     (\<exists>v. NewValuesFromBytes Y (data_get secret ''values.yaml'') = Inr v \<and>
        (if deleting v then w' = w
         else \<exists>secret' secret'' v'. kUpdate (r_Secrets R) w secret' = (Inr secret'', w') \<and> obj_key secret' = obj_key secret \<and>
                NewValuesFromBytes Y (data_get secret' ''values.yaml'') = Inr v' \<and> deleting v'))"

text \<open>AKO is at an end if its StatefulSet is gone or carries one of the two final states.\<close>

definition ako_ended :: "lib \<Rightarrow> 'w remote \<Rightarrow> 'w \<Rightarrow> bool \<Rightarrow> 'w \<Rightarrow> bool" where
  "ako_ended L R w ended w' \<longleftrightarrow>
     (case kGet (r_StatefulSets R) w (''avi-system'', ''ako'') of
        (Inl e, w1) \<Rightarrow> IsNotFound L e \<and> ended \<and> w' = w1
      | (Inr ss, w1) \<Rightarrow> (ended \<longleftrightarrow> Annotations ss ''AviObjectDeletionStatus'' \<in> {Some ''Done'', Some ''Timeout''}) \<and> w' = w1)"

text \<open>
  There is nothing to clean up in a cluster without the add-on Secret. Otherwise AKO is first told to delete, and its state
  is read in the world this leaves behind.
\<close>

definition ako_answers :: "lib \<Rightarrow> 'w kapi \<Rightarrow> yaml \<Rightarrow> Cluster \<Rightarrow> 'w \<Rightarrow> bool \<Rightarrow> 'w \<Rightarrow> bool" where
  "ako_answers L K Y c w ended w' \<longleftrightarrow>
     (\<exists>R w1 r w2. GetRemoteClient K w AKODeploymentConfigControllerName (Namespace c, Name c) = (Inr R, w1) \<and>
        kGet (r_Secrets R) w1 (TKGSystemNamespace,
          if IsClusterClassBasedCluster c then AKOAddonSecretNameForClusterClass c else akoAddonDataValueName) = (r, w2) \<and>
        (case r of
           Inl e \<Rightarrow> IsNotFound L e \<and> ended \<and> w' = w2
         | Inr secret \<Rightarrow> \<exists>w3. told_to_delete Y R secret w2 w3 \<and> ako_ended L R w3 ended w'))"

lemma requestDeletion_tells:
  assumes "yaml_laws Y" "NewValuesFromBytes Y (data_get secret ''values.yaml'') = Inr values"
    and "requestDeletion Y R obj secret values w = (Ret None, w')"
  shows "told_to_delete Y R secret w w'"
proof -
  from assms(3) obtain s where s: "cfg_AKOSettings (lb_Config values) = Some s"
    by (auto simp: requestDeletion_def split: option.splits)
  show ?thesis
  proof (cases "DeleteConfig s = ''true''")
    case True
    with assms s show ?thesis by (simp add: requestDeletion_def told_to_delete_def deleting_def)
  next
    case False
    let ?v = "values\<lparr>lb_Config := (lb_Config values)\<lparr>cfg_AKOSettings := Some (s\<lparr>DeleteConfig := ''true''\<rparr>)\<rparr>\<rparr>"
    from False assms(3) s obtain buf m secret'' where
      y: "YttYaml Y ?v obj = Inr buf" and m: "Data secret = Some m"
      and u: "kUpdate (r_Secrets R) w (secret\<lparr>Data := Some (m(''values.yaml'' \<mapsto> buf))\<rparr>) = (Inr secret'', w')"
      by (auto simp: requestDeletion_def Let_def data_set_def split: sum.splits option.splits prod.splits)
    let ?s = "secret\<lparr>Data := Some (m(''values.yaml'' \<mapsto> buf))\<rparr>"
    have "NewValuesFromBytes Y (data_get ?s ''values.yaml'') = Inr (written_values ?v)"
      using YttYaml_readback [OF assms(1) y] by (simp add: data_get_def)
    moreover have "deleting (written_values ?v)" by (simp only: deleting_written) (simp add: deleting_def)
    moreover have "obj_key ?s = obj_key secret" by (simp add: obj_key_def)
    moreover have "\<not> deleting values" using False s by (simp add: deleting_def)
    ultimately show ?thesis unfolding told_to_delete_def using u assms(2) by auto
  qed
qed

lemma CleanupFinished_ended: "CleanupFinished L R w = (Inr ended, w') \<Longrightarrow> ako_ended L R w ended w'"
  by (auto simp: CleanupFinished_def ako_ended_def AviNamespace_def akoCleanUpAnnotationKey_def akoCleanUpFinishedStatus_def
      akoCleanUpTimeoutStatus_def split: prod.splits sum.splits if_splits)

lemma remoteCleanup_answers:
  assumes "yaml_laws Y" "remoteCleanup L K Y c w = (Ret (Inr ended), w')"
  shows "ako_answers L K Y c w ended w'"
proof -
  let ?key = "(TKGSystemNamespace, if IsClusterClassBasedCluster c then AKOAddonSecretNameForClusterClass c else akoAddonDataValueName)"
  from assms(2) obtain R w1 where g: "GetRemoteClient K w AKODeploymentConfigControllerName (Namespace c, Name c) = (Inr R, w1)"
    by (auto simp: remoteCleanup_def split: prod.splits sum.splits)
  obtain r w2 where s: "kGet (r_Secrets R) w1 ?key = (r, w2)" by (cases "kGet (r_Secrets R) w1 ?key")
  show ?thesis
  proof (cases r)
    case (Inl e)
    with assms(2) g s show ?thesis by (auto simp: remoteCleanup_def ako_answers_def split: if_splits)
  next
    case (Inr secret)
    with assms(2) g s obtain vs w3 where v: "NewValuesFromBytes Y (data_get secret ''values.yaml'') = Inr vs"
      "requestDeletion Y R c secret vs w2 = (Ret None, w3)" "CleanupFinished L R w3 = (Inr ended, w')"
      by (auto simp: remoteCleanup_def Let_def split: sum.splits prod.splits outcome.splits option.splits)
    note told = requestDeletion_tells [OF assms(1) v(1,2)] and ended = CleanupFinished_ended [OF v(3)]
    from g s Inr told ended show ?thesis unfolding ako_answers_def by fastforce
  qed
qed

lemma cleanup_answers:
  assumes "condition_laws L" "yaml_laws Y" "cleanup L K Y c w = (Ret (Inr ended), c', w')"
  shows "resources_clean L c \<and> ended \<and> w' = w \<or> \<not> resources_clean L c \<and> ako_answers L K Y c w ended w'"
proof (cases "resources_clean L c")
  case True
  with assms(1,3) show ?thesis by (simp add: cleanup_def resources_clean_def condition_laws_def)
next
  case False
  have k: "ako_answers L K Y (c\<lparr>Conditions := cs\<rparr>) = ako_answers L K Y c" for cs
    by (intro ext) (simp add: ako_answers_def IsClusterClassBasedCluster_def AKOAddonSecretNameForClusterClass_def)
  from False assms(3) have "remoteCleanup L K Y c w = (Ret (Inr ended), w') \<or>
      (\<exists>cs. remoteCleanup L K Y (c\<lparr>Conditions := cs\<rparr>) w = (Ret (Inr ended), w'))"
    by (auto simp: cleanup_def Let_def resources_clean_def split: if_splits prod.splits outcome.splits sum.splits bool.splits)
  then have "ako_answers L K Y c w ended w'" using remoteCleanup_answers [OF assms(2)] k by metis
  with False show ?thesis by simp
qed

text \<open>
  C24. \<open>ReconcileDelete\<close> removes the finalizer of a cluster only if the cluster's AVI user is known to be gone and
  its AVI resources are: they were known to be before, or there is no add-on Secret in the workload cluster, or AKO has
  been told to delete its objects and, asked after that, is gone or says \<open>Done\<close> or \<open>Timeout\<close>. If the finalizer is held back, the
  reconciliation returns an error, asks to be requeued or panics.
\<close>

theorem ReconcileDelete_finalizer:
  assumes "condition_laws L" "finalizer_laws L" "yaml_laws Y"
    and "ReconcileDelete L K Y c obj w = (r, c', w')" "ClusterFinalizer \<in> set (Finalizers c)"
  shows "if ClusterFinalizer \<notin> set (Finalizers c')
         then user_clean L c \<and> (resources_clean L c \<or> ako_answers L K Y c w True w') \<and> r = Done (zeroResult, None)
         else r = Crashed \<or> (\<exists>e. r = Done (zeroResult, Some e)) \<or> (\<exists>res. r = Done (res, None) \<and> Requeue res)"
proof -
  obtain r1 c1 w1 where cl: "cleanup L K Y c w = (r1, c1, w1)" by (cases "cleanup L K Y c w") auto
  have "ContainsFinalizer L (Finalizers c) ClusterFinalizer" using assms(2,5) by (simp add: finalizer_laws_def)
  moreover have "ClusterFinalizer \<notin> set (RemoveFinalizer L fs ClusterFinalizer)" for fs
    using assms(2) by (simp add: finalizer_laws_def)
  moreover have "resources_clean L c \<or> ako_answers L K Y c w True w1" if "r1 = Ret (Inr True)"
    using cleanup_answers [OF assms(1,3) cl [unfolded that]] by blast
  ultimately show ?thesis
    using assms(4,5) cl cleanup_conditions(2) [OF assms(1) cl] cleanup_frame(4) [OF cl]
    by (auto simp: ReconcileDelete_def user_clean_def split: outcome.splits sum.splits if_splits)
qed

text \<open>
  C26. AKO is asked to delete its objects before its answer is believed. Whenever the remote part of the cleanup
  gives an answer, the workload cluster either has no add-on Secret, and the answer is that the cleanup is over, or
  its add-on Secret says \<open>delete_config\<close>, or a Secret of that name that reads back so has been written; the state of
  AKO is read after that, and the answer is yes exactly if AKO is gone or says \<open>Done\<close> or \<open>Timeout\<close>.
\<close>

theorem cleanup_requests_deletion:
  assumes "yaml_laws Y" "remoteCleanup L K Y c w = (Ret (Inr ended), w')"
  shows "\<exists>R w1 r w2. GetRemoteClient K w AKODeploymentConfigControllerName (Namespace c, Name c) = (Inr R, w1) \<and>
    kGet (r_Secrets R) w1 (TKGSystemNamespace,
      if IsClusterClassBasedCluster c then AKOAddonSecretNameForClusterClass c else akoAddonDataValueName) = (r, w2) \<and>
    (case r of
       Inl e \<Rightarrow> IsNotFound L e \<and> ended \<and> w' = w2
     | Inr secret \<Rightarrow> \<exists>w3. told_to_delete Y R secret w2 w3 \<and> ako_ended L R w3 ended w')"
  using remoteCleanup_answers [OF assms] by (simp add: ako_answers_def)

section \<open>Concrete runs\<close>

text \<open>A YAML package that keeps the values it has been given (enough for the law).\<close>

definition exampleValues :: Values where
  "exampleValues = \<lparr>lb_Name = [], lb_Namespace = [], lb_Config = \<lparr>TkgClusterRole = [], IsClusterService = [],
     cfg_ReplicaCount = 1, cfg_AKOSettings = Some DefaultAKOSettings, cfg_NetworkSettings = None, cfg_L7Settings = None,
     cfg_L4Settings = None, cfg_ControllerSettings = None, cfg_NodePortSelector = None, cfg_Rbac = None,
     cfg_PersistentVolumeClaim = [], cfg_MountPath = [], cfg_LogFile = [], cfg_AKOGatewayLogFile = [],
     cfg_Avicredentials = \<lparr>av_Username = [], av_Password = [], CertificateAuthorityData = []\<rparr>, cfg_FeatureGates = None\<rparr>\<rparr>"

definition deletingValues :: Values where
  "deletingValues = exampleValues\<lparr>lb_Config := (lb_Config exampleValues)\<lparr>cfg_AKOSettings := Some (DefaultAKOSettings\<lparr>DeleteConfig := ''true''\<rparr>)\<rparr>\<rparr>"

text \<open>It can write the one document \<open>deletingValues\<close>, as the text ``D'', and reads it with or without header.\<close>

definition exampleYaml :: yaml where
  "exampleYaml = \<lparr>yaml_Marshal = (\<lambda>v. if v = deletingValues then Inr ''D'' else Inl (Err ''yaml'')),
     yaml_Unmarshal = (\<lambda>s. if s = ''D'' \<or> s = TKGDataValueFormatString @ ''D'' then Inr deletingValues
                          else if s = ''V'' then Inr exampleValues else Inl (Err ''yaml''))\<rparr>"

lemma exampleYaml_laws [simp]: "yaml_laws exampleYaml"
  by (auto simp: yaml_laws_def exampleYaml_def written_values_def deletingValues_def exampleValues_def DefaultAKOSettings_def
      split: if_splits)

definition addonSecret :: Secret where
  "addonSecret = emptySecret\<lparr>Name := akoAddonDataValueName, Namespace := TKGSystemNamespace, Data := Some [''values.yaml'' \<mapsto> ''V'']\<rparr>"

text \<open>The answer on a cluster whose AKO is still at work.\<close>

definition busyAKO :: StatefulSet where
  "busyAKO = emptyMeta\<lparr>Name := ''ako'', Namespace := ''avi-system''\<rparr>"

definition addonWorld :: mem where
  "addonWorld = mem0\<lparr>m_remote_secrets := [addonSecret], m_remote_sts := [busyAKO]\<rparr>"

lemma request_example:
  "\<exists>w'. requestDeletion exampleYaml mem_remote exampleCluster addonSecret exampleValues addonWorld = (Ret None, w') \<and>
     m_remote_sts w' = [busyAKO]"
proof -
  have "yaml_Marshal exampleYaml deletingValues = Inr ''D''" by (simp add: exampleYaml_def)
  then have y: "YttYaml exampleYaml deletingValues exampleCluster = Inr (TKGDataValueFormatString @ ''D'')"
    by (simp add: YttYaml_def IsClusterClassBasedCluster_def exampleCluster_def ObjectMeta.defs)
  have s: "cfg_AKOSettings (lb_Config exampleValues) = Some DefaultAKOSettings" "DeleteConfig DefaultAKOSettings \<noteq> ''true''"
    by (simp_all add: exampleValues_def DefaultAKOSettings_def)
  have d: "Data addonSecret = Some [''values.yaml'' \<mapsto> ''V'']" by (simp add: addonSecret_def)
  have "\<exists>w' x. kUpdate (r_Secrets mem_remote) addonWorld (addonSecret\<lparr>Data := y\<rparr>) = (Inr x, w') \<and> m_remote_sts w' = [busyAKO]" for y
    by (simp add: mem_remote_def list_api_def addonWorld_def obj_key_def)
  then show ?thesis
    by (simp add: requestDeletion_def s y [unfolded deletingValues_def] data_set_def d split: prod.splits sum.splits)
      (metis Pair_inject sum.distinct(1))
qed

lemma remote_example: "\<exists>w'. remoteCleanup ref_lib mem_kapi exampleYaml exampleCluster addonWorld = (Ret (Inr False), w')"
proof -
  from request_example obtain w' where
    r: "requestDeletion exampleYaml mem_remote exampleCluster addonSecret exampleValues addonWorld = (Ret None, w')" "m_remote_sts w' = [busyAKO]"
    by blast
  have "CleanupFinished ref_lib mem_remote w' = (Inr False, w')"
    using r(2) by (simp add: CleanupFinished_def mem_remote_def list_api_def busyAKO_def obj_key_def AviNamespace_def emptyMeta_def)
  moreover have "kGet (r_Secrets mem_remote) addonWorld (TKGSystemNamespace, akoAddonDataValueName) = (Inr addonSecret, addonWorld)"
    by (simp add: mem_remote_def list_api_def addonWorld_def addonSecret_def obj_key_def)
  moreover have "NewValuesFromBytes exampleYaml (data_get addonSecret ''values.yaml'') = Inr exampleValues"
    by (simp add: NewValuesFromBytes_def exampleYaml_def addonSecret_def data_get_def TKGDataValueFormatString_def)
  moreover have "\<not> IsClusterClassBasedCluster exampleCluster"
    by (simp add: IsClusterClassBasedCluster_def exampleCluster_def ObjectMeta.defs)
  moreover have "GetRemoteClient mem_kapi addonWorld AKODeploymentConfigControllerName k = (Inr mem_remote, addonWorld)" for k
    by (simp add: mem_kapi_def)
  ultimately show ?thesis using r(1) by (simp add: remoteCleanup_def)
qed

theorem cleanup_requests_deletion_witness:
  "\<exists>secret w w'. told_to_delete exampleYaml mem_remote secret addonWorld w \<and> ako_ended ref_lib mem_remote w False w'"
proof -
  from remote_example obtain w' where "remoteCleanup ref_lib mem_kapi exampleYaml exampleCluster addonWorld = (Ret (Inr False), w')"
    by blast
  from cleanup_requests_deletion [OF exampleYaml_laws this] show ?thesis
    by (auto simp: mem_kapi_def mem_remote_def list_api_def split: sum.splits option.splits)
qed

text \<open>A cluster that is being deleted, whose user is gone, in a world where it has no add-on Secret.\<close>

definition cleanCluster :: Cluster where
  "cleanCluster = exampleCluster\<lparr>Finalizers := [ClusterFinalizer], DeletionTimestamp := Some 1,
     Conditions := cond_MarkTrue ref_lib [] AviUserCleanupSucceededCondition\<rparr>"

lemma ref_status_nil: "ref_status [] t = None"
  by (simp add: ref_status_def)

lemma ReconcileDelete_example:
  "\<exists>c'. ReconcileDelete ref_lib mem_kapi exampleYaml cleanCluster exampleADC mem0 = (Done (zeroResult, None), c', mem0) \<and> Finalizers c' = []"
  by (simp add: ReconcileDelete_def cleanup_def remoteCleanup_def cleanCluster_def ref_defs ref_status_set ref_status_nil Let_def)

theorem ReconcileDelete_finalizer_witness:
  "user_clean ref_lib cleanCluster \<and> ako_answers ref_lib mem_kapi exampleYaml cleanCluster mem0 True mem0"
proof -
  from ReconcileDelete_example obtain c' where
    r: "ReconcileDelete ref_lib mem_kapi exampleYaml cleanCluster exampleADC mem0 = (Done (zeroResult, None), c', mem0)" "Finalizers c' = []"
    by blast
  have "\<not> resources_clean ref_lib cleanCluster"
    by (simp add: cleanCluster_def resources_clean_def ref_lib_def ref_status_set ref_status_nil)
  with ReconcileDelete_finalizer [OF ref_condition_laws ref_finalizer_laws exampleYaml_laws r(1)] r(2) show ?thesis
    by (simp add: cleanCluster_def)
qed

end
