(* ===== verification/Addon_Secret.thy ===== *)
theory Addon_Secret
  imports Cluster_Cleanup
begin

text \<open>
  \<open>src/controllers/akodeploymentconfig/cluster/cluster_controller_addon_secret.go\<close>: the add-on secret that
  deploys AKO into a cluster, its deletion, the reference to the AKO package in a ClusterBootstrap, and the
  check that AKO supports the cluster's IP family.
\<close>

section \<open>The IP family\<close>

definition ValidateClusterIpFamily :: "Cluster \<Rightarrow> AKODeploymentConfig \<Rightarrow> bool \<Rightarrow> error option" where
  "ValidateClusterIpFamily cluster adc isVIPProvider =
     (case GetClusterIPFamily cluster of
        Inl err \<Rightarrow> Some err
      | Inr clusterIpFamily \<Rightarrow>
          (if clusterIpFamily = IPv6IpFamily \<or> clusterIpFamily = DualStackIPv6Primary
           then Some (Err ''AKO doesn't work in IPv6 single-stack and IPv6 Primary dual-stack cluster'')
           else
             (let adcIpFamily = (if IpFamily (spec_ExtraConfigs (Spec adc)) \<noteq> []
                                 then IpFamily (spec_ExtraConfigs (Spec adc)) else IPv4IpFamily)
              in if adcIpFamily = IPv6IpFamily \<and> clusterIpFamily = IPv4IpFamily
                 then Some (Err (''AKO with IP family '' @ adcIpFamily @ '' can not work together with cluster with IP family '' @ clusterIpFamily))
                 else if isVIPProvider \<and> adcIpFamily = IPv6IpFamily \<and> clusterIpFamily = DualStackIPv4Primary
                 then Some (Err ''when enabling avi as control plane HA, AKO with IP family V6 can not work together with ipv4 primary dual-stack cluster'')
                 else None)))"

section \<open>The secret\<close>

text \<open>The values, completed with the cluster's role, its label and the AVI credentials.\<close>

definition AkoAddonSecretValues :: "Cluster \<Rightarrow> AKODeploymentConfig \<Rightarrow> Secret \<Rightarrow> error + Values" where
  "AkoAddonSecretValues cluster obj aviUsersecret =
     (case NewValues (Some obj) (Namespace cluster @ ''-'' @ Name cluster) of
        Inl err \<Rightarrow> Inl err
      | Inr secret \<Rightarrow>
          (let cfg = lb_Config secret;
               cfg = (if Namespace cluster = TKGSystemNamespace then cfg\<lparr>TkgClusterRole := ''management''\<rparr>
                      else
                        (let cfg = cfg\<lparr>TkgClusterRole := ''workload''\<rparr>
                         in if Labels cluster AviClusterDeleteConfigLabel = Some ''true''
                            then cfg\<lparr>cfg_AKOSettings := map_option (DeleteConfig_update (\<lambda>_. ''true'')) (cfg_AKOSettings cfg)\<rparr>
                            else cfg));
               cfg = cfg\<lparr>cfg_Avicredentials := \<lparr>av_Username = data_get aviUsersecret ''username'',
                            av_Password = data_get aviUsersecret ''password'',
                            CertificateAuthorityData = data_get aviUsersecret AviCertificateKey\<rparr>\<rparr>
           in Inr (secret\<lparr>lb_Config := cfg\<rparr>)))"

definition AkoAddonSecretDataYaml :: "yaml \<Rightarrow> Cluster \<Rightarrow> AKODeploymentConfig \<Rightarrow> Secret \<Rightarrow> error + string" where
  "AkoAddonSecretDataYaml Y cluster obj aviUsersecret =
     (case AkoAddonSecretValues cluster obj aviUsersecret of
        Inl err \<Rightarrow> Inl err
      | Inr secret \<Rightarrow> YttYaml Y secret cluster)"

definition createAKOAddonSecret :: "yaml \<Rightarrow> Cluster \<Rightarrow> AKODeploymentConfig \<Rightarrow> Secret \<Rightarrow> error + Secret" where
  "createAKOAddonSecret Y cluster obj aviUsersecret =
     (case AkoAddonSecretDataYaml Y cluster obj aviUsersecret of
        Inl err \<Rightarrow> Inl err
      | Inr secretStringData \<Rightarrow>
          Inr (emptySecret\<lparr>Name := AKOAddonSecretName cluster, Namespace := Namespace cluster,
                 Annotations := [TKGAddonAnnotationKey \<mapsto> ''networking/load-balancer-and-ingress-service''],
                 Labels := [TKGAddOnLabelAddonNameKey \<mapsto> ''load-balancer-and-ingress-service'',
                            TKGAddOnLabelClusterNameKey \<mapsto> Name cluster,
                            TKGAddOnLabelClusterctlKey \<mapsto> []],
                 secret_Type := (if IsClusterClassBasedCluster cluster then TKGClusterClassAddOnSecretType else TKGAddOnSecretType),
                 StringData := [TKGAddOnSecretDataKey \<mapsto> secretStringData]\<rparr>))"

definition getClusterAviUserSecret :: "'w kapi \<Rightarrow> Cluster \<Rightarrow> 'w \<Rightarrow> (error + Secret) \<times> 'w" where
  "getClusterAviUserSecret K cluster w = kGet (Secrets K) w (Namespace cluster, AVIUserSecretName cluster)"

section \<open>The package reference\<close>

definition getClusterBootstrap :: "'w kapi \<Rightarrow> Cluster \<Rightarrow> 'w \<Rightarrow> (error + ClusterBootstrap) \<times> 'w" where
  "getClusterBootstrap K cluster w = kGet (ClusterBootstraps K) w (Namespace cluster, Name cluster)"

definition GetAKOPackageRefNameFromTKR :: "TanzuKubernetesRelease \<Rightarrow> error + string" where
  "GetAKOPackageRefNameFromTKR tkr =
     (case find (\<lambda>n. strings_HasPrefix n AkoClusterBootstrapRefNamePrefix) (BootstrapPackages tkr) of
        Some n \<Rightarrow> Inr n
      | None \<Rightarrow> Inl (Err (''no bootstrapPackage name matches the prefix '' @ AkoClusterBootstrapRefNamePrefix @
                     '' within the BootstrapPackages of TanzuKubernetesRelease '' @ Name tkr)))"

definition GetAKOPackageRefName :: "'w kapi \<Rightarrow> ClusterBootstrap \<Rightarrow> 'w \<Rightarrow> (error + string) \<times> 'w" where
  "GetAKOPackageRefName K cb w =
     (if ResolvedTKR cb = [] then (Inl (Err ''ClusterBootstrap.Status.ResolvedTKR is empty''), w)
      else case kGet (TKRs K) w ([], ResolvedTKR cb) of
             (Inl err, w) \<Rightarrow> (Inl err, w)
           | (Inr tkr, w) \<Rightarrow> (GetAKOPackageRefNameFromTKR tkr, w))"

definition getAKOPackageRefFromClusterBootstrap :: "ClusterBootstrap \<Rightarrow> nat option" where
  "getAKOPackageRefFromClusterBootstrap cb =
     find_index (\<lambda>p. strings_HasPrefix (RefName p) AkoClusterBootstrapRefNamePrefix) (AdditionalPackages cb)"

text \<open>The package reference and the annotation that keeps the package install from being deleted.\<close>

definition setAkoPackageRef :: "ClusterBootstrapPackage \<Rightarrow> ClusterBootstrap \<Rightarrow> ClusterBootstrap" where
  "setAkoPackageRef expected bootstrap =
     (case getAKOPackageRefFromClusterBootstrap bootstrap of
        None \<Rightarrow> bootstrap\<lparr>AdditionalPackages := AdditionalPackages bootstrap @ [expected]\<rparr>
      | Some index \<Rightarrow>
          (if AdditionalPackages bootstrap ! index \<noteq> expected
           then bootstrap\<lparr>AdditionalPackages := (AdditionalPackages bootstrap)[index := expected]\<rparr>
           else bootstrap))"

definition setSkipDelete :: "ClusterBootstrap \<Rightarrow> ClusterBootstrap" where
  "setSkipDelete bootstrap =
     (case Annotations bootstrap TKGSkipDeletePkgiAnnotationKey of
        None \<Rightarrow> bootstrap\<lparr>Annotations := (Annotations bootstrap)(TKGSkipDeletePkgiAnnotationKey \<mapsto> '','' @ AkoPackageInstallName)\<rparr>
      | Some v \<Rightarrow>
          (if \<not> strings_Contains v AkoPackageInstallName
           then bootstrap\<lparr>Annotations := (Annotations bootstrap)(TKGSkipDeletePkgiAnnotationKey \<mapsto> v @ '','' @ AkoPackageInstallName)\<rparr>
           else bootstrap))"

definition patchAkoPackageRefToClusterBootstrap :: "'w kapi \<Rightarrow> Cluster \<Rightarrow> 'w \<Rightarrow> error option \<times> 'w" where
  "patchAkoPackageRefToClusterBootstrap K cluster w =
     (case getClusterBootstrap K cluster w of
        (Inl err, w) \<Rightarrow> (Some err, w)
      | (Inr bootstrap, w) \<Rightarrow>
          (case kNewHelper (ClusterBootstraps K) w bootstrap of
             (Some err, w) \<Rightarrow> (Some err, w)
           | (None, w) \<Rightarrow>
               (case GetAKOPackageRefName K bootstrap w of
                  (Inl err, w) \<Rightarrow> (Some err, w)
                | (Inr akoPackageRefName, w) \<Rightarrow>
                    (let expected = \<lparr>RefName = akoPackageRefName, pkg_ValuesFrom =
                       Some \<lparr>vf_Inline = None, vf_ProviderRef = None, vf_SecretRef = AKOAddonSecretName cluster\<rparr>\<rparr>
                     in kPatch (ClusterBootstraps K) w bootstrap (setSkipDelete (setAkoPackageRef expected bootstrap))))))"

text \<open>
  \<open>removeAkoPackageRefFromClusterBootstrap\<close>, which nothing calls at present. The loop ranges over the
  original slice header while it shortens the slice, and writes through to the shared array:
  \<open>arr\<close> is the array, \<open>len\<close> the current length. An index beyond it panics.
\<close>

fun remove_packages ::
  "nat \<Rightarrow> nat \<Rightarrow> ClusterBootstrapPackage list \<Rightarrow> nat \<Rightarrow> (ClusterBootstrapPackage list) outcome" where
  "remove_packages 0 i arr len = Ret (take len arr)"
| "remove_packages (Suc k) i arr len =
     (if strings_HasPrefix (RefName (arr ! i)) AkoClusterBootstrapRefNamePrefix then
        (if len = 0 \<or> len \<le> i then Panic
         else remove_packages k (i + 1) (arr[i := arr ! (len - 1)]) (len - 1))
      else remove_packages k (i + 1) arr len)"

definition removeAkoPackageRefFromClusterBootstrap :: "'w kapi \<Rightarrow> Cluster \<Rightarrow> 'w \<Rightarrow> (error option) outcome \<times> 'w" where
  "removeAkoPackageRefFromClusterBootstrap K cluster w =
     (case getClusterBootstrap K cluster w of
        (Inl err, w) \<Rightarrow> (Ret (Some err), w)
      | (Inr bootstrap, w) \<Rightarrow>
          (case kNewHelper (ClusterBootstraps K) w bootstrap of
             (Some err, w) \<Rightarrow> (Ret (Some err), w)
           | (None, w) \<Rightarrow>
               (case remove_packages (length (AdditionalPackages bootstrap)) 0 (AdditionalPackages bootstrap)
                       (length (AdditionalPackages bootstrap)) of
                  Panic \<Rightarrow> (Panic, w)
                | Ret ps \<Rightarrow>
                    (case kPatch (ClusterBootstraps K) w bootstrap (bootstrap\<lparr>AdditionalPackages := ps\<rparr>) of
                       (e, w) \<Rightarrow> (Ret e, w)))))"

section \<open>The phases\<close>

text \<open>The second half of \<open>ReconcileAddonSecret\<close>: write the secret and patch the bootstrap.\<close>

definition writeAddonSecret :: "lib \<Rightarrow> 'w kapi \<Rightarrow> environ \<Rightarrow> Cluster \<Rightarrow> Secret \<Rightarrow> 'w \<Rightarrow> error option \<times> 'w" where
  "writeAddonSecret L K env cluster newAddonSecret w =
     (case kGet (Secrets K) w (Namespace cluster, AKOAddonSecretName cluster) of
        (Inl err, w) \<Rightarrow>
          (if IsNotFound L err then
             (case kCreate (Secrets K) w newAddonSecret of
                (Inl err, w) \<Rightarrow> (Some err, w)
              | (Inr _, w) \<Rightarrow> (None, w))
           else (Some err, w))
      | (Inr _, w) \<Rightarrow>
          (case kUpdate (Secrets K) w newAddonSecret of
             (Inl err, w) \<Rightarrow> (Some err, w)
           | (Inr _, w) \<Rightarrow>
               (if IsClusterClassBasedCluster cluster \<and> \<not> IsBootStrapCluster env
                then patchAkoPackageRefToClusterBootstrap K cluster w
                else (None, w))))"

definition ipFamilyCondition :: "Cluster \<Rightarrow> Condition" where
  "ipFamilyCondition cluster =
     (let c = Namespace cluster @ ''-'' @ Name cluster
      in \<lparr>cond_Type = ClusterIpFamilyValidationSucceededCondition, cond_Status = ''False'', cond_Severity = [], cond_Reason = [],
          cond_Message = ''cluster '' @ c @ [CHR 0x27] @ ''s ip family is not allowed, stop deploying AKO into cluster '' @ c\<rparr>)"

definition ReconcileAddonSecret :: "lib \<Rightarrow> 'w kapi \<Rightarrow> environ \<Rightarrow> yaml \<Rightarrow> 'w cluster_phase" where
  "ReconcileAddonSecret L K env Y cluster obj w =
     (case getClusterAviUserSecret K cluster w of
        (Inl err, w) \<Rightarrow> (Done (zeroResult, Some err), cluster, w)
      | (Inr aviSecret, w) \<Rightarrow>
          (case IsControlPlaneVIPProvider env cluster of
             Inl err \<Rightarrow> (Done (zeroResult, Some err), cluster, w)
           | Inr isVIPProvider \<Rightarrow>
               (case (if isVIPProvider \<and> Namespace cluster = TKGSystemNamespace
                      then (case kGet (SvcS K) w (TKGSystemNamespace, Namespace cluster @ ''-'' @ Name cluster @ ''-'' @ HAServiceName) of
                              (Inl err, w) \<Rightarrow> (Some err, w)
                            | (Inr _, w) \<Rightarrow> (None, w))
                      else (None, w)) of
                  (Some err, w) \<Rightarrow> (Done (zeroResult, Some err), cluster, w)
                | (None, w) \<Rightarrow>
                    (case ValidateClusterIpFamily cluster obj isVIPProvider of
                       Some err \<Rightarrow>
                         (Done (zeroResult, None),
                          cluster\<lparr>Conditions := cond_Set L (Conditions cluster) (ipFamilyCondition cluster)\<rparr>, w)
                     | None \<Rightarrow>
                         (case createAKOAddonSecret Y cluster obj aviSecret of
                            Inl err \<Rightarrow> (Done (zeroResult, Some err), cluster, w)
                          | Inr newAddonSecret \<Rightarrow>
                              (case writeAddonSecret L K env cluster newAddonSecret w of
                                 (err, w) \<Rightarrow> (Done (zeroResult, err), cluster, w)))))))"

definition ReconcileAddonSecretDelete :: "lib \<Rightarrow> 'w kapi \<Rightarrow> 'w cluster_phase" where
  "ReconcileAddonSecretDelete L K cluster obj w =
     (case kGet (Secrets K) w (Namespace cluster, AKOAddonSecretName cluster) of
        (Inl err, w) \<Rightarrow>
          (if IsNotFound L err then (Done (zeroResult, None), cluster, w)
           else (Done (zeroResult, Some err), cluster, w))
      | (Inr secret, w) \<Rightarrow>
          (case kDelete (Secrets K) w secret of (e, w) \<Rightarrow> (Done (zeroResult, e), cluster, w)))"

section \<open>Properties\<close>

lemma GetClusterIPFamily_values:
  "GetClusterIPFamily c = Inr f \<Longrightarrow> f \<in> {IPv4IpFamily, IPv6IpFamily, DualStackIPv4Primary, DualStackIPv6Primary}"
  by (cases "hd (families (deciding_cidrs c))")
    (auto simp: GetClusterIPFamily_Inr Let_def list_family_def split: if_splits)

definition adc_family :: "AKODeploymentConfig \<Rightarrow> string" where
  "adc_family adc = (if IpFamily (spec_ExtraConfigs (Spec adc)) \<noteq> [] then IpFamily (spec_ExtraConfigs (Spec adc)) else IPv4IpFamily)"

text \<open>
  C27. AKO is deployed only where it works: the check of the IP family passes exactly for an IPv4 cluster with
  an AKODeploymentConfig that is not for IPv6, and for a dual-stack cluster with IPv4 first, unless the
  configuration is for IPv6 and AVI also serves the control plane. In particular the cluster's
  primary family is then IPv4.
\<close>

theorem ValidateClusterIpFamily_spec:
  "(ValidateClusterIpFamily c adc vip = None \<longleftrightarrow>
     GetClusterIPFamily c = Inr IPv4IpFamily \<and> adc_family adc \<noteq> IPv6IpFamily \<or>
     GetClusterIPFamily c = Inr DualStackIPv4Primary \<and> \<not> (vip \<and> adc_family adc = IPv6IpFamily)) \<and>
   (ValidateClusterIpFamily c adc vip = None \<longrightarrow> GetPrimaryIPFamily c = Inr IPv4IpFamily)"
proof -
  have d: "DualStackIPv4Primary \<noteq> IPv6IpFamily" "DualStackIPv4Primary \<noteq> DualStackIPv6Primary"
    "DualStackIPv4Primary \<noteq> IPv4IpFamily" "IPv4IpFamily \<noteq> DualStackIPv6Primary"
    by (simp_all add: family_defs)
  have spec: "ValidateClusterIpFamily c adc vip = None \<longleftrightarrow>
     GetClusterIPFamily c = Inr IPv4IpFamily \<and> adc_family adc \<noteq> IPv6IpFamily \<or>
     GetClusterIPFamily c = Inr DualStackIPv4Primary \<and> \<not> (vip \<and> adc_family adc = IPv6IpFamily)"
  proof (cases "GetClusterIPFamily c")
    case (Inl e)
    then show ?thesis by (simp add: ValidateClusterIpFamily_def)
  next
    case (Inr f)
    with GetClusterIPFamily_values [of c f]
    consider "f = IPv4IpFamily" | "f = IPv6IpFamily" | "f = DualStackIPv4Primary" | "f = DualStackIPv6Primary" by blast
    then show ?thesis
      by cases (simp_all add: ValidateClusterIpFamily_def Inr Let_def d adc_family_def [symmetric] d [symmetric])
  qed
  moreover have "GetPrimaryIPFamily c = Inr IPv4IpFamily"
    if "GetClusterIPFamily c = Inr IPv4IpFamily \<or> GetClusterIPFamily c = Inr DualStackIPv4Primary"
    using that by (auto simp: GetPrimaryIPFamily_def)
  ultimately show ?thesis by blast
qed

theorem ValidateClusterIpFamily_spec_witness:
  "ValidateClusterIpFamily exampleCluster exampleADC False = None \<and> GetPrimaryIPFamily exampleCluster = Inr IPv4IpFamily"
proof -
  have "ValidateClusterIpFamily exampleCluster exampleADC False = None"
    by (simp add: ValidateClusterIpFamily_def GetClusterIPFamily_def podCIDRs_def serviceCIDRs_def example_defs
        family_defs)
  with ValidateClusterIpFamily_spec [of exampleCluster exampleADC False] show ?thesis by blast
qed

text \<open>
  C28. AKO is told to delete its configuration only in a workload cluster that carries the label for it, never
  in the management cluster; the values carry the AVI credentials of the cluster's secret and the
  cluster's role.
\<close>

theorem addon_values_deletion:
  assumes "AkoAddonSecretValues cluster obj s = Inr v"
  shows "(deleting v \<longleftrightarrow> Namespace cluster \<noteq> TKGSystemNamespace \<and> Labels cluster AviClusterDeleteConfigLabel = Some ''true'') \<and>
         TkgClusterRole (lb_Config v) = (if Namespace cluster = TKGSystemNamespace then ''management'' else ''workload'') \<and>
         cfg_Avicredentials (lb_Config v) = \<lparr>av_Username = data_get s ''username'', av_Password = data_get s ''password'',
            CertificateAuthorityData = data_get s AviCertificateKey\<rparr>"
proof -
  from assms obtain v0 where v0: "NewValues (Some obj) (Namespace cluster @ ''-'' @ Name cluster) = Inr v0"
    by (auto simp: AkoAddonSecretValues_def split: sum.splits)
  have st: "cfg_AKOSettings (lb_Config v0) = Some (NewAKOSettings (Namespace cluster @ ''-'' @ Name cluster) obj)"
    using v0 by (auto simp: NewValues_def Let_def split: sum.splits)
  have "DeleteConfig (NewAKOSettings n obj) = ''false''" for n
    unfolding NewAKOSettings_def Let_def by (simp add: keep_if keep_nonempty DefaultAKOSettings_def)
  with assms v0 st show ?thesis
    by (auto simp: AkoAddonSecretValues_def Let_def deleting_def split: if_splits)
qed

section \<open>The package reference\<close>

definition ako_package :: "ClusterBootstrapPackage \<Rightarrow> bool" where
  "ako_package p \<longleftrightarrow> strings_HasPrefix (RefName p) AkoClusterBootstrapRefNamePrefix"

lemma GetAKOPackageRefName_prefix:
  "GetAKOPackageRefNameFromTKR tkr = Inr n \<Longrightarrow> n \<in> set (BootstrapPackages tkr) \<and> strings_HasPrefix n AkoClusterBootstrapRefNamePrefix"
  by (auto simp: GetAKOPackageRefNameFromTKR_def split: option.splits dest: find_SomeD)

lemma bootstrap_index: "getAKOPackageRefFromClusterBootstrap cb = find_index ako_package (AdditionalPackages cb)"
  by (simp add: getAKOPackageRefFromClusterBootstrap_def ako_package_def [abs_def])

lemma setAkoPackageRef_spec:
  assumes "ako_package p"
  shows "\<exists>i. find_index ako_package (AdditionalPackages (setAkoPackageRef p cb)) = Some i \<and>
           AdditionalPackages (setAkoPackageRef p cb) ! i = p \<and>
           (\<forall>j < length (AdditionalPackages cb). j \<noteq> i \<longrightarrow> AdditionalPackages (setAkoPackageRef p cb) ! j = AdditionalPackages cb ! j)"
proof (cases "find_index ako_package (AdditionalPackages cb)")
  case None
  have "find_index ako_package (AdditionalPackages cb @ [p]) = Some (length (AdditionalPackages cb))"
    by (rule find_index_snoc [OF None assms])
  with None show ?thesis by (simp add: setAkoPackageRef_def bootstrap_index nth_append)
next
  case (Some i)
  with assms find_index_SomeD [OF Some] find_index_update [OF Some, of p] show ?thesis
    by (auto simp: setAkoPackageRef_def bootstrap_index)
qed

lemma setAkoPackageRef_idem:
  assumes "ako_package p"
  shows "setAkoPackageRef p (setAkoPackageRef p cb) = setAkoPackageRef p cb"
proof -
  obtain i where "find_index ako_package (AdditionalPackages (setAkoPackageRef p cb)) = Some i"
    "AdditionalPackages (setAkoPackageRef p cb) ! i = p"
    using setAkoPackageRef_spec [OF assms, of cb] by blast
  then show ?thesis unfolding setAkoPackageRef_def [of p "setAkoPackageRef p cb"] by (simp add: bootstrap_index)
qed

lemma setSkipDelete_spec:
  "\<exists>v. Annotations (setSkipDelete cb) TKGSkipDeletePkgiAnnotationKey = Some v \<and> strings_Contains v AkoPackageInstallName \<and>
     (case Annotations cb TKGSkipDeletePkgiAnnotationKey of
        None \<Rightarrow> v = '','' @ AkoPackageInstallName
      | Some old \<Rightarrow> v = (if strings_Contains old AkoPackageInstallName then old else old @ '','' @ AkoPackageInstallName))"
proof -
  have "sublist AkoPackageInstallName (v @ '','' @ AkoPackageInstallName)" for v
    unfolding append_assoc [symmetric] by (rule sublist_append_leftI)
  from this [of "[]"] this show ?thesis
    by (auto simp: setSkipDelete_def strings_Contains_def split: option.splits)
qed

lemma setSkipDelete_other: "k \<noteq> TKGSkipDeletePkgiAnnotationKey \<Longrightarrow> Annotations (setSkipDelete cb) k = Annotations cb k"
  by (simp add: setSkipDelete_def split: option.splits)

lemma setSkipDelete_idem: "setSkipDelete (setSkipDelete cb) = setSkipDelete cb"
  using setSkipDelete_spec [of cb] by (auto simp: setSkipDelete_def [of "setSkipDelete cb"])

lemma set_swap: "setAkoPackageRef p (setSkipDelete cb) = setSkipDelete (setAkoPackageRef p cb)"
  by (auto simp: setSkipDelete_def setAkoPackageRef_def getAKOPackageRefFromClusterBootstrap_def split: option.splits)

lemma setSkipDelete_packages [simp]: "AdditionalPackages (setSkipDelete cb) = AdditionalPackages cb"
  by (simp add: setSkipDelete_def split: option.splits)

text \<open>
  C29. Patching a ClusterBootstrap installs AKO and settles: for a package name taken from the cluster's
  release, the first AKO package of the result is the expected one, all other packages and
  annotations are as before, AKO's package install is named in the annotation that protects it, and
  patching again changes nothing. The packages this annotation already protects stay in it: AKO's name is
  appended after a comma if the value does not contain it, and otherwise the value is left as it is.
\<close>

theorem bootstrap_patch_settles:
  assumes "GetAKOPackageRefNameFromTKR tkr = Inr n" "p = \<lparr>RefName = n, pkg_ValuesFrom = r\<rparr>"
    and "cb' = setSkipDelete (setAkoPackageRef p cb)"
  shows "(\<exists>i. getAKOPackageRefFromClusterBootstrap cb' = Some i \<and> AdditionalPackages cb' ! i = p \<and>
            (\<forall>j < length (AdditionalPackages cb). j \<noteq> i \<longrightarrow> AdditionalPackages cb' ! j = AdditionalPackages cb ! j)) \<and>
         (\<exists>v. Annotations cb' TKGSkipDeletePkgiAnnotationKey = Some v \<and> strings_Contains v AkoPackageInstallName \<and>
            (case Annotations cb TKGSkipDeletePkgiAnnotationKey of
               None \<Rightarrow> v = '','' @ AkoPackageInstallName
             | Some old \<Rightarrow> v = (if strings_Contains old AkoPackageInstallName then old else old @ '','' @ AkoPackageInstallName))) \<and>
         (\<forall>k. k \<noteq> TKGSkipDeletePkgiAnnotationKey \<longrightarrow> Annotations cb' k = Annotations cb k) \<and>
         setSkipDelete (setAkoPackageRef p cb') = cb'"
proof -
  have p: "ako_package p" using GetAKOPackageRefName_prefix [OF assms(1)] assms(2) by (simp add: ako_package_def)
  have ann: "Annotations (setAkoPackageRef p cb) = Annotations cb"
    by (simp add: setAkoPackageRef_def split: option.splits)
  show ?thesis
    using setAkoPackageRef_spec [OF p, of cb] setSkipDelete_spec [of "setAkoPackageRef p cb"]
    by (simp add: assms(3) bootstrap_index setSkipDelete_other ann set_swap setAkoPackageRef_idem [OF p] setSkipDelete_idem)
qed

definition exampleTKR :: TanzuKubernetesRelease where
  "exampleTKR = ObjectMeta.extend emptyMeta \<lparr>BootstrapPackages = [''antrea.1'', AkoClusterBootstrapRefNamePrefix @ ''1.12'']\<rparr>"

definition exampleBootstrap :: ClusterBootstrap where
  "exampleBootstrap = ObjectMeta.extend (emptyMeta\<lparr>Annotations := [TKGSkipDeletePkgiAnnotationKey \<mapsto> ''antrea'']\<rparr>)
     \<lparr>AdditionalPackages = [], ResolvedTKR = ''v1.28''\<rparr>"

lemma exampleTKR_name: "GetAKOPackageRefNameFromTKR exampleTKR = Inr (AkoClusterBootstrapRefNamePrefix @ ''1.12'')"
  by (simp add: GetAKOPackageRefNameFromTKR_def exampleTKR_def ObjectMeta.defs strings_HasPrefix_def
      AkoClusterBootstrapRefNamePrefix_def)

theorem bootstrap_patch_settles_witness:
  "\<exists>p i cb'. RefName p = AkoClusterBootstrapRefNamePrefix @ ''1.12'' \<and> cb' = setSkipDelete (setAkoPackageRef p exampleBootstrap) \<and>
     AdditionalPackages cb' ! i = p \<and> Annotations cb' TKGSkipDeletePkgiAnnotationKey = Some (''antrea,'' @ AkoPackageInstallName)"
proof -
  let ?p = "\<lparr>RefName = AkoClusterBootstrapRefNamePrefix @ ''1.12'', pkg_ValuesFrom = None\<rparr>"
  have old: "Annotations exampleBootstrap TKGSkipDeletePkgiAnnotationKey = Some ''antrea''"
    by (simp add: exampleBootstrap_def ObjectMeta.defs)
  have "\<not> strings_Contains ''antrea'' AkoPackageInstallName"
    by (simp add: strings_Contains_def AkoPackageInstallName_def sublist_code)
  with bootstrap_patch_settles [OF exampleTKR_name refl refl, of None exampleBootstrap, unfolded old]
  show ?thesis by (intro exI [of _ ?p]) auto
qed

text \<open>Removing the reference, code that is switched off, panics on two AKO packages.\<close>

lemma remove_two_packages_panics:
  assumes "ako_package a" "ako_package b"
  shows "remove_packages (length [a, b]) 0 [a, b] (length [a, b]) = Panic"
  using assms by (simp add: numeral_2_eq_2 ako_package_def)

section \<open>The phases keep the protocol\<close>

lemma ReconcileAddonSecret_step:
  assumes "condition_laws L" "ReconcileAddonSecret L K env Y c obj w = (r, c', w')"
  shows "cleanup_step L c c'"
proof -
  have "c' = c \<or> c' = c\<lparr>Conditions := cond_Set L (Conditions c) (ipFamilyCondition c)\<rparr>"
    using assms(2) by (auto simp: ReconcileAddonSecret_def split: prod.splits sum.splits option.splits if_splits)
  moreover have "cond_Type (ipFamilyCondition c) = ClusterIpFamilyValidationSucceededCondition"
    by (simp add: ipFamilyCondition_def Let_def)
  then have "cond_IsTrue L (cond_Set L cs (ipFamilyCondition c)) t \<longleftrightarrow> cond_IsTrue L cs t"
    if "t \<noteq> ClusterIpFamilyValidationSucceededCondition" for cs t
    using assms(1) that by (simp add: condition_laws_def)
  ultimately show ?thesis
    by (auto intro!: cleanup_step_frame simp: resources_clean_def user_clean_def cleanup_conditions_distinct [symmetric])
qed

lemma ReconcileAddonSecretDelete_same:
  "ReconcileAddonSecretDelete L K c obj w = (r, c', w') \<Longrightarrow> c' = c"
  by (auto simp: ReconcileAddonSecretDelete_def split: prod.splits sum.splits if_splits)

lemma ReconcileAddonSecret_timestamp:
  "ReconcileAddonSecret L K env Y c obj w = (r, c', w') \<Longrightarrow> DeletionTimestamp c' = DeletionTimestamp c"
  by (auto simp: ReconcileAddonSecret_def split: prod.splits sum.splits option.splits if_splits)

interpretation addon: cluster_phase "ReconcileAddonSecret L K env Y" d "protocol L" for L K env Y d
  by unfold_locales (auto simp: protocol_def ReconcileAddonSecret_timestamp intro: ReconcileAddonSecret_step)

interpretation addon_delete: cluster_phase "ReconcileAddonSecretDelete L K" d "protocol L" for L K d
  by unfold_locales (auto simp: protocol_def dest: ReconcileAddonSecretDelete_same)

text \<open>A run of the values.\<close>

lemma example_cidr: "\<exists>x. ParseCIDR ''10.0.5.0/20'' = Some x"
proof -
  have "ParseAddr ''10.0.5.0'' = Some (Addr4 [10, 0, 5, 0])" by code_simp
  moreover have "parse_dec ''20'' = Some 20" by code_simp
  ultimately show ?thesis by (simp add: ParseCIDR_def Let_def)
qed

definition labelledCluster :: Cluster where
  "labelledCluster = exampleCluster\<lparr>Labels := [AviClusterDeleteConfigLabel \<mapsto> ''true'']\<rparr>"

lemma labelled_values: "\<exists>v. AkoAddonSecretValues labelledCluster exampleADC emptySecret = Inr v"
proof -
  have "dn_CIDR (spec_DataNetwork (Spec exampleADC)) = ''10.0.5.0/20''" by (simp add: example_defs)
  with example_cidr obtain v where "NewValues (Some exampleADC) (Namespace labelledCluster @ ''-'' @ Name labelledCluster) = Inr v"
    by (auto simp: NewValues_def NewNetworkSettings_def Let_def)
  then show ?thesis by (simp add: AkoAddonSecretValues_def Let_def)
qed

theorem addon_values_deletion_witness:
  "\<exists>v. AkoAddonSecretValues labelledCluster exampleADC emptySecret = Inr v \<and> deleting v"
proof -
  from labelled_values obtain v where v: "AkoAddonSecretValues labelledCluster exampleADC emptySecret = Inr v" by blast
  moreover have "Namespace labelledCluster \<noteq> TKGSystemNamespace"
    by (simp add: labelledCluster_def exampleCluster_def emptyMeta_def ObjectMeta.defs TKGSystemNamespace_def)
  moreover have "Labels labelledCluster AviClusterDeleteConfigLabel = Some ''true''" by (simp add: labelledCluster_def)
  ultimately show ?thesis using addon_values_deletion [OF v] by blast
qed

end
