(* ===== verification/HA_Provider.thy ===== *)
theory HA_Provider
  imports Ip_Family Cluster_Mapping
begin

text \<open>
  \<open>src/pkg/haprovider/haprovider.go\<close>: the control plane load balancer of a cluster. The Service of
  type LoadBalancer, the cluster's control plane endpoint that follows the Service's external
  address, and the Endpoints object that lists the control plane machines.

  \<open>net.LookupIP\<close> is a parameter \<open>lk\<close> on the world; it answers an error or at least one address.
\<close>

type_synonym 'w lookup = "'w \<Rightarrow> string \<Rightarrow> (error + IP \<times> IP list) \<times> 'w"

section \<open>The provider\<close>

text \<open>
  The provider is a singleton made once per process (\<open>sync.Once\<close>); the state is the package variable
  \<open>instance\<close>, nil before the first call. Later calls return the first provider whatever client they are
  given, so the operations below act through the caller's client as long as all callers have the same
  one, as is the case for the two controllers that use it (\<open>SetupReconcilers\<close>).
\<close>

record 'w HAProvider =
  ha_Client :: "'w kapi"

definition NewProvider :: "'w kapi \<Rightarrow> 'w HAProvider option \<Rightarrow> 'w HAProvider \<times> 'w HAProvider option" where
  "NewProvider c inst =
     (case inst of
        None \<Rightarrow> (let p = \<lparr>ha_Client = c\<rparr> in (p, Some p))
      | Some p \<Rightarrow> (p, Some p))"

fun provider_after :: "'w kapi list \<Rightarrow> 'w HAProvider option \<Rightarrow> 'w HAProvider option" where
  "provider_after [] inst = inst"
| "provider_after (c # cs) inst = provider_after cs (snd (NewProvider c inst))"

lemma provider_after_first: "provider_after (c # cs) None = Some \<lparr>ha_Client = c\<rparr>"
proof -
  have "provider_after cs (Some p) = Some p" for cs and p :: "'a HAProvider"
    by (induction cs) (simp_all add: NewProvider_def Let_def)
  then show ?thesis by (simp add: NewProvider_def Let_def)
qed

lemma provider_same_client: "\<forall>c' \<in> set cs. c' = c \<Longrightarrow> ha_Client (fst (NewProvider c (provider_after cs None))) = c"
  by (cases cs) (simp_all only: provider_after_first provider_after.simps(1), simp_all add: NewProvider_def Let_def)

section \<open>The Service\<close>

definition getHAServiceName :: "Cluster \<Rightarrow> string" where
  "getHAServiceName cluster = Namespace cluster @ ''-'' @ Name cluster @ ''-'' @ HAServiceName"

definition GetAviInfraSettingName :: "AKODeploymentConfig \<Rightarrow> string" where
  "GetAviInfraSettingName adc = Name adc @ ''-ais''"

definition queryFQDNEndpoint :: "'w lookup \<Rightarrow> string \<Rightarrow> 'w \<Rightarrow> (error + string) \<times> 'w" where
  "queryFQDNEndpoint lk fqdn w =
     (case lk w fqdn of
        (Inr (ip, _), w) \<Rightarrow> (Inr (IP_String ip), w)
      | (Inl err, w) \<Rightarrow> (Inl err, w))"

definition getADCForCluster ::
  "lib \<Rightarrow> 'w kapi \<Rightarrow> Cluster \<Rightarrow> 'w \<Rightarrow> (error + AKODeploymentConfig option) \<times> 'w" where
  "getADCForCluster L K cluster w = GetAKODeploymentConfigForCluster L K cluster w"

definition getAviInfraSettingFromAdc ::
  "lib \<Rightarrow> 'w kapi \<Rightarrow> AKODeploymentConfig \<Rightarrow> 'w \<Rightarrow> (error + AviInfraSetting option) \<times> 'w" where
  "getAviInfraSettingFromAdc L K adcForCluster w =
     (case kGet (AviInfraSettings K) w ([], GetAviInfraSettingName adcForCluster) of
        (Inl err, w) \<Rightarrow> (if IsNotFound L err then (Inr None, w) else (Inl err, w))
      | (Inr aviInfraSetting, w) \<Rightarrow> (Inr (Some aviInfraSetting), w))"

definition annotateService :: "lib \<Rightarrow> 'w kapi \<Rightarrow> Cluster \<Rightarrow> 'w \<Rightarrow> (error + labels) \<times> 'w" where
  "annotateService L K cluster w =
     (let serviceAnnotation =
            [HAServiceAnnotationsKey \<mapsto> ''true'',
             TKGClusterNameLabel \<mapsto> Name cluster,
             TKGClusterNameSpaceLabel \<mapsto> Namespace cluster];
          isManagement = (Labels cluster TKGManagememtClusterRoleLabel \<noteq> None)
      in case getADCForCluster L K cluster w of
        (Inl err, w) \<Rightarrow> (Inl err, w)
      | (Inr None, w) \<Rightarrow>
          (if isManagement
           then (Inl (Err ''management cluster's AKODeploymentConfig didn't find, requeue to wait for AKODeploymentConfig created''), w)
           else (Inr serviceAnnotation, w))
      | (Inr (Some adc), w) \<Rightarrow>
          (case getAviInfraSettingFromAdc L K adc w of
             (Inl err, w) \<Rightarrow> (Inl err, w)
           | (Inr aviInfraSetting, w) \<Rightarrow>
               (if isManagement \<and>
                   cpn_CIDR (spec_ControlPlaneNetwork (Spec adc)) \<noteq> [] \<and>
                   cpn_CIDR (spec_ControlPlaneNetwork (Spec adc)) \<noteq> dn_CIDR (spec_DataNetwork (Spec adc)) \<and>
                   aviInfraSetting = None
                then (Inl (Err ''management cluster control plane network set, but corresponding AVIInfraSetting not found, requeue to wait for AVIInfraSetting created''), w)
                else case aviInfraSetting of
                  None \<Rightarrow> (Inr serviceAnnotation, w)
                | Some ais \<Rightarrow> (Inr (serviceAnnotation(HAAVIInfraSettingAnnotationsKey \<mapsto> Name ais)), w))))"

text \<open>The Service object before the endpoint is filled in.\<close>

definition newService :: "lib \<Rightarrow> Cluster \<Rightarrow> labels \<Rightarrow> int \<Rightarrow> string \<Rightarrow> Service" where
  "newService L cluster serviceAnnotations port primaryIPFamily =
     (let service = ObjectMeta.extend
            (emptyMeta\<lparr>Kind := ''Service'', APIVersion := ''core/v1'', Name := getHAServiceName cluster,
                       Namespace := Namespace cluster, Annotations := serviceAnnotations\<rparr>)
            \<lparr>svc_Type = ''LoadBalancer'',
             IPFamilies = [if primaryIPFamily = IPv6IpFamily then ''IPv6'' else ''IPv4''],
             Ports = [\<lparr>sp_Protocol = ''TCP'', sp_Port = port, sp_TargetPort = 6443\<rparr>],
             LoadBalancerIP = [], Ingress = []\<rparr>
      in if Namespace cluster = TKGSystemNamespace
         then service\<lparr>Finalizers := AddFinalizer L (Finalizers service) HAServiceBootstrapClusterFinalizer\<rparr>
         else service\<lparr>OwnerReferences :=
                [\<lparr>or_APIVersion = APIVersion cluster, or_Kind = Kind cluster, or_Name = Name cluster,
                  or_UID = UID cluster, or_Controller = None, or_BlockOwnerDeletion = None\<rparr>]\<rparr>)"

definition withEndpoint :: "Service \<Rightarrow> string \<Rightarrow> Service" where
  "withEndpoint service endpoint =
     service\<lparr>LoadBalancerIP := endpoint,
             Annotations := (Annotations service)(AkoPreferredIPAnnotation \<mapsto> endpoint)\<rparr>"

definition createService ::
  "lib \<Rightarrow> 'w kapi \<Rightarrow> environ \<Rightarrow> 'w lookup \<Rightarrow> Cluster \<Rightarrow> 'w \<Rightarrow> (error + Service) \<times> 'w" where
  "createService L K env lk cluster w =
     (case annotateService L K cluster w of
        (Inl err, w) \<Rightarrow> (Inl err, w)
      | (Inr serviceAnnotations, w) \<Rightarrow>
          (case GetControlPlaneEndpointPort env cluster of
             (_, Some err) \<Rightarrow> (Inl err, w)
           | (port, None) \<Rightarrow>
               (case GetPrimaryIPFamily cluster of
                  Inl err \<Rightarrow> (Inl err, w)
                | Inr primaryIPFamily \<Rightarrow>
                    (let service = newService L cluster serviceAnnotations port primaryIPFamily
                     in case GetControlPlaneEndpoint cluster of
                          (_, Some err) \<Rightarrow> (Inl err, w)
                        | (endpoint, None) \<Rightarrow>
                            (if endpoint = [] then kCreate (SvcS K) w service
                             else if ParseIP endpoint \<noteq> [] then kCreate (SvcS K) w (withEndpoint service endpoint)
                             else case queryFQDNEndpoint lk endpoint w of
                                    (Inl err, w) \<Rightarrow> (Inl err, w)
                                  | (Inr ip, w) \<Rightarrow> kCreate (SvcS K) w (withEndpoint service ip))))))"

definition updateClusterControlPlaneEndpoint ::
  "environ \<Rightarrow> Cluster \<Rightarrow> Service \<Rightarrow> error option \<times> Cluster" where
  "updateClusterControlPlaneEndpoint env cluster service =
     (let endpoint = fst (GetControlPlaneEndpoint cluster)
      in case Ingress service of
           [] \<Rightarrow> (Some (Err (Name service @ '' service external ip is not ready'')), cluster)
         | ip # _ \<Rightarrow>
             (if ParseIP ip = [] then (Some (Err (Name service @ '' service external ip is not ready'')), cluster)
              else
                (let cluster = (if endpoint \<noteq> [] \<and> ParseIP endpoint = []
                                then cluster\<lparr>EndpointHost := endpoint\<rparr>
                                else SetControlPlaneEndpoint (cluster\<lparr>EndpointHost := ip\<rparr>) ip)
                 in case GetControlPlaneEndpointPort env cluster of
                      (port, err) \<Rightarrow> (err, cluster\<lparr>EndpointPort := port\<rparr>))))"

definition updateControlPlaneEndpointToService ::
  "lib \<Rightarrow> 'w kapi \<Rightarrow> 'w lookup \<Rightarrow> Cluster \<Rightarrow> Service \<Rightarrow> 'w \<Rightarrow> error option \<times> 'w" where
  "updateControlPlaneEndpointToService L K lk cluster service w =
     (case (if ParseIP (EndpointHost cluster) = [] then queryFQDNEndpoint lk (EndpointHost cluster) w
            else (Inr (EndpointHost cluster), w)) of
        (Inl err, w) \<Rightarrow> (Some err, w)
      | (Inr host, w) \<Rightarrow>
          (case kUpdate (SvcS K) w (withEndpoint service host) of
             (Inl err, w) \<Rightarrow>
               (Wrap L (Some err) (''Failed to update cluster endpoint to cluster control plane load balancer type of service <''
                  @ Name service @ ''>'' @ [CHR 0x0A]), w)
           | (Inr _, w) \<Rightarrow> (None, w)))"

definition newEndpoints :: "string \<Rightarrow> string \<Rightarrow> Endpoints" where
  "newEndpoints serviceName serviceNamespace =
     ObjectMeta.extend (emptyMeta\<lparr>Kind := ''Endpoints'', APIVersion := ''core/v1'',
        Name := serviceName, Namespace := serviceNamespace\<rparr>) \<lparr>Subsets = None\<rparr>"

definition ensureEndpoints ::
  "lib \<Rightarrow> 'w kapi \<Rightarrow> string \<Rightarrow> string \<Rightarrow> 'w \<Rightarrow> (error + Endpoints) \<times> 'w" where
  "ensureEndpoints L K serviceName serviceNamespace w =
     (case kGet (EndpointsS K) w (serviceNamespace, serviceName) of
        (Inl err, w) \<Rightarrow>
          (if IsNotFound L err then kCreate (EndpointsS K) w (newEndpoints serviceName serviceNamespace)
           else (Inl err, w))
      | (Inr endpoints, w) \<Rightarrow> (Inr endpoints, w))"

text \<open>\<open>CreateOrUpdateHAService\<close>: the error and the cluster as the call leaves it.\<close>

definition CreateOrUpdateHAService ::
  "lib \<Rightarrow> 'w kapi \<Rightarrow> environ \<Rightarrow> 'w lookup \<Rightarrow> Cluster \<Rightarrow> 'w \<Rightarrow> (error option \<times> Cluster) \<times> 'w" where
  "CreateOrUpdateHAService L K env lk cluster w =
     (case (case kGet (SvcS K) w (Namespace cluster, getHAServiceName cluster) of
              (Inl err, w) \<Rightarrow>
                (if IsNotFound L err then createService L K env lk cluster w else (Inl err, w))
            | (Inr service, w) \<Rightarrow> (Inr service, w)) of
        (Inl err, w) \<Rightarrow> ((Some err, cluster), w)
      | (Inr service, w) \<Rightarrow>
          (case updateClusterControlPlaneEndpoint env cluster service of
             (Some err, cluster) \<Rightarrow> ((Some err, cluster), w)
           | (None, cluster) \<Rightarrow>
               (case updateControlPlaneEndpointToService L K lk cluster service w of
                  (Some err, w) \<Rightarrow> ((Some err, cluster), w)
                | (None, w) \<Rightarrow>
                    (case ensureEndpoints L K (getHAServiceName cluster) (Namespace service) w of
                       (Inl err, w) \<Rightarrow> ((Some err, cluster), w)
                     | (Inr _, w) \<Rightarrow> ((None, cluster), w)))))"

section \<open>The Endpoints\<close>

definition externalIP :: "MachineAddress \<Rightarrow> bool" where
  "externalIP a \<longleftrightarrow> ma_Type a = MachineExternalIP \<and> ParseIP (ma_Address a) \<noteq> []"

text \<open>The second loop of \<open>syncEndpointMachineIP\<close>: every external address overwrites the one before.\<close>

fun lastExternal :: "EndpointAddress \<Rightarrow> MachineAddress list \<Rightarrow> EndpointAddress" where
  "lastExternal address [] = address"
| "lastExternal address (a # as) =
     lastExternal (if ma_Type a = MachineExternalIP \<and> ParseIP (ma_Address a) \<noteq> []
                   then address\<lparr>ea_IP := ma_Address a\<rparr> else address) as"

definition syncEndpointMachineIP :: "EndpointAddress \<Rightarrow> Machine \<Rightarrow> EndpointAddress" where
  "syncEndpointMachineIP address machine =
     (let found = list_ex (\<lambda>a. ma_Type a = MachineExternalIP \<and> ParseIP (ma_Address a) \<noteq> []
                               \<and> ea_IP address = ma_Address a) (Status_Addresses machine)
      in if \<not> found then lastExternal address (Status_Addresses machine) else address)"

definition removeMachineIpFromEndpoints :: "Endpoints \<Rightarrow> Machine \<Rightarrow> Endpoints" where
  "removeMachineIpFromEndpoints endpoints machine =
     (case Subsets endpoints of
        None \<Rightarrow> endpoints
      | Some [] \<Rightarrow> endpoints
      | Some (s # rest) \<Rightarrow>
          (let newAddresses = filter (\<lambda>a. \<not> (ea_NodeName a = Some (Name machine))) (Addresses s)
           in if newAddresses = [] then endpoints\<lparr>Subsets := None\<rparr>
              else endpoints\<lparr>Subsets := Some (s\<lparr>Addresses := newAddresses\<rparr> # rest)\<rparr>))"

text \<open>The loop that adds a new machine: the first external address of the wanted family.\<close>

fun newMachineAddress :: "MachineAddress list \<Rightarrow> string \<Rightarrow> string \<Rightarrow> EndpointAddress list" where
  "newMachineAddress [] machineName ipFamily = []"
| "newMachineAddress (a # as) machineName ipFamily =
     (if ma_Type a \<noteq> MachineExternalIP then newMachineAddress as machineName ipFamily
      else if ParseIP (ma_Address a) \<noteq> [] then
        (let newAddress = \<lparr>ea_IP = ma_Address a, ea_NodeName = Some machineName\<rparr>
         in if ipFamily = ''V6'' then
              (if To4 (ParseIP (ma_Address a)) = [] then [newAddress]
               else newMachineAddress as machineName ipFamily)
            else if ipFamily = ''V4'' then
              (if To4 (ParseIP (ma_Address a)) \<noteq> [] then [newAddress]
               else newMachineAddress as machineName ipFamily)
            else newMachineAddress as machineName ipFamily)
      else newMachineAddress as machineName ipFamily)"

text \<open>
  A nil list of subsets gets one subset; a list that is empty but not nil would panic at
  \<open>Subsets[0]\<close>.
\<close>

definition addMachineIpToEndpoints :: "Endpoints \<Rightarrow> Machine \<Rightarrow> string \<Rightarrow> Endpoints outcome" where
  "addMachineIpToEndpoints endpoints machine ipFamily =
     (case Subsets endpoints of
        None \<Rightarrow>
          Ret (endpoints\<lparr>Subsets := Some
                 [\<lparr>Addresses = newMachineAddress (Status_Addresses machine) (Name machine) ipFamily,
                   ss_Ports = [(6443, ''TCP'')]\<rparr>]\<rparr>)
      | Some [] \<Rightarrow> Panic
      | Some (s # rest) \<Rightarrow>
          (case find_index (\<lambda>a. ea_NodeName a = Some (Name machine)) (Addresses s) of
             Some i \<Rightarrow>
               Ret (endpoints\<lparr>Subsets := Some
                      (s\<lparr>Addresses := (Addresses s)[i := syncEndpointMachineIP (Addresses s ! i) machine]\<rparr> # rest)\<rparr>)
           | None \<Rightarrow>
               Ret (endpoints\<lparr>Subsets := Some
                      (s\<lparr>Addresses := Addresses s @
                           newMachineAddress (Status_Addresses machine) (Name machine) ipFamily\<rparr> # rest)\<rparr>)))"

definition CreateOrUpdateHAEndpoints ::
  "lib \<Rightarrow> 'w kapi \<Rightarrow> Machine \<Rightarrow> 'w \<Rightarrow> (error option) outcome \<times> 'w" where
  "CreateOrUpdateHAEndpoints L K machine w =
     (if Labels machine MachineControlPlaneLabel = None then (Ret None, w)
      else case kGet (Clusters K) w (Namespace machine, Spec_ClusterName machine) of
        (Inl err, w) \<Rightarrow> (Ret (Some err), w)
      | (Inr cluster, w) \<Rightarrow>
          (case ensureEndpoints L K (getHAServiceName cluster) (Namespace cluster) w of
             (Inl err, w) \<Rightarrow> (Ret (Some err), w)
           | (Inr endpoints, w) \<Rightarrow>
               (case getADCForCluster L K cluster w of
                  (Inl err, w) \<Rightarrow> (Ret (Some err), w)
                | (Inr adcForCluster, w) \<Rightarrow>
                    (let ipFamily = (case adcForCluster of
                                       Some adc \<Rightarrow> (if IpFamily (spec_ExtraConfigs (Spec adc)) \<noteq> []
                                                    then IpFamily (spec_ExtraConfigs (Spec adc)) else ''V4'')
                                     | None \<Rightarrow> ''V4'')
                     in case (if being_deleted machine then Ret (removeMachineIpFromEndpoints endpoints machine)
                              else addMachineIpToEndpoints endpoints machine ipFamily) of
                          Panic \<Rightarrow> (Panic, w)
                        | Ret endpoints \<Rightarrow>
                            (case kUpdate (EndpointsS K) w endpoints of
                               (Inl err, w) \<Rightarrow>
                                 (Ret (Wrap L (Some err) (''Failed to update endpoints <'' @ Name endpoints @
                                    ''>, control plane machine IP doesn't get allocated yet'' @ [CHR 0x0A])), w)
                             | (Inr _, w) \<Rightarrow> (Ret None, w))))))"

section \<open>The table of machines: an interface\<close>

text \<open>
  What the machine controller relies on: the Endpoints object is a table from machine names to
  addresses with an invariant, adding a machine does not touch other machines, and removing one
  removes exactly it.
\<close>

datatype machine_event = MachineSeen Machine | MachineDeleted Machine

fun event_machine :: "machine_event \<Rightarrow> string" where
  "event_machine (MachineSeen m) = Name m"
| "event_machine (MachineDeleted m) = Name m"

fun run_events :: "('e \<Rightarrow> Machine \<Rightarrow> 'e) \<Rightarrow> ('e \<Rightarrow> Machine \<Rightarrow> 'e) \<Rightarrow> 'e \<Rightarrow> machine_event list \<Rightarrow> 'e" where
  "run_events add del e [] = e"
| "run_events add del e (MachineSeen m # evs) = run_events add del (add e m) evs"
| "run_events add del e (MachineDeleted m # evs) = run_events add del (del e m) evs"

text \<open>
  Whether a machine is listed after some events, given whether it was before: it is if it has been seen
  with a usable address since it was last deleted, or was listed before and not deleted since.
\<close>

definition deleted_in :: "string \<Rightarrow> machine_event list \<Rightarrow> bool" where
  "deleted_in n evs \<longleftrightarrow> (\<exists>m. MachineDeleted m \<in> set evs \<and> Name m = n)"

definition listed_after :: "(Machine \<Rightarrow> bool) \<Rightarrow> bool \<Rightarrow> string \<Rightarrow> machine_event list \<Rightarrow> bool" where
  "listed_after usable before n evs \<longleftrightarrow>
     (\<exists>pre m post. evs = pre @ MachineSeen m # post \<and> Name m = n \<and> usable m \<and> \<not> deleted_in n post) \<or>
     before \<and> \<not> deleted_in n evs"

lemma listed_after_Nil [simp]: "listed_after usable b n [] = b"
  by (simp add: listed_after_def deleted_in_def)

lemma listed_after_Cons:
  "listed_after usable b n (ev # evs) =
     listed_after usable (case ev of MachineSeen m \<Rightarrow> b \<or> Name m = n \<and> usable m | MachineDeleted m \<Rightarrow> b \<and> Name m \<noteq> n) n evs"
proof -
  have d: "deleted_in n (ev # evs) \<longleftrightarrow> ev \<in> MachineDeleted ` {m. Name m = n} \<or> deleted_in n evs" by (auto simp: deleted_in_def)
  have "(\<exists>pre m post. ev # evs = pre @ MachineSeen m # post \<and> P m post) \<longleftrightarrow>
      (\<exists>m. ev = MachineSeen m \<and> P m evs) \<or> (\<exists>pre m post. evs = pre @ MachineSeen m # post \<and> P m post)" for P
    by (auto simp: Cons_eq_append_conv)
  then show ?thesis unfolding listed_after_def d by (cases ev) auto
qed

locale machine_table =
  fixes invar :: "'e \<Rightarrow> bool"
    and lookup :: "'e \<Rightarrow> string \<Rightarrow> string option"
    and add :: "'e \<Rightarrow> Machine \<Rightarrow> 'e"
    and del :: "'e \<Rightarrow> Machine \<Rightarrow> 'e"
    and usable :: "Machine \<Rightarrow> bool"
  assumes invar_add: "invar e \<Longrightarrow> invar (add e m)"
    and invar_del: "invar e \<Longrightarrow> invar (del e m)"
    and lookup_add_other: "invar e \<Longrightarrow> n \<noteq> Name m \<Longrightarrow> lookup (add e m) n = lookup e n"
    and lookup_add_own: "invar e \<Longrightarrow> lookup (add e m) (Name m) \<noteq> None \<longleftrightarrow> lookup e (Name m) \<noteq> None \<or> usable m"
    and lookup_del: "invar e \<Longrightarrow> lookup (del e m) = (lookup e)(Name m := None)"
begin

lemma run_invar: "invar e \<Longrightarrow> invar (run_events add del e evs)"
proof (induction evs arbitrary: e)
  case (Cons ev evs)
  then show ?case by (cases ev) (auto simp: invar_add invar_del)
qed simp

lemma run_listed:
  "invar e \<Longrightarrow> lookup (run_events add del e evs) n \<noteq> None \<longleftrightarrow> listed_after usable (lookup e n \<noteq> None) n evs"
proof (induction evs arbitrary: e)
  case (Cons ev evs)
  show ?case
  proof (cases ev)
    case (MachineSeen m)
    with Cons.prems have "invar (add e m)" by (simp add: invar_add)
    with Cons MachineSeen show ?thesis
      using lookup_add_own [OF Cons.prems, of m] lookup_add_other [OF Cons.prems, of n m]
      by (cases "n = Name m") (auto simp: listed_after_Cons)
  next
    case (MachineDeleted m)
    with Cons.prems have "invar (del e m)" by (simp add: invar_del)
    with Cons MachineDeleted show ?thesis by (auto simp: listed_after_Cons lookup_del)
  qed
qed simp

end

section \<open>The Endpoints object implements it\<close>

definition ep_addresses :: "Endpoints \<Rightarrow> EndpointAddress list" where
  "ep_addresses ep = (case Subsets ep of Some (s # _) \<Rightarrow> Addresses s | _ \<Rightarrow> [])"

definition ep_lookup :: "Endpoints \<Rightarrow> string \<Rightarrow> string option" where
  "ep_lookup ep n = map_option ea_IP (find (\<lambda>a. ea_NodeName a = Some n) (ep_addresses ep))"

definition ep_invar :: "Endpoints \<Rightarrow> bool" where
  "ep_invar ep \<longleftrightarrow> Subsets ep \<noteq> Some [] \<and> distinct (List.map_filter ea_NodeName (ep_addresses ep))"

text \<open>\<open>addMachineIpToEndpoints\<close> where it returns.\<close>

definition ep_add :: "string \<Rightarrow> Endpoints \<Rightarrow> Machine \<Rightarrow> Endpoints" where
  "ep_add fam ep m = (case addMachineIpToEndpoints ep m fam of Ret e \<Rightarrow> e | Panic \<Rightarrow> ep)"

text \<open>A machine with an external address of the wanted family.\<close>

definition family_ok :: "string \<Rightarrow> string \<Rightarrow> bool" where
  "family_ok fam ip \<longleftrightarrow> ParseIP ip \<noteq> [] \<and>
     (fam = ''V6'' \<and> To4 (ParseIP ip) = [] \<or> fam = ''V4'' \<and> To4 (ParseIP ip) \<noteq> [])"

definition ep_eligible :: "string \<Rightarrow> Machine \<Rightarrow> bool" where
  "ep_eligible fam m \<longleftrightarrow> (\<exists>a \<in> set (Status_Addresses m). ma_Type a = MachineExternalIP \<and> family_ok fam (ma_Address a))"

lemma newMachineAddress_eq:
  "newMachineAddress as n fam =
     (case find (\<lambda>a. ma_Type a = MachineExternalIP \<and> family_ok fam (ma_Address a)) as of
        None \<Rightarrow> []
      | Some a \<Rightarrow> [\<lparr>ea_IP = ma_Address a, ea_NodeName = Some n\<rparr>])"
  by (induction as) (auto simp: family_ok_def Let_def)

lemma newMachineAddress_eligible:
  "ep_eligible fam m \<longleftrightarrow> newMachineAddress (Status_Addresses m) n fam \<noteq> []"
  by (auto simp: newMachineAddress_eq ep_eligible_def find_None_iff_all split: option.splits dest: find_SomeD)

lemma newMachineAddress_node: "a \<in> set (newMachineAddress as n fam) \<Longrightarrow> ea_NodeName a = Some n"
  by (auto simp: newMachineAddress_eq split: option.splits)

lemma lastExternal_node [simp]: "ea_NodeName (lastExternal a as) = ea_NodeName a"
  by (induction as arbitrary: a) auto

lemma sync_node [simp]: "ea_NodeName (syncEndpointMachineIP a m) = ea_NodeName a"
  by (simp add: syncEndpointMachineIP_def Let_def)

lemma lastExternal_external:
  "\<exists>a \<in> set as. externalIP a \<Longrightarrow> \<exists>a \<in> set as. externalIP a \<and> ea_IP (lastExternal x as) = ma_Address a"
proof (induction as arbitrary: x)
  case (Cons a as)
  show ?case
  proof (cases "\<exists>b \<in> set as. externalIP b")
    case True
    with Cons.IH show ?thesis by simp
  next
    case False
    then have "lastExternal y as = y" for y
      by (induction as arbitrary: y) (auto simp: externalIP_def)
    with Cons.prems False show ?thesis by (auto simp: externalIP_def)
  qed
qed simp

lemma sync_external:
  assumes "\<exists>a \<in> set (Status_Addresses m). externalIP a"
  shows "\<exists>a \<in> set (Status_Addresses m). externalIP a \<and> ea_IP (syncEndpointMachineIP x m) = ma_Address a"
  using lastExternal_external [OF assms, of x]
  by (auto simp: syncEndpointMachineIP_def Let_def list_ex_iff externalIP_def)

text \<open>The effect of adding a machine on the addresses.\<close>

lemma ep_add_addresses:
  assumes "ep_invar ep"
  shows "ep_addresses (ep_add fam ep m) =
    (case find_index (\<lambda>a. ea_NodeName a = Some (Name m)) (ep_addresses ep) of
       None \<Rightarrow> ep_addresses ep @ newMachineAddress (Status_Addresses m) (Name m) fam
     | Some i \<Rightarrow> (ep_addresses ep)[i := syncEndpointMachineIP (ep_addresses ep ! i) m])"
  using assms
  by (auto simp: ep_add_def addMachineIpToEndpoints_def ep_addresses_def ep_invar_def
      split: option.splits list.splits)

lemma ep_add_subsets: "ep_invar ep \<Longrightarrow> Subsets (ep_add fam ep m) \<noteq> Some []"
  by (auto simp: ep_add_def addMachineIpToEndpoints_def ep_invar_def split: option.splits list.splits)

lemma ep_add_invar:
  assumes "ep_invar ep"
  shows "ep_invar (ep_add fam ep m)"
proof (cases "find_index (\<lambda>a. ea_NodeName a = Some (Name m)) (ep_addresses ep)")
  case None
  then have "Name m \<notin> set (List.map_filter ea_NodeName (ep_addresses ep))"
    by (auto simp: find_index_None_iff map_filter_in_iff)
  with assms None ep_add_subsets [OF assms] show ?thesis
    by (auto simp: ep_invar_def ep_add_addresses [OF assms] newMachineAddress_eq map_filter_append_eq
        List.map_filter_simps split: option.splits)
next
  case (Some i)
  with assms ep_add_subsets [OF assms] show ?thesis
    by (simp add: ep_invar_def ep_add_addresses [OF assms] map_filter_update)
qed

lemma ep_remove_addresses:
  "ep_addresses (removeMachineIpFromEndpoints ep m) = filter (\<lambda>a. ea_NodeName a \<noteq> Some (Name m)) (ep_addresses ep)"
  by (auto simp: removeMachineIpFromEndpoints_def ep_addresses_def Let_def split: option.splits list.splits)

lemma ep_remove_invar: "ep_invar ep \<Longrightarrow> ep_invar (removeMachineIpFromEndpoints ep m)"
  by (auto simp: ep_invar_def ep_remove_addresses map_filter_filter_distinct)
    (auto simp: removeMachineIpFromEndpoints_def Let_def split: option.splits list.splits if_splits)

lemma ep_lookup_add_other:
  assumes "ep_invar ep" "n \<noteq> Name m"
  shows "ep_lookup (ep_add fam ep m) n = ep_lookup ep n"
proof (cases "find_index (\<lambda>a. ea_NodeName a = Some (Name m)) (ep_addresses ep)")
  case None
  with assms show ?thesis
    by (auto simp: ep_lookup_def ep_add_addresses newMachineAddress_eq find_append_eq split: option.splits)
next
  case (Some i)
  with assms show ?thesis
    by (auto simp: ep_lookup_def ep_add_addresses find_update_other dest!: find_index_SomeD)
qed

text \<open>
  The address a machine is listed with: for a new machine the first external one of the family; for a
  listed one the old address if the machine still has it (or has none at all), and else another one.
\<close>

definition address_after :: "string \<Rightarrow> Machine \<Rightarrow> string option \<Rightarrow> string option \<Rightarrow> bool" where
  "address_after fam m old new \<longleftrightarrow>
     (case old of
        None \<Rightarrow> new = map_option ma_Address
          (find (\<lambda>a. ma_Type a = MachineExternalIP \<and> family_ok fam (ma_Address a)) (Status_Addresses m))
      | Some ip \<Rightarrow>
          (let ips = ma_Address ` {a \<in> set (Status_Addresses m). externalIP a}
           in if ip \<in> ips \<or> ips = {} then new = Some ip else \<exists>ip' \<in> ips. new = Some ip'))"

lemma sync_address:
  "ea_IP (syncEndpointMachineIP x m) = ea_IP x" if "ea_IP x \<in> ma_Address ` {a \<in> set (Status_Addresses m). externalIP a} \<or>
    {a \<in> set (Status_Addresses m). externalIP a} = {}"
proof -
  have "lastExternal x as = x" if "\<forall>a \<in> set as. \<not> externalIP a" for as
    using that by (induction as) (auto simp: externalIP_def)
  with that show ?thesis by (auto simp: syncEndpointMachineIP_def Let_def list_ex_iff externalIP_def)
qed

lemma ep_lookup_add_own:
  assumes "ep_invar ep"
  shows "address_after fam m (ep_lookup ep (Name m)) (ep_lookup (ep_add fam ep m) (Name m))"
proof (cases "find_index (\<lambda>a. ea_NodeName a = Some (Name m)) (ep_addresses ep)")
  case None
  then have nf: "find (\<lambda>a. ea_NodeName a = Some (Name m)) (ep_addresses ep) = None"
    by (simp add: find_index_None_iff find_None_iff_all)
  with None show ?thesis
    by (auto simp: address_after_def ep_lookup_def ep_add_addresses [OF assms] newMachineAddress_eq find_append_eq split: option.splits)
next
  case (Some i)
  let ?x = "ep_addresses ep ! i"
  note i = find_index_SomeD [OF Some]
  have old: "ep_lookup ep (Name m) = Some (ea_IP ?x)" and new: "ep_lookup (ep_add fam ep m) (Name m) = Some (ea_IP (syncEndpointMachineIP ?x m))"
    using i find_update_first [OF Some, of ?x] find_update_first [OF Some, of "syncEndpointMachineIP ?x m"]
    by (simp_all add: ep_lookup_def ep_add_addresses [OF assms] Some)
  show ?thesis
    using sync_address [of ?x m] sync_external [of m ?x] unfolding address_after_def old new Let_def by (auto simp: Let_def)
qed

lemma ep_lookup_add_listed:
  "ep_invar ep \<Longrightarrow> ep_lookup (ep_add fam ep m) (Name m) \<noteq> None \<longleftrightarrow> ep_lookup ep (Name m) \<noteq> None \<or> ep_eligible fam m"
proof -
  assume "ep_invar ep"
  have e: "ep_eligible fam m \<longleftrightarrow> find (\<lambda>a. ma_Type a = MachineExternalIP \<and> family_ok fam (ma_Address a)) (Status_Addresses m) \<noteq> None"
    unfolding ep_eligible_def find_None_iff_all by blast
  show ?thesis
    using ep_lookup_add_own [OF \<open>ep_invar ep\<close>, of fam m] unfolding address_after_def e
    by (cases "ep_lookup ep (Name m)") (auto simp: Let_def split: if_splits)
qed

lemma find_filter_name:
  "find (\<lambda>a. ea_NodeName a = Some n) (filter (\<lambda>a. ea_NodeName a \<noteq> Some k) xs) =
     (if n = k then None else find (\<lambda>a. ea_NodeName a = Some n) xs)"
  by (induction xs) auto

lemma ep_lookup_remove:
  "ep_lookup (removeMachineIpFromEndpoints ep m) = (ep_lookup ep)(Name m := None)"
proof
  fix n
  have "find (\<lambda>a. ea_NodeName a = Some n) (filter (\<lambda>a. ea_NodeName a \<noteq> Some (Name m)) (ep_addresses ep)) =
        (if n = Name m then None else find (\<lambda>a. ea_NodeName a = Some n) (ep_addresses ep))"
    using find_filter_name [of n "Name m" "ep_addresses ep"] .
  then show "ep_lookup (removeMachineIpFromEndpoints ep m) n = ((ep_lookup ep)(Name m := None)) n"
    by (simp only: ep_lookup_def ep_remove_addresses fun_upd_apply) simp
qed

interpretation ep: machine_table ep_invar ep_lookup "ep_add fam" removeMachineIpFromEndpoints "ep_eligible fam" for fam
proof (unfold_locales, goal_cases)
  case (1 e m) then show ?case by (rule ep_add_invar)
next
  case (2 e m) then show ?case by (rule ep_remove_invar)
next
  case (3 e n m) then show ?case by (rule ep_lookup_add_other)
next
  case (4 e m) then show ?case by (rule ep_lookup_add_listed)
next
  case (5 e m) show ?case by (rule ep_lookup_remove)
qed

section \<open>The control plane endpoint\<close>

lemma ParseIP_Nil [simp]: "ParseIP [] = []"
  by (simp add: ParseIP_def ParseAddr_def)

lemma updateClusterControlPlaneEndpoint_frame [frame_simps]:
  assumes "updateClusterControlPlaneEndpoint env c s = (e, c')"
  shows "Name c' = Name c" "Namespace c' = Namespace c" "Labels c' = Labels c"
    "Finalizers c' = Finalizers c" "DeletionTimestamp c' = DeletionTimestamp c"
    "Conditions c' = Conditions c" "Annotations c' = Annotations c" "Topology c' = None \<longleftrightarrow> Topology c = None"
  using assms
  by (auto simp: updateClusterControlPlaneEndpoint_def Let_def frame_simps split: list.splits if_splits prod.splits)

lemma topology_var_cong: "Topology c = Topology c' \<Longrightarrow> topology_var c n = topology_var c' n"
  by (simp add: topology_var_def)

lemma port_after_set:
  "GetControlPlaneEndpointPort env (SetControlPlaneEndpoint c e\<lparr>EndpointPort := p\<rparr>) = GetControlPlaneEndpointPort env c"
  "GetControlPlaneEndpointPort env (SetControlPlaneEndpoint c e) = GetControlPlaneEndpointPort env c"
  "GetControlPlaneEndpointPort env (c\<lparr>EndpointHost := h\<rparr>) = GetControlPlaneEndpointPort env c"
  "GetControlPlaneEndpointPort env (c\<lparr>EndpointPort := p\<rparr>) = GetControlPlaneEndpointPort env c"
proof -
  have n: "ApiServerPortVar \<noteq> ApiServerEndpoint" by (simp add: ApiServerPortVar_def ApiServerEndpoint_def)
  show a: "GetControlPlaneEndpointPort env (c\<lparr>EndpointPort := p\<rparr>) = GetControlPlaneEndpointPort env c" for c p
    by (simp add: GetControlPlaneEndpointPort_def IsClusterClassBasedCluster_def topology_var_def)
  show b: "GetControlPlaneEndpointPort env (SetControlPlaneEndpoint c e) = GetControlPlaneEndpointPort env c"
    using n by (simp add: GetControlPlaneEndpointPort_def IsClusterClassBasedCluster_def topology_var_set frame_simps)
  show "GetControlPlaneEndpointPort env (SetControlPlaneEndpoint c e\<lparr>EndpointPort := p\<rparr>) = GetControlPlaneEndpointPort env c"
    by (simp add: a b)
  show "GetControlPlaneEndpointPort env (c\<lparr>EndpointHost := h\<rparr>) = GetControlPlaneEndpointPort env c"
    by (simp add: GetControlPlaneEndpointPort_def IsClusterClassBasedCluster_def topology_var_def)
qed

text \<open>The three ways the host is chosen, in one equation for a Service with a valid address.\<close>

definition keeps_fqdn :: "Cluster \<Rightarrow> bool" where
  "keeps_fqdn c \<longleftrightarrow> fst (GetControlPlaneEndpoint c) \<noteq> [] \<and> ParseIP (fst (GetControlPlaneEndpoint c)) = []"

lemma updateClusterControlPlaneEndpoint_ready:
  assumes "Ingress s = ip # ips" "ParseIP ip \<noteq> []"
  shows "updateClusterControlPlaneEndpoint env c s =
    (snd (GetControlPlaneEndpointPort env c),
     (if keeps_fqdn c then c\<lparr>EndpointHost := fst (GetControlPlaneEndpoint c)\<rparr>
      else SetControlPlaneEndpoint (c\<lparr>EndpointHost := ip\<rparr>) ip)\<lparr>EndpointPort := fst (GetControlPlaneEndpointPort env c)\<rparr>)"
  using assms
  by (auto simp: updateClusterControlPlaneEndpoint_def keeps_fqdn_def Let_def port_after_set split: prod.splits)

lemma updateClusterControlPlaneEndpoint_None:
  "updateClusterControlPlaneEndpoint env c s = (None, c') \<Longrightarrow> \<exists>ip ips. Ingress s = ip # ips \<and> ParseIP ip \<noteq> []"
  by (auto simp: updateClusterControlPlaneEndpoint_def Let_def split: list.splits if_splits)

lemma GetControlPlaneEndpoint_keeps:
  assumes "keeps_fqdn c"
  shows "fst (GetControlPlaneEndpoint (c\<lparr>EndpointHost := fst (GetControlPlaneEndpoint c), EndpointPort := p\<rparr>)) =
         fst (GetControlPlaneEndpoint c)"
  by (auto simp: GetControlPlaneEndpoint_def Let_def topology_var_def split: option.splits sum.splits)

lemma GetControlPlaneEndpoint_set:
  assumes "\<not> keeps_fqdn c" "ParseIP ip \<noteq> []"
  shows "\<not> keeps_fqdn (SetControlPlaneEndpoint (c\<lparr>EndpointHost := ip\<rparr>) ip\<lparr>EndpointPort := p\<rparr>)"
proof (cases "Topology c")
  case (Some vs)
  then have "fst (GetControlPlaneEndpoint (SetControlPlaneEndpoint (c\<lparr>EndpointHost := ip\<rparr>) ip\<lparr>EndpointPort := p\<rparr>)) = ip"
    using topology_var_set [of "c\<lparr>EndpointHost := ip\<rparr>" ip ApiServerEndpoint] valid_to_valid [OF ParseIP_valid [OF assms(2)]]
    by (simp add: GetControlPlaneEndpoint_def Let_def topology_var_def frame_simps)
  with assms(2) show ?thesis by (simp add: keeps_fqdn_def)
next
  case None
  then show ?thesis
    using assms by (auto simp: keeps_fqdn_def GetControlPlaneEndpoint_def Let_def topology_var_def
        SetControlPlaneEndpoint_def split: option.splits)
qed

lemma set_var_twice: "set_var (set_var vs n r) n r = set_var vs n r"
  by (induction vs) auto

lemma SetControlPlaneEndpoint_twice:
  "SetControlPlaneEndpoint (SetControlPlaneEndpoint (c\<lparr>EndpointHost := ip\<rparr>) ip\<lparr>EndpointPort := p\<rparr>\<lparr>EndpointHost := ip\<rparr>) ip\<lparr>EndpointPort := p\<rparr>
   = SetControlPlaneEndpoint (c\<lparr>EndpointHost := ip\<rparr>) ip\<lparr>EndpointPort := p\<rparr>"
  by (simp add: SetControlPlaneEndpoint_def set_var_twice split: option.splits)

text \<open>
  C30. The control plane endpoint settles: once \<open>updateClusterControlPlaneEndpoint\<close> has succeeded, the
  cluster's host is the configured endpoint if this is a name (not empty and not an IP address), and in all
  other cases the Service's external address, which is an IP address. The port is a valid port, and a
  second run with the same Service changes nothing.
\<close>

theorem update_endpoint_settles:
  assumes "updateClusterControlPlaneEndpoint env c s = (None, c')"
  shows "updateClusterControlPlaneEndpoint env c' s = (None, c') \<and> validatePortNumber (EndpointPort c') \<and>
    (let endpoint = fst (GetControlPlaneEndpoint c)
     in if endpoint \<noteq> [] \<and> ParseIP endpoint = [] then EndpointHost c' = endpoint
        else \<exists>ip ips. Ingress s = ip # ips \<and> ParseIP ip \<noteq> [] \<and> EndpointHost c' = ip)"
proof -
  from updateClusterControlPlaneEndpoint_None [OF assms] obtain ip ips where
    ip: "Ingress s = ip # ips" "ParseIP ip \<noteq> []" by blast
  let ?p = "fst (GetControlPlaneEndpointPort env c)"
  let ?base = "if keeps_fqdn c then c\<lparr>EndpointHost := fst (GetControlPlaneEndpoint c)\<rparr>
               else SetControlPlaneEndpoint (c\<lparr>EndpointHost := ip\<rparr>) ip"
  from assms updateClusterControlPlaneEndpoint_ready [OF ip, of env c]
  have c': "c' = ?base\<lparr>EndpointPort := ?p\<rparr>" and noerr: "snd (GetControlPlaneEndpointPort env c) = None" by auto
  have port: "GetControlPlaneEndpointPort env c' = GetControlPlaneEndpointPort env c"
    unfolding c' by (simp add: port_after_set)
  have "updateClusterControlPlaneEndpoint env c' s = (None, c')"
  proof (cases "keeps_fqdn c")
    case True
    with GetControlPlaneEndpoint_keeps [OF True, where p = ?p] have "keeps_fqdn c'"
      "fst (GetControlPlaneEndpoint c') = fst (GetControlPlaneEndpoint c)" by (auto simp: keeps_fqdn_def c')
    then show ?thesis
      using True by (simp add: updateClusterControlPlaneEndpoint_ready [OF ip] port noerr) (simp add: c')
  next
    case False
    with GetControlPlaneEndpoint_set [OF False ip(2), where p = ?p] have "\<not> keeps_fqdn c'" by (simp add: c')
    then show ?thesis
      using False SetControlPlaneEndpoint_twice [where c = c and ip = ip and p = ?p]
      by (simp add: updateClusterControlPlaneEndpoint_ready [OF ip] port noerr) (simp add: c')
  qed
  moreover have "validatePortNumber (EndpointPort c')"
    using endpoint_port_range [of env c] by (simp add: c')
  moreover have "EndpointHost c' = (if keeps_fqdn c then fst (GetControlPlaneEndpoint c) else ip)"
    by (simp add: c' frame_simps)
  ultimately show ?thesis using ip by (auto simp: Let_def keeps_fqdn_def)
qed

lemma CreateOrUpdateHAService_frame:
  assumes "CreateOrUpdateHAService L K env lk c w = ((e, c'), w')"
  shows "Name c' = Name c" "Namespace c' = Namespace c" "Labels c' = Labels c"
    "Finalizers c' = Finalizers c" "DeletionTimestamp c' = DeletionTimestamp c"
    "Conditions c' = Conditions c" "Topology c' = None \<longleftrightarrow> Topology c = None"
proof -
  have "c' = c \<or> (\<exists>e s. updateClusterControlPlaneEndpoint env c s = (e, c'))"
    using assms by (auto simp: CreateOrUpdateHAService_def split: prod.splits sum.splits option.splits)
  then show "Name c' = Name c" "Namespace c' = Namespace c" "Labels c' = Labels c"
    "Finalizers c' = Finalizers c" "DeletionTimestamp c' = DeletionTimestamp c"
    "Conditions c' = Conditions c" "Topology c' = None \<longleftrightarrow> Topology c = None"
    by (auto simp: updateClusterControlPlaneEndpoint_frame)
qed

text \<open>
  C16. The Service and the cluster agree. When \<open>CreateOrUpdateHAService\<close> succeeds, the Service (found or just
  created) has a valid external address, and it has been updated to ask for the address of the cluster's
  endpoint, both in its specification and in the annotation of newer AKO releases: this is the external
  address itself if the cluster's endpoint is an address, and otherwise what DNS answers for the configured
  name. The Endpoints object of the Service exists, and the cluster's port is valid.
\<close>

theorem ha_service_agrees:
  assumes "wrap_laws L" "CreateOrUpdateHAService L K env lk c w = ((None, c'), w')"
  shows "\<exists>ip ips svc svc' host ep w1 w2 w3. Ingress svc = ip # ips \<and> ParseIP ip \<noteq> [] \<and>
    LoadBalancerIP svc = host \<and> Annotations svc AkoPreferredIPAnnotation = Some host \<and>
    kUpdate (SvcS K) w2 svc = (Inr svc', w3) \<and>
    (if ParseIP (EndpointHost c') \<noteq> [] then host = ip \<and> EndpointHost c' = ip
     else EndpointHost c' = fst (GetControlPlaneEndpoint c) \<and> queryFQDNEndpoint lk (EndpointHost c') w1 = (Inr host, w2)) \<and>
    ensureEndpoints L K (getHAServiceName c) (Namespace svc) w3 = (Inr ep, w') \<and> validatePortNumber (EndpointPort c')"
proof -
  from assms(2) obtain s w1 w3 ep where
    s: "updateClusterControlPlaneEndpoint env c s = (None, c')" "updateControlPlaneEndpointToService L K lk c' s w1 = (None, w3)"
    "ensureEndpoints L K (getHAServiceName c') (Namespace s) w3 = (Inr ep, w')"
    by (auto simp: CreateOrUpdateHAService_def split: prod.splits sum.splits option.splits if_splits)
  from s(2) assms(1) obtain host w2 svc' where
    u: "kUpdate (SvcS K) w2 (withEndpoint s host) = (Inr svc', w3)"
    "if ParseIP (EndpointHost c') \<noteq> [] then host = EndpointHost c' else queryFQDNEndpoint lk (EndpointHost c') w1 = (Inr host, w2)"
    by (auto simp: updateControlPlaneEndpointToService_def wrap_laws_def split: prod.splits sum.splits if_splits)
  from updateClusterControlPlaneEndpoint_None [OF s(1)] obtain ip ips where
    ip: "Ingress s = ip # ips" "ParseIP ip \<noteq> []" by blast
  with s(1) have e: "EndpointHost c' = (if keeps_fqdn c then fst (GetControlPlaneEndpoint c) else ip)"
    "EndpointPort c' = fst (GetControlPlaneEndpointPort env c)"
    by (auto simp: updateClusterControlPlaneEndpoint_ready frame_simps)
  then have "if ParseIP (EndpointHost c') \<noteq> [] then host = ip \<and> EndpointHost c' = ip
     else EndpointHost c' = fst (GetControlPlaneEndpoint c) \<and> queryFQDNEndpoint lk (EndpointHost c') w1 = (Inr host, w2)"
    using u(2) ip(2) by (auto simp: keeps_fqdn_def split: if_splits)
  moreover have "getHAServiceName c' = getHAServiceName c"
    by (simp add: getHAServiceName_def updateClusterControlPlaneEndpoint_frame [OF s(1)])
  moreover have "validatePortNumber (EndpointPort c')" by (simp add: e endpoint_port_range)
  ultimately show ?thesis
    using u(1) ip s(3)
    by (intro exI [of _ ip] exI [of _ ips] exI [of _ "withEndpoint s host"] exI [of _ svc'] exI [of _ host] exI [of _ ep]
        exI [of _ w1] exI [of _ w2] exI [of _ w3]) (simp add: withEndpoint_def)
qed

subsection \<open>Concrete runs\<close>

lemma ParseIP_vip: "ParseIP ''10.1.2.3'' \<noteq> []"
  by code_simp

lemma ParseIP_node4: "ParseIP ''10.0.0.10'' = [0,0,0,0,0,0,0,0,0,0,0xff,0xff,10,0,0,10]"
  by code_simp

lemma ParseIP_node6: "ParseIP ''fd00::10'' = [0xfd,0,0,0,0,0,0,0,0,0,0,0,0,0,0,0x10]"
  by (simp add: ParseIP_def ParseAddr_def parseIPv6_def hex_val_def Let_def
      parseIPv6_loop.simps [of "CHR ''f'' # _"] parseIPv6_loop.simps [of "CHR ''1'' # _"])
    (simp add: numeral_eq_Suc)

lemma v4InV6Prefix_eq: "v4InV6Prefix = [0,0,0,0,0,0,0,0,0,0,0xff,0xff]"
  by code_simp

lemma To4_node:
  "To4 (ParseIP ''10.0.0.10'') \<noteq> []" "To4 (ParseIP ''fd00::10'') = []"
  by (simp_all add: ParseIP_node4 ParseIP_node6 To4_def v4InV6Prefix_eq)

definition vipService :: Service where
  "vipService = (newService ref_lib exampleCluster Map.empty 6443 ''V4'')\<lparr>Ingress := [''10.1.2.3'']\<rparr>"

definition vipCluster :: Cluster where
  "vipCluster = exampleCluster\<lparr>EndpointHost := ''10.1.2.3'', EndpointPort := 6443\<rparr>"

lemma update_endpoint_example:
  "updateClusterControlPlaneEndpoint Map.empty exampleCluster vipService = (None, vipCluster)"
proof -
  have "Ingress vipService = [''10.1.2.3'']" by (simp add: vipService_def)
  moreover have "\<not> keeps_fqdn exampleCluster" "GetControlPlaneEndpointPort Map.empty exampleCluster = (6443, None)"
    "Topology exampleCluster = None"
    by (simp_all add: keeps_fqdn_def GetControlPlaneEndpoint_def GetControlPlaneEndpointPort_def exampleCluster_def
        topology_var_def IsClusterClassBasedCluster_def Getenv_def emptyMeta_def ObjectMeta.defs)
  ultimately show ?thesis
    by (simp add: updateClusterControlPlaneEndpoint_ready ParseIP_vip vipCluster_def SetControlPlaneEndpoint_def)
qed

theorem update_endpoint_settles_witness:
  "updateClusterControlPlaneEndpoint Map.empty exampleCluster vipService = (None, vipCluster) \<and>
   updateClusterControlPlaneEndpoint Map.empty vipCluster vipService = (None, vipCluster)"
  using update_endpoint_settles [OF update_endpoint_example] update_endpoint_example by simp

definition vipWorld :: mem where
  "vipWorld = mem0\<lparr>m_services := [vipService]\<rparr>"

theorem ha_service_agrees_witness:
  "\<exists>w' svc svc' w2 w3. CreateOrUpdateHAService ref_lib mem_kapi Map.empty (\<lambda>w n. (Inl (Err n), w)) exampleCluster vipWorld = ((None, vipCluster), w') \<and>
     kUpdate (SvcS mem_kapi) w2 svc = (Inr svc', w3 :: mem) \<and>
     LoadBalancerIP svc = ''10.1.2.3'' \<and> Annotations svc AkoPreferredIPAnnotation = Some ''10.1.2.3''"
proof -
  let ?lk = "\<lambda>w n. (Inl (Err n), w)"
  have k: "obj_key vipService = (Namespace exampleCluster, getHAServiceName exampleCluster)"
    by (simp add: vipService_def newService_def Let_def getHAServiceName_def example_defs ref_defs)
  have "ParseIP (EndpointHost vipCluster) \<noteq> []" by (simp add: vipCluster_def ParseIP_vip)
  then have "\<exists>w'. CreateOrUpdateHAService ref_lib mem_kapi Map.empty ?lk exampleCluster vipWorld = ((None, vipCluster), w')"
    using k by (simp add: CreateOrUpdateHAService_def update_endpoint_example updateControlPlaneEndpointToService_def ensureEndpoints_def
        withEndpoint_def vipWorld_def ref_defs)
  then obtain w' where r: "CreateOrUpdateHAService ref_lib mem_kapi Map.empty ?lk exampleCluster vipWorld = ((None, vipCluster), w')" by blast
  have v: "EndpointHost vipCluster = ''10.1.2.3''" by (simp add: vipCluster_def)
  from ha_service_agrees [OF ref_wrap_laws r, unfolded v]
  have "\<exists>svc svc' (w2 :: mem) w3. kUpdate (SvcS mem_kapi) w2 svc = (Inr svc', w3) \<and> LoadBalancerIP svc = ''10.1.2.3'' \<and> Annotations svc AkoPreferredIPAnnotation = Some ''10.1.2.3''"
    apply (elim exE conjE)
    subgoal for ip ips svc svc' host ep w1 w2 w3
      using ParseIP_vip by (intro exI [of _ svc] exI [of _ svc'] exI [of _ w2] exI [of _ w3]) auto
    done
  with r show ?thesis by blast
qed

section \<open>What the Endpoints object promises\<close>

lemma add_no_panic: "ep_invar ep \<Longrightarrow> addMachineIpToEndpoints ep m fam = Ret (ep_add fam ep m)"
  by (auto simp: ep_add_def addMachineIpToEndpoints_def ep_invar_def split: option.splits list.splits)

text \<open>
  C18. Adding any machine to a well-formed Endpoints object (no machine twice, no empty list of subsets)
  does not panic and keeps it well-formed; the other machines keep their addresses. A machine that was not
  listed is then listed with its first external address of the wanted family, and not listed if it has
  none. A machine that was listed keeps its address if it still has it or has no external address at all,
  and otherwise gets one of its external addresses (of whatever family).
\<close>

theorem add_machine_correct:
  assumes "ep_invar ep"
  shows "\<exists>ep'. addMachineIpToEndpoints ep m fam = Ret ep' \<and> ep_invar ep' \<and>
           (\<forall>n. n \<noteq> Name m \<longrightarrow> ep_lookup ep' n = ep_lookup ep n) \<and>
           address_after fam m (ep_lookup ep (Name m)) (ep_lookup ep' (Name m))"
proof (intro exI conjI)
  show "addMachineIpToEndpoints ep m fam = Ret (ep_add fam ep m)" by (rule add_no_panic [OF assms(1)])
  show "ep_invar (ep_add fam ep m)" by (rule ep_add_invar [OF assms(1)])
  show "\<forall>n. n \<noteq> Name m \<longrightarrow> ep_lookup (ep_add fam ep m) n = ep_lookup ep n"
    by (simp add: ep_lookup_add_other [OF assms(1)])
qed (rule ep_lookup_add_own [OF assms])

definition nodeMachine :: "string list \<Rightarrow> Machine" where
  "nodeMachine ips = ObjectMeta.extend (emptyMeta\<lparr>Name := ''cp-0'', Namespace := ''default''\<rparr>)
     \<lparr>Spec_ClusterName = ''wc'', Status_Addresses = map (\<lambda>ip. \<lparr>ma_Type = MachineExternalIP, ma_Address = ip\<rparr>) ips\<rparr>"

lemma nodeMachine_simps [simp]:
  "Name (nodeMachine ips) = ''cp-0''"
  "Status_Addresses (nodeMachine ips) = map (\<lambda>ip. \<lparr>ma_Type = MachineExternalIP, ma_Address = ip\<rparr>) ips"
  by (simp_all add: nodeMachine_def emptyMeta_def ObjectMeta.defs)

lemma node_eligible: "ep_eligible ''V4'' (nodeMachine [''10.0.0.10''])"
  by (simp add: ep_eligible_def family_ok_def To4_node) (simp add: ParseIP_node4)

lemma newEndpoints_simps [simp]: "Subsets (newEndpoints n ns) = None"
  by (simp add: newEndpoints_def emptyMeta_def ObjectMeta.defs)

lemma newEndpoints_invar [simp]: "ep_invar (newEndpoints n ns)"
  by (simp add: ep_invar_def ep_addresses_def List.map_filter_simps)

lemma node_first:
  "find (\<lambda>a. ma_Type a = MachineExternalIP \<and> family_ok ''V4'' (ma_Address a)) (Status_Addresses (nodeMachine [''10.0.0.10''])) =
     Some \<lparr>ma_Type = MachineExternalIP, ma_Address = ''10.0.0.10''\<rparr>"
  by (simp add: family_ok_def To4_node) (simp add: ParseIP_node4)

lemma newEndpoints_lookup [simp]: "ep_lookup (newEndpoints n ns) k = None"
  by (simp add: ep_lookup_def ep_addresses_def)

theorem add_machine_correct_witness:
  "\<exists>ep'. addMachineIpToEndpoints (newEndpoints ''svc'' ''default'') (nodeMachine [''10.0.0.10'']) ''V4'' = Ret ep' \<and>
     ep_lookup ep' ''cp-0'' = Some ''10.0.0.10''"
  using add_machine_correct [OF newEndpoints_invar [of "''svc''" "''default''"], of "nodeMachine [''10.0.0.10'']" "''V4''"] node_first
  by (auto simp: address_after_def simp del: nodeMachine_simps(2))

text \<open>The Endpoints object over a sequence of events, as the machine controller changes it.\<close>

fun track_machines :: "string \<Rightarrow> Endpoints \<Rightarrow> machine_event list \<Rightarrow> Endpoints outcome" where
  "track_machines fam ep [] = Ret ep"
| "track_machines fam ep (MachineSeen m # evs) =
     bind_outcome (addMachineIpToEndpoints ep m fam) (\<lambda>ep. track_machines fam ep evs)"
| "track_machines fam ep (MachineDeleted m # evs) = track_machines fam (removeMachineIpFromEndpoints ep m) evs"

lemma track_machines_run:
  "ep_invar ep \<Longrightarrow> track_machines fam ep evs = Ret (run_events (ep_add fam) removeMachineIpFromEndpoints ep evs)"
proof (induction evs arbitrary: ep)
  case (Cons ev evs)
  then show ?case by (cases ev) (auto simp: add_no_panic ep_add_invar ep_remove_invar)
qed simp

text \<open>
  C6. The Endpoints object tracks the control plane: after any sequence of machines seen and machines
  deleted, starting from a well-formed object, there was no panic, the object is well-formed, and
  exactly those machines are listed that have been seen with an external address of the wanted family
  since they were last deleted, or that were listed at the beginning and not deleted since.
\<close>

theorem endpoints_track_machines:
  assumes "ep_invar ep"
  shows "\<exists>ep'. track_machines fam ep evs = Ret ep' \<and> ep_invar ep' \<and>
    (\<forall>n. ep_lookup ep' n \<noteq> None \<longleftrightarrow> listed_after (ep_eligible fam) (ep_lookup ep n \<noteq> None) n evs)"
  using track_machines_run [OF assms] ep.run_invar [OF assms] ep.run_listed [OF assms] by blast

theorem endpoints_track_machines_witness:
  "\<exists>ep'. track_machines ''V4'' (newEndpoints ''svc'' ''default'')
     [MachineSeen (nodeMachine [''10.0.0.10'']), MachineDeleted (nodeMachine []), MachineSeen (nodeMachine [''10.0.0.10''])] = Ret ep' \<and>
     ep_lookup ep' ''cp-0'' \<noteq> None \<and> ep_lookup ep' ''cp-1'' = None"
proof -
  let ?evs = "[MachineSeen (nodeMachine [''10.0.0.10'']), MachineDeleted (nodeMachine []), MachineSeen (nodeMachine [''10.0.0.10''])]"
  have l: "listed_after (ep_eligible ''V4'') False ''cp-0'' ?evs" "\<not> listed_after (ep_eligible ''V4'') False ''cp-1'' ?evs"
    using node_eligible by (simp_all add: listed_after_Cons del: nodeMachine_simps(2))
  obtain ep' where e: "track_machines ''V4'' (newEndpoints ''svc'' ''default'') ?evs = Ret ep'"
    "\<forall>n. ep_lookup ep' n \<noteq> None \<longleftrightarrow> listed_after (ep_eligible ''V4'') False n ?evs"
    using endpoints_track_machines [OF newEndpoints_invar [of "''svc''" "''default''"], of "''V4''" ?evs] unfolding newEndpoints_lookup by auto
  from e(2) l have "ep_lookup ep' ''cp-0'' \<noteq> None" "ep_lookup ep' ''cp-1'' = None" by blast+
  with e(1) show ?thesis by blast
qed

text \<open>
  A machine that is already listed is synchronised without regard to the IP family: in an IPv4
  configuration, a machine whose listed address has gone and that now reports an IPv4 and an IPv6
  external address, in this order, is listed with the IPv6 one.
\<close>

theorem sync_ignores_family:
  "\<exists>ep m ep'. ep_invar ep \<and> ep_eligible ''V4'' m \<and> addMachineIpToEndpoints ep m ''V4'' = Ret ep' \<and>
     ep_lookup ep' (Name m) = Some ''fd00::10'' \<and> \<not> family_ok ''V4'' ''fd00::10''"
proof -
  let ?m = "nodeMachine [''10.0.0.10'', ''fd00::10'']"
  let ?ep = "newEndpoints ''svc'' ''default''
    \<lparr>Subsets := Some [\<lparr>Addresses = [\<lparr>ea_IP = ''10.0.0.9'', ea_NodeName = Some ''cp-0''\<rparr>], ss_Ports = []\<rparr>]\<rparr>"
  have "ep_invar ?ep" by (simp add: ep_invar_def ep_addresses_def List.map_filter_simps)
  moreover have "ep_eligible ''V4'' ?m" by (simp add: ep_eligible_def family_ok_def To4_node) (simp add: ParseIP_node4)
  moreover have "ep_lookup (ep_add ''V4'' ?ep ?m) (Name ?m) = Some ''fd00::10''"
    by (simp add: ep_add_def addMachineIpToEndpoints_def ep_lookup_def ep_addresses_def
        syncEndpointMachineIP_def ParseIP_node4 ParseIP_node6)
  moreover have "\<not> family_ok ''V4'' ''fd00::10''" by (simp add: family_ok_def To4_node)
  ultimately show ?thesis using add_no_panic by blast
qed

end
