(* ===== verification/Adc_Controller.thy ===== *)
theory Adc_Controller
  imports Avi_Network Avi_User Addon_Secret HA_Provider
begin

text \<open>
  The controller of AKODeploymentConfig objects: \<open>src/controllers/akodeploymentconfig\<close>
  (\<open>akodeploymentconfig_controller.go\<close>, its AVI phase and its cluster phase).

  The reconciler keeps state between calls. \<open>aviClient\<close> is a Go interface: the nil interface
  (\<open>NoClient\<close>), an interface that holds a nil pointer (\<open>NilClient\<close>; it is not equal to nil, and any
  method call on it panics), or a client. \<open>lock\<close> is the package's mutex: taking it while it is held
  blocks forever, since reconciliations of one controller run one after the other.
\<close>

datatype 'w slot = NoClient | NilClient | HasClient "'w Client"

record 'w reconciler =
  aviClient :: "'w slot"
  userReconciler :: "'w Client option"
  lock :: bool

definition SetAviClient :: "'w slot \<Rightarrow> 'w reconciler \<Rightarrow> 'w reconciler" where
  "SetAviClient client r = r\<lparr>aviClient := client\<rparr>"

text \<open>What a call of the reconciler depends on, besides its state.\<close>

record 'w adc_env =
  e_L :: lib
  e_K :: "'w kapi"
  e_env :: environ
  e_Y :: yaml
  e_new :: "'w sdk_new"
  e_srt :: slice_sort
  e_ord :: "'w \<Rightarrow> (string \<times> string) list"
  e_rnd :: "'w \<Rightarrow> rand"

type_synonym 'w adc_state = "AKODeploymentConfig \<times> 'w reconciler \<times> 'w"

type_synonym 'w adc_phase = "'w adc_state \<Rightarrow> verdict run \<times> 'w adc_state"

section \<open>The AVI client\<close>

definition getAviCAFromADC :: "'w kapi \<Rightarrow> AKODeploymentConfig \<Rightarrow> 'w \<Rightarrow> (error + string) \<times> 'w" where
  "getAviCAFromADC K obj w =
     (case kGet (Secrets K) w (ref_Namespace (CertificateAuthorityRef (Spec obj)), ref_Name (CertificateAuthorityRef (Spec obj))) of
        (Inl err, w) \<Rightarrow> (Inl err, w)
      | (Inr aviControllerCA, w) \<Rightarrow> (Inr (data_get aviControllerCA ''certificateAuthorityData''), w))"

text \<open>The client for a controller version, and the field as the assignment leaves it.\<close>

definition newClient :: "'w adc_env \<Rightarrow> AKODeploymentConfig \<Rightarrow> string \<Rightarrow> 'w \<Rightarrow> (error + 'w Client) \<times> 'w" where
  "newClient E obj version w =
     NewAviClientFromSecrets (e_new E) (e_K E) (Controller (Spec obj)) (AdminCredentialRef (Spec obj))
       (CertificateAuthorityRef (Spec obj)) version w"

text \<open>The critical section of \<open>initAVI\<close> that makes the client; an error leaves it with the lock held.\<close>

definition makeClient :: "'w adc_env \<Rightarrow> AKODeploymentConfig \<Rightarrow> 'w \<Rightarrow> (error option \<times> 'w slot) \<times> 'w" where
  "makeClient E obj w =
     (case newClient E obj (ControllerVersion (Spec obj)) w of
        (Inl err, w) \<Rightarrow> ((Some err, NilClient), w)
      | (Inr c, w) \<Rightarrow>
          (case GetControllerVersion c w of
             (Inl err, w) \<Rightarrow> ((Some err, HasClient c), w)
           | (Inr version, w) \<Rightarrow>
               (if ControllerVersion (Spec obj) \<noteq> version then
                  (case newClient E obj version w of
                     (Inl err, w) \<Rightarrow> ((Some err, NilClient), w)
                   | (Inr c, w) \<Rightarrow> ((None, HasClient c), w))
                else ((None, HasClient c), w))))"

definition initAVI :: "'w adc_env \<Rightarrow> 'w adc_phase" where
  "initAVI E s =
     (case s of (obj, r, w) \<Rightarrow>
        (case aviClient r of
           NilClient \<Rightarrow> (Crashed, obj, r, w)
         | _ \<Rightarrow>
             (let currentCa = (case aviClient r of HasClient c \<Rightarrow> AviCertificateConfig c | _ \<Rightarrow> [])
              in case getAviCAFromADC (e_K E) obj w of
                   (Inl err, w) \<Rightarrow> (Done (zeroResult, Some err), obj, r, w)
                 | (Inr newCa, w) \<Rightarrow>
                     (let reInit = (currentCa \<noteq> newCa)
                      in if lock r then (Blocked, obj, r, w)
                         else
                           (let r = r\<lparr>lock := True\<rparr>
                            in case (if aviClient r = NoClient \<or> reInit then makeClient E obj w
                                     else ((None, aviClient r), w)) of
                                 ((Some err, c), w) \<Rightarrow> (Done (zeroResult, Some err), obj, r\<lparr>aviClient := c\<rparr>, w)
                               | ((None, c), w) \<Rightarrow>
                                   (let r = r\<lparr>aviClient := c, lock := False\<rparr>;
                                        r = (if userReconciler r = None \<or> reInit
                                             then r\<lparr>userReconciler := (case c of HasClient cl \<Rightarrow> Some cl | _ \<Rightarrow> None)\<rparr> else r)
                                    in (Done (zeroResult, None), obj, r, w)))))))"

section \<open>Phases on the AVI controller\<close>

text \<open>A method call on the field \<open>aviClient\<close>.\<close>

definition with_client ::
  "'w reconciler \<Rightarrow> ('w Client \<Rightarrow> verdict run \<times> 'w adc_state) \<Rightarrow> 'w adc_state \<Rightarrow> verdict run \<times> 'w adc_state" where
  "with_client r f s = (case aviClient r of HasClient c \<Rightarrow> f c | _ \<Rightarrow> (Crashed, s))"

definition reconcileControllerVersion :: "'w adc_phase" where
  "reconcileControllerVersion s =
     (case s of (obj, r, w) \<Rightarrow>
        with_client r (\<lambda>c.
          case GetControllerVersion c w of
            (Inl err, w) \<Rightarrow> (Done (zeroResult, Some err), obj, r, w)
          | (Inr version, w) \<Rightarrow>
              (Done (zeroResult, None),
               (if ControllerVersion (Spec obj) \<noteq> version then obj\<lparr>Spec := (Spec obj)\<lparr>ControllerVersion := version\<rparr>\<rparr> else obj),
               r, w)) s)"

definition reconcileNetworkSubnets :: "'w adc_env \<Rightarrow> 'w adc_phase" where
  "reconcileNetworkSubnets E s =
     (case s of (obj, r, w) \<Rightarrow>
        (if aviClient r = NoClient then (Done (zeroResult, Some (Err ''AVI client not initialized'')), s)
         else with_client r (\<lambda>c.
           let dn = spec_DataNetwork (Spec obj)
           in case NetworkGetByName c (dn_Name dn) (CloudName (Spec obj)) w of
                (Panic, w) \<Rightarrow> (Crashed, obj, r, w)
              | (Ret (Inl err), w) \<Rightarrow> (Done (zeroResult, None), obj, r, w)
              | (Ret (Inr network), w) \<Rightarrow>
                  (case ParseCIDR (dn_CIDR dn) of
                     None \<Rightarrow> (Done (zeroResult, None), obj, r, w)
                   | Some (addr, cidr) \<Rightarrow>
                       (let ones = Mask_Size_ones (net_Mask cidr);
                            addrType = (if To4 addr = [] then ''V6'' else ''V4'')
                        in case EnsureAviNetwork (e_srt E) network addrType cidr ones (IPPools dn) of
                             (modified, network) \<Rightarrow>
                               (if modified then
                                  (case NetworkUpdate c network w of
                                     (Inl err, w) \<Rightarrow> (Done (zeroResult, Some err), obj, r, w)
                                   | (Inr _, w) \<Rightarrow> (Done (zeroResult, None), obj, r, w))
                                else (Done (zeroResult, None), obj, r, w))))) s))"

definition addNetwork :: "'w adc_env \<Rightarrow> 'w Client \<Rightarrow> AKODeploymentConfig \<Rightarrow> string \<Rightarrow> 'w \<Rightarrow> verdict run \<times> 'w" where
  "addNetwork E c obj name w =
     (case AddUsableNetwork (e_L E) c (CloudName (Spec obj)) name w of
        (Panic, w) \<Rightarrow> (Crashed, w)
      | (Ret err, w) \<Rightarrow> (Done (zeroResult, err), w))"

definition reconcileCloudUsableNetwork :: "'w adc_env \<Rightarrow> 'w adc_phase" where
  "reconcileCloudUsableNetwork E s =
     (case s of (obj, r, w) \<Rightarrow>
        with_client r (\<lambda>c.
          let cp = spec_ControlPlaneNetwork (Spec obj)
          in case (if cpn_Name cp \<noteq> [] \<and> cpn_CIDR cp \<noteq> [] then addNetwork E c obj (cpn_Name cp) w
                   else (Done (zeroResult, None), w)) of
               (Done (res, None), w) \<Rightarrow>
                 (case addNetwork E c obj (dn_Name (spec_DataNetwork (Spec obj))) w of (v, w) \<Rightarrow> (v, obj, r, w))
             | (v, w) \<Rightarrow> (v, obj, r, w)) s)"

section \<open>The AviInfraSetting\<close>

definition createAviInfraSetting :: "AKODeploymentConfig \<Rightarrow> AviInfraSetting" where
  "createAviInfraSetting adc =
     (let sp = Spec adc; cp = spec_ControlPlaneNetwork sp; ec = spec_ExtraConfigs sp;
          shardSize = (if ShardVSSize (IngressConfigs ec) \<noteq> [] then ShardVSSize (IngressConfigs ec) else ''SMALL'');
          vipNetwork = (if GetIPFamilyFromCidr (cpn_CIDR cp) = ''V6''
                        then [\<lparr>vn_NetworkName = cpn_Name cp, vn_Cidr = [], vn_V6Cidr = cpn_CIDR cp\<rparr>]
                        else [\<lparr>vn_NetworkName = cpn_Name cp, vn_Cidr = cpn_CIDR cp, vn_V6Cidr = []\<rparr>]);
          t1LR = (if NsxtT1LR (ec_NetworksConfig ec) \<noteq> [] then NsxtT1LR (ec_NetworksConfig ec) else [])
      in ObjectMeta.extend (emptyMeta\<lparr>Name := GetAviInfraSettingName adc\<rparr>)
           \<lparr>ais_Spec = \<lparr>SeGroup_Name = ServiceEngineGroup sp, VipNetworks = vipNetwork, ShardSize = shardSize, T1LR = Some t1LR\<rparr>\<rparr>)"

definition reconcileAviInfraSetting :: "'w adc_env \<Rightarrow> 'w adc_phase" where
  "reconcileAviInfraSetting E s =
     (case s of (adc, r, w) \<Rightarrow>
        (if cpn_Name (spec_ControlPlaneNetwork (Spec adc)) = [] then (Done (zeroResult, None), s)
         else
           (let newAviInfraSetting = createAviInfraSetting adc
            in case kGet (AviInfraSettings (e_K E)) w ([], GetAviInfraSettingName adc) of
                 (Inl err, w) \<Rightarrow>
                   (if IsNotFound (e_L E) err then
                      (case kCreate (AviInfraSettings (e_K E)) w newAviInfraSetting of
                         (Inl err, w) \<Rightarrow> (Done (zeroResult, Some err), adc, r, w)
                       | (Inr _, w) \<Rightarrow> (Done (zeroResult, None), adc, r, w))
                    else (Done (zeroResult, Some err), adc, r, w))
               | (Inr aviInfraSetting, w) \<Rightarrow>
                   (case kUpdate (AviInfraSettings (e_K E)) w (aviInfraSetting\<lparr>ais_Spec := ais_Spec newAviInfraSetting\<rparr>) of
                      (Inl err, w) \<Rightarrow> (Done (zeroResult, Some err), adc, r, w)
                    | (Inr _, w) \<Rightarrow> (Done (zeroResult, None), adc, r, w)))))"

definition reconcileAviInfraSettingDelete :: "'w adc_env \<Rightarrow> 'w adc_phase" where
  "reconcileAviInfraSettingDelete E s =
     (case s of (adc, r, w) \<Rightarrow>
        (case ListAkoDeploymentConfigSelectClusters (e_L E) (e_K E) (e_env E) adc w of
           (Inl err, w) \<Rightarrow> (Done (zeroResult, Some err), adc, r, w)
         | (Inr clusters, w) \<Rightarrow>
             (if clusters \<noteq> [] then (Done (zeroResult, None), adc, r, w)
              else case kGet (AviInfraSettings (e_K E)) w ([], GetAviInfraSettingName adc) of
                     (Inl err, w) \<Rightarrow>
                       (if IsNotFound (e_L E) err then (Done (zeroResult, None), adc, r, w)
                        else (Done (zeroResult, Some err), adc, r, w))
                   | (Inr aviInfraSetting, w) \<Rightarrow>
                       (case kDelete (AviInfraSettings (e_K E)) w aviInfraSetting of
                          (e, w) \<Rightarrow> (Done (zeroResult, e), adc, r, w)))))"

section \<open>Phases on clusters\<close>

definition addClusterFinalizer :: "lib \<Rightarrow> 'w cluster_phase" where
  "addClusterFinalizer L cluster obj w =
     (Done (zeroResult, None),
      (if \<not> ContainsFinalizer L (Finalizers cluster) ClusterFinalizer \<and> Namespace cluster \<noteq> TKGSystemNamespace
       then cluster\<lparr>Finalizers := AddFinalizer L (Finalizers cluster) ClusterFinalizer\<rparr> else cluster), w)"

definition removeClusterFinalizer :: "lib \<Rightarrow> 'w cluster_phase" where
  "removeClusterFinalizer L cluster obj w =
     (Done (zeroResult, None), cluster\<lparr>Finalizers := RemoveFinalizer L (Finalizers cluster) ClusterFinalizer\<rparr>, w)"

text \<open>\<open>ReconcileClustersPhases\<close> as a phase of the object.\<close>

definition on_clusters :: "'w adc_env \<Rightarrow> 'w cluster_phase list \<Rightarrow> 'w cluster_phase list \<Rightarrow> 'w adc_phase" where
  "on_clusters E normal del s =
     (case s of (obj, r, w) \<Rightarrow>
        (case ReconcileClustersPhases (e_L E) (e_K E) (e_env E) normal del obj w of (v, w) \<Rightarrow> (v, obj, r, w)))"

definition reconcileClusters :: "'w adc_env \<Rightarrow> 'w adc_phase" where
  "reconcileClusters E =
     on_clusters E
       [addClusterFinalizer (e_L E), ReconcileAddonSecret (e_L E) (e_K E) (e_env E) (e_Y E)]
       [ReconcileAddonSecretDelete (e_L E) (e_K E), ReconcileDelete (e_L E) (e_K E) (e_Y E)]"

definition reconcileClustersDelete :: "'w adc_env \<Rightarrow> 'w adc_phase" where
  "reconcileClustersDelete E =
     on_clusters E
       [removeClusterFinalizer (e_L E), ReconcileAddonSecretDelete (e_L E) (e_K E)]
       [ReconcileAddonSecretDelete (e_L E) (e_K E), ReconcileDelete (e_L E) (e_K E) (e_Y E)]"

section \<open>The AVI phases\<close>

definition reconcileUsers :: "'w adc_env \<Rightarrow> 'w adc_phase" where
  "reconcileUsers E s =
     (case userReconciler (fst (snd s)) of
        None \<Rightarrow> (Crashed, s)
      | Some cl \<Rightarrow>
          on_clusters E [ReconcileAviUser (e_L E) (e_K E) cl (e_ord E) (e_rnd E)]
            [ReconcileAviUserDelete (e_L E) (e_K E) cl] s)"

definition reconcileUsersDelete :: "'w adc_env \<Rightarrow> 'w adc_phase" where
  "reconcileUsersDelete E s =
     (case userReconciler (fst (snd s)) of
        None \<Rightarrow> (Crashed, s)
      | Some cl \<Rightarrow>
          on_clusters E [ReconcileAviUserDelete (e_L E) (e_K E) cl] [ReconcileAviUserDelete (e_L E) (e_K E) cl] s)"

definition reconcileAVI :: "'w adc_env \<Rightarrow> 'w adc_phase" where
  "reconcileAVI E s =
     (case initAVI E s of
        (Done (res, None), s) \<Rightarrow>
          ReconcilePhases (e_L E)
            [reconcileNetworkSubnets E, reconcileCloudUsableNetwork E, reconcileAviInfraSetting E,
             reconcileControllerVersion, reconcileUsers E] s
      | (v, s) \<Rightarrow> (v, s))"

definition reconcileAVIDelete :: "'w adc_env \<Rightarrow> 'w adc_phase" where
  "reconcileAVIDelete E s =
     (case initAVI E s of
        (Done (res, None), s) \<Rightarrow>
          ReconcilePhases (e_L E) [reconcileAviInfraSettingDelete E, reconcileUsersDelete E] s
      | (v, s) \<Rightarrow> (v, s))"

section \<open>The controller\<close>

definition reconcileNormal :: "'w adc_env \<Rightarrow> 'w adc_phase" where
  "reconcileNormal E s =
     (case s of (obj, r, w) \<Rightarrow>
        (let obj = (if \<not> ContainsFinalizer (e_L E) (Finalizers obj) AkoDeploymentConfigFinalizer
                    then obj\<lparr>Finalizers := AddFinalizer (e_L E) (Finalizers obj) AkoDeploymentConfigFinalizer\<rparr> else obj)
         in ReconcilePhases (e_L E) [reconcileAVI E, reconcileClusters E] (obj, r, w)))"

text \<open>
  The deferred function of \<open>reconcileDelete\<close> tests the named results. It also runs when the phases
  panic, and then the results still have their zero values: no error, no requeue.
\<close>

definition removeAdcFinalizer :: "lib \<Rightarrow> AKODeploymentConfig \<Rightarrow> AKODeploymentConfig" where
  "removeAdcFinalizer L obj = obj\<lparr>Finalizers := RemoveFinalizer L (Finalizers obj) AkoDeploymentConfigFinalizer\<rparr>"

definition reconcileDelete :: "'w adc_env \<Rightarrow> 'w adc_phase" where
  "reconcileDelete E s =
     (case s of (obj, r, w) \<Rightarrow>
        (if \<not> ContainsFinalizer (e_L E) (Finalizers obj) AkoDeploymentConfigFinalizer then (Done (zeroResult, None), s)
         else case ReconcilePhases (e_L E) [reconcileClustersDelete E, reconcileAVIDelete E] s of
                (Done (res, err), obj, r, w) \<Rightarrow>
                  (Done (res, err), (if err = None \<and> \<not> Requeue res then removeAdcFinalizer (e_L E) obj else obj), r, w)
              | (Crashed, obj, r, w) \<Rightarrow> (Crashed, removeAdcFinalizer (e_L E) obj, r, w)
              | (Blocked, s) \<Rightarrow> (Blocked, s)))"

text \<open>The deferred patch, too, runs after a panic.\<close>

definition AdcReconcile :: "'w adc_env \<Rightarrow> key \<Rightarrow> 'w reconciler \<Rightarrow> 'w \<Rightarrow> verdict run \<times> 'w reconciler \<times> 'w" where
  "AdcReconcile E req r w =
     (case kGet (ADCs (e_K E)) w req of
        (Inl err, w) \<Rightarrow> (Done (zeroResult, if IsNotFound (e_L E) err then None else Some err), r, w)
      | (Inr obj, w) \<Rightarrow>
          (case kNewHelper (ADCs (e_K E)) w obj of
             (Some err, w) \<Rightarrow>
               (Done (zeroResult, Wrap (e_L E) (Some err) (''failed to init patch helper for '' @ Kind obj @ '' '' @ fst req @ ''/'' @ snd req)), r, w)
           | (None, w) \<Rightarrow>
               (case (if being_deleted obj then reconcileDelete E (obj, r, w) else reconcileNormal E (obj, r, w)) of
                  (Done (res, reterr), obj', r, w) \<Rightarrow>
                    (case kPatch (ADCs (e_K E)) w obj obj' of
                       (Some err, w) \<Rightarrow> (Done (res, if reterr = None then Some err else reterr), r, w)
                     | (None, w) \<Rightarrow> (Done (res, reterr), r, w))
                | (Crashed, obj', r, w) \<Rightarrow> (case kPatch (ADCs (e_K E)) w obj obj' of (_, w) \<Rightarrow> (Crashed, r, w))
                | (Blocked, _, r, w) \<Rightarrow> (Blocked, r, w))))"

text \<open>The watch on Secrets.\<close>

definition secretToAKODeploymentConfig :: "'w kapi \<Rightarrow> Secret \<Rightarrow> 'w \<Rightarrow> key list \<times> 'w" where
  "secretToAKODeploymentConfig K secret w =
     (if Name secret \<noteq> AviCredentialName \<and> Name secret \<noteq> AviCAName then ([], w)
      else case ListADCs K w of
             (Inl err, w) \<Rightarrow> ([], w)
           | (Inr adcs, w) \<Rightarrow>
               (map (\<lambda>a. (Namespace a, Name a))
                  (filter (\<lambda>a. ref_Name (CertificateAuthorityRef (Spec a)) = Name secret \<and>
                               ref_Namespace (CertificateAuthorityRef (Spec a)) = Namespace secret \<or>
                               ref_Name (AdminCredentialRef (Spec a)) = Name secret \<and>
                               ref_Namespace (AdminCredentialRef (Spec a)) = Namespace secret) adcs), w))"

section \<open>The cleanup protocol\<close>

interpretation add_finalizer: cluster_phase "addClusterFinalizer L" d "protocol L" for L d
  by unfold_locales
    (auto simp: addClusterFinalizer_def protocol_def cleanup_step_def resources_clean_def user_clean_def finalizer_laws_def
      split: if_splits)

text \<open>Taking the finalizer off is for clusters that are not being deleted.\<close>

interpretation remove_finalizer: cluster_phase "removeClusterFinalizer L" False "protocol L" for L
  by unfold_locales
    (auto simp: removeClusterFinalizer_def protocol_def cleanup_step_def resources_clean_def user_clean_def)

text \<open>The lists of phases the controller runs on a cluster, for clusters in use and clusters being deleted.\<close>

definition phase_lists :: "'w adc_env \<Rightarrow> 'w Client \<Rightarrow> ('w cluster_phase list \<times> 'w cluster_phase list) list" where
  "phase_lists E cl =
     (let L = e_L E; K = e_K E
      in [([addClusterFinalizer L, ReconcileAddonSecret L K (e_env E) (e_Y E)],
           [ReconcileAddonSecretDelete L K, ReconcileDelete L K (e_Y E)]),
          ([removeClusterFinalizer L, ReconcileAddonSecretDelete L K],
           [ReconcileAddonSecretDelete L K, ReconcileDelete L K (e_Y E)]),
          ([ReconcileAviUser L K cl (e_ord E) (e_rnd E)], [ReconcileAviUserDelete L K cl]),
          ([ReconcileAviUserDelete L K cl], [ReconcileAviUserDelete L K cl])])"

lemma phase_lists_used:
  "reconcileClusters E = on_clusters E (fst (phase_lists E cl ! 0)) (snd (phase_lists E cl ! 0))"
  "reconcileClustersDelete E = on_clusters E (fst (phase_lists E cl ! 1)) (snd (phase_lists E cl ! 1))"
  "userReconciler r = Some cl \<Longrightarrow> reconcileUsers E (obj, r, w) =
     on_clusters E (fst (phase_lists E cl ! 2)) (snd (phase_lists E cl ! 2)) (obj, r, w)"
  "userReconciler r = Some cl \<Longrightarrow> reconcileUsersDelete E (obj, r, w) =
     on_clusters E (fst (phase_lists E cl ! 3)) (snd (phase_lists E cl ! 3)) (obj, r, w)"
  by (simp_all add: phase_lists_def Let_def reconcileClusters_def reconcileClustersDelete_def
      reconcileUsers_def reconcileUsersDelete_def numeral_2_eq_2 numeral_3_eq_3)

lemma phase_lists_protocol:
  assumes "(normal, del) \<in> set (phase_lists E cl)" "cluster_phases (e_L E) obj normal del res c w = (r, c', w')"
  shows "protocol (e_L E) c c'"
proof (rule cleanup.cluster_phases_keep [OF _ _ assms(2)])
  show "cluster_phase p False (protocol (e_L E))" if "p \<in> set normal" for p
    using assms(1) that add_finalizer.cluster_phase_axioms remove_finalizer.cluster_phase_axioms
      addon.cluster_phase_axioms addon_delete.cluster_phase_axioms user.cluster_phase_axioms user_delete.cluster_phase_axioms
    by (auto simp: phase_lists_def Let_def)
  show "cluster_phase p True (protocol (e_L E))" if "p \<in> set del" for p
    using assms(1) that addon_delete.cluster_phase_axioms delete.cluster_phase_axioms user_delete.cluster_phase_axioms
    by (auto simp: phase_lists_def Let_def)
qed

text \<open>
  C2. Whatever the API server, the workload cluster and the AVI controller answer, a reconciliation of a
  cluster, by any of the four lists of phases the controller runs, follows the cleanup protocol: the
  finalizer of a cluster that is being deleted goes only when its AVI resources and its AVI user are
  cleaned up, the user goes after the resources, and what is cleaned up stays so.
\<close>

theorem reconcile_follows_protocol:
  assumes "condition_laws (e_L E)" "finalizer_laws (e_L E)"
    and "(normal, del) \<in> set (phase_lists E cl)" "cluster_phases (e_L E) obj normal del res c w = (r, c', w')"
  shows "cleanup_step (e_L E) c c'"
  using phase_lists_protocol [OF assms(3,4)] assms(1,2) by (simp add: protocol_def)

definition refEnv :: "amem adc_env" where
  "refEnv = \<lparr>e_L = ref_lib, e_K = mem_kapi, e_env = Map.empty, e_Y = exampleYaml, e_new = ref_new, e_srt = isort_by,
     e_ord = (\<lambda>_. AkoRolePermissionEntries), e_rnd = (\<lambda>_ _ _. 0)\<rparr>"

lemma refEnv_simps [simp]: "e_L refEnv = ref_lib" "e_K refEnv = mem_kapi"
  by (simp_all add: refEnv_def)

theorem reconcile_follows_protocol_witness:
  "\<exists>r c' w'. cluster_phases ref_lib exampleADC [ReconcileAviUserDelete ref_lib mem_kapi ref_client]
      [ReconcileAviUserDelete ref_lib mem_kapi ref_client] zeroResult deletedCluster amem0 = (r, c', w') \<and>
     cleanup_step ref_lib deletedCluster c'"
proof -
  have m: "([ReconcileAviUserDelete ref_lib mem_kapi ref_client], [ReconcileAviUserDelete ref_lib mem_kapi ref_client])
      \<in> set (phase_lists refEnv ref_client)" by (simp add: phase_lists_def Let_def)
  obtain r c' w' where r: "cluster_phases (e_L refEnv) exampleADC [ReconcileAviUserDelete ref_lib mem_kapi ref_client]
      [ReconcileAviUserDelete ref_lib mem_kapi ref_client] zeroResult deletedCluster amem0 = (r, c', w')"
    by (metis prod_cases3)
  from reconcile_follows_protocol [OF _ _ m r] r show ?thesis by auto
qed

section \<open>The client and its lock\<close>

text \<open>
  A successful initialisation leaves the reconciler ready: a client is there, the user reconciler has
  one, and the lock is free. The object is not changed.
\<close>

theorem initAVI_ready:
  assumes "initAVI E (obj, r, w) = (Done (res, None), obj', r', w')"
  shows "obj' = obj \<and> \<not> lock r' \<and> (\<exists>c. aviClient r' = HasClient c) \<and>
         (userReconciler r' \<noteq> None) \<and> \<not> lock r"
proof -
  have mk: "makeClient E obj w = ((None, c), w') \<Longrightarrow> \<exists>cl. c = HasClient cl" for c w w'
    by (auto simp: makeClient_def split: prod.splits sum.splits if_splits)
  show ?thesis
    using assms mk
    by (auto simp: initAVI_def Let_def split: slot.splits prod.splits sum.splits option.splits if_splits)
qed

text \<open>Later calls of \<open>initAVI\<close> on the same reconciler, for any objects and in any world.\<close>

inductive init_calls :: "'w adc_env \<Rightarrow> 'w reconciler \<Rightarrow> 'w reconciler \<Rightarrow> bool" for E where
  none: "init_calls E r r"
| call: "init_calls E r r1 \<Longrightarrow> initAVI E (obj, r1, w) = (v, obj', r2, w') \<Longrightarrow> init_calls E r r2"

lemma initAVI_locked:
  assumes "lock r" "initAVI E (obj, r, w) = (v, obj', r', w')"
  shows "lock r'" "v \<noteq> Done (res, None)"
  using assms by (auto simp: initAVI_def Let_def split: slot.splits prod.splits sum.splits if_splits)

lemma init_calls_locked: "init_calls E r r' \<Longrightarrow> lock r \<Longrightarrow> lock r'"
  by (induction rule: init_calls.induct) (auto dest: initAVI_locked)

text \<open>
  C35. One failure to set up the AVI client is final. The error returns leave the mutex locked, so after one
  failed attempt to make the client no later initialisation succeeds in the life of the process: each
  one panics on the nil client, fails to read the certificate, or blocks.
\<close>

theorem initAVI_failure_is_final:
  assumes "aviClient r = NoClient" "\<not> lock r" "getAviCAFromADC (e_K E) obj w = (Inr ca, w1)"
    and "makeClient E obj w1 = ((Some err, slot), w2)"
  shows "\<exists>r'. initAVI E (obj, r, w) = (Done (zeroResult, Some err), obj, r', w2) \<and> lock r' \<and>
           (\<forall>r'' obj2 w3 v obj3 r3 w4 res. init_calls E r' r'' \<longrightarrow>
              initAVI E (obj2, r'', w3) = (v, obj3, r3, w4) \<longrightarrow> v \<noteq> Done (res, None))"
proof -
  let ?r = "r\<lparr>lock := True, aviClient := slot\<rparr>"
  have "initAVI E (obj, r, w) = (Done (zeroResult, Some err), obj, ?r, w2)"
    using assms by (simp add: initAVI_def)
  moreover have "v \<noteq> Done (res, None)"
    if "init_calls E ?r r''" "initAVI E (obj2, r'', w3) = (v, obj3, r3, w4)" for r'' obj2 w3 v obj3 r3 w4 res
    by (rule initAVI_locked(2) [OF init_calls_locked [OF that(1)] that(2)]) simp
  ultimately show ?thesis by (intro exI [of _ ?r]) auto
qed

definition freshReconciler :: "amem reconciler" where
  "freshReconciler = \<lparr>aviClient = NoClient, userReconciler = None, lock = False\<rparr>"

definition aviADC :: AKODeploymentConfig where
  "aviADC = exampleADC\<lparr>Spec := (Spec exampleADC)\<lparr>CertificateAuthorityRef := caRef, AdminCredentialRef := credRef\<rparr>\<rparr>"

lemma freshReconciler_simps: "aviClient freshReconciler = NoClient" "\<not> lock freshReconciler"
  by (simp_all add: freshReconciler_def)

text \<open>A world in which the credentials are missing.\<close>

definition caWorld :: amem where
  "caWorld = amem0\<lparr>m_secrets := [exampleSecret caRef [(AviCertificateKey, ''cert'')]]\<rparr>"

lemma caWorld_ca: "getAviCAFromADC mem_kapi aviADC caWorld = (Inr ''cert'', caWorld)"
  by (simp add: getAviCAFromADC_def aviADC_def caWorld_def avi_defs ref_defs emptyMeta_def ObjectMeta.defs data_get_def
      AviCertificateKey_def)

lemma caWorld_client: "\<exists>e. makeClient refEnv aviADC caWorld = ((Some e, NilClient), caWorld)"
proof -
  have "kGet (Secrets mem_kapi) caWorld (ref_Namespace credRef, ref_Name credRef) = (Inl not_found, caWorld)"
    by (simp add: caWorld_def avi_defs ref_defs emptyMeta_def ObjectMeta.defs AviCredentialName_def AviCAName_def)
  then show ?thesis
    by (auto simp: makeClient_def newClient_def NewAviClientFromSecrets_def aviADC_def refEnv_def)
qed

theorem initAVI_failure_is_final_witness:
  "\<exists>e r'. initAVI refEnv (aviADC, freshReconciler, caWorld) = (Done (zeroResult, Some e), aviADC, r', caWorld) \<and> lock r'"
proof -
  from caWorld_client obtain e where e: "makeClient refEnv aviADC caWorld = ((Some e, NilClient), caWorld)" by blast
  have "getAviCAFromADC (e_K refEnv) aviADC caWorld = (Inr ''cert'', caWorld)" by (simp add: caWorld_ca)
  from initAVI_failure_is_final [OF freshReconciler_simps this e] show ?thesis by blast
qed

lemma newClient_example: "\<exists>c. newClient refEnv aviADC v secretWorld = (Inr (realAviClient c ref_sdk), secretWorld)"
proof -
  have "Controller (Spec aviADC) \<noteq> []" by (simp add: aviADC_def exampleADC_def exampleSpec_def ObjectMeta.defs)
  then show ?thesis
    by (simp add: newClient_def NewAviClientFromSecrets_def refEnv_def aviADC_def secretWorld_get NewAviClient_def ref_new_def
        client_options_def secret_config_def)
      (auto simp: credRef_def caRef_def AviCredentialName_def AviCAName_def TKGSystemNamespace_def exampleSecret_def data_get_def)
qed

lemma makeClient_example: "\<exists>c. makeClient refEnv aviADC secretWorld = ((None, HasClient c), secretWorld)"
proof -
  obtain c where c: "newClient refEnv aviADC (ControllerVersion (Spec aviADC)) secretWorld = (Inr (realAviClient c ref_sdk), secretWorld)"
    using newClient_example by blast
  obtain c' where c': "newClient refEnv aviADC (a_version secretWorld) secretWorld = (Inr (realAviClient c' ref_sdk), secretWorld)"
    using newClient_example by blast
  have v: "GetControllerVersion (realAviClient c ref_sdk) secretWorld = (Inr (a_version secretWorld), secretWorld)"
    by (simp add: realAviClient_def ref_sdk_def ref_client_def)
  show ?thesis by (simp add: makeClient_def c c' v)
qed

lemma ready_example:
  "\<exists>r' w'. initAVI refEnv (aviADC, freshReconciler, secretWorld) = (Done (zeroResult, None), aviADC, r', w')"
proof -
  have ca: "getAviCAFromADC mem_kapi aviADC secretWorld = (Inr ''cert'', secretWorld)"
    by (simp add: getAviCAFromADC_def aviADC_def secretWorld_get) (simp add: exampleSecret_def data_get_def AviCertificateKey_def)
  obtain c where c: "makeClient refEnv aviADC secretWorld = ((None, HasClient c), secretWorld)"
    using makeClient_example by blast
  show ?thesis by (simp add: initAVI_def freshReconciler_def ca c)
qed

theorem initAVI_ready_witness:
  "\<exists>r' w'. initAVI refEnv (aviADC, freshReconciler, secretWorld) = (Done (zeroResult, None), aviADC, r', w') \<and> \<not> lock r'"
  using ready_example initAVI_ready by metis

section \<open>The finalizer of the configuration\<close>

text \<open>The phases of a deletion do not touch the object.\<close>

definition keeps_obj :: "'w adc_phase \<Rightarrow> bool" where
  "keeps_obj p \<longleftrightarrow> (\<forall>s v s'. p s = (v, s') \<longrightarrow> fst s' = fst s)"

lemma keeps_objD: "keeps_obj p \<Longrightarrow> p s = (v, s') \<Longrightarrow> fst s' = fst s"
  unfolding keeps_obj_def by blast

lemma keeps_run_phases:
  "list_all keeps_obj ps \<Longrightarrow> run_phases L ps res errs s = (v, s') \<Longrightarrow> fst s' = fst s"
proof (induction ps arbitrary: res errs s)
  case (Cons p ps)
  obtain v1 s1 where p: "p s = (v1, s1)" by (cases "p s")
  have "fst s1 = fst s" using Cons.prems(1) keeps_objD [of p, OF _ p] by simp
  then show ?case using Cons.IH [of _ _ s1] Cons.prems p
    by (auto simp: Let_def split: run.splits prod.splits)
qed simp

lemma keeps_ReconcilePhases: "list_all keeps_obj ps \<Longrightarrow> keeps_obj (ReconcilePhases L ps)"
  by (auto simp: keeps_obj_def ReconcilePhases_def dest: keeps_run_phases split: prod.splits run.splits)

lemma on_clusters_obj: "on_clusters E normal del s = (v, s') \<Longrightarrow> fst s' = fst s"
  by (auto simp: on_clusters_def split: prod.splits)

lemma keeps_on_clusters: "keeps_obj (on_clusters E normal del)"
  using on_clusters_obj by (auto simp: keeps_obj_def simp del: split_paired_All)

lemma keeps_initAVI: "keeps_obj (initAVI E)"
  by (auto simp: keeps_obj_def initAVI_def Let_def split: slot.splits prod.splits sum.splits option.splits if_splits)

lemma keeps_reconcileUsersDelete: "keeps_obj (reconcileUsersDelete E)"
  by (auto simp: keeps_obj_def reconcileUsersDelete_def simp del: split_paired_All split: option.splits dest: on_clusters_obj)

lemma keeps_infra_delete: "keeps_obj (reconcileAviInfraSettingDelete E)"
  by (auto simp: keeps_obj_def reconcileAviInfraSettingDelete_def split: prod.splits sum.splits if_splits)

lemma keeps_reconcileAVIDelete: "keeps_obj (reconcileAVIDelete E)"
proof -
  have k: "keeps_obj (ReconcilePhases (e_L E) [reconcileAviInfraSettingDelete E, reconcileUsersDelete E])"
    by (rule keeps_ReconcilePhases) (simp add: keeps_reconcileUsersDelete keeps_infra_delete)
  show ?thesis unfolding keeps_obj_def
  proof (intro allI impI)
    fix s v s' assume a: "reconcileAVIDelete E s = (v, s')"
    obtain v1 s1 where i: "initAVI E s = (v1, s1)" by (cases "initAVI E s")
    then have "fst s1 = fst s" by (rule keeps_objD [OF keeps_initAVI])
    moreover from a i have "ReconcilePhases (e_L E) [reconcileAviInfraSettingDelete E, reconcileUsersDelete E] s1 = (v, s') \<or> s' = s1"
      by (auto simp: reconcileAVIDelete_def split: run.splits prod.splits option.splits)
    ultimately show "fst s' = fst s" using keeps_objD [OF k] by metis
  qed
qed

lemma requeue_merge:
  assumes "result_laws L"
  shows "Requeue (LowestNonZeroResult L (LowestNonZeroResult L zeroResult i) j) \<longleftrightarrow> Requeue i \<or> Requeue j"
proof -
  have "\<not> Requeue zeroResult" by (simp add: zeroResult_def)
  then show ?thesis using assms unfolding result_laws_def by metis
qed

lemma two_phases_merged:
  assumes "aggregate_laws L" "p s = (Done (res1, err1), s1)" "q s1 = (Done (res2, err2), s2)"
  shows "\<exists>res err. ReconcilePhases L [p, q] s = (Done (res, err), s2) \<and> (err = None \<longleftrightarrow> err1 = None \<and> err2 = None) \<and>
    (err = None \<longrightarrow> res = LowestNonZeroResult L (LowestNonZeroResult L zeroResult res1) res2)"
  using assms by (auto simp: ReconcilePhases_def Let_def aggregate_laws_def split: option.splits)

text \<open>
  C22. When the finalizer of an AKODeploymentConfig goes. Let the phase on the clusters of an object that is
  being deleted return. If the phase on the AVI side then returns as well, the reconciliation reports an
  error exactly if one of the two did, and the finalizer is removed exactly if neither reported an error
  nor asked to be requeued; otherwise the object is left as it was. If the AVI phase blocks, the object is left
  as it was. If it panics, the finalizer is removed although the cleanup did not succeed, which is a defect
  of the code.
\<close>

theorem adc_finalizer_removed:
  assumes "finalizer_laws (e_L E)" "aggregate_laws (e_L E)" "result_laws (e_L E)"
    and "AkoDeploymentConfigFinalizer \<in> set (Finalizers obj)"
    and "reconcileClustersDelete E (obj, r, w) = (Done (res1, err1), obj1, r1, w1)" "reconcileAVIDelete E (obj1, r1, w1) = (v2, obj2, r2, w2)"
  shows "\<exists>v obj'. reconcileDelete E (obj, r, w) = (v, obj', r2, w2) \<and>
    (case v2 of
       Done (res2, err2) \<Rightarrow>
         (\<exists>res err. v = Done (res, err) \<and> (err = None \<longleftrightarrow> err1 = None \<and> err2 = None)) \<and>
         (if err1 = None \<and> err2 = None \<and> \<not> Requeue res1 \<and> \<not> Requeue res2
          then obj' = removeAdcFinalizer (e_L E) obj \<and> AkoDeploymentConfigFinalizer \<notin> set (Finalizers obj') else obj' = obj)
     | Blocked \<Rightarrow> v = Blocked \<and> obj' = obj
     | Crashed \<Rightarrow> v = Crashed \<and> obj' = removeAdcFinalizer (e_L E) obj)"
proof -
  have fin: "ContainsFinalizer (e_L E) (Finalizers obj) AkoDeploymentConfigFinalizer"
    "AkoDeploymentConfigFinalizer \<notin> set (Finalizers (removeAdcFinalizer (e_L E) obj))"
    using assms(1,4) by (simp_all add: finalizer_laws_def removeAdcFinalizer_def)
  have "obj1 = obj" using keeps_objD [OF keeps_on_clusters] assms(5) unfolding reconcileClustersDelete_def by force
  moreover have "obj2 = obj1" using keeps_objD [OF keeps_reconcileAVIDelete assms(6)] by simp
  ultimately have o: "obj2 = obj" by simp
  show ?thesis
  proof (cases v2)
    case (Done x)
    then obtain res2 err2 where v2: "v2 = Done (res2, err2)" by (cases x) auto
    from two_phases_merged [where L = "e_L E" and p = "reconcileClustersDelete E" and q = "reconcileAVIDelete E" and s = "(obj, r, w)",
        OF assms(2,5) assms(6) [unfolded v2]] obtain res err where
      p: "ReconcilePhases (e_L E) [reconcileClustersDelete E, reconcileAVIDelete E] (obj, r, w) = (Done (res, err), obj, r2, w2)"
      "err = None \<longleftrightarrow> err1 = None \<and> err2 = None"
      "err = None \<longrightarrow> res = LowestNonZeroResult (e_L E) (LowestNonZeroResult (e_L E) zeroResult res1) res2"
      unfolding o by blast
    then have "err = None \<and> \<not> Requeue res \<longleftrightarrow> err1 = None \<and> err2 = None \<and> \<not> Requeue res1 \<and> \<not> Requeue res2"
      using requeue_merge [OF assms(3), of res1 res2] by auto
    with p(1,2) fin v2 show ?thesis by (auto simp: reconcileDelete_def)
  qed (use assms(5,6) o fin in \<open>auto simp: reconcileDelete_def ReconcilePhases_def Let_def\<close>)
qed

text \<open>
  C36. A panic takes the finalizer off as well. After an AVI client could not be made, the field holds an
  interface to a nil pointer; the next deletion of an AKODeploymentConfig panics on it, and the
  deferred functions, which still run, remove the finalizer although the AVI side of the cleanup did
  not happen.
\<close>

theorem adc_panic_drops_finalizer:
  assumes "finalizer_laws (e_L E)" "AkoDeploymentConfigFinalizer \<in> set (Finalizers obj)" "aviClient r = NilClient"
    and "reconcileClustersDelete E (obj, r, w) = (Done v, obj, r, w1)"
  shows "\<exists>obj'. reconcileDelete E (obj, r, w) = (Crashed, obj', r, w1) \<and> AkoDeploymentConfigFinalizer \<notin> set (Finalizers obj')"
proof -
  have "reconcileAVIDelete E (obj, r, w1) = (Crashed, obj, r, w1)"
    by (simp add: reconcileAVIDelete_def initAVI_def assms(3))
  then have "ReconcilePhases (e_L E) [reconcileClustersDelete E, reconcileAVIDelete E] (obj, r, w) = (Crashed, obj, r, w1)"
    using assms(4) by (cases v) (simp add: ReconcilePhases_def Let_def)
  with assms(1,2) show ?thesis
    by (simp add: reconcileDelete_def removeAdcFinalizer_def finalizer_laws_def)
qed

definition deletedADC :: AKODeploymentConfig where
  "deletedADC = aviADC\<lparr>Finalizers := [AkoDeploymentConfigFinalizer], DeletionTimestamp := Some 1\<rparr>"

lemma no_clusters: "reconcileClustersDelete refEnv (deletedADC, r, caWorld) = (Done (zeroResult, None), deletedADC, r, caWorld)"
  by (simp add: reconcileClustersDelete_def on_clusters_def ReconcileClustersPhases_def ListAkoDeploymentConfigSelectClusters_def
      deletedADC_def aviADC_def example_defs ref_defs caWorld_def amem0_def mem.defs refEnv_def)

theorem adc_panic_drops_finalizer_witness:
  "\<exists>obj'. reconcileDelete refEnv (deletedADC, freshReconciler\<lparr>aviClient := NilClient\<rparr>, caWorld) =
      (Crashed, obj', freshReconciler\<lparr>aviClient := NilClient\<rparr>, caWorld) \<and> AkoDeploymentConfigFinalizer \<notin> set (Finalizers obj')"
proof -
  have "AkoDeploymentConfigFinalizer \<in> set (Finalizers deletedADC)" by (simp add: deletedADC_def)
  from adc_panic_drops_finalizer [OF _ this _ no_clusters, of "freshReconciler\<lparr>aviClient := NilClient\<rparr>"] show ?thesis by simp
qed

text \<open>Without the certificate of the controller the deletion has to wait.\<close>

theorem adc_finalizer_removed_witness:
  "\<exists>res e. reconcileDelete refEnv (deletedADC, freshReconciler, amem0) = (Done (res, Some e), deletedADC, freshReconciler, amem0)"
proof -
  have c: "reconcileClustersDelete refEnv (deletedADC, freshReconciler, amem0) = (Done (zeroResult, None), deletedADC, freshReconciler, amem0)"
    by (simp add: reconcileClustersDelete_def on_clusters_def ReconcileClustersPhases_def ListAkoDeploymentConfigSelectClusters_def
        deletedADC_def aviADC_def example_defs ref_defs amem0_def mem.defs refEnv_def)
  have "initAVI refEnv (deletedADC, freshReconciler, amem0) = (Done (zeroResult, Some not_found), deletedADC, freshReconciler, amem0)"
    by (simp add: initAVI_def freshReconciler_def getAviCAFromADC_def mem_kapi_def list_api_def amem0_def mem0_def mem.defs)
  then have a: "reconcileAVIDelete refEnv (deletedADC, freshReconciler, amem0) = (Done (zeroResult, Some not_found), deletedADC, freshReconciler, amem0)"
    by (simp add: reconcileAVIDelete_def)
  have "AkoDeploymentConfigFinalizer \<in> set (Finalizers deletedADC)" "e_L refEnv = ref_lib" by (simp_all add: deletedADC_def refEnv_def)
  then show ?thesis using adc_finalizer_removed [OF _ _ _ _ c a] by auto
qed

end
