(* ===== verification/Cluster_Controller.thy ===== *)
theory Cluster_Controller
  imports HA_Provider Phases
begin

text \<open>
  \<open>src/controllers/cluster/cluster_controller.go\<close>: the controller of Cluster objects. It keeps the
  control plane Service of a cluster, labels the cluster with the AKODeploymentConfig that takes it,
  and releases a cluster that none takes.
\<close>

section \<open>Definitions\<close>

text \<open>The body of \<open>Reconcile\<close> after the patch helper was made: the error and the cluster that is patched.\<close>

definition reconcileCluster ::
  "lib \<Rightarrow> 'w kapi \<Rightarrow> environ \<Rightarrow> 'w lookup \<Rightarrow> Cluster \<Rightarrow> 'w \<Rightarrow> (error option \<times> Cluster) \<times> 'w" where
  "reconcileCluster L K env lk cluster w =
     (case IsControlPlaneVIPProvider env cluster of
        Inl err \<Rightarrow> ((Some err, cluster), w)
      | Inr isVIPProvider \<Rightarrow>
          (case (if isVIPProvider then CreateOrUpdateHAService L K env lk cluster w else ((None, cluster), w)) of
             ((Some err, cluster), w) \<Rightarrow> ((Some err, cluster), w)
           | ((None, cluster), w) \<Rightarrow>
               (case IsLoadBalancerProvider cluster of
                  Inl err \<Rightarrow> ((Some err, cluster), w)
                | Inr False \<Rightarrow> ((None, cluster), w)
                | Inr True \<Rightarrow>
                    (case GetAKODeploymentConfigForCluster L K cluster w of
                       (Inl err, w) \<Rightarrow> ((Some err, cluster), w)
                     | (Inr None, w) \<Rightarrow>
                         ((None, (RemoveClusterLabel cluster)\<lparr>Finalizers :=
                                    RemoveFinalizer L (Finalizers cluster) ClusterFinalizer\<rparr>), w)
                     | (Inr (Some adc), w) \<Rightarrow> ((None, ApplyClusterLabel cluster adc), w)))))"

definition ClusterReconcile ::
  "lib \<Rightarrow> 'w kapi \<Rightarrow> environ \<Rightarrow> 'w lookup \<Rightarrow> key \<Rightarrow> 'w \<Rightarrow> verdict \<times> 'w" where
  "ClusterReconcile L K env lk req w =
     (case kGet (Clusters K) w req of
        (Inl err, w) \<Rightarrow> ((zeroResult, if IsNotFound L err then None else Some err), w)
      | (Inr cluster, w) \<Rightarrow>
          (case kNewHelper (Clusters K) w cluster of
             (Some err, w) \<Rightarrow>
               ((zeroResult, Wrap L (Some err) (''failed to init patch helper for '' @ Kind cluster @ '' '' @ fst req @ ''/'' @ snd req)), w)
           | (None, w) \<Rightarrow>
               (case reconcileCluster L K env lk cluster w of
                  ((reterr, cluster'), w) \<Rightarrow>
                    (case kPatch (Clusters K) w cluster cluster' of
                       (Some err, w) \<Rightarrow> ((zeroResult, if reterr = None then Some err else reterr), w)
                     | (None, w) \<Rightarrow> ((zeroResult, reterr), w)))))"

text \<open>The watch on Services.\<close>

definition skipService :: "Service \<Rightarrow> bool" where
  "skipService service \<longleftrightarrow> svc_Type service \<noteq> ''LoadBalancer'' \<or> \<not> strings_Contains (Name service) HAServiceName"

definition deleteAKOStatefulSet :: "lib \<Rightarrow> 'w kapi \<Rightarrow> string \<Rightarrow> string \<Rightarrow> 'w \<Rightarrow> error option \<times> 'w" where
  "deleteAKOStatefulSet L K name namespace w =
     (case kGet (StatefulSets K) w (namespace, name) of
        (Inl err, w) \<Rightarrow> (if IsNotFound L err then (None, w) else (Some err, w))
      | (Inr akoStatefulSet, w) \<Rightarrow> kDelete (StatefulSets K) w akoStatefulSet)"

definition annotation :: "'a ObjectMeta_scheme \<Rightarrow> string \<Rightarrow> string" where
  "annotation o' k = (case Annotations o' k of None \<Rightarrow> [] | Some v \<Rightarrow> v)"

definition serviceToCluster :: "lib \<Rightarrow> 'w kapi \<Rightarrow> environ \<Rightarrow> Service \<Rightarrow> 'w \<Rightarrow> key list \<times> 'w" where
  "serviceToCluster L K env service w =
     (if skipService service then ([], w)
      else if IsBootStrapCluster env \<and> being_deleted service
      then ([], snd (deleteAKOStatefulSet L K AkoStatefulSetName TKGSystemNamespace w))
      else case kGet (Clusters K) w (annotation service TKGClusterNameSpaceLabel, annotation service TKGClusterNameLabel) of
             (Inl err, w) \<Rightarrow> ([], w)
           | (Inr cluster, w) \<Rightarrow> ([(Namespace cluster, Name cluster)], w))"

section \<open>Lemmas\<close>

text \<open>The cases of a reconciliation, over what the HA provider leaves of the cluster.\<close>

definition released :: "lib \<Rightarrow> Cluster \<Rightarrow> Cluster" where
  "released L c = (RemoveClusterLabel c)\<lparr>Finalizers := RemoveFinalizer L (Finalizers c) ClusterFinalizer\<rparr>"

definition same_but_endpoint :: "Cluster \<Rightarrow> Cluster \<Rightarrow> bool" where
  "same_but_endpoint c c' \<longleftrightarrow> Name c' = Name c \<and> Namespace c' = Namespace c \<and> Labels c' = Labels c \<and>
     Finalizers c' = Finalizers c \<and> DeletionTimestamp c' = DeletionTimestamp c \<and> Conditions c' = Conditions c"

lemma reconcileCluster_cases:
  assumes "reconcileCluster L K env lk c w = ((e, c'), w')"
  obtains c1 where "same_but_endpoint c c1" "c' = c1" "e \<noteq> None \<or> IsLoadBalancerProvider c1 = Inr False"
  | c1 w1 where "same_but_endpoint c c1" "e = None" "IsLoadBalancerProvider c1 = Inr True"
      "GetAKODeploymentConfigForCluster L K c1 w1 = (Inr None, w')" "c' = released L c1"
  | c1 w1 adc where "same_but_endpoint c c1" "e = None" "IsLoadBalancerProvider c1 = Inr True"
      "GetAKODeploymentConfigForCluster L K c1 w1 = (Inr (Some adc), w')" "c' = ApplyClusterLabel c1 adc"
proof -
  have s: "same_but_endpoint c c" by (simp add: same_but_endpoint_def)
  show ?thesis
  proof (cases "IsControlPlaneVIPProvider env c")
    case (Inl err)
    with assms s that(1) show ?thesis by (auto simp: reconcileCluster_def)
  next
    case (Inr vip)
    obtain e1 c1 w1 where h: "(if vip then CreateOrUpdateHAService L K env lk c w else ((None, c), w)) = ((e1, c1), w1)"
      by (metis prod_cases3 prod.collapse)
    then have s1: "same_but_endpoint c c1"
      using s CreateOrUpdateHAService_frame [of L K env lk c w e1 c1 w1]
      by (auto simp: same_but_endpoint_def split: if_splits)
    obtain x w2 where g: "GetAKODeploymentConfigForCluster L K c1 w1 = (x, w2)" by fastforce
    show ?thesis
      using assms h g s1 that
      by (auto simp: reconcileCluster_def Inr released_def split: option.splits sum.splits bool.splits)
  qed
qed

section \<open>Properties\<close>

lemma match_adc_labels: "Labels c = Labels c' \<Longrightarrow> match_adc L c items d = match_adc L c' items d"
  by (induction items arbitrary: d) (auto split: sum.splits option.splits)

lemma match_adc_member: "match_adc L c items d = Some adc \<Longrightarrow> adc \<in> set items \<or> d = Some adc"
  by (induction items arbitrary: d) (auto split: sum.splits option.splits if_splits)

text \<open>
  C9. A reconciliation of a cluster without an error leaves its conditions and its deletion mark alone and
  records its owner. A cluster that uses kube-vip keeps its labels and finalizers. Any other one is
  labelled with the AKODeploymentConfig that matches it among those listed and keeps its
  finalizers, or, if none matches, loses the label and the finalizer.
\<close>

theorem cluster_ownership:
  assumes "finalizer_laws L" "reconcileCluster L K env lk c w = ((None, c'), w')"
  shows "Conditions c' = Conditions c \<and> DeletionTimestamp c' = DeletionTimestamp c \<and>
    (Labels c' = Labels c \<and> Finalizers c' = Finalizers c \<and> IsLoadBalancerProvider c' = Inr False \<or>
     (\<exists>items w1. ListADCs K w1 = (Inr items, w') \<and>
        (case match_adc L c items None of
           None \<Rightarrow> Labels c' = (Labels c)(AviClusterLabel := None) \<and> set (Finalizers c') = set (Finalizers c) - {ClusterFinalizer}
         | Some adc \<Rightarrow> adc \<in> set items \<and> Labels c' = (Labels c)(AviClusterLabel \<mapsto> Name adc) \<and> Finalizers c' = Finalizers c)))"
  using assms(2)
proof (cases rule: reconcileCluster_cases)
  case (1 c1)
  then show ?thesis by (auto simp: same_but_endpoint_def)
next
  case (2 c1 w1)
  then obtain items where "ListADCs K w1 = (Inr items, w')" "match_adc L c items None = None"
    using match_adc_labels [of c1 c L]
    by (auto simp: GetAKODeploymentConfigForCluster_def same_but_endpoint_def split: prod.splits sum.splits)
  with 2 assms(1) show ?thesis
    by (auto simp: same_but_endpoint_def released_def RemoveClusterLabel_def finalizer_laws_def
        intro!: exI [of _ items] exI [of _ w1])
next
  case (3 c1 w1 adc)
  then obtain items where "ListADCs K w1 = (Inr items, w')" "match_adc L c items None = Some adc"
    using match_adc_labels [of c1 c L]
    by (auto simp: GetAKODeploymentConfigForCluster_def same_but_endpoint_def split: prod.splits sum.splits)
  with 3 match_adc_member [of L c items None adc] show ?thesis
    by (auto simp: same_but_endpoint_def ApplyClusterLabel_def intro!: exI [of _ items] exI [of _ w1])
qed

definition ownedCluster :: Cluster where
  "ownedCluster = exampleCluster\<lparr>Labels := [''team'' \<mapsto> ''blue''], Finalizers := [ClusterFinalizer]\<rparr>"

definition no_dns :: "'w lookup" where
  "no_dns w fqdn = (Inl (Err ''no such host''), w)"

lemma owned_example:
  "reconcileCluster ref_lib mem_kapi Map.empty no_dns ownedCluster (mem0\<lparr>m_adcs := [exampleADC]\<rparr>) =
     ((None, ApplyClusterLabel ownedCluster exampleADC), mem0\<lparr>m_adcs := [exampleADC]\<rparr>)"
  by (simp add: reconcileCluster_def IsControlPlaneVIPProvider_def topology_var_def ownedCluster_def IsLoadBalancerProvider_def
      GetAKODeploymentConfigForCluster_def ref_defs example_defs Getenv_def)

theorem cluster_ownership_witness:
  "Labels (ApplyClusterLabel ownedCluster exampleADC) AviClusterLabel = Some ''blue'' \<and>
   Conditions (ApplyClusterLabel ownedCluster exampleADC) = Conditions ownedCluster"
  using cluster_ownership [OF _ owned_example]
  by (simp add: ApplyClusterLabel_def example_defs)

end
