(* ===== verification/Machine_Controller.thy ===== *)
theory Machine_Controller
  imports HA_Provider Phases
begin

text \<open>
  \<open>src/controllers/machine/machine_controller.go\<close>: the controller of Machine objects. It keeps the
  Endpoints of the control plane and the pre-terminate hook, an annotation that keeps Cluster API
  from terminating a machine while the AVI resources of its cluster are being cleaned up.
\<close>

section \<open>Definitions\<close>

definition removeHook :: "Machine \<Rightarrow> Machine" where
  "removeHook obj = obj\<lparr>Annotations := (Annotations obj)(PreTerminateAnnotation := None)\<rparr>"

definition reconcileMachineDeletionHook :: "lib \<Rightarrow> Machine \<Rightarrow> Cluster \<Rightarrow> Machine" where
  "reconcileMachineDeletionHook L obj cluster =
     (if ContainsFinalizer L (Finalizers cluster) ClusterFinalizer then obj
      else if HasWithPrefix L PreTerminateDeleteHookAnnotationPrefix (Annotations obj) then removeHook obj
      else obj)"

definition reconcileClusterDelete :: "lib \<Rightarrow> Machine \<Rightarrow> Cluster \<Rightarrow> Machine" where
  [simp]: "reconcileClusterDelete L obj cluster = reconcileMachineDeletionHook L obj cluster"

definition reconcileMachineNormal :: "Machine \<Rightarrow> Cluster \<Rightarrow> Machine" where
  "reconcileMachineNormal obj cluster =
     (if Annotations obj PreTerminateDeleteHookAnnotationPrefix = None then
        (if Namespace cluster \<noteq> TKGSystemNamespace
         then obj\<lparr>Annotations := (Annotations obj)(PreTerminateAnnotation \<mapsto> ''ako-operator'')\<rparr> else obj)
      else obj)"

text \<open>\<open>Reconcile\<close> once the cluster of the machine is known: the error and the machine that is patched.\<close>

definition reconcileMachine ::
  "lib \<Rightarrow> 'w kapi \<Rightarrow> environ \<Rightarrow> Cluster \<Rightarrow> Machine \<Rightarrow> 'w \<Rightarrow> (error option) outcome \<times> Machine \<times> 'w" where
  "reconcileMachine L K env cluster obj w =
     (case IsControlPlaneVIPProvider env cluster of
        Inl err \<Rightarrow> (Ret (Some err), obj, w)
      | Inr isVIPProvider \<Rightarrow>
          (case (if isVIPProvider then CreateOrUpdateHAEndpoints L K obj w else (Ret None, w)) of
             (Panic, w) \<Rightarrow> (Panic, obj, w)
           | (Ret (Some err), w) \<Rightarrow> (Ret (Some err), obj, w)
           | (Ret None, w) \<Rightarrow>
               (case IsLoadBalancerProvider cluster of
                  Inl err \<Rightarrow> (Ret (Some err), obj, w)
                | Inr False \<Rightarrow> (Ret None, obj, w)
                | Inr True \<Rightarrow>
                    (if Labels cluster AviClusterLabel = None then (Ret None, removeHook obj, w)
                     else if being_deleted obj \<and> \<not> being_deleted cluster then (Ret None, removeHook obj, w)
                     else if being_deleted cluster then (Ret None, reconcileClusterDelete L obj cluster, w)
                     else (Ret None, reconcileMachineNormal obj cluster, w)))))"

text \<open>\<open>Reconcile\<close> after the patch helper was made.\<close>

definition reconcileMachineObject ::
  "lib \<Rightarrow> 'w kapi \<Rightarrow> environ \<Rightarrow> Machine \<Rightarrow> 'w \<Rightarrow> (error option) outcome \<times> Machine \<times> 'w" where
  "reconcileMachineObject L K env obj w =
     (case Labels obj ClusterNameLabel of
        None \<Rightarrow> (Ret None, obj, w)
      | Some clusterName \<Rightarrow>
          (case kGet (Clusters K) w (Namespace obj, clusterName) of
             (Inl err, w) \<Rightarrow> (Ret (Some err), obj, w)
           | (Inr cluster, w) \<Rightarrow> reconcileMachine L K env cluster obj w))"

text \<open>The deferred patch also runs after a panic.\<close>

definition MachineReconcile :: "lib \<Rightarrow> 'w kapi \<Rightarrow> environ \<Rightarrow> key \<Rightarrow> 'w \<Rightarrow> verdict run \<times> 'w" where
  "MachineReconcile L K env req w =
     (case kGet (Machines K) w req of
        (Inl err, w) \<Rightarrow> (Done (zeroResult, if IsNotFound L err then None else Some err), w)
      | (Inr obj, w) \<Rightarrow>
          (case kNewHelper (Machines K) w obj of
             (Some err, w) \<Rightarrow>
               (Done (zeroResult, Wrap L (Some err) (''failed to init patch helper for '' @ Kind obj @ '' '' @ fst req @ ''/'' @ snd req)), w)
           | (None, w) \<Rightarrow>
               (case reconcileMachineObject L K env obj w of
                  (res, obj', w) \<Rightarrow>
                    (case kPatch (Machines K) w obj obj' of
                       (patchErr, w) \<Rightarrow>
                         (case res of
                            Panic \<Rightarrow> (Crashed, w)
                          | Ret reterr \<Rightarrow> (Done (zeroResult, if reterr = None then patchErr else reterr), w))))))"

section \<open>Properties\<close>

definition hooked :: "Machine \<Rightarrow> bool" where
  "hooked m \<longleftrightarrow> Annotations m PreTerminateAnnotation \<noteq> None"

text \<open>\<open>annotations.HasWithPrefix\<close>: ``returns true if at least one of the annotations has the prefix specified''.\<close>

definition prefix_laws :: "lib \<Rightarrow> bool" where
  "prefix_laws L \<longleftrightarrow> (\<forall>p m. HasWithPrefix L p m \<longleftrightarrow> (\<exists>k \<in> dom m. prefix p k))"

lemma hook_has_prefix: "prefix_laws L \<Longrightarrow> hooked m \<Longrightarrow> HasWithPrefix L PreTerminateDeleteHookAnnotationPrefix (Annotations m)"
proof -
  have "prefix PreTerminateDeleteHookAnnotationPrefix PreTerminateAnnotation"
    by (simp add: PreTerminateDeleteHookAnnotationPrefix_def PreTerminateAnnotation_def)
  then show "prefix_laws L \<Longrightarrow> hooked m \<Longrightarrow> ?thesis" by (auto simp: prefix_laws_def hooked_def)
qed

text \<open>
  When a machine should have the hook: its cluster uses AVI, and either the cluster is being deleted and not
  yet cleaned up (a hook that is there is kept), or neither is being deleted (a hook is added, except in
  the management cluster). A machine deleted on its own is not held back.
\<close>

definition hook_wanted :: "Cluster \<Rightarrow> Machine \<Rightarrow> bool" where
  "hook_wanted cluster m \<longleftrightarrow>
     Labels cluster AviClusterLabel \<noteq> None \<and>
     (if being_deleted cluster then hooked m \<and> ClusterFinalizer \<in> set (Finalizers cluster)
      else \<not> being_deleted m \<and> (hooked m \<or> Namespace cluster \<noteq> TKGSystemNamespace))"

lemma reconcileMachine_result:
  assumes "reconcileMachine L K env cluster m w = (r, m', w')"
  shows "m' = m \<or> r = Ret None \<and> IsLoadBalancerProvider cluster = Inr True \<and>
    m' = (if Labels cluster AviClusterLabel = None \<or> being_deleted m \<and> \<not> being_deleted cluster then removeHook m
          else if being_deleted cluster then reconcileMachineDeletionHook L m cluster
          else reconcileMachineNormal m cluster)"
  using assms by (auto simp: reconcileMachine_def split: sum.splits prod.splits outcome.splits option.splits bool.splits if_splits)

lemma reconcileMachine_ok:
  assumes "IsLoadBalancerProvider cluster = Inr True" "reconcileMachine L K env cluster m w = (Ret None, m', w')"
  shows "m' = (if Labels cluster AviClusterLabel = None \<or> being_deleted m \<and> \<not> being_deleted cluster then removeHook m
      else if being_deleted cluster then reconcileMachineDeletionHook L m cluster
      else reconcileMachineNormal m cluster)"
  using assms by (auto simp: reconcileMachine_def split: sum.splits prod.splits outcome.splits option.splits if_splits)

lemma reconcileMachine_hook:
  assumes "finalizer_laws L" "prefix_laws L"
    and "IsLoadBalancerProvider cluster = Inr True" "reconcileMachine L K env cluster m w = (Ret None, m', w')"
  shows "hooked m' \<longleftrightarrow> hook_wanted cluster m \<and> (hooked m \<or> Annotations m PreTerminateDeleteHookAnnotationPrefix = None)"
proof -
  have "\<not> HasWithPrefix L PreTerminateDeleteHookAnnotationPrefix (Annotations m) \<Longrightarrow> \<not> hooked m"
    using hook_has_prefix [OF assms(2)] by blast
  then show ?thesis
    using assms(1) unfolding reconcileMachine_ok [OF assms(3,4)]
    by (auto simp: hook_wanted_def hooked_def removeHook_def reconcileMachineDeletionHook_def reconcileMachineNormal_def finalizer_laws_def)
qed

text \<open>
  C8. The hook is there exactly as long as it is wanted: after a reconciliation without an error of a machine
  whose cluster uses AVI as load balancer, and that carries no annotation named by the bare prefix of the
  hooks, the machine has the hook if and only if it should. For every machine, the bare annotation or
  not, an unwanted hook is gone afterwards and a wanted one that was there is kept; what the bare annotation
  suppresses is the adding (\<open>bare_prefix_suppresses_hook\<close>). Nothing but the hook is changed.
\<close>

theorem machine_hook_correct:
  assumes "finalizer_laws L" "prefix_laws L"
    and "IsLoadBalancerProvider cluster = Inr True" "reconcileMachine L K env cluster m w = (Ret None, m', w')"
  shows "(Annotations m PreTerminateDeleteHookAnnotationPrefix = None \<longrightarrow> (hooked m' \<longleftrightarrow> hook_wanted cluster m)) \<and>
    (hooked m' \<longrightarrow> hook_wanted cluster m) \<and> (hooked m \<and> hook_wanted cluster m \<longrightarrow> hooked m') \<and>
    (\<exists>a. m' = m\<lparr>Annotations := a\<rparr> \<and> (\<forall>k. k \<noteq> PreTerminateAnnotation \<longrightarrow> a k = Annotations m k))"
proof -
  have "m' = m\<lparr>Annotations := Annotations m'\<rparr>" "k \<noteq> PreTerminateAnnotation \<Longrightarrow> Annotations m' k = Annotations m k" for k
    unfolding reconcileMachine_ok [OF assms(3,4)]
    by (auto simp: removeHook_def reconcileMachineDeletionHook_def reconcileMachineNormal_def)
  with reconcileMachine_hook [OF assms] show ?thesis by blast
qed

text \<open>The reference library with the documented \<open>HasWithPrefix\<close>.\<close>

definition prefixLib :: lib where
  "prefixLib = ref_lib\<lparr>HasWithPrefix := \<lambda>p m. \<exists>k \<in> dom m. prefix p k\<rparr>"

lemma prefixLib_laws: "finalizer_laws prefixLib" "prefix_laws prefixLib"
  using ref_finalizer_laws by (auto simp: prefixLib_def prefix_laws_def finalizer_laws_def)

definition labelled :: "Cluster \<Rightarrow> Cluster" where
  "labelled c = c\<lparr>Labels := [AviClusterLabel \<mapsto> ''blue'']\<rparr>"

lemma machine_example:
  "\<exists>m'. reconcileMachine prefixLib mem_kapi Map.empty (labelled exampleCluster) (nodeMachine []) mem0 = (Ret None, m', mem0)"
  by (simp add: reconcileMachine_def IsControlPlaneVIPProvider_def IsLoadBalancerProvider_def topology_var_def labelled_def
      example_defs Getenv_def)

theorem machine_hook_correct_witness:
  "\<exists>m'. reconcileMachine prefixLib mem_kapi Map.empty (labelled exampleCluster) (nodeMachine []) mem0 = (Ret None, m', mem0) \<and> hooked m'"
proof -
  obtain m' where r: "reconcileMachine prefixLib mem_kapi Map.empty (labelled exampleCluster) (nodeMachine []) mem0 = (Ret None, m', mem0)"
    using machine_example by blast
  have lb: "IsLoadBalancerProvider (labelled exampleCluster) = Inr True"
    by (simp add: IsLoadBalancerProvider_def topology_var_def labelled_def example_defs)
  have "hook_wanted (labelled exampleCluster) (nodeMachine [])" "Annotations (nodeMachine []) PreTerminateDeleteHookAnnotationPrefix = None"
    by (simp_all add: hook_wanted_def labelled_def example_defs being_deleted_def nodeMachine_def TKGSystemNamespace_def)
  with machine_hook_correct [OF prefixLib_laws lb r] r show ?thesis by blast
qed

text \<open>
  The test for an existing hook looks at the wrong annotation: it asks for the bare prefix of the hooks,
  not for the hook itself. A machine that has an annotation with just that name never gets the hook.
\<close>

theorem bare_prefix_suppresses_hook:
  assumes "Annotations m PreTerminateDeleteHookAnnotationPrefix \<noteq> None" "\<not> hooked m"
    and "reconcileMachine L K env cluster m w = (r, m', w')"
  shows "\<not> hooked m'"
  using reconcileMachine_result [OF assms(3)] assms(1,2)
  by (auto simp: hooked_def removeHook_def reconcileMachineDeletionHook_def reconcileMachineNormal_def split: if_splits)

definition bareMachine :: Machine where
  "bareMachine = (nodeMachine [])\<lparr>Annotations := [PreTerminateDeleteHookAnnotationPrefix \<mapsto> []]\<rparr>"

theorem bare_prefix_suppresses_hook_witness:
  "\<exists>r m' w'. reconcileMachine prefixLib mem_kapi Map.empty (labelled exampleCluster) bareMachine mem0 = (r, m', w') \<and> \<not> hooked m'"
proof -
  obtain r m' w' where e: "reconcileMachine prefixLib mem_kapi Map.empty (labelled exampleCluster) bareMachine mem0 = (r, m', w')"
    by (metis prod_cases3)
  have "Annotations bareMachine PreTerminateDeleteHookAnnotationPrefix \<noteq> None" "\<not> hooked bareMachine"
    by (simp_all add: bareMachine_def hooked_def PreTerminateAnnotation_def)
  from bare_prefix_suppresses_hook [OF this e] e show ?thesis by blast
qed

end
