(* ===== verification/Lifecycle.thy ===== *)
theory Lifecycle
  imports Adc_Controller Cluster_Controller Machine_Controller
begin

text \<open>
  The three controllers together, on one workload cluster and one of its machines. A step is one
  reconciliation (with any answers of the API server, the workload cluster and the AVI controller),
  the request to delete the cluster or the machine, or a change by somebody else to what the
  operator does not own. A reconciliation works on the current objects and its result is written
  back as a whole; that a patch fails is a reconciliation without a step.
\<close>

section \<open>Labels\<close>

text \<open>No phase of the AKODeploymentConfig controller touches the labels, and the controller sets its own.\<close>

definition label_kept :: "Cluster \<Rightarrow> Cluster \<Rightarrow> bool" where
  "label_kept c c' \<longleftrightarrow> being_deleted c' = being_deleted c \<and>
     (Labels c AviClusterLabel \<noteq> None \<longrightarrow> Labels c' AviClusterLabel \<noteq> None)"

interpretation label: cluster_relation label_kept
  by unfold_locales (auto simp: label_kept_def being_deleted_def ApplyClusterLabel_def)

lemma triggerUserCleanup_labels [simp]: "Labels (triggerUserCleanup L c) = Labels c"
  by (simp add: triggerUserCleanup_def)

lemma reconcileAviUserDelete_labels: "reconcileAviUserDelete L K cl c obj w = (r, c', w') \<Longrightarrow> Labels c' = Labels c"
  by (auto simp: reconcileAviUserDelete_def Let_def split: if_splits prod.splits sum.splits option.splits)

lemma ReconcileAviUserDelete_labels: "ReconcileAviUserDelete L K cl c obj w = (r, c', w') \<Longrightarrow> Labels c' = Labels c"
  by (auto simp: ReconcileAviUserDelete_def Let_def dest: reconcileAviUserDelete_labels split: if_splits)

lemma ReconcileAviUser_labels: "ReconcileAviUser L K cl ord rnd c obj w = (r, c', w') \<Longrightarrow> Labels c' = Labels c"
  by (auto simp: ReconcileAviUser_def dest: ReconcileAviUserDelete_labels split: if_splits prod.splits)

lemma ReconcileDelete_labels: "ReconcileDelete L K Y c obj w = (r, c', w') \<Longrightarrow> Labels c' = Labels c"
  by (auto simp: ReconcileDelete_def dest: cleanup_frame split: if_splits prod.splits outcome.splits sum.splits)

lemma ReconcileAddonSecret_labels: "ReconcileAddonSecret L K env Y c obj w = (r, c', w') \<Longrightarrow> Labels c' = Labels c"
  by (auto simp: ReconcileAddonSecret_def split: prod.splits sum.splits option.splits if_splits)

interpretation add_finalizer_l: cluster_phase "addClusterFinalizer L" d label_kept for L d
  by unfold_locales (auto simp: addClusterFinalizer_def label_kept_def being_deleted_def)

interpretation remove_finalizer_l: cluster_phase "removeClusterFinalizer L" d label_kept for L d
  by unfold_locales (auto simp: removeClusterFinalizer_def label_kept_def being_deleted_def)

interpretation addon_l: cluster_phase "ReconcileAddonSecret L K env Y" d label_kept for L K env Y d
  by unfold_locales (auto simp: label_kept_def being_deleted_def dest: ReconcileAddonSecret_labels ReconcileAddonSecret_timestamp)

interpretation addon_delete_l: cluster_phase "ReconcileAddonSecretDelete L K" d label_kept for L K d
  by unfold_locales (auto simp: label_kept_def dest: ReconcileAddonSecretDelete_same)

interpretation delete_l: cluster_phase "ReconcileDelete L K Y" d label_kept for L K Y d
  by unfold_locales (auto simp: label_kept_def being_deleted_def dest: ReconcileDelete_labels ReconcileDelete_timestamp)

interpretation user_delete_l: cluster_phase "ReconcileAviUserDelete L K cl" d label_kept for L K cl d
  by unfold_locales (auto simp: label_kept_def being_deleted_def dest: ReconcileAviUserDelete_labels ReconcileAviUserDelete_timestamp)

interpretation user_l: cluster_phase "ReconcileAviUser L K cl ord rnd" d label_kept for L K cl ord rnd d
  by unfold_locales (auto simp: label_kept_def being_deleted_def dest: ReconcileAviUser_labels ReconcileAviUser_timestamp)

lemmas label_phases =
  add_finalizer_l.cluster_phase_axioms remove_finalizer_l.cluster_phase_axioms addon_l.cluster_phase_axioms
  addon_delete_l.cluster_phase_axioms delete_l.cluster_phase_axioms user_delete_l.cluster_phase_axioms user_l.cluster_phase_axioms

lemma phase_lists_label:
  assumes "(normal, del) \<in> set (phase_lists E cl)" "cluster_phases (e_L E) obj normal del res c w = (r, c', w')"
  shows "label_kept c c'"
proof (rule label.cluster_phases_keep [OF _ _ assms(2)])
  show "cluster_phase p False label_kept" if "p \<in> set normal" for p
    using assms(1) that label_phases by (auto simp: phase_lists_def Let_def)
  show "cluster_phase p True label_kept" if "p \<in> set del" for p
    using assms(1) that label_phases by (auto simp: phase_lists_def Let_def)
qed

section \<open>The system\<close>

text \<open>
  The state, with its history: whether the cluster was labelled and held by the finalizer when its
  deletion was requested, whether the machine had the hook then, and whether the cluster controller
  has released the cluster (taken its label off, because no AKODeploymentConfig matched).
\<close>

record life =
  l_cluster :: Cluster
  l_machine :: Machine
  l_held :: bool
  l_hooked :: bool
  l_released :: bool

definition same_tracked :: "lib \<Rightarrow> Cluster \<Rightarrow> Cluster \<Rightarrow> bool" where
  "same_tracked L c c' \<longleftrightarrow>
     being_deleted c' = being_deleted c \<and> Labels c' AviClusterLabel = Labels c AviClusterLabel \<and>
     (ClusterFinalizer \<in> set (Finalizers c') \<longleftrightarrow> ClusterFinalizer \<in> set (Finalizers c)) \<and>
     (resources_clean L c' \<longleftrightarrow> resources_clean L c) \<and> (user_clean L c' \<longleftrightarrow> user_clean L c)"

inductive life_step :: "'w adc_env \<Rightarrow> 'w lookup \<Rightarrow> life \<Rightarrow> life \<Rightarrow> bool" for E lk where
  adc_reconcile:
    "(normal, del) \<in> set (phase_lists E cl) \<Longrightarrow>
     cluster_phases (e_L E) obj normal del res (l_cluster s) w = (r, c', w') \<Longrightarrow>
     life_step E lk s (s\<lparr>l_cluster := c'\<rparr>)"
| cluster_reconcile:
    "reconcileCluster (e_L E) (e_K E) (e_env E) lk (l_cluster s) w = ((e, c'), w') \<Longrightarrow>
     life_step E lk s (s\<lparr>l_cluster := c',
       l_released := (l_released s \<or> Labels (l_cluster s) AviClusterLabel \<noteq> None \<and> Labels c' AviClusterLabel = None)\<rparr>)"
| machine_reconcile:
    "reconcileMachine (e_L E) (e_K E) (e_env E) (l_cluster s) (l_machine s) w = (v, m', w') \<Longrightarrow>
     life_step E lk s (s\<lparr>l_machine := m'\<rparr>)"
| delete_cluster:
    "\<not> being_deleted (l_cluster s) \<Longrightarrow>
     life_step E lk s (s\<lparr>l_cluster := (l_cluster s)\<lparr>DeletionTimestamp := Some t\<rparr>,
       l_held := (Labels (l_cluster s) AviClusterLabel \<noteq> None \<and> ClusterFinalizer \<in> set (Finalizers (l_cluster s))),
       l_hooked := hooked (l_machine s)\<rparr>)"
| delete_machine:
    "life_step E lk s (s\<lparr>l_machine := (l_machine s)\<lparr>DeletionTimestamp := Some t\<rparr>\<rparr>)"
| other_writer:
    "same_tracked (e_L E) (l_cluster s) c' \<Longrightarrow> hooked m' = hooked (l_machine s) \<Longrightarrow>
     life_step E lk s (s\<lparr>l_cluster := c', l_machine := m'\<rparr>)"

text \<open>A cluster starts its life in use and with nothing cleaned up.\<close>

inductive reachable :: "'w adc_env \<Rightarrow> 'w lookup \<Rightarrow> life \<Rightarrow> bool" for E lk where
  start:
    "\<not> being_deleted c \<Longrightarrow> \<not> user_clean (e_L E) c \<Longrightarrow>
     reachable E lk \<lparr>l_cluster = c, l_machine = m, l_held = False, l_hooked = False, l_released = False\<rparr>"
| step: "reachable E lk s \<Longrightarrow> life_step E lk s s' \<Longrightarrow> reachable E lk s'"

section \<open>The invariant\<close>

definition cleaned :: "lib \<Rightarrow> Cluster \<Rightarrow> bool" where
  "cleaned L c \<longleftrightarrow> resources_clean L c \<and> user_clean L c"

definition life_inv :: "lib \<Rightarrow> life \<Rightarrow> bool" where
  "life_inv L s \<longleftrightarrow>
     (user_clean L (l_cluster s) \<longrightarrow> resources_clean L (l_cluster s)) \<and>
     (l_held s \<longrightarrow> being_deleted (l_cluster s)) \<and>
     (l_held s \<and> \<not> l_released s \<longrightarrow>
        Labels (l_cluster s) AviClusterLabel \<noteq> None \<and>
        (ClusterFinalizer \<in> set (Finalizers (l_cluster s)) \<or> cleaned L (l_cluster s))) \<and>
     (l_held s \<and> \<not> l_released s \<and> l_hooked s \<longrightarrow> hooked (l_machine s) \<or> cleaned L (l_cluster s))"

lemma inv_adc:
  assumes "condition_laws (e_L E)" "finalizer_laws (e_L E)" "life_inv (e_L E) s"
    and "(normal, del) \<in> set (phase_lists E cl)"
    and "cluster_phases (e_L E) obj normal del res (l_cluster s) w = (r, c', w')"
  shows "life_inv (e_L E) (s\<lparr>l_cluster := c'\<rparr>)"
  using phase_lists_protocol [OF assms(4,5)] phase_lists_label [OF assms(4,5)] assms(1-3)
  by (auto simp: protocol_def cleanup_step_def life_inv_def cleaned_def label_kept_def)

lemma inv_cluster:
  assumes "finalizer_laws L" "life_inv L s" "reconcileCluster L K env lk (l_cluster s) w = ((e, c'), w')"
  shows "life_inv L (s\<lparr>l_cluster := c',
    l_released := (l_released s \<or> Labels (l_cluster s) AviClusterLabel \<noteq> None \<and> Labels c' AviClusterLabel = None)\<rparr>)"
  using assms(3)
  by (cases rule: reconcileCluster_cases; use assms(1,2) in
      \<open>auto simp: life_inv_def cleaned_def same_but_endpoint_def resources_clean_def user_clean_def being_deleted_def
        released_def RemoveClusterLabel_def ApplyClusterLabel_def\<close>)

lemma inv_machine:
  assumes "finalizer_laws L" "life_inv L s" "reconcileMachine L K env (l_cluster s) (l_machine s) w = (v, m', w')"
  shows "life_inv L (s\<lparr>l_machine := m'\<rparr>)"
  using reconcileMachine_result [OF assms(3)] assms(1,2)
  by (auto simp: life_inv_def reconcileMachineDeletionHook_def finalizer_laws_def split: if_splits)

lemma life_step_inv:
  assumes "condition_laws (e_L E)" "finalizer_laws (e_L E)" "life_step E lk s s'" "life_inv (e_L E) s"
  shows "life_inv (e_L E) s'"
  using assms(3,4)
proof cases
  case adc_reconcile
  then show ?thesis using inv_adc [OF assms(1,2,4)] by simp
next
  case cluster_reconcile
  then show ?thesis using inv_cluster [OF assms(2,4)] by simp
next
  case machine_reconcile
  then show ?thesis using inv_machine [OF assms(2,4)] by simp
next
  case (delete_cluster t)
  then show ?thesis using assms(4) by (auto simp: life_inv_def cleaned_def resources_clean_def user_clean_def being_deleted_def)
next
  case (delete_machine t)
  then show ?thesis using assms(4) by (simp add: life_inv_def hooked_def)
next
  case (other_writer c' m')
  then show ?thesis using assms(4) by (auto simp: life_inv_def cleaned_def same_tracked_def)
qed

lemma reachable_inv:
  assumes "condition_laws (e_L E)" "finalizer_laws (e_L E)" "reachable E lk s"
  shows "life_inv (e_L E) s"
  using assms(3)
proof induction
  case (start c m)
  then show ?case by (simp add: life_inv_def)
next
  case (step s s')
  then show ?case using life_step_inv [OF assms(1,2)] by blast
qed

section \<open>Properties\<close>

text \<open>
  C1. Nothing is torn down before it is cleaned up. Take any interleaving of reconciliations of the three
  controllers, deletions and changes by others. If the cluster was labelled and held by the
  finalizer when its deletion was requested, and was not released since because no
  AKODeploymentConfig matched it, then the finalizer goes, and the hook of a machine that had it
  goes, only when both the AVI resources and the AVI user of the cluster are cleaned up. In every
  reachable state the user is cleaned up only after the resources.
\<close>

theorem no_teardown_before_cleanup:
  assumes "condition_laws (e_L E)" "finalizer_laws (e_L E)" "reachable E lk s"
  shows "(user_clean (e_L E) (l_cluster s) \<longrightarrow> resources_clean (e_L E) (l_cluster s)) \<and>
    (l_held s \<and> \<not> l_released s \<and>
       (ClusterFinalizer \<notin> set (Finalizers (l_cluster s)) \<or> l_hooked s \<and> \<not> hooked (l_machine s)) \<longrightarrow>
     cleaned (e_L E) (l_cluster s))"
  using reachable_inv [OF assms] by (auto simp: life_inv_def)

text \<open>A run: the cluster is in use, then its deletion is requested, and the machine is reconciled.\<close>

definition heldCluster :: Cluster where
  "heldCluster = exampleCluster\<lparr>Finalizers := [ClusterFinalizer], Labels := [AviClusterLabel \<mapsto> ''blue'']\<rparr>"

definition hookedMachine :: Machine where
  "hookedMachine = (nodeMachine [])\<lparr>Annotations := [PreTerminateAnnotation \<mapsto> ''ako-operator'']\<rparr>"

definition heldState :: life where
  "heldState = \<lparr>l_cluster = heldCluster\<lparr>DeletionTimestamp := Some 1\<rparr>, l_machine = hookedMachine,
     l_held = True, l_hooked = True, l_released = False\<rparr>"

lemma heldState_reachable: "reachable refEnv no_dns heldState"
proof -
  let ?s = "\<lparr>l_cluster = heldCluster, l_machine = hookedMachine, l_held = False, l_hooked = False, l_released = False\<rparr>"
  have "reachable refEnv no_dns ?s"
    by (rule reachable.start) (simp_all add: being_deleted_def user_clean_def heldCluster_def example_defs ref_lib_def ref_status_def)
  moreover have "life_step refEnv no_dns ?s heldState"
    using life_step.delete_cluster [of ?s refEnv no_dns 1]
    by (simp add: heldState_def being_deleted_def hooked_def hookedMachine_def heldCluster_def example_defs)
  ultimately show ?thesis by (rule reachable.step)
qed

theorem no_teardown_before_cleanup_witness:
  "reachable refEnv no_dns heldState \<and> l_held heldState \<and> \<not> l_released heldState \<and> \<not> cleaned ref_lib (l_cluster heldState) \<and>
   ClusterFinalizer \<in> set (Finalizers (l_cluster heldState)) \<and> hooked (l_machine heldState)"
proof -
  have "l_held heldState" "\<not> l_released heldState" "l_hooked heldState" "\<not> cleaned ref_lib (l_cluster heldState)"
    by (simp_all add: heldState_def cleaned_def resources_clean_def heldCluster_def example_defs ref_lib_def ref_status_def)
  moreover have "condition_laws (e_L refEnv)" "finalizer_laws (e_L refEnv)" by simp_all
  note no_teardown_before_cleanup [OF this heldState_reachable]
  ultimately show ?thesis using heldState_reachable by auto
qed

subsection \<open>Progress\<close>

lemma remoteCleanup_cong:
  assumes "Name c' = Name c" "Namespace c' = Namespace c" "Topology c' = Topology c"
  shows "remoteCleanup L K Y c' w = remoteCleanup L K Y c w"
proof -
  have cc: "IsClusterClassBasedCluster c' = IsClusterClassBasedCluster c"
    by (simp add: IsClusterClassBasedCluster_def assms)
  have ytt: "YttYaml Y v c' = YttYaml Y v c" for v unfolding YttYaml_def cc by (rule refl)
  have req: "requestDeletion Y r c' s v w = requestDeletion Y r c s v w" for r :: "'a remote" and s v w
    unfolding requestDeletion_def ytt assms by (rule refl)
  show ?thesis unfolding remoteCleanup_def cc AKOAddonSecretNameForClusterClass_def assms req by (rule refl)
qed

lemma cleanup_done:
  assumes "condition_laws L" "remoteCleanup L K Y c w = (Ret (Inr True), w')" "\<not> resources_clean L c"
  shows "\<exists>c'. cleanup L K Y c w = (Ret (Inr True), c', w') \<and> resources_clean L c'"
  using assms remoteCleanup_cong [of "c\<lparr>Conditions := cs\<rparr>" c L K Y w for cs]
  by (auto simp: cleanup_def Let_def resources_clean_def condition_laws_def)

text \<open>
  C12. A deletion comes to its end. Once AKO reports that it has cleaned up (or its configuration is gone),
  and the credentials can be deleted, one reconciliation of the resources, one of the user and one
  more of the resources take the finalizer off a cluster that is being deleted.
\<close>

theorem deletion_completes:
  assumes "condition_laws L" "finalizer_laws L"
    and "being_deleted c" "ClusterFinalizer \<in> set (Finalizers c)" "\<not> resources_clean L c" "\<not> user_clean L c"
    and "Namespace c \<noteq> TKGSystemNamespace" "WorkloadCredentialRef (Spec obj) = None"
    and ako: "remoteCleanup L K Y c w = (Ret (Inr True), w1)"
    and sec: "mcAVISecretNameNameSpace (Name c) (Namespace c) = (sn, sns)" "kGet (Secrets K) w1 (sns, sn) = (Inr secret, w2)"
    and del: "UserDeleteByName cl (data_get secret ''username'') w2 = (None, w3)" "kDelete (Secrets K) w3 secret = (None, w4)"
  shows "\<exists>r1 c1 c2 c3.
     ReconcileDelete L K Y c obj w = (r1, c1, w1) \<and>
     ReconcileAviUserDelete L K cl c1 obj w1 = (Done (zeroResult, None), c2, w4) \<and>
     ReconcileDelete L K Y c2 obj w4 = (Done (zeroResult, None), c3, w4) \<and>
     ClusterFinalizer \<notin> set (Finalizers c3) \<and> cleaned L c3"
proof -
  have fin: "ContainsFinalizer L fs f \<longleftrightarrow> f \<in> set fs" "set (RemoveFinalizer L fs f) = set fs - {f}" for fs f
    using assms(2) by (simp_all add: finalizer_laws_def)
  obtain c1 where cl: "cleanup L K Y c w = (Ret (Inr True), c1, w1)" and rc: "resources_clean L c1"
    using cleanup_done [OF assms(1) ako assms(5)] by blast
  note f = cleanup_frame [OF cl]
  have uc: "\<not> user_clean L c1" using cleanup_conditions(2) [OF assms(1) cl] assms(6) by simp
  then have "\<exists>r1. ReconcileDelete L K Y c obj w = (r1, c1, w1)"
    by (simp add: ReconcileDelete_def fin assms(4) cl user_clean_def)
  moreover
  define t where "t = triggerUserCleanup L c1"
  define c2 where "c2 = t\<lparr>Conditions := cond_MarkTrue L (Conditions t) AviUserCleanupSucceededCondition\<rparr>"
  have t: "resources_clean L t" "\<not> user_clean L t" "Name t = Name c" "Namespace t = Namespace c" "Finalizers t = Finalizers c"
    using rc uc f assms(1) by (auto simp: t_def triggerUserCleanup_def resources_clean_def user_clean_def condition_laws_def)
  have "being_deleted c1" using f assms(3) by (simp add: being_deleted_def)
  then have "ReconcileAviUserDelete L K cl c1 obj w1 = (Done (zeroResult, None), c2, w4)"
    using t assms(7,8) sec del
    by (simp add: ReconcileAviUserDelete_def reconcileAviUserDelete_def t_def [symmetric] c2_def resources_clean_def user_clean_def)
  moreover have c2: "resources_clean L c2" "user_clean L c2" "Finalizers c2 = Finalizers c"
    using t assms(1) by (auto simp: c2_def resources_clean_def user_clean_def condition_laws_def)
  then have "ReconcileDelete L K Y c2 obj w4 =
      (Done (zeroResult, None), c2\<lparr>Finalizers := RemoveFinalizer L (Finalizers c2) ClusterFinalizer\<rparr>, w4)"
    using assms(1,4) by (simp add: ReconcileDelete_def cleanup_def fin resources_clean_def user_clean_def condition_laws_def)
  ultimately show ?thesis using c2 fin by (auto simp: cleaned_def resources_clean_def user_clean_def)
qed

definition userSecretRef :: SecretRef where
  "userSecretRef = (case mcAVISecretNameNameSpace (Name deletedCluster) (Namespace deletedCluster) of
     (n, ns) \<Rightarrow> \<lparr>ref_Name = n, ref_Namespace = ns\<rparr>)"

definition userWorld :: amem where
  "userWorld = amem0\<lparr>m_secrets := [exampleSecret userSecretRef [(''username'', ''wc-default-ako-user'')]]\<rparr>"

theorem deletion_completes_witness:
  "\<exists>r1 c1 c2 c3 w4.
     ReconcileDelete ref_lib mem_kapi exampleYaml deletedCluster exampleADC userWorld = (r1, c1, userWorld) \<and>
     ReconcileAviUserDelete ref_lib mem_kapi ref_client c1 exampleADC userWorld = (Done (zeroResult, None), c2, w4) \<and>
     ReconcileDelete ref_lib mem_kapi exampleYaml c2 exampleADC w4 = (Done (zeroResult, None), c3, w4) \<and>
     ClusterFinalizer \<notin> set (Finalizers c3)"
proof -
  let ?s = "exampleSecret userSecretRef [(''username'', ''wc-default-ako-user'')]"
  have c: "being_deleted deletedCluster" "ClusterFinalizer \<in> set (Finalizers deletedCluster)"
    "\<not> resources_clean ref_lib deletedCluster" "\<not> user_clean ref_lib deletedCluster" "Namespace deletedCluster \<noteq> TKGSystemNamespace"
    by (simp_all add: deletedCluster_def example_defs being_deleted_def resources_clean_def user_clean_def ref_lib_def ref_status_def
        TKGSystemNamespace_def)
  have o: "WorkloadCredentialRef (Spec exampleADC) = None" by (simp add: example_defs)
  have ako: "remoteCleanup ref_lib mem_kapi exampleYaml deletedCluster userWorld = (Ret (Inr True), userWorld)"
    by (simp add: remoteCleanup_def userWorld_def amem0_def mem.defs ref_defs)
  have sec: "mcAVISecretNameNameSpace (Name deletedCluster) (Namespace deletedCluster) = (ref_Name userSecretRef, ref_Namespace userSecretRef)"
    "kGet (Secrets mem_kapi) userWorld (ref_Namespace userSecretRef, ref_Name userSecretRef) = (Inr ?s, userWorld)"
    by (simp add: userSecretRef_def mcAVISecretNameNameSpace_def)
      (simp add: userWorld_def exampleSecret_def amem0_def mem.defs mem_kapi_def list_api_def obj_key_def)
  obtain w3 where del: "UserDeleteByName ref_client (data_get ?s ''username'') userWorld = (None, w3)" "m_secrets w3 = m_secrets userWorld"
    by (simp add: ref_client_def)
  obtain w4 where "kDelete (Secrets mem_kapi) w3 ?s = (None, w4)"
    using del(2) by (simp add: userWorld_def mem_kapi_def list_api_def)
  from deletion_completes [OF ref_condition_laws ref_finalizer_laws c o ako sec del(1) this]
  show ?thesis by blast
qed

end
