(* ===== verification/Deletion_Loop.thy ===== *)
theory Deletion_Loop
  imports Lifecycle "HOL-Library.While_Combinator"
begin

text \<open>
  The loop that deletes a cluster. As long as a reconciliation of the AKODeploymentConfig fails or asks
  to be repeated, the controller runs it again; on a cluster that is being deleted it runs the phases
  of the user and then those of the cluster, until the finalizer is gone. Nothing in the code bounds the
  number of rounds. Here it is shown that the loop ends if only finitely many calls fail, provided that
  the add-on values in the workload cluster can be used and the credentials are there when their turn comes.
  Both conditions are needed: the code panics on values without AKO settings, and a Secret with credentials that is
  already gone blocks the cleanup (\<open>user_delete_not_idempotent\<close>).
\<close>

section \<open>The loop\<close>

text \<open>
  One reconciliation of the AKODeploymentConfig on one cluster: \<open>reconcileUsers\<close>, then
  \<open>reconcileClusters\<close> (see \<open>reconcileNormal\<close>). The next round starts from the cluster that was written.
\<close>

definition deletion_round :: "'w adc_env \<Rightarrow> 'w Client \<Rightarrow> AKODeploymentConfig \<Rightarrow> Cluster \<times> 'w \<Rightarrow> Cluster \<times> 'w" where
  "deletion_round E cl obj s =
     (case s of (c, w) \<Rightarrow>
        (case cluster_phases (e_L E) obj (fst (phase_lists E cl ! 2)) (snd (phase_lists E cl ! 2)) zeroResult c w of
           (_, c, w) \<Rightarrow>
             (case cluster_phases (e_L E) obj (fst (phase_lists E cl ! 0)) (snd (phase_lists E cl ! 0)) zeroResult c w of
                (_, c, w) \<Rightarrow> (c, w))))"

definition held :: "Cluster \<times> 'w \<Rightarrow> bool" where
  "held s \<longleftrightarrow> ClusterFinalizer \<in> set (Finalizers (fst s))"

definition deletion_loop :: "'w adc_env \<Rightarrow> 'w Client \<Rightarrow> AKODeploymentConfig \<Rightarrow> Cluster \<times> 'w \<Rightarrow> (Cluster \<times> 'w) option" where
  "deletion_loop E cl obj = while_option held (deletion_round E cl obj)"

section \<open>An environment that fails finitely often\<close>

text \<open>
  \<open>T w\<close> bounds the failures still to come. A call settles in a world if it keeps the invariant \<open>J\<close>, does not raise
  the bound, and gives an answer of the wanted kind or lowers the bound.
\<close>

definition settles :: "('w \<Rightarrow> nat) \<Rightarrow> ('w \<Rightarrow> bool) \<Rightarrow> ('r \<Rightarrow> bool) \<Rightarrow> 'w \<Rightarrow> 'r \<times> 'w \<Rightarrow> bool" where
  "settles T J wanted w answer \<longleftrightarrow>
     (case answer of (r, w') \<Rightarrow> J w' \<and> T w' \<le> T w \<and> (wanted r \<or> T w' < T w))"

definition addon_key :: "Cluster \<Rightarrow> key" where
  "addon_key c = (TKGSystemNamespace, if IsClusterClassBasedCluster c then AKOAddonSecretNameForClusterClass c else akoAddonDataValueName)"

text \<open>The values of an add-on Secret that the operator can work with.\<close>

definition usable_values :: "yaml \<Rightarrow> Cluster \<Rightarrow> Secret \<Rightarrow> bool" where
  "usable_values Y c secret \<longleftrightarrow>
     (\<exists>v s. NewValuesFromBytes Y (data_get secret ''values.yaml'') = Inr v \<and> cfg_AKOSettings (lb_Config v) = Some s \<and>
        (DeleteConfig s \<noteq> ''true'' \<longrightarrow> Data secret \<noteq> None \<and>
           (\<exists>buf. YttYaml Y (v\<lparr>lb_Config := (lb_Config v)\<lparr>cfg_AKOSettings := Some (s\<lparr>DeleteConfig := ''true''\<rparr>)\<rparr>\<rparr>) c = Inr buf)))"

text \<open>
  The workload cluster. Its add-on Secret is missing or usable, and can be written with values that ask for deletion
  once it has been read; AKO comes to an end (its StatefulSet is gone or carries a final state) at some time.
\<close>

definition workload_contract :: "lib \<Rightarrow> yaml \<Rightarrow> Cluster \<Rightarrow> ('w \<Rightarrow> nat) \<Rightarrow> ('w \<Rightarrow> bool) \<Rightarrow> 'w remote \<Rightarrow> bool" where
  "workload_contract L Y c T J R \<longleftrightarrow>
     (\<forall>w. J w \<longrightarrow> settles T J (\<lambda>r. \<forall>e. r = Inl e \<longrightarrow> IsNotFound L e) w (kGet (r_Secrets R) w (addon_key c))) \<and>
     (\<forall>w secret w'. J w \<and> kGet (r_Secrets R) w (addon_key c) = (Inr secret, w') \<longrightarrow>
        obj_key secret = addon_key c \<and> usable_values Y c secret \<and>
        (\<forall>secret' v. obj_key secret' = addon_key c \<and> NewValuesFromBytes Y (data_get secret' ''values.yaml'') = Inr v \<and> deleting v \<longrightarrow>
           settles T J (\<lambda>r. \<exists>x. r = Inr x) w' (kUpdate (r_Secrets R) w' secret'))) \<and>
     (\<forall>w. J w \<longrightarrow> settles T J
        (\<lambda>r. case r of Inl e \<Rightarrow> IsNotFound L e
           | Inr ss \<Rightarrow> Annotations ss akoCleanUpAnnotationKey \<in> {Some akoCleanUpFinishedStatus, Some akoCleanUpTimeoutStatus})
        w (kGet (r_StatefulSets R) w (AviNamespace, ''ako'')))"

definition remote_contract :: "lib \<Rightarrow> 'w kapi \<Rightarrow> yaml \<Rightarrow> Cluster \<Rightarrow> ('w \<Rightarrow> nat) \<Rightarrow> ('w \<Rightarrow> bool) \<Rightarrow> bool" where
  "remote_contract L K Y c T J \<longleftrightarrow>
     (\<forall>w. J w \<longrightarrow> (case GetRemoteClient K w AKODeploymentConfigControllerName (Namespace c, Name c) of (r, w') \<Rightarrow>
        settles T J (\<lambda>r. \<exists>R. r = Inr R) w (r, w') \<and> (\<forall>R. r = Inr R \<longrightarrow> workload_contract L Y c T J R)))"

text \<open>
  The credentials of the cluster go through three stages. At first the Secret (with the user \<open>u\<close>) is there. After the user has
  been deleted, the Secret has to be deleted as well; if that fails, the environment must be as in the first
  stage, that is, deleting the user once more must be possible. Nothing is required after the Secret has been deleted.
\<close>

datatype credentials = Kept | UserDeleted | Removed

definition credentials_key :: "Cluster \<Rightarrow> key" where
  "credentials_key c = prod.swap (mcAVISecretNameNameSpace (Name c) (Namespace c))"

definition credentials_contract :: "lib \<Rightarrow> 'w kapi \<Rightarrow> 'w Client \<Rightarrow> Cluster \<Rightarrow> string \<Rightarrow> ('w \<Rightarrow> nat) \<Rightarrow> (credentials \<Rightarrow> 'w \<Rightarrow> bool) \<Rightarrow> bool" where
  "credentials_contract L K cl c u T I \<longleftrightarrow>
     (\<forall>w. I Kept w \<longrightarrow> (case kGet (Secrets K) w (credentials_key c) of (r, w') \<Rightarrow> I Kept w' \<and>
        (case r of Inr secret \<Rightarrow> data_get secret ''username'' = u \<and> T w' \<le> T w | Inl e \<Rightarrow> \<not> IsNotFound L e \<and> T w' < T w))) \<and>
     (\<forall>w. I Kept w \<longrightarrow> (case UserDeleteByName cl u w of (r, w') \<Rightarrow>
        if r = None then I UserDeleted w' \<and> T w' \<le> T w else I Kept w' \<and> T w' < T w)) \<and>
     (\<forall>w secret. I UserDeleted w \<and> obj_key secret = credentials_key c \<longrightarrow> (case kDelete (Secrets K) w secret of (r, w') \<Rightarrow>
        if \<forall>e. r = Some e \<longrightarrow> IsGone L e then I Removed w' \<and> T w' \<le> T w else I Kept w' \<and> T w' < T w))"

text \<open>
  The environment of a deletion. The API server of the management cluster answers a read with an object of the key asked for,
  and reading or deleting other Secrets leaves the credentials alone. The conditions on the workload cluster hold in every stage.
\<close>

definition finite_failures ::
  "lib \<Rightarrow> 'w kapi \<Rightarrow> yaml \<Rightarrow> 'w Client \<Rightarrow> Cluster \<Rightarrow> string \<Rightarrow> ('w \<Rightarrow> nat) \<Rightarrow> (credentials \<Rightarrow> 'w \<Rightarrow> bool) \<Rightarrow> bool" where
  "finite_failures L K Y cl c u T I \<longleftrightarrow>
     (\<forall>w k secret w'. kGet (Secrets K) w k = (Inr secret, w') \<longrightarrow> obj_key secret = k) \<and>
     (\<forall>g w k. I g w \<and> k \<noteq> credentials_key c \<longrightarrow> settles T (I g) (\<lambda>_. True) w (kGet (Secrets K) w k)) \<and>
     (\<forall>g w secret. I g w \<and> obj_key secret \<noteq> credentials_key c \<longrightarrow> settles T (I g) (\<lambda>_. True) w (kDelete (Secrets K) w secret)) \<and>
     (\<forall>g. remote_contract L K Y c T (I g)) \<and>
     credentials_contract L K cl c u T I"

text \<open>The operator deletes the credentials of workload clusters unless they are provided by the administrator.\<close>

definition owns_credentials :: "AKODeploymentConfig \<Rightarrow> Cluster \<Rightarrow> bool" where
  "owns_credentials obj c \<longleftrightarrow> Namespace c \<noteq> TKGSystemNamespace \<and> WorkloadCredentialRef (Spec obj) = None"

text \<open>The stage the world is in fits to the cluster's condition.\<close>

definition stage_fits :: "lib \<Rightarrow> AKODeploymentConfig \<Rightarrow> Cluster \<Rightarrow> credentials \<Rightarrow> bool" where
  "stage_fits L obj c g \<longleftrightarrow> g = Kept \<or> user_clean L c \<or> \<not> owns_credentials obj c"

text \<open>The work left: failures to come, and what is not yet cleaned up and released.\<close>

definition deletion_work :: "lib \<Rightarrow> ('w \<Rightarrow> nat) \<Rightarrow> Cluster \<times> 'w \<Rightarrow> nat" where
  "deletion_work L T s =
     T (snd s) + of_bool (\<not> resources_clean L (fst s)) + of_bool (\<not> user_clean L (fst s)) + of_bool (held s)"

text \<open>What the environment knows a cluster by.\<close>

definition same_cluster :: "Cluster \<Rightarrow> Cluster \<Rightarrow> bool" where
  "same_cluster c c' \<longleftrightarrow> Name c' = Name c \<and> Namespace c' = Namespace c \<and> Topology c' = Topology c"

text \<open>What a round needs of the state it starts from, for the cluster \<open>c0\<close> the loop began with.\<close>

definition ready :: "lib \<Rightarrow> Cluster \<Rightarrow> (credentials \<Rightarrow> 'w \<Rightarrow> bool) \<Rightarrow> AKODeploymentConfig \<Rightarrow> Cluster \<Rightarrow> 'w \<Rightarrow> bool" where
  "ready L c0 I obj c w \<longleftrightarrow> same_cluster c0 c \<and> (\<exists>g. I g w \<and> stage_fits L obj c g)"

lemma same_cluster_refl [simp]: "same_cluster c c"
  by (simp add: same_cluster_def)

lemma same_clusterD:
  assumes "same_cluster c c'"
  shows "Name c' = Name c" "Namespace c' = Namespace c" "IsClusterClassBasedCluster c' = IsClusterClassBasedCluster c"
    "addon_key c' = addon_key c" "credentials_key c' = credentials_key c" "owns_credentials obj c' = owns_credentials obj c"
    "YttYaml Y v c' = YttYaml Y v c" "AKOAddonSecretName c' = AKOAddonSecretName c"
  using assms
  by (simp_all add: same_cluster_def addon_key_def credentials_key_def owns_credentials_def IsClusterClassBasedCluster_def
      AKOAddonSecretNameForClusterClass_def AKOAddonSecretName_def YttYaml_def split: sum.split)

lemma remoteCleanup_key:
  "remoteCleanup L K Y c w =
     (case GetRemoteClient K w AKODeploymentConfigControllerName (Namespace c, Name c) of
        (Inl err, w) \<Rightarrow> (Ret (Inl err), w)
      | (Inr R, w) \<Rightarrow>
          (case kGet (r_Secrets R) w (addon_key c) of
             (Inl err, w) \<Rightarrow> (if IsNotFound L err then (Ret (Inr True), w) else (Ret (Inl err), w))
           | (Inr secret, w) \<Rightarrow>
               (case NewValuesFromBytes Y (data_get secret ''values.yaml'') of
                  Inl err \<Rightarrow> (Ret (Inl err), w)
                | Inr v \<Rightarrow>
                    (case requestDeletion Y R c secret v w of (Panic, w) \<Rightarrow> (Panic, w) | (Ret (Some err), w) \<Rightarrow> (Ret (Inl err), w)
                     | (Ret None, w) \<Rightarrow> (case CleanupFinished L R w of (r, w) \<Rightarrow> (Ret r, w))))))"
  unfolding remoteCleanup_def addon_key_def Let_def by (rule refl)

lemma addon_secret_other: "(Namespace c, AKOAddonSecretName c) \<noteq> credentials_key c"
  by (simp add: AKOAddonSecretName_def credentials_key_def mcAVISecretNameNameSpace_def)

locale failing_environment =
  fixes L :: lib and K :: "'w kapi" and Y :: yaml and cl :: "'w Client" and c0 :: Cluster and u :: string
    and T :: "'w \<Rightarrow> nat" and I :: "credentials \<Rightarrow> 'w \<Rightarrow> bool"
  assumes conditions: "condition_laws L" and finalizers: "finalizer_laws L" and yaml: "yaml_laws Y"
    and failures: "finite_failures L K Y cl c0 u T I"
begin

lemma secret_get_key: "kGet (Secrets K) w k = (Inr secret, w') \<Longrightarrow> obj_key secret = k"
  using failures unfolding finite_failures_def by blast

lemma other_secret_get: "kGet (Secrets K) w k = (r, w') \<Longrightarrow> I g w \<Longrightarrow> k \<noteq> credentials_key c0 \<Longrightarrow> I g w' \<and> T w' \<le> T w"
proof -
  assume a: "kGet (Secrets K) w k = (r, w')" "I g w" "k \<noteq> credentials_key c0"
  then have "settles T (I g) (\<lambda>_. True) w (kGet (Secrets K) w k)" using failures unfolding finite_failures_def by blast
  with a show ?thesis by (simp add: settles_def)
qed

lemma other_secret_delete:
  "kDelete (Secrets K) w secret = (r, w') \<Longrightarrow> I g w \<Longrightarrow> obj_key secret \<noteq> credentials_key c0 \<Longrightarrow> I g w' \<and> T w' \<le> T w"
proof -
  assume a: "kDelete (Secrets K) w secret = (r, w')" "I g w" "obj_key secret \<noteq> credentials_key c0"
  then have "settles T (I g) (\<lambda>_. True) w (kDelete (Secrets K) w secret)" using failures unfolding finite_failures_def by blast
  with a show ?thesis by (simp add: settles_def)
qed

lemma credentials: "credentials_contract L K cl c0 u T I"
  using failures unfolding finite_failures_def by blast

lemma credentials_get:
  "kGet (Secrets K) w (credentials_key c0) = (r, w') \<Longrightarrow> I Kept w \<Longrightarrow>
     I Kept w' \<and> (case r of Inr secret \<Rightarrow> data_get secret ''username'' = u \<and> T w' \<le> T w | Inl e \<Rightarrow> \<not> IsNotFound L e \<and> T w' < T w)"
  using credentials unfolding credentials_contract_def by fastforce

lemma user_delete_call:
  "UserDeleteByName cl u w = (r, w') \<Longrightarrow> I Kept w \<Longrightarrow> if r = None then I UserDeleted w' \<and> T w' \<le> T w else I Kept w' \<and> T w' < T w"
  using credentials unfolding credentials_contract_def by fastforce

lemma credentials_delete:
  "kDelete (Secrets K) w secret = (r, w') \<Longrightarrow> I UserDeleted w \<Longrightarrow> obj_key secret = credentials_key c0 \<Longrightarrow>
     if \<forall>e. r = Some e \<longrightarrow> IsGone L e then I Removed w' \<and> T w' \<le> T w else I Kept w' \<and> T w' < T w"
  using credentials unfolding credentials_contract_def by fastforce

text \<open>Asking the workload cluster: no panic, and an answer or a failure less.\<close>

lemma request_progress:
  assumes "workload_contract L Y c0 T J R" "same_cluster c0 c" "J w" "kGet (r_Secrets R) w (addon_key c0) = (Inr secret, w1)"
    and "NewValuesFromBytes Y (data_get secret ''values.yaml'') = Inr v" "requestDeletion Y R c secret v w1 = (r, w2)" "J w1"
  shows "r \<noteq> Panic \<and> J w2 \<and> T w2 \<le> T w1 \<and> (r = Ret None \<or> T w2 < T w1)"
proof -
  let ?v = "\<lambda>s. v\<lparr>lb_Config := (lb_Config v)\<lparr>cfg_AKOSettings := Some (s\<lparr>DeleteConfig := ''true''\<rparr>)\<rparr>\<rparr>"
  note same = same_clusterD [OF assms(2)]
  have rd: "obj_key secret = addon_key c0" "usable_values Y c0 secret"
    and up: "\<And>secret' v. obj_key secret' = addon_key c0 \<Longrightarrow> NewValuesFromBytes Y (data_get secret' ''values.yaml'') = Inr v \<Longrightarrow>
      deleting v \<Longrightarrow> settles T J (\<lambda>r. \<exists>x. r = Inr x) w1 (kUpdate (r_Secrets R) w1 secret')"
    using assms(1,3,4) unfolding workload_contract_def by blast+
  from rd(2) assms(5) obtain s where s: "cfg_AKOSettings (lb_Config v) = Some s"
    and d: "DeleteConfig s \<noteq> ''true'' \<longrightarrow> Data secret \<noteq> None \<and> (\<exists>buf. YttYaml Y (?v s) c0 = Inr buf)"
    unfolding usable_values_def by auto
  show ?thesis
  proof (cases "DeleteConfig s = ''true''")
    case True
    with s assms(6,7) show ?thesis by (auto simp: requestDeletion_def)
  next
    case False
    with d obtain m buf where m: "Data secret = Some m" and y: "YttYaml Y (?v s) c0 = Inr buf" by auto
    let ?s = "secret\<lparr>Data := Some (m(''values.yaml'' \<mapsto> buf))\<rparr>"
    have "NewValuesFromBytes Y (data_get ?s ''values.yaml'') = Inr (written_values (?v s))"
      using YttYaml_readback [OF yaml y] by (simp add: data_get_def)
    moreover have "deleting (written_values (?v s))" by (simp only: deleting_written) (simp add: deleting_def)
    moreover have "obj_key ?s = addon_key c0" using rd(1) by (simp add: obj_key_def)
    ultimately have "settles T J (\<lambda>r. \<exists>x. r = Inr x) w1 (kUpdate (r_Secrets R) w1 ?s)" using up by blast
    with False s m y assms(6) same(7) show ?thesis
      by (auto simp: requestDeletion_def Let_def data_set_def settles_def split: prod.splits sum.splits)
  qed
qed

lemma finished_progress:
  assumes "workload_contract L Y c0 T J R" "J w" "CleanupFinished L R w = (r, w')"
  shows "J w' \<and> T w' \<le> T w \<and> (r = Inr True \<or> T w' < T w)"
proof -
  have "settles T J (\<lambda>r. case r of Inl e \<Rightarrow> IsNotFound L e
      | Inr ss \<Rightarrow> Annotations ss akoCleanUpAnnotationKey \<in> {Some akoCleanUpFinishedStatus, Some akoCleanUpTimeoutStatus})
    w (kGet (r_StatefulSets R) w (AviNamespace, ''ako''))"
    using assms(1,2) unfolding workload_contract_def by blast
  then show ?thesis using assms(3) by (auto simp: CleanupFinished_def settles_def split: prod.splits sum.splits if_splits)
qed

lemma workload_progress:
  assumes "workload_contract L Y c0 T J R" "same_cluster c0 c" "J w"
    and "kGet (r_Secrets R) w (addon_key c0) = (Inr secret, w1)" "J w1"
    and "NewValuesFromBytes Y (data_get secret ''values.yaml'') = Inr v"
    and "(case requestDeletion Y R c secret v w1 of (Panic, w) \<Rightarrow> (Panic, w) | (Ret (Some err), w) \<Rightarrow> (Ret (Inl err), w)
          | (Ret None, w) \<Rightarrow> (case CleanupFinished L R w of (r, w) \<Rightarrow> (Ret r, w))) = (r, w')"
  shows "r \<noteq> Panic \<and> J w' \<and> T w' \<le> T w1 \<and> (r = Ret (Inr True) \<or> T w' < T w1)"
proof -
  obtain q w2 where q: "requestDeletion Y R c secret v w1 = (q, w2)" by (cases "requestDeletion Y R c secret v w1")
  note p = request_progress [OF assms(1-4,6) q assms(5)]
  show ?thesis
  proof (cases "q = Ret None")
    case True
    obtain f w3 where f: "CleanupFinished L R w2 = (f, w3)" by (cases "CleanupFinished L R w2")
    then have "r = Ret f" "w' = w3" using assms(7) q True by simp_all
    with p finished_progress [OF assms(1) _ f] show ?thesis by auto
  next
    case False
    with p q assms(7) show ?thesis by (auto split: outcome.splits option.splits)
  qed
qed

lemma remote:
  assumes "remoteCleanup L K Y c w = (r, w')" "same_cluster c0 c" "I g w"
  shows "r \<noteq> Panic \<and> I g w' \<and> T w' \<le> T w \<and> (r = Ret (Inr True) \<or> T w' < T w)"
proof -
  note run = remoteCleanup_key [of L K Y c w, unfolded same_clusterD(1,2,4) [OF assms(2)]]
  obtain q w1 where q: "GetRemoteClient K w AKODeploymentConfigControllerName (Namespace c0, Name c0) = (q, w1)" by fastforce
  have "remote_contract L K Y c0 T (I g)" using failures unfolding finite_failures_def by blast
  then have *: "I g w1" "T w1 \<le> T w" "(\<exists>R. q = Inr R) \<or> T w1 < T w" "\<And>R. q = Inr R \<Longrightarrow> workload_contract L Y c0 T (I g) R"
    using q assms(3) unfolding remote_contract_def settles_def by fastforce+
  show ?thesis
  proof (cases q)
    case (Inl e)
    then show ?thesis using * q assms(1) run by auto
  next
    case (Inr R)
    note wc = *(4) [OF Inr]
    obtain p w2 where p: "kGet (r_Secrets R) w1 (addon_key c0) = (p, w2)" by fastforce
    have k: "I g w2" "T w2 \<le> T w1" "(\<forall>e. p = Inl e \<longrightarrow> IsNotFound L e) \<or> T w2 < T w1"
      using wc p *(1) unfolding workload_contract_def settles_def by fastforce+
    show ?thesis
    proof (cases p)
      case (Inl e)
      with k * q p \<open>q = Inr R\<close> assms(1) run show ?thesis by (auto split: if_splits)
    next
      case (Inr secret)
      then have "usable_values Y c0 secret" using wc *(1) p unfolding workload_contract_def by blast
      then obtain v where v: "NewValuesFromBytes Y (data_get secret ''values.yaml'') = Inr v" unfolding usable_values_def by blast
      note step = workload_progress [OF wc assms(2) *(1) p [unfolded Inr] k(1) v]
      have "(case requestDeletion Y R c secret v w2 of (Panic, w) \<Rightarrow> (Panic, w) | (Ret (Some err), w) \<Rightarrow> (Ret (Inl err), w)
          | (Ret None, w) \<Rightarrow> (case CleanupFinished L R w of (r, w) \<Rightarrow> (Ret r, w))) = (r, w')"
        using assms(1) run q p v Inr \<open>q = Inr R\<close> by simp
      from step [OF this] k(2) *(2) show ?thesis by auto
    qed
  qed
qed

text \<open>Deleting the user succeeds or uses up a failure.\<close>

lemma delete_credentials_progress:
  assumes "reconcileAviUserDelete L K cl c obj w = (r, c', w')" "same_cluster c0 c" "I Kept w" "\<not> user_clean L c" "owns_credentials obj c0"
  shows "T w' \<le> T w \<and> (c' = c \<and> I Kept w' \<and> T w' < T w \<or>
    c' = c\<lparr>Conditions := cond_MarkTrue L (Conditions c) AviUserCleanupSucceededCondition\<rparr> \<and> I Removed w') \<and> r \<noteq> Crashed \<and> r \<noteq> Blocked"
proof -
  note same = same_clusterD [OF assms(2)]
  have own: "Namespace c \<noteq> TKGSystemNamespace" "WorkloadCredentialRef (Spec obj) = None"
    "\<not> cond_IsTrue L (Conditions c) AviUserCleanupSucceededCondition"
    using assms(4,5) same(2) by (auto simp: owns_credentials_def user_clean_def)
  obtain n ns where key: "mcAVISecretNameNameSpace (Name c) (Namespace c) = (n, ns)" by fastforce
  then have ck: "credentials_key c0 = (ns, n)" using same(5) by (simp add: credentials_key_def)
  obtain q w1 where q: "kGet (Secrets K) w (ns, n) = (q, w1)" by fastforce
  note g = credentials_get [unfolded ck, OF q assms(3)]
  show ?thesis
  proof (cases q)
    case (Inl e)
    with g q assms(1) show ?thesis by (auto simp: reconcileAviUserDelete_def Let_def own key)
  next
    case (Inr secret)
    then have s: "obj_key secret = credentials_key c0" "data_get secret ''username'' = u" "I Kept w1" "T w1 \<le> T w"
      using g q secret_get_key ck by auto
    obtain d w2 where d: "UserDeleteByName cl u w1 = (d, w2)" by fastforce
    note d' = user_delete_call [OF d s(3)]
    obtain x w3 where x: "kDelete (Secrets K) w2 secret = (x, w3)" by fastforce
    show ?thesis
    proof (cases d)
      case None
      then show ?thesis using d d' q Inr s x credentials_delete [OF x _ s(1)] assms(1)
        by (auto simp: reconcileAviUserDelete_def Let_def own key split: option.splits if_splits)
    next
      case (Some e)
      then show ?thesis using d d' q Inr s assms(1) by (auto simp: reconcileAviUserDelete_def Let_def own key)
    qed
  qed
qed

lemma reconcileAviUserDelete_progress:
  assumes "reconcileAviUserDelete L K cl c obj w = (r, c', w')" "same_cluster c0 c" "I g w" "stage_fits L obj c g"
  shows "(\<exists>g'. I g' w' \<and> stage_fits L obj c' g') \<and> T w' \<le> T w \<and> (user_clean L c' \<or> T w' < T w) \<and> Finalizers c' = Finalizers c \<and>
    being_deleted c' = being_deleted c \<and> same_cluster c c' \<and>
    (resources_clean L c' \<longleftrightarrow> resources_clean L c) \<and> (user_clean L c \<longrightarrow> user_clean L c') \<and> r \<noteq> Crashed \<and> r \<noteq> Blocked"
proof -
  let ?m = "c\<lparr>Conditions := cond_MarkTrue L (Conditions c) AviUserCleanupSucceededCondition\<rparr>"
  have m: "user_clean L ?m" "resources_clean L ?m \<longleftrightarrow> resources_clean L c" "being_deleted ?m = being_deleted c" "same_cluster c ?m"
    using conditions by (auto simp: user_clean_def resources_clean_def condition_laws_def being_deleted_def same_cluster_def)
  show ?thesis
  proof (cases "owns_credentials obj c \<and> \<not> user_clean L c")
    case True
    then have "g = Kept" "owns_credentials obj c0" using assms(4) same_clusterD(6) [OF assms(2)] by (auto simp: stage_fits_def)
    then show ?thesis
      using delete_credentials_progress [OF assms(1,2)] assms(3) True m by (auto simp: stage_fits_def)
  next
    case False
    then have "w' = w" "c' = c \<and> user_clean L c \<or> c' = ?m" "r \<noteq> Crashed" "r \<noteq> Blocked"
      using assms(1) by (auto simp: reconcileAviUserDelete_def Let_def owns_credentials_def user_clean_def split: if_splits)
    with m assms(3) show ?thesis by (auto simp: stage_fits_def)
  qed
qed

lemma trigger_keeps:
  "resources_clean L (triggerUserCleanup L c) \<longleftrightarrow> resources_clean L c"
  "user_clean L (triggerUserCleanup L c) \<longleftrightarrow> user_clean L c"
  "Finalizers (triggerUserCleanup L c) = Finalizers c" "being_deleted (triggerUserCleanup L c) = being_deleted c"
  "same_cluster c' (triggerUserCleanup L c) = same_cluster c' c" "stage_fits L obj (triggerUserCleanup L c) g = stage_fits L obj c g"
  using conditions
  by (auto simp: triggerUserCleanup_def being_deleted_def resources_clean_def user_clean_def condition_laws_def same_cluster_def
      stage_fits_def owns_credentials_def)

lemma label_keeps:
  "resources_clean L (ApplyClusterLabel c obj) \<longleftrightarrow> resources_clean L c" "user_clean L (ApplyClusterLabel c obj) \<longleftrightarrow> user_clean L c"
  "same_cluster c' (ApplyClusterLabel c obj) = same_cluster c' c" "stage_fits L obj' (ApplyClusterLabel c obj) g = stage_fits L obj' c g"
  by (simp_all add: resources_clean_def user_clean_def same_cluster_def stage_fits_def owns_credentials_def)

lemma ready_simps [simp]:
  "ready L c0 I obj (triggerUserCleanup L c) w = ready L c0 I obj c w" "ready L c0 I obj (ApplyClusterLabel c obj') w = ready L c0 I obj c w"
  by (simp_all add: ready_def trigger_keeps label_keeps)

lemma user_round:
  assumes "cluster_phases L obj normal [ReconcileAviUserDelete L K cl] res c w = (r, c', w')" "being_deleted c" "ready L c0 I obj c w"
  shows "ready L c0 I obj c' w' \<and> being_deleted c' \<and> T w' \<le> T w \<and> Finalizers c' = Finalizers c \<and> (resources_clean L c' \<longleftrightarrow> resources_clean L c) \<and>
    (user_clean L c \<longrightarrow> user_clean L c') \<and> (resources_clean L c \<longrightarrow> user_clean L c' \<or> T w' < T w)"
proof -
  let ?c = "triggerUserCleanup L (ApplyClusterLabel c obj)"
  note keeps = trigger_keeps label_keeps
  have rdy: "ready L c0 I obj ?c w" using assms(3) by simp
  from assms obtain v where v: "ReconcileAviUserDelete L K cl (ApplyClusterLabel c obj) obj w = (v, c', w')"
    by (auto simp: cluster_phases_def Let_def split: prod.splits run.splits)
  show ?thesis
  proof (cases "resources_clean L c")
    case True
    then have "reconcileAviUserDelete L K cl ?c obj w = (v, c', w')"
      using v assms(2) keeps(1) [of "ApplyClusterLabel c obj"] label_keeps(1) [of c obj]
      by (simp add: ReconcileAviUserDelete_def Let_def resources_clean_def)
    from reconcileAviUserDelete_progress [OF this] rdy True assms(2) show ?thesis
      unfolding ready_def by (auto simp: keeps same_cluster_def)
  next
    case False
    then have "c' = ?c" "w' = w"
      using v assms(2) keeps(1) [of "ApplyClusterLabel c obj"] label_keeps(1) [of c obj]
      by (auto simp: ReconcileAviUserDelete_def Let_def resources_clean_def)
    with False rdy assms(2) show ?thesis by (simp add: keeps)
  qed
qed

lemma cleanup_progress:
  assumes "cleanup L K Y c w = (r, c', w')" "ready L c0 I obj c w"
  shows "r \<noteq> Panic \<and> ready L c0 I obj c' w' \<and> T w' \<le> T w \<and> (r = Ret (Inr True) \<and> resources_clean L c' \<or> r \<noteq> Ret (Inr True) \<and> T w' < T w) \<and>
    (resources_clean L c \<longrightarrow> r = Ret (Inr True)) \<and> (user_clean L c' \<longleftrightarrow> user_clean L c) \<and>
    Finalizers c' = Finalizers c \<and> being_deleted c' = being_deleted c"
proof (cases "resources_clean L c")
  case True
  then have "r = Ret (Inr True)" "c' = c" "w' = w"
    using assms(1) conditions by (auto simp: cleanup_def resources_clean_def condition_laws_def)
  with True assms(2) show ?thesis by simp
next
  case False
  then obtain cs where rc: "remoteCleanup L K Y (c\<lparr>Conditions := cs\<rparr>) w = (r, w')"
  proof -
    have c: "c = c\<lparr>Conditions := Conditions c\<rparr>" by simp
    from False assms(1) have "remoteCleanup L K Y c w = (r, w') \<or> (\<exists>cs. remoteCleanup L K Y (c\<lparr>Conditions := cs\<rparr>) w = (r, w'))"
      by (auto simp: cleanup_def Let_def resources_clean_def split: if_splits outcome.splits sum.splits bool.splits prod.splits)
    with that show thesis using c by metis
  qed
  obtain g where g: "I g w" "stage_fits L obj c g" and same: "same_cluster c0 c" using assms(2) by (auto simp: ready_def)
  then have "same_cluster c0 (c\<lparr>Conditions := cs\<rparr>)" by (simp add: same_cluster_def)
  note p = remote [OF rc this g(1)]
  have "ready L c0 I obj c' w'"
    using p g same cleanup_frame [OF assms(1)] cleanup_conditions(2) [OF conditions assms(1)]
    unfolding ready_def stage_fits_def same_cluster_def owns_credentials_def by metis
  then show ?thesis
    using p False cleanup_frame [OF assms(1)] cleanup_conditions [OF conditions assms(1)] by (auto simp: being_deleted_def)
qed

lemma ReconcileDelete_progress:
  assumes "ReconcileDelete L K Y c obj w = (v, c', w')" "ClusterFinalizer \<in> set (Finalizers c)" "ready L c0 I obj c w"
  shows "ready L c0 I obj c' w' \<and> being_deleted c' = being_deleted c \<and> T w' \<le> T w \<and> (resources_clean L c' \<or> T w' < T w) \<and>
    (resources_clean L c \<longrightarrow> resources_clean L c') \<and> (user_clean L c' \<longleftrightarrow> user_clean L c) \<and>
    (resources_clean L c \<and> user_clean L c \<longrightarrow> ClusterFinalizer \<notin> set (Finalizers c')) \<and>
    (ClusterFinalizer \<notin> set (Finalizers c') \<longrightarrow> cleaned L c')"
proof -
  have fin: "ContainsFinalizer L fs f \<longleftrightarrow> f \<in> set fs" "set (RemoveFinalizer L fs f) = set fs - {f}" for fs f
    using finalizers by (simp_all add: finalizer_laws_def)
  obtain r c1 where c: "cleanup L K Y c w = (r, c1, w')"
    and c': "c' = c1 \<and> \<not> (r = Ret (Inr True) \<and> user_clean L c1) \<or>
      r = Ret (Inr True) \<and> user_clean L c1 \<and> c' = c1\<lparr>Finalizers := RemoveFinalizer L (Finalizers c1) ClusterFinalizer\<rparr>"
    using assms(1,2) by (auto simp: ReconcileDelete_def fin user_clean_def split: prod.splits outcome.splits sum.splits if_splits)
  have f: "resources_clean L (c1\<lparr>Finalizers := fs\<rparr>) \<longleftrightarrow> resources_clean L c1" "user_clean L (c1\<lparr>Finalizers := fs\<rparr>) \<longleftrightarrow> user_clean L c1"
    "being_deleted (c1\<lparr>Finalizers := fs\<rparr>) = being_deleted c1" "ready L c0 I obj (c1\<lparr>Finalizers := fs\<rparr>) w' = ready L c0 I obj c1 w'" for fs
    by (simp_all add: resources_clean_def user_clean_def being_deleted_def ready_def same_cluster_def stage_fits_def owns_credentials_def)
  show ?thesis using cleanup_progress [OF c assms(3)] c' assms(2) by (auto simp: f fin cleaned_def)
qed

lemma addon_delete_progress:
  assumes "ReconcileAddonSecretDelete L K c obj w = (v, c', w')" "ready L c0 I obj c w"
  shows "c' = c \<and> ready L c0 I obj c w' \<and> T w' \<le> T w \<and> v \<noteq> Crashed \<and> v \<noteq> Blocked"
proof -
  let ?k = "(Namespace c, AKOAddonSecretName c)"
  obtain g where g: "I g w" "stage_fits L obj c g" "same_cluster c0 c" using assms(2) by (auto simp: ready_def)
  have k: "?k \<noteq> credentials_key c0" using addon_secret_other [of c] same_clusterD(5) [OF g(3)] by simp
  obtain q w1 where q: "kGet (Secrets K) w ?k = (q, w1)" by fastforce
  note q' = other_secret_get [OF q g(1) k]
  have "I g w' \<and> T w' \<le> T w1"
  proof (cases q)
    case (Inr secret)
    obtain x w2 where x: "kDelete (Secrets K) w1 secret = (x, w2)" by fastforce
    with other_secret_delete [OF x, of g] q' secret_get_key [of w ?k secret w1] q Inr k assms(1) show ?thesis
      by (simp add: ReconcileAddonSecretDelete_def)
  qed (use q q' assms(1) in \<open>auto simp: ReconcileAddonSecretDelete_def split: if_splits\<close>)
  moreover have "c' = c" "v \<noteq> Crashed" "v \<noteq> Blocked"
    using assms(1) by (auto simp: ReconcileAddonSecretDelete_def split: prod.splits sum.splits if_splits)
  ultimately show ?thesis using q' g by (auto simp: ready_def)
qed

lemma cluster_round:
  assumes "cluster_phases L obj normal [ReconcileAddonSecretDelete L K, ReconcileDelete L K Y] res c w = (r, c', w')"
    and "being_deleted c" "ClusterFinalizer \<in> set (Finalizers c)" "ready L c0 I obj c w"
  shows "ready L c0 I obj c' w' \<and> being_deleted c' \<and> T w' \<le> T w \<and> (resources_clean L c' \<or> T w' < T w) \<and>
    (resources_clean L c \<longrightarrow> resources_clean L c') \<and> (user_clean L c' \<longleftrightarrow> user_clean L c) \<and>
    (resources_clean L c \<and> user_clean L c \<longrightarrow> ClusterFinalizer \<notin> set (Finalizers c')) \<and>
    (ClusterFinalizer \<notin> set (Finalizers c') \<longrightarrow> cleaned L c')"
proof -
  let ?c = "ApplyClusterLabel c obj"
  obtain v1 c1 w1 where d: "ReconcileAddonSecretDelete L K ?c obj w = (v1, c1, w1)" by (metis prod_cases3)
  have d': "c1 = ?c \<and> ready L c0 I obj ?c w1 \<and> T w1 \<le> T w \<and> v1 \<noteq> Crashed \<and> v1 \<noteq> Blocked"
    using addon_delete_progress [OF d] assms(4) by simp
  then obtain res1 err1 where "v1 = Done (res1, err1)" by (cases v1) auto
  with assms(1,2) d d' obtain v where "ReconcileDelete L K Y ?c obj w1 = (v, c', w')"
    by (auto simp: cluster_phases_def Let_def split: prod.splits run.splits option.splits)
  from ReconcileDelete_progress [OF this] assms(2,3) d' show ?thesis by (auto simp: label_keeps)
qed

lemma round_progress:
  assumes "e_L E = L" "e_K E = K" "e_Y E = Y" "being_deleted (fst s)" "held s" "ready L c0 I obj (fst s) (snd s)"
  defines "t \<equiv> deletion_round E cl obj s"
  shows "being_deleted (fst t) \<and> ready L c0 I obj (fst t) (snd t) \<and> deletion_work L T t < deletion_work L T s \<and>
    (\<not> held t \<longrightarrow> cleaned L (fst t))"
proof -
  obtain c w where s: "s = (c, w)" by (cases s)
  have ph: "snd (phase_lists E cl ! 2) = [ReconcileAviUserDelete L K cl]"
    "snd (phase_lists E cl ! 0) = [ReconcileAddonSecretDelete L K, ReconcileDelete L K Y]"
    using assms(1-3) by (simp_all add: phase_lists_def Let_def numeral_2_eq_2)
  obtain r1 c1 w1 where u: "cluster_phases L obj (fst (phase_lists E cl ! 2)) [ReconcileAviUserDelete L K cl] zeroResult c w = (r1, c1, w1)"
    by (metis prod_cases3)
  obtain r2 c2 w2 where d: "cluster_phases L obj (fst (phase_lists E cl ! 0))
      [ReconcileAddonSecretDelete L K, ReconcileDelete L K Y] zeroResult c1 w1 = (r2, c2, w2)"
    by (metis prod_cases3)
  have rnd: "t = (c2, w2)" by (simp add: t_def deletion_round_def s ph u d assms(1))
  have c: "being_deleted c" "ClusterFinalizer \<in> set (Finalizers c)" "ready L c0 I obj c w" using assms(4-6) s by (simp_all add: held_def)
  note u' = user_round [OF u c(1,3)]
  then have b: "being_deleted c1" "ClusterFinalizer \<in> set (Finalizers c1)" "ready L c0 I obj c1 w1" using c by auto
  note d' = cluster_round [OF d b]
  have "deletion_work L T (c2, w2) < deletion_work L T (c, w)"
    using u' d' c(2) unfolding deletion_work_def held_def fst_conv snd_conv
    by (cases "resources_clean L c"; cases "user_clean L c"; cases "user_clean L c1"; cases "resources_clean L c2") auto
  with d' show ?thesis unfolding rnd by (simp add: s held_def)
qed

lemma loop_ends:
  assumes "e_L E = L" "e_K E = K" "e_Y E = Y" "being_deleted (fst s)" "held s" "ready L c0 I obj (fst s) (snd s)"
  shows "\<exists>n t. n \<le> deletion_work L T s \<and> deletion_loop E cl obj s = Some t \<and> t = (deletion_round E cl obj ^^ n) s \<and>
    \<not> held t \<and> cleaned L (fst t)"
  using assms(4-6)
proof (induction "deletion_work L T s" arbitrary: s rule: less_induct)
  case less
  let ?s = "deletion_round E cl obj s"
  note p = round_progress [OF assms(1-3) less.prems]
  have unf: "deletion_loop E cl obj s = deletion_loop E cl obj ?s"
    using less.prems(2) by (simp add: deletion_loop_def while_option_unfold [of _ _ s])
  show ?case
  proof (cases "held ?s")
    case True
    from less.hyps [OF _ _ True] p obtain n t where n: "n \<le> deletion_work L T ?s" "deletion_loop E cl obj ?s = Some t"
      "t = (deletion_round E cl obj ^^ n) ?s" "\<not> held t" "cleaned L (fst t)" by blast
    then have "Suc n \<le> deletion_work L T s" "t = (deletion_round E cl obj ^^ Suc n) s" using p by (auto simp: funpow_swap1)
    with n unf show ?thesis by metis
  next
    case False
    then have "deletion_loop E cl obj ?s = Some ?s" by (simp add: deletion_loop_def while_option_unfold [of _ _ ?s])
    moreover have "1 \<le> deletion_work L T s" "?s = (deletion_round E cl obj ^^ 1) s" using p by simp_all
    ultimately show ?thesis using unf False p by metis
  qed
qed

end

section \<open>Termination\<close>

text \<open>
  C3. The deletion of a cluster terminates if the environment fails only finitely often. Let the add-on Secret in the workload
  cluster be missing or usable (its values can be read and written and have AKO settings, without which the code
  panics), and let the credentials of a cluster whose user the operator has to delete be there. If at most \<open>T w\<close> of the calls to the API
  server, the workload cluster and the AVI controller fail or find AKO still at work, then the loop over a cluster that
  is being deleted and held by the finalizer ends after at most \<open>T w + 3\<close> reconciliations, and when it does the finalizer is
  gone and both the AVI resources and the AVI user are cleaned up. A failure to delete the Secret after the user has been deleted is
  covered only if the AVI controller then still accepts the deletion of that user. Each round starts from the cluster
  the one before has left.
\<close>

theorem deletion_terminates:
  assumes "condition_laws (e_L E)" "finalizer_laws (e_L E)" "yaml_laws (e_Y E)"
    and "finite_failures (e_L E) (e_K E) (e_Y E) cl c u T I"
    and "I g w" "g = Kept \<or> user_clean (e_L E) c \<or> \<not> owns_credentials obj c"
    and "being_deleted c" "ClusterFinalizer \<in> set (Finalizers c)"
  shows "\<exists>n c' w'. deletion_loop E cl obj (c, w) = Some (c', w') \<and>
    n \<le> T w + 3 \<and> (c', w') = (deletion_round E cl obj ^^ n) (c, w) \<and>
    ClusterFinalizer \<notin> set (Finalizers c') \<and> cleaned (e_L E) c'"
proof -
  note fe = failing_environment.intro [OF assms(1-4)]
  have "ready (e_L E) c I obj c w"
    using assms(5,6) unfolding ready_def stage_fits_def by auto
  then have "being_deleted (fst (c, w))" "held (c, w)" "ready (e_L E) c I obj (fst (c, w)) (snd (c, w))"
    using assms(7,8) by (simp_all add: held_def)
  from failing_environment.loop_ends [OF fe refl refl refl this] obtain n t where
    t: "n \<le> deletion_work (e_L E) T (c, w)" "deletion_loop E cl obj (c, w) = Some t"
      "t = (deletion_round E cl obj ^^ n) (c, w)" "\<not> held t" "cleaned (e_L E) (fst t)" by blast
  moreover have "deletion_work (e_L E) T (c, w) \<le> T w + 3" by (simp add: deletion_work_def)
  moreover obtain c' w' where "t = (c', w')" by (cases t)
  ultimately show ?thesis unfolding held_def by (metis fst_conv order_trans)
qed

section \<open>An instance\<close>

text \<open>
  The reference API server and AVI controller behind an unreliable connection: a schedule says which calls fail.
  A failure of the read of AKO's StatefulSet is the answer that AKO is still at work.
\<close>

definition faulty :: "'r \<Rightarrow> ('w \<Rightarrow> 'r \<times> 'w) \<Rightarrow> 'w \<times> bool list \<Rightarrow> 'r \<times> 'w \<times> bool list" where
  "faulty failure call s =
     (case s of (w, schedule) \<Rightarrow>
        if schedule \<noteq> [] \<and> hd schedule then (failure, w, tl schedule)
        else (case call w of (r, w') \<Rightarrow> (r, w', tl schedule)))"

definition timeout :: error where
  "timeout = Err ''timeout''"

definition faulty_api :: "('w, 'o) kind_api \<Rightarrow> ('w \<times> bool list, 'o) kind_api" where
  "faulty_api A = \<lparr>
     kGet = (\<lambda>w k. faulty (Inl timeout) (\<lambda>w. kGet A w k) w), kCreate = (\<lambda>w x. faulty (Inl timeout) (\<lambda>w. kCreate A w x) w),
     kUpdate = (\<lambda>w x. faulty (Inl timeout) (\<lambda>w. kUpdate A w x) w), kDelete = (\<lambda>w x. faulty (Some timeout) (\<lambda>w. kDelete A w x) w),
     kNewHelper = (\<lambda>w x. faulty (Some timeout) (\<lambda>w. kNewHelper A w x) w),
     kPatch = (\<lambda>w x y. faulty (Some timeout) (\<lambda>w. kPatch A w x y) w)\<rparr>"

definition faulty_remote :: "'w remote \<Rightarrow> ('w \<times> bool list) remote" where
  "faulty_remote R = \<lparr>r_Secrets = faulty_api (r_Secrets R),
     r_StatefulSets = (faulty_api (r_StatefulSets R))\<lparr>kGet := (\<lambda>w k. faulty (Inr busyAKO) (\<lambda>w. kGet (r_StatefulSets R) w k) w)\<rparr>\<rparr>"

definition faulty_kapi :: "'w kapi \<Rightarrow> ('w \<times> bool list) kapi" where
  "faulty_kapi K = \<lparr>Secrets = faulty_api (Secrets K), SvcS = faulty_api (SvcS K), EndpointsS = faulty_api (EndpointsS K),
     Clusters = faulty_api (Clusters K), Machines = faulty_api (Machines K), AviInfraSettings = faulty_api (AviInfraSettings K),
     ClusterBootstraps = faulty_api (ClusterBootstraps K), TKRs = faulty_api (TKRs K), StatefulSets = faulty_api (StatefulSets K),
     ListClusters = (\<lambda>w s. faulty (Inl timeout) (\<lambda>w. ListClusters K w s) w),
     ListMachines = (\<lambda>w ns l. faulty (Inl timeout) (\<lambda>w. ListMachines K w ns l) w),
     GetRemoteClient = (\<lambda>w n k. faulty (Inl timeout) (\<lambda>w. case GetRemoteClient K w n k of (r, w) \<Rightarrow> (map_sum id faulty_remote r, w)) w),
     ADCs = faulty_api (ADCs K), ListADCs = faulty (Inl timeout) (ListADCs K)\<rparr>"

definition faulty_client :: "'w Client \<Rightarrow> ('w \<times> bool list) Client" where
  "faulty_client C = \<lparr>
     ServiceEngineGroupGetByName = (\<lambda>n c. faulty (Ret (Inl timeout)) (ServiceEngineGroupGetByName C n c)),
     ServiceEngineGroupCreate = (\<lambda>x. faulty (Inl timeout) (ServiceEngineGroupCreate C x)),
     NetworkGetByName = (\<lambda>n c. faulty (Ret (Inl timeout)) (NetworkGetByName C n c)),
     NetworkCreate = (\<lambda>x. faulty (Inl timeout) (NetworkCreate C x)), NetworkUpdate = (\<lambda>x. faulty (Inl timeout) (NetworkUpdate C x)),
     CloudGetByName = (\<lambda>n. faulty (Inl timeout) (CloudGetByName C n)), CloudCreate = (\<lambda>x. faulty (Inl timeout) (CloudCreate C x)),
     UserGetByName = (\<lambda>n. faulty (Inl timeout) (UserGetByName C n)), UserDeleteByName = (\<lambda>n. faulty (Some timeout) (UserDeleteByName C n)),
     UserCreate = (\<lambda>x. faulty (Inl timeout) (UserCreate C x)), UserUpdate = (\<lambda>x. faulty (Inl timeout) (UserUpdate C x)),
     TenantGet = (\<lambda>n. faulty (Inl timeout) (TenantGet C n)), RoleGetByName = (\<lambda>n. faulty (Inl timeout) (RoleGetByName C n)),
     RoleCreate = (\<lambda>x. faulty (Inl timeout) (RoleCreate C x)), RoleUpdate = (\<lambda>x. faulty (Inl timeout) (RoleUpdate C x)),
     IPAMDNSProviderProfileGet = (\<lambda>n. faulty (Inl timeout) (IPAMDNSProviderProfileGet C n)),
     IPAMDNSProviderProfileUpdate = (\<lambda>x. faulty (Inl timeout) (IPAMDNSProviderProfileUpdate C x)),
     VirtualServiceGetByName = (\<lambda>n. faulty (Inl timeout) (VirtualServiceGetByName C n)),
     PoolGetByName = (\<lambda>n. faulty (Inl timeout) (PoolGetByName C n)),
     AviCertificateConfig = AviCertificateConfig C, GetControllerVersion = faulty (Inl timeout) (GetControllerVersion C)\<rparr>"

definition failures_left :: "'w \<times> bool list \<Rightarrow> nat" where
  "failures_left s = count_list (snd s) True"

text \<open>A call behind the connection fails and uses up a failure, or answers as the server does.\<close>

lemma faulty_cases:
  assumes "faulty failure call (w, bs) = (r, w', bs')"
  obtains "r = failure" "w' = w" "failures_left (w', bs') < failures_left (w, bs)"
    | "call w = (r, w')" "failures_left (w', bs') \<le> failures_left (w, bs)"
  using assms by (cases bs) (auto simp: faulty_def failures_left_def split: if_splits prod.splits)

lemma faulty_settles:
  assumes "\<And>bs. J (w, bs)" "\<And>r w'. call w = (r, w') \<Longrightarrow> wanted r \<and> (\<forall>bs. J (w', bs))"
  shows "settles failures_left J wanted (w, bs) (faulty failure call (w, bs))"
proof -
  obtain r w' bs' where f: "faulty failure call (w, bs) = (r, w', bs')" by (metis prod_cases3)
  then show ?thesis by (cases rule: faulty_cases) (use assms in \<open>auto simp: settles_def f\<close>)
qed

text \<open>The stages of the credentials in the reference world, and a workload cluster in order.\<close>

definition userSecret :: Secret where
  "userSecret = exampleSecret userSecretRef [(''username'', ''wc-default-ako-user'')]"

definition in_order :: "credentials \<Rightarrow> amem \<times> bool list \<Rightarrow> bool" where
  "in_order g s \<longleftrightarrow>
     list_all (\<lambda>x. obj_key x = addon_key deletedCluster \<longrightarrow> usable_values exampleYaml deletedCluster x) (m_remote_secrets (fst s)) \<and>
     list_all (\<lambda>x. obj_key x = (AviNamespace, ''ako'') \<longrightarrow> Annotations x akoCleanUpAnnotationKey = Some akoCleanUpFinishedStatus)
       (m_remote_sts (fst s)) \<and>
     (g \<noteq> Removed \<longrightarrow> find (\<lambda>x. obj_key x = credentials_key deletedCluster) (m_secrets (fst s)) = Some userSecret)"

lemma in_order_schedule: "in_order g (w, bs) \<Longrightarrow> in_order g (w, bs')"
  by (simp add: in_order_def)

lemma find_filter_other: "(\<And>x. P x \<Longrightarrow> Q x) \<Longrightarrow> find P (filter Q xs) = find P xs"
  by (induction xs) auto

lemma deleting_usable: "NewValuesFromBytes Y (data_get secret ''values.yaml'') = Inr v \<Longrightarrow> deleting v \<Longrightarrow> usable_values Y c secret"
  by (auto simp: usable_values_def deleting_def split: option.splits)

lemma ref_get: "kGet (list_api get put key) w k = (case find (\<lambda>x. key x = k) (get w) of None \<Rightarrow> Inl not_found | Some x \<Rightarrow> Inr x, w)"
  by (simp add: list_api_def)

lemma not_found_found [simp]: "IsNotFound ref_lib not_found" "\<not> IsNotFound ref_lib timeout" "\<not> IsGone ref_lib timeout"
  by (simp_all add: ref_lib_def has_reason_def not_found_def timeout_def)

lemma faulty_workload:
  "workload_contract ref_lib exampleYaml deletedCluster failures_left (in_order g) (faulty_remote mem_remote)"
  unfolding workload_contract_def
proof (intro conjI allI impI)
  fix s :: "amem \<times> bool list" assume J: "in_order g s"
  obtain w bs where s: "s = (w, bs)" by (cases s)
  have Jw: "in_order g (w, bs')" for bs' using J in_order_schedule s by blast
  show "settles failures_left (in_order g) (\<lambda>r. \<forall>e. r = Inl e \<longrightarrow> IsNotFound ref_lib e) s
      (kGet (r_Secrets (faulty_remote mem_remote)) s (addon_key deletedCluster))"
    unfolding s by (simp add: faulty_remote_def faulty_api_def mem_remote_def ref_get)
      (rule faulty_settles, auto simp: Jw split: option.splits)
  have "case find (\<lambda>x. obj_key x = (AviNamespace, ''ako'')) (m_remote_sts w) of None \<Rightarrow> True
      | Some x \<Rightarrow> Annotations x akoCleanUpAnnotationKey = Some akoCleanUpFinishedStatus"
    using Jw [of bs] by (auto simp: in_order_def list_all_iff split: option.splits dest!: find_SomeD)
  then show "settles failures_left (in_order g)
      (\<lambda>r. case r of Inl e \<Rightarrow> IsNotFound ref_lib e
         | Inr ss \<Rightarrow> Annotations ss akoCleanUpAnnotationKey \<in> {Some akoCleanUpFinishedStatus, Some akoCleanUpTimeoutStatus})
      s (kGet (r_StatefulSets (faulty_remote mem_remote)) s (AviNamespace, ''ako''))"
    unfolding s by (simp add: faulty_remote_def mem_remote_def ref_get)
      (rule faulty_settles, auto simp: Jw split: option.splits)
next
  fix s :: "amem \<times> bool list" and secret s'
  assume a: "in_order g s \<and> kGet (r_Secrets (faulty_remote mem_remote)) s (addon_key deletedCluster) = (Inr secret, s')"
  obtain w bs w' bs' where s: "s = (w, bs)" "s' = (w', bs')" by (cases s, cases s')
  from a have "faulty (Inl timeout) (\<lambda>w. kGet (r_Secrets mem_remote) w (addon_key deletedCluster)) (w, bs) = (Inr secret, w', bs')"
    by (simp add: s faulty_remote_def faulty_api_def)
  then have f: "find (\<lambda>x. obj_key x = addon_key deletedCluster) (m_remote_secrets w) = Some secret" "w' = w"
    by (cases rule: faulty_cases; simp add: mem_remote_def ref_get split: option.splits)+
  then show "obj_key secret = addon_key deletedCluster" "usable_values exampleYaml deletedCluster secret"
    using a s by (auto simp: in_order_def list_all_iff dest!: find_SomeD)
  fix secret' v
  assume b: "obj_key secret' = addon_key deletedCluster \<and> NewValuesFromBytes exampleYaml (data_get secret' ''values.yaml'') = Inr v \<and> deleting v"
  have Jw: "in_order g (w, cs)" for cs using a in_order_schedule s by blast
  have "kUpdate (r_Secrets mem_remote) w secret' = (Inr secret', w\<lparr>m_remote_secrets :=
      map (\<lambda>y. if obj_key y = obj_key secret' then secret' else y) (m_remote_secrets w)\<rparr>)"
    using f b by (simp add: mem_remote_def list_api_def)
  moreover have "in_order g (w\<lparr>m_remote_secrets := map (\<lambda>y. if obj_key y = obj_key secret' then secret' else y) (m_remote_secrets w)\<rparr>, cs)" for cs
    using Jw [of cs] b deleting_usable by (auto simp: in_order_def list_all_iff)
  ultimately show "settles failures_left (in_order g) (\<lambda>r. \<exists>x. r = Inr x) s' (kUpdate (r_Secrets (faulty_remote mem_remote)) s' secret')"
    unfolding s f(2) by (simp add: faulty_remote_def faulty_api_def) (rule faulty_settles, auto simp: Jw)
qed

lemma faulty_remote_side: "remote_contract ref_lib (faulty_kapi mem_kapi) exampleYaml deletedCluster failures_left (in_order g)"
  unfolding remote_contract_def
proof (intro allI impI, clarify)
  fix w :: amem and bs r s'
  assume J: "in_order g (w, bs)"
    and c: "GetRemoteClient (faulty_kapi mem_kapi) (w, bs) AKODeploymentConfigControllerName (Namespace deletedCluster, Name deletedCluster) = (r, s')"
  obtain w' bs' where s': "s' = (w', bs')" by (cases s')
  from c have f: "faulty (Inl timeout) (\<lambda>w. (Inr (faulty_remote mem_remote), w)) (w, bs) = (r, w', bs')"
    by (simp add: s' faulty_kapi_def mem_kapi_def)
  then have "r = Inl timeout \<or> r = Inr (faulty_remote mem_remote)" by (cases rule: faulty_cases) auto
  moreover have "settles failures_left (in_order g) (\<lambda>r. \<exists>R. r = Inr R) (w, bs) (r, w', bs')"
    unfolding f [symmetric] by (rule faulty_settles) (use J in_order_schedule in auto)
  ultimately show "settles failures_left (in_order g) (\<lambda>r. \<exists>R. r = Inr R) (w, bs) (r, s') \<and>
      (\<forall>R. r = Inr R \<longrightarrow> workload_contract ref_lib exampleYaml deletedCluster failures_left (in_order g) R)"
    using faulty_workload by (auto simp: s')
qed

lemma userSecret_key: "obj_key userSecret = credentials_key deletedCluster"
  by (simp add: userSecret_def exampleSecret_def obj_key_def credentials_key_def userSecretRef_def mcAVISecretNameNameSpace_def)

lemma faulty_credentials:
  "credentials_contract ref_lib (faulty_kapi mem_kapi) (faulty_client ref_client) deletedCluster ''wc-default-ako-user'' failures_left in_order"
  unfolding credentials_contract_def
proof (intro conjI allI impI; clarify)
  fix w :: amem and bs r w' bs'
  assume J: "in_order Kept (w, bs)"
    and c: "kGet (Secrets (faulty_kapi mem_kapi)) (w, bs) (credentials_key deletedCluster) = (r, w', bs')"
  from c have "faulty (Inl timeout) (\<lambda>w. kGet (Secrets mem_kapi) w (credentials_key deletedCluster)) (w, bs) = (r, w', bs')"
    by (simp add: faulty_kapi_def faulty_api_def)
  then show "in_order Kept (w', bs') \<and> (case r of Inr secret \<Rightarrow> data_get secret ''username'' = ''wc-default-ako-user'' \<and>
      failures_left (w', bs') \<le> failures_left (w, bs) | Inl e \<Rightarrow> \<not> IsNotFound ref_lib e \<and> failures_left (w', bs') < failures_left (w, bs))"
    using J by (cases rule: faulty_cases)
      (auto simp: mem_kapi_def ref_get in_order_def userSecret_def exampleSecret_def data_get_def)
next
  fix w :: amem and bs r w' bs'
  assume J: "in_order Kept (w, bs)"
    and c: "UserDeleteByName (faulty_client ref_client) ''wc-default-ako-user'' (w, bs) = (r, w', bs')"
  from c have "faulty (Some timeout) (UserDeleteByName ref_client ''wc-default-ako-user'') (w, bs) = (r, w', bs')"
    by (simp add: faulty_client_def)
  then show "if r = None then in_order UserDeleted (w', bs') \<and> failures_left (w', bs') \<le> failures_left (w, bs)
      else in_order Kept (w', bs') \<and> failures_left (w', bs') < failures_left (w, bs)"
    using J by (cases rule: faulty_cases) (auto simp: ref_client_def in_order_def)
next
  fix w :: amem and bs r w' bs' and secret :: Secret
  assume J: "in_order UserDeleted (w, bs)" "obj_key secret = credentials_key deletedCluster"
    and c: "kDelete (Secrets (faulty_kapi mem_kapi)) (w, bs) secret = (r, w', bs')"
  from c have "faulty (Some timeout) (\<lambda>w. kDelete (Secrets mem_kapi) w secret) (w, bs) = (r, w', bs')"
    by (simp add: faulty_kapi_def faulty_api_def)
  then show "if \<forall>e. r = Some e \<longrightarrow> IsGone ref_lib e then in_order Removed (w', bs') \<and> failures_left (w', bs') \<le> failures_left (w, bs)
      else in_order Kept (w', bs') \<and> failures_left (w', bs') < failures_left (w, bs)"
    using J by (cases rule: faulty_cases) (auto simp: mem_kapi_def list_api_def in_order_def)
qed

lemma faulty_failures:
  "finite_failures ref_lib (faulty_kapi mem_kapi) exampleYaml (faulty_client ref_client) deletedCluster ''wc-default-ako-user''
     failures_left in_order"
  unfolding finite_failures_def
proof (intro conjI allI impI)
  fix s :: "amem \<times> bool list" and k secret s'
  assume c: "kGet (Secrets (faulty_kapi mem_kapi)) s k = (Inr secret, s')"
  obtain w bs w' bs' where s: "s = (w, bs)" "s' = (w', bs')" by (cases s, cases s')
  from c have "faulty (Inl timeout) (\<lambda>w. kGet (Secrets mem_kapi) w k) (w, bs) = (Inr secret, w', bs')"
    by (simp add: s faulty_kapi_def faulty_api_def)
  then show "obj_key secret = k"
    by (cases rule: faulty_cases) (auto simp: mem_kapi_def ref_get split: option.splits dest!: find_SomeD)
next
  fix g and s :: "amem \<times> bool list" and k
  assume a: "in_order g s \<and> k \<noteq> credentials_key deletedCluster"
  obtain w bs where s: "s = (w, bs)" by (cases s)
  show "settles failures_left (in_order g) (\<lambda>_. True) s (kGet (Secrets (faulty_kapi mem_kapi)) s k)"
    unfolding s by (simp add: faulty_kapi_def faulty_api_def)
      (rule faulty_settles, use a s in_order_schedule in \<open>auto simp: mem_kapi_def ref_get\<close>)
next
  fix g and s :: "amem \<times> bool list" and secret :: Secret
  assume a: "in_order g s \<and> obj_key secret \<noteq> credentials_key deletedCluster"
  obtain w bs where s: "s = (w, bs)" by (cases s)
  have f: "find (\<lambda>x. obj_key x = credentials_key deletedCluster) (filter (\<lambda>y. obj_key y \<noteq> obj_key secret) xs) =
      find (\<lambda>x. obj_key x = credentials_key deletedCluster) xs" for xs :: "Secret list"
    by (rule find_filter_other) (use a in auto)
  have "snd (kDelete (Secrets mem_kapi) w secret) = w \<or> snd (kDelete (Secrets mem_kapi) w secret) =
      w\<lparr>m_secrets := filter (\<lambda>y. obj_key y \<noteq> obj_key secret) (m_secrets w)\<rparr>"
    by (simp add: mem_kapi_def list_api_def split: option.splits)
  then have "in_order g (snd (kDelete (Secrets mem_kapi) w secret), cs)" for cs
    using a s by (auto simp: in_order_def f)
  then show "settles failures_left (in_order g) (\<lambda>_. True) s (kDelete (Secrets (faulty_kapi mem_kapi)) s secret)"
    unfolding s by (simp add: faulty_kapi_def faulty_api_def)
      (rule faulty_settles, use a s in_order_schedule in \<open>auto simp: snd_def split: prod.splits\<close>)
qed (rule faulty_remote_side faulty_credentials)+

interpretation faulty: failing_environment ref_lib "faulty_kapi mem_kapi" exampleYaml "faulty_client ref_client" deletedCluster
  "''wc-default-ako-user''" failures_left in_order
  using faulty_failures by unfold_locales simp_all

definition faultyEnv :: "(amem \<times> bool list) adc_env" where
  "faultyEnv = \<lparr>e_L = ref_lib, e_K = faulty_kapi mem_kapi, e_env = Map.empty, e_Y = exampleYaml,
     e_new = (\<lambda>ip u opts w. (Inl timeout, w)), e_srt = isort_by,
     e_ord = (\<lambda>_. AkoRolePermissionEntries), e_rnd = (\<lambda>_ _ _. 0)\<rparr>"

text \<open>A world with the credentials, the add-on Secret and AKO, and a connection that fails four times.\<close>

definition deletionWorld :: "amem \<times> bool list" where
  "deletionWorld =
     (userWorld\<lparr>m_remote_secrets := [addonSecret], m_remote_sts := [busyAKO\<lparr>Annotations := [akoCleanUpAnnotationKey \<mapsto> akoCleanUpFinishedStatus]\<rparr>]\<rparr>,
      [False, True, False, False, True, False, True, True])"

lemma addonSecret_usable: "usable_values exampleYaml deletedCluster addonSecret"
proof -
  have "yaml_Marshal exampleYaml deletingValues = Inr ''D''" by (simp add: exampleYaml_def)
  then have "\<exists>buf. YttYaml exampleYaml deletingValues deletedCluster = Inr buf" by (simp add: YttYaml_def)
  moreover have "NewValuesFromBytes exampleYaml (data_get addonSecret ''values.yaml'') = Inr exampleValues"
    by (simp add: NewValuesFromBytes_def exampleYaml_def addonSecret_def data_get_def TKGDataValueFormatString_def)
  moreover have "cfg_AKOSettings (lb_Config exampleValues) = Some DefaultAKOSettings" by (simp add: exampleValues_def)
  moreover have "Data addonSecret \<noteq> None" by (simp add: addonSecret_def)
  ultimately show ?thesis unfolding usable_values_def deletingValues_def by blast
qed

lemma deletionWorld_in_order: "in_order Kept deletionWorld"
  using addonSecret_usable userSecret_key
  by (simp add: in_order_def deletionWorld_def userWorld_def userSecret_def [symmetric])

theorem deletion_terminates_witness:
  "\<exists>n c' w'. deletion_loop faultyEnv (faulty_client ref_client) exampleADC (deletedCluster, deletionWorld) = Some (c', w') \<and> n \<le> 7 \<and>
     (c', w') = (deletion_round faultyEnv (faulty_client ref_client) exampleADC ^^ n) (deletedCluster, deletionWorld) \<and>
     ClusterFinalizer \<notin> set (Finalizers c') \<and> cleaned ref_lib c'"
proof -
  have e: "e_L faultyEnv = ref_lib" "e_K faultyEnv = faulty_kapi mem_kapi" "e_Y faultyEnv = exampleYaml" by (simp_all add: faultyEnv_def)
  have "condition_laws (e_L faultyEnv)" "finalizer_laws (e_L faultyEnv)" "yaml_laws (e_Y faultyEnv)"
    "finite_failures (e_L faultyEnv) (e_K faultyEnv) (e_Y faultyEnv) (faulty_client ref_client) deletedCluster ''wc-default-ako-user''
       failures_left in_order"
    using faulty_failures by (simp_all add: e)
  moreover have "being_deleted deletedCluster" "ClusterFinalizer \<in> set (Finalizers deletedCluster)"
    by (simp_all add: deletedCluster_def being_deleted_def)
  moreover have "failures_left deletionWorld = 4" by (simp add: failures_left_def deletionWorld_def)
  ultimately show ?thesis
    using deletion_terminates [of faultyEnv "faulty_client ref_client" deletedCluster "''wc-default-ako-user''" failures_left in_order
        Kept deletionWorld exampleADC] deletionWorld_in_order by (simp add: e)
qed

end
