(* ===== verification/Webhook.thy ===== *)
theory Webhook
  imports Ref_Avi Go_Net
begin

text \<open>
  \<open>src/api/v1alpha1/akodeploymentconfig_webhook.go\<close>: the validating admission webhook for
  AKODeploymentConfig objects.

  The package variables are the state: \<open>aviClient\<close> is the client of the last validation that got one
  (\<open>None\<close> before the first); \<open>kclient\<close> and \<open>runTest\<close> do not change and belong to the environment.
  A validator that dereferences nil panics. \<open>LabelSelectorAsSelector\<close> returns no selector with an
  error, \<open>net.ParseCIDR\<close> no network.
\<close>

section \<open>Errors\<close>

datatype bad_value =
    BadString string
  | BadSelector LabelSelector
  | BadCount "int option"
  | BadControlPlane ControlPlaneNetwork
  | BadPools "IPPool list option"

text \<open>\<open>field.Invalid(path, value, detail)\<close>\<close>

record FieldError =
  fe_Path :: "string list"
  fe_Value :: bad_value
  fe_Detail :: string

definition Invalid :: "string list \<Rightarrow> bad_value \<Rightarrow> string \<Rightarrow> FieldError" where
  "Invalid path value detail = \<lparr>fe_Path = path, fe_Value = value, fe_Detail = detail\<rparr>"

text \<open>What the webhook answers: nil, or the error it made.\<close>

datatype hook_error =
    NewInvalid string string "FieldError list"
  | NewBadRequest string
  | FieldInvalid FieldError

section \<open>The version pattern\<close>

text \<open>
  The part of Go's \<open>regexp\<close> the pattern uses: an expression anchored at both ends. Matching is by
  derivatives; \<open>lang\<close> is what an expression denotes.
\<close>

datatype rexp = RNone | REmpty | RDigit | RLit char | RSeq rexp rexp | RAlt rexp rexp | RStar rexp

fun nullable :: "rexp \<Rightarrow> bool" where
  "nullable RNone = False"
| "nullable REmpty = True"
| "nullable RDigit = False"
| "nullable (RLit c) = False"
| "nullable (RSeq a b) = (nullable a \<and> nullable b)"
| "nullable (RAlt a b) = (nullable a \<or> nullable b)"
| "nullable (RStar a) = True"

fun deriv :: "char \<Rightarrow> rexp \<Rightarrow> rexp" where
  "deriv c RNone = RNone"
| "deriv c REmpty = RNone"
| "deriv c RDigit = (if digit_val c \<noteq> None then REmpty else RNone)"
| "deriv c (RLit d) = (if c = d then REmpty else RNone)"
| "deriv c (RSeq a b) =
     (if nullable a then RAlt (RSeq (deriv c a) b) (deriv c b) else RSeq (deriv c a) b)"
| "deriv c (RAlt a b) = RAlt (deriv c a) (deriv c b)"
| "deriv c (RStar a) = RSeq (deriv c a) (RStar a)"

definition MatchString :: "rexp \<Rightarrow> string \<Rightarrow> bool" where
  "MatchString r s = nullable (fold deriv s r)"

text \<open>\<open>^\d+(\.\d+)*$\<close>\<close>

definition digits_rexp :: rexp where
  "digits_rexp = RSeq RDigit (RStar RDigit)"

definition controllerVersionRegex :: rexp where
  "controllerVersionRegex = RSeq digits_rexp (RStar (RSeq (RLit (CHR ''.'')) digits_rexp))"

section \<open>Validators of single fields\<close>

definition validateReplicaCount :: "AKODeploymentConfig \<Rightarrow> FieldError option" where
  "validateReplicaCount r =
     (case ReplicaCount (spec_ExtraConfigs (Spec r)) of
        None \<Rightarrow> None
      | Some n \<Rightarrow>
          (if n < 1 \<or> n > 2
           then Some (Invalid [''spec'', ''extraConfigs'', ''replicaCount'']
                        (BadCount (ReplicaCount (spec_ExtraConfigs (Spec r)))) ''replica count must be 1 or 2'')
           else None))"

definition validateAviSecret :: "lib \<Rightarrow> 'w kapi \<Rightarrow> SecretRef \<Rightarrow> 'w \<Rightarrow> (FieldError + Secret) \<times> 'w" where
  "validateAviSecret L K secretRef w =
     (case kGet (Secrets K) w (ref_Namespace secretRef, ref_Name secretRef) of
        (Inl err, w) \<Rightarrow>
          (Inl (Invalid [''spec'', ref_Namespace secretRef @ ''/'' @ ref_Name secretRef] (BadString (ref_Name secretRef))
                 (if IsNotFound L err then ''can'' @ [CHR 0x27] @ ''t find secret'' else ''failed to find secret:'' @ Error_msg err)), w)
      | (Inr secret, w) \<Rightarrow> (Inr secret, w))"

text \<open>The inner declaration hides the variable that is returned: without an error it is empty.\<close>

definition validateAviControllerVersion :: "AKODeploymentConfig \<Rightarrow> string \<times> FieldError option" where
  "validateAviControllerVersion r =
     (let v = ControllerVersion (Spec r)
      in if v \<noteq> [] \<and> \<not> MatchString controllerVersionRegex v
         then (v, Some (Invalid [''spec'', ''ControllerVersion''] (BadString v)
                          ''invalid controller version format, example valid controller version: 21.1.4''))
         else ([], None))"

definition validateAviAccount ::
  "'w sdk_new \<Rightarrow> AKODeploymentConfig \<Rightarrow> string \<Rightarrow> string \<Rightarrow> string \<Rightarrow> string \<Rightarrow> 'w \<Rightarrow> (FieldError + 'w Client) \<times> 'w" where
  "validateAviAccount new r username password certificate version w =
     (case NewAviClient new \<lparr>ServerIP = Controller (Spec r), cfg_Username = username, cfg_Password = password,
              CA = certificate, cfg_Transport = None, ServerName = []\<rparr> version w of
        (Inl err, w) \<Rightarrow>
          (Inl (Invalid [''spec'', ''Controller''] (BadString (Controller (Spec r)))
                 (''failed to init avi client for controller:'' @ Error_msg err)), w)
      | (Inr c, w) \<Rightarrow> (Inr c, w))"

text \<open>A check: the errors it adds, or a panic.\<close>

type_synonym 'w check = "'w \<Rightarrow> FieldError list outcome \<times> 'w"

definition validateAviCloud :: "'w Client option \<Rightarrow> AKODeploymentConfig \<Rightarrow> 'w check" where
  "validateAviCloud aviClient r w =
     (case aviClient of
        None \<Rightarrow> (Panic, w)
      | Some c \<Rightarrow>
          (case CloudGetByName c (CloudName (Spec r)) w of
             (Inl err, w) \<Rightarrow>
               (Ret [Invalid [''spec'', ''cloudName''] (BadString (CloudName (Spec r)))
                       (''failed to get cloud from avi controller:'' @ Error_msg err)], w)
           | (Inr cloud, w) \<Rightarrow>
               (Ret (if IPAMProviderRef cloud = None
                     then [Invalid [''spec'', ''cloudName''] (BadString (CloudName (Spec r)))
                             (''this cloud doesn'' @ [CHR 0x27] @ ''t have any ipam profile configured'')]
                     else []), w)))"

definition validateAviServiceEngineGroup :: "'w Client option \<Rightarrow> AKODeploymentConfig \<Rightarrow> 'w check" where
  "validateAviServiceEngineGroup aviClient r w =
     (case aviClient of
        None \<Rightarrow> (Panic, w)
      | Some c \<Rightarrow>
          (case ServiceEngineGroupGetByName c (ServiceEngineGroup (Spec r)) (CloudName (Spec r)) w of
             (Panic, w) \<Rightarrow> (Panic, w)
           | (Ret (Inl err), w) \<Rightarrow>
               (Ret [Invalid [''spec'', ''serviceEngineGroup''] (BadString (ServiceEngineGroup (Spec r)))
                       (''failed to get service engine group from avi controller:'' @ Error_msg err)], w)
           | (Ret (Inr _), w) \<Rightarrow> (Ret [], w)))"

section \<open>Validators of the networks\<close>

definition cidr_error :: "string \<Rightarrow> string" where
  "cidr_error s = ''invalid CIDR address: '' @ s"

text \<open>The look-up of a network, shared by the two validators below.\<close>

definition check_network :: "'w Client option \<Rightarrow> AKODeploymentConfig \<Rightarrow> string \<Rightarrow> string \<Rightarrow> string \<Rightarrow> 'w check" where
  "check_network aviClient r fld what name w =
     (case aviClient of
        None \<Rightarrow> (Panic, w)
      | Some c \<Rightarrow>
          (case NetworkGetByName c name (CloudName (Spec r)) w of
             (Panic, w) \<Rightarrow> (Panic, w)
           | (Ret (Inl err), w) \<Rightarrow>
               (Ret [Invalid [''spec'', fld, ''name''] (BadString name)
                       (''failed to get '' @ what @ '' '' @ name @ '' from avi controller:'' @ Error_msg err)], w)
           | (Ret (Inr _), w) \<Rightarrow> (Ret [], w)))"

definition validateAviControlPlaneNetworks :: "'w Client option \<Rightarrow> AKODeploymentConfig \<Rightarrow> 'w check" where
  "validateAviControlPlaneNetworks aviClient r w =
     (let cp = spec_ControlPlaneNetwork (Spec r)
      in if cpn_Name cp = [] \<or> cpn_CIDR cp = [] then (Ret [], w)
         else case check_network aviClient r ''controlPlaneNetwork'' ''control plane network'' (cpn_Name cp) w of
                (Panic, w) \<Rightarrow> (Panic, w)
              | (Ret errs, w) \<Rightarrow>
                  (Ret (errs @ (if ParseCIDR (cpn_CIDR cp) = None
                                then [Invalid [''spec'', ''controlPlaneNetwork'', ''cidr''] (BadString (cpn_CIDR cp))
                                        (''control plane network cidr '' @ cpn_CIDR cp @ '' is not valid:'' @ cidr_error (cpn_CIDR cp))]
                                else [])), w))"

definition addr_family :: "IP \<Rightarrow> string" where
  "addr_family addr = (if To4 addr \<noteq> [] then ''V4'' else if To16 addr \<noteq> [] then ''V6'' else ''INVALID'')"

definition pool_error :: "IPPool list option \<Rightarrow> string \<Rightarrow> FieldError" where
  "pool_error pools detail = Invalid [''spec'', ''dataNetwork'', ''ipPools''] (BadPools pools) detail"

text \<open>The errors of one pool for a network, before its type is looked at.\<close>

definition pool_errors :: "IPNet \<Rightarrow> IPPool list option \<Rightarrow> IPPool \<Rightarrow> FieldError list" where
  "pool_errors cidr pools p =
     (let ipStart = ParseIP (pool_Start p); ipEnd = ParseIP (pool_End p)
      in (if ipStart = [] then [pool_error pools (''ip pool address'' @ pool_Start p @ '' is not valid'')] else [])
         @ (if ipEnd = [] then [pool_error pools (''ip pool address'' @ pool_End p @ '' is not valid'')] else [])
         @ (if \<not> IPNet_Contains cidr ipStart \<or> \<not> IPNet_Contains cidr ipEnd
            then [pool_error pools (''Range ['' @ pool_Start p @ '','' @ pool_End p @ ''] is not in cidr'')] else [])
         @ (if bytes_Compare ipStart ipEnd > 0
            then [pool_error pools (pool_Start p @ '' is greater than '' @ pool_End p)] else []))"

text \<open>The loop over the pools. A pool of the wrong type ends it; a nil network panics.\<close>

fun check_pools :: "IPNet option \<Rightarrow> string \<Rightarrow> IPPool list option \<Rightarrow> IPPool list \<Rightarrow> FieldError list outcome" where
  "check_pools cidr addrType pools [] = Ret []"
| "check_pools cidr addrType pools (p # ps) =
     (case cidr of
        None \<Rightarrow> Panic
      | Some n \<Rightarrow>
          (if pool_Type p \<noteq> addrType
           then Ret (pool_errors n pools p @ [pool_error pools ''data plane network ip pools type is not aligned with cidr''])
           else bind_outcome (check_pools cidr addrType pools ps) (\<lambda>errs. Ret (pool_errors n pools p @ errs))))"

definition pool_list :: "AKODeploymentConfig \<Rightarrow> IPPool list" where
  "pool_list r = (case IPPools (spec_DataNetwork (Spec r)) of None \<Rightarrow> [] | Some ps \<Rightarrow> ps)"

definition validateAviDataNetworks :: "'w Client option \<Rightarrow> AKODeploymentConfig \<Rightarrow> 'w check" where
  "validateAviDataNetworks aviClient r w =
     (let dn = spec_DataNetwork (Spec r)
      in case check_network aviClient r ''dataNetwork'' ''data plane network'' (dn_Name dn) w of
           (Panic, w) \<Rightarrow> (Panic, w)
         | (Ret errs, w) \<Rightarrow>
             (case ParseCIDR (dn_CIDR dn) of
                None \<Rightarrow>
                  (bind_outcome (check_pools None (addr_family []) (IPPools dn) (pool_list r))
                     (\<lambda>e. Ret (errs @ [Invalid [''spec'', ''dataNetwork'', ''cidr''] (BadString (dn_CIDR dn))
                        (''data plane network cidr '' @ dn_CIDR dn @ '' is not valid:'' @ cidr_error (dn_CIDR dn))] @ e)), w)
              | Some (addr, cidr) \<Rightarrow>
                  (bind_outcome (check_pools (Some cidr) (addr_family addr) (IPPools dn) (pool_list r))
                     (\<lambda>e. Ret (errs @ e)), w)))"

section \<open>The webhook\<close>

record 'w hook_env =
  h_L :: lib
  h_K :: "'w kapi"
  h_new :: "'w sdk_new"
  h_runTest :: bool

definition validateClusterSelector :: "lib \<Rightarrow> AKODeploymentConfig option \<Rightarrow> AKODeploymentConfig \<Rightarrow> FieldError list outcome" where
  "validateClusterSelector L old r =
     (let sel = ClusterSelector (Spec r); path = [''spec'', ''ClusterSelector'']
      in if (case old of None \<Rightarrow> False | Some o' \<Rightarrow> LabelSelector_String L (ClusterSelector (Spec o')) \<noteq> LabelSelector_String L sel)
         then Ret [Invalid path (BadSelector sel) ''field should not be changed'']
         else case LabelSelectorAsSelector L sel of
                Inl err \<Rightarrow>
                  (if Name r \<noteq> WorkloadClusterAkoDeploymentConfig then Panic
                   else Ret [Invalid path (BadSelector sel) (Error_msg err)])
              | Inr selector \<Rightarrow>
                  (if Name r \<noteq> WorkloadClusterAkoDeploymentConfig \<and> sel_Empty selector
                   then Ret [Invalid path (BadSelector sel) ''field should not be empty for non-default ADC'']
                   else Ret []))"

text \<open>Checks one after the other; a panic ends them.\<close>

fun run_checks :: "'w check list \<Rightarrow> 'w check" where
  "run_checks [] w = (Ret [], w)"
| "run_checks (k # ks) w =
     (case k w of
        (Panic, w) \<Rightarrow> (Panic, w)
      | (Ret errs, w) \<Rightarrow> (case run_checks ks w of (r, w) \<Rightarrow> (bind_outcome r (\<lambda>es. Ret (errs @ es)), w)))"

definition check_if :: "bool \<Rightarrow> 'w check \<Rightarrow> 'w check" where
  "check_if b k w = (if b then k w else (Ret [], w))"

definition opt_check :: "FieldError option \<Rightarrow> 'w check" where
  "opt_check e w = (Ret (case e of None \<Rightarrow> [] | Some x \<Rightarrow> [x]), w)"

text \<open>The checks at the end of \<open>validateAVI\<close>, for a new object and for an update.\<close>

definition field_checks :: "'w Client option \<Rightarrow> AKODeploymentConfig option \<Rightarrow> AKODeploymentConfig \<Rightarrow> 'w check list" where
  "field_checks aviClient old r =
     (case old of
        None \<Rightarrow>
          [validateAviCloud aviClient r, validateAviServiceEngineGroup aviClient r,
           validateAviControlPlaneNetworks aviClient r, validateAviDataNetworks aviClient r]
      | Some o' \<Rightarrow>
          (let s = Spec o'; t = Spec r; cp = spec_ControlPlaneNetwork; dn = spec_DataNetwork
           in [check_if (CloudName s \<noteq> CloudName t) (validateAviCloud aviClient r),
               check_if (ServiceEngineGroup s \<noteq> ServiceEngineGroup t) (validateAviServiceEngineGroup aviClient r),
               opt_check (if cpn_Name (cp s) \<noteq> cpn_Name (cp t) \<or> cpn_CIDR (cp s) \<noteq> cpn_CIDR (cp t)
                          then Some (Invalid [''spec'', ''ControlPlaneNetwork''] (BadControlPlane (cp t)) ''field should not be changed'')
                          else None),
               check_if (dn_Name (dn s) \<noteq> dn_Name (dn t) \<or> dn_CIDR (dn s) \<noteq> dn_CIDR (dn t))
                 (validateAviDataNetworks aviClient r)]))"

text \<open>The connection to the controller: the object with its version, the client, or the error that ends the validation.\<close>

definition connectAvi ::
  "'w hook_env \<Rightarrow> AKODeploymentConfig \<Rightarrow> Secret \<Rightarrow> Secret \<Rightarrow> 'w \<Rightarrow> (FieldError + 'w Client) \<times> AKODeploymentConfig \<times> 'w" where
  "connectAvi E r adminCredential aviControllerCA w =
     (let account = validateAviAccount (h_new E) r (data_get adminCredential ''username'') (data_get adminCredential ''password'')
                      (data_get aviControllerCA ''certificateAuthorityData'')
      in case account [] w of
           (Inl e, w) \<Rightarrow> (Inl e, r, w)
         | (Inr c, w) \<Rightarrow>
             (case GetControllerVersion c w of
                (Inl err, w) \<Rightarrow>
                  (Inl (Invalid [''spec'', ''ControllerVersion''] (BadString (Controller (Spec r)))
                     (''failed to get avi controller version:'' @ Error_msg err)), r, w)
              | (Inr version, w) \<Rightarrow>
                  (let r = r\<lparr>Spec := (Spec r)\<lparr>ControllerVersion := version\<rparr>\<rparr>
                   in case account version w of
                        (Inl e, w) \<Rightarrow> (Inl e, r, w)
                      | (Inr c, w) \<Rightarrow> (Inr c, r, w))))"

type_synonym 'w hook_state = "AKODeploymentConfig \<times> 'w Client option \<times> 'w"

definition validateAVI :: "'w hook_env \<Rightarrow> AKODeploymentConfig option \<Rightarrow> 'w hook_state \<Rightarrow> FieldError list outcome \<times> 'w hook_state" where
  "validateAVI E old s =
     (case s of (r, aviClient, w) \<Rightarrow>
        (case validateAviSecret (h_L E) (h_K E) (AdminCredentialRef (Spec r)) w of (cred, w) \<Rightarrow>
         case validateAviSecret (h_L E) (h_K E) (CertificateAuthorityRef (Spec r)) w of (ca, w) \<Rightarrow>
         (case (cred, ca) of
            (Inr adminCredential, Inr aviControllerCA) \<Rightarrow>
              (let versionErrs = (case snd (validateAviControllerVersion r) of None \<Rightarrow> [] | Some e \<Rightarrow> [e])
               in case (if h_runTest E then (None, r, aviClient, w)
                        else case connectAvi E r adminCredential aviControllerCA w of
                               (Inl e, r, w) \<Rightarrow> (Some e, r, aviClient, w)
                             | (Inr c, r, w) \<Rightarrow> (None, r, Some c, w)) of
                    (Some e, r, aviClient, w) \<Rightarrow> (Ret (versionErrs @ [e]), r, aviClient, w)
                  | (None, r, aviClient, w) \<Rightarrow>
                      (case run_checks (opt_check (validateReplicaCount r) # field_checks aviClient old r) w of
                         (res, w) \<Rightarrow> (bind_outcome res (\<lambda>errs. Ret (versionErrs @ errs)), r, aviClient, w)))
          | _ \<Rightarrow>
              (Ret ((case cred of Inl e \<Rightarrow> [e] | Inr _ \<Rightarrow> []) @ (case ca of Inl e \<Rightarrow> [e] | Inr _ \<Rightarrow> [])), r, aviClient, w))))"

text \<open>\<open>apierrors.NewInvalid\<close> if there are errors.\<close>

definition verdict_of :: "AKODeploymentConfig \<Rightarrow> FieldError list \<Rightarrow> hook_error option" where
  "verdict_of r allErrs = (if allErrs = [] then None else Some (NewInvalid ''AKODeploymentConfig'' (Name r) allErrs))"

definition validateSpec :: "'w hook_env \<Rightarrow> AKODeploymentConfig option \<Rightarrow> 'w hook_state \<Rightarrow> hook_error option outcome \<times> 'w hook_state" where
  "validateSpec E old s =
     (case validateClusterSelector (h_L E) old (fst s) of
        Panic \<Rightarrow> (Panic, s)
      | Ret errs \<Rightarrow>
          (case validateAVI E old s of
             (res, s) \<Rightarrow> (bind_outcome res (\<lambda>es. Ret (verdict_of (fst s) (errs @ es))), s)))"

definition ValidateCreate :: "'w hook_env \<Rightarrow> 'w hook_state \<Rightarrow> hook_error option outcome \<times> 'w hook_state" where
  "ValidateCreate E s = validateSpec E None s"

text \<open>\<open>old\<close> is a \<open>runtime.Object\<close>: a pointer to an AKODeploymentConfig, perhaps nil, or something else.\<close>

datatype runtime_object = ADCObject "AKODeploymentConfig option" | OtherObject string

definition ValidateUpdate :: "'w hook_env \<Rightarrow> runtime_object \<Rightarrow> 'w hook_state \<Rightarrow> hook_error option outcome \<times> 'w hook_state" where
  "ValidateUpdate E old s =
     (case old of
        OtherObject t \<Rightarrow> (Ret (Some (NewBadRequest (''expected a AKODeploymentConfig but got a '' @ t))), s)
      | ADCObject None \<Rightarrow> (Ret None, s)
      | ADCObject (Some oldADC) \<Rightarrow> validateSpec E (Some oldADC) s)"

definition ValidateDelete :: "AKODeploymentConfig \<Rightarrow> hook_error option" where
  "ValidateDelete r =
     (if Name r = ManagementClusterAkoDeploymentConfig
      then Some (FieldInvalid (Invalid [''spec'', ''ClusterSelector''] (BadSelector (ClusterSelector (Spec r)))
             (''can'' @ [CHR 0x27] @ ''t delete akodeploymentconfig object for management cluster'')))
      else None)"

section \<open>The version pattern\<close>

fun lang :: "rexp \<Rightarrow> string set" where
  "lang RNone = {}"
| "lang REmpty = {[]}"
| "lang RDigit = {[c] | c. digit_val c \<noteq> None}"
| "lang (RLit c) = {[c]}"
| "lang (RSeq a b) = {u @ v | u v. u \<in> lang a \<and> v \<in> lang b}"
| "lang (RAlt a b) = lang a \<union> lang b"
| "lang (RStar a) = {concat us | us. set us \<subseteq> lang a}"

lemma lang_star: "w \<in> lang (RStar a) \<longleftrightarrow> (\<exists>us. concat us = w \<and> set us \<subseteq> lang a)"
  by auto

lemma lang_seq: "w \<in> lang (RSeq a b) \<longleftrightarrow> (\<exists>u v. w = u @ v \<and> u \<in> lang a \<and> v \<in> lang b)"
  by auto

lemma nullable_lang: "nullable r \<longleftrightarrow> [] \<in> lang r"
proof (induction r)
  case (RStar r)
  have "[] = concat [] \<and> set [] \<subseteq> lang r" by simp
  then show ?case by (auto simp only: nullable.simps lang.simps mem_Collect_eq)
qed auto

text \<open>A non-empty word of an iteration starts with a non-empty word.\<close>

lemma star_Cons:
  assumes "concat us = c # w" "set us \<subseteq> A"
  shows "\<exists>u vs. w = u @ concat vs \<and> c # u \<in> A \<and> set vs \<subseteq> A"
  using assms
proof (induction us)
  case (Cons x us)
  then show ?case by (cases x) auto
qed simp

lemma lang_deriv: "w \<in> lang (deriv c r) \<longleftrightarrow> c # w \<in> lang r"
proof (induction r arbitrary: w)
  case (RSeq a b)
  have "c # w \<in> lang (RSeq a b) \<longleftrightarrow>
      (\<exists>u v. w = u @ v \<and> c # u \<in> lang a \<and> v \<in> lang b) \<or> [] \<in> lang a \<and> c # w \<in> lang b"
    by (auto simp: Cons_eq_append_conv)
  then show ?case using RSeq by (auto simp: nullable_lang)
next
  case (RStar a)
  have "w \<in> lang (deriv c (RStar a)) \<longleftrightarrow> (\<exists>u vs. w = u @ concat vs \<and> c # u \<in> lang a \<and> set vs \<subseteq> lang a)"
    unfolding deriv.simps lang_seq RStar.IH lang_star by metis
  moreover have "c # w \<in> lang (RStar a)" if "w = u @ concat vs" "c # u \<in> lang a" "set vs \<subseteq> lang a" for u vs
    unfolding lang_star using that by (intro exI [of _ "(c # u) # vs"]) auto
  moreover have "\<exists>u vs. w = u @ concat vs \<and> c # u \<in> lang a \<and> set vs \<subseteq> lang a" if "c # w \<in> lang (RStar a)"
  proof -
    from that obtain us where "concat us = c # w" "set us \<subseteq> lang a" unfolding lang_star by metis
    then show ?thesis by (rule star_Cons)
  qed
  ultimately show ?case by blast
qed auto

lemma MatchString_lang: "MatchString r s \<longleftrightarrow> s \<in> lang r"
  unfolding MatchString_def
  by (induction s arbitrary: r) (simp_all add: nullable_lang lang_deriv)

definition all_digits :: "string \<Rightarrow> bool" where
  "all_digits p \<longleftrightarrow> p \<noteq> [] \<and> list_all (\<lambda>c. digit_val c \<noteq> None) p"

lemma lang_digits: "lang digits_rexp = Collect all_digits"
proof -
  have "concat us \<in> {p. list_all (\<lambda>c. digit_val c \<noteq> None) p}" if "set us \<subseteq> lang RDigit" for us
    using that by (induction us) auto
  moreover have "p \<in> lang (RStar RDigit)" if "list_all (\<lambda>c. digit_val c \<noteq> None) p" for p
  proof -
    have "concat (map (\<lambda>c. [c]) p) = p \<and> set (map (\<lambda>c. [c]) p) \<subseteq> lang RDigit"
      using that by (auto simp: list_all_iff)
    then show ?thesis unfolding lang_star by blast
  qed
  ultimately have "lang (RStar RDigit) = {p. list_all (\<lambda>c. digit_val c \<noteq> None) p}" by auto
  then have "p \<in> lang digits_rexp \<longleftrightarrow> all_digits p" for p
  proof (cases p)
    case Nil
    then show ?thesis by (simp add: nullable_lang [symmetric] digits_rexp_def all_digits_def)
  next
    case (Cons a q)
    have "p \<in> lang digits_rexp \<longleftrightarrow> q \<in> lang (deriv a digits_rexp)" by (simp only: Cons lang_deriv)
    also have "\<dots> \<longleftrightarrow> digit_val a \<noteq> None \<and> q \<in> lang (RStar RDigit)" by (simp add: digits_rexp_def)
    finally show ?thesis using Cons \<open>lang (RStar RDigit) = _\<close> by (simp add: all_digits_def del: lang.simps(7))
  qed
  then show ?thesis by blast
qed

lemma dot_no_digit: "all_digits p \<Longrightarrow> CHR ''.'' \<notin> set p"
  by (auto simp: all_digits_def list_all_iff digit_val_def)

lemma Split_append:
  assumes "sep \<notin> set p"
  shows "strings_Split p sep = [p]" "strings_Split (p @ sep # s) sep = p # strings_Split s sep"
  using assms by (induction p) auto

fun join_dots :: "string list \<Rightarrow> string" where
  "join_dots [] = []"
| "join_dots (p # ps) = CHR ''.'' # p @ join_dots ps"

lemma Split_join: "strings_Split s sep = p # ps \<Longrightarrow> sep = CHR ''.'' \<Longrightarrow> s = p @ join_dots ps"
proof (induction s arbitrary: p ps)
  case (Cons c s)
  obtain q qs where "strings_Split s sep = q # qs" using strings_Split_nonempty neq_Nil_conv by metis
  with Cons.IH [of q qs] Cons.prems show ?case by (cases "c = sep") auto
qed simp

lemma Split_of_join:
  "list_all all_digits (p # ps) \<Longrightarrow> strings_Split (p @ join_dots ps) (CHR ''.'') = p # ps"
proof (induction ps arbitrary: p)
  case (Cons q ps)
  then show ?case using Split_append(2) [of "CHR ''.''" p] dot_no_digit by auto
qed (simp add: Split_append dot_no_digit)

lemma lang_dots: "s \<in> lang (RStar (RSeq (RLit (CHR ''.'')) digits_rexp)) \<longleftrightarrow> (\<exists>ps. list_all all_digits ps \<and> s = join_dots ps)"
proof
  assume "s \<in> lang (RStar (RSeq (RLit (CHR ''.'')) digits_rexp))"
  then obtain us where s: "s = concat us" and us: "set us \<subseteq> {CHR ''.'' # p | p. all_digits p}"
    by (auto simp: lang_digits)
  from us have "\<exists>ps. list_all all_digits ps \<and> concat us = join_dots ps"
  proof (induction us)
    case (Cons u us)
    then obtain p ps where "u = CHR ''.'' # p" "all_digits p" "list_all all_digits ps" "concat us = join_dots ps" by auto
    then show ?case by (intro exI [of _ "p # ps"]) simp
  qed (simp add: exI [of _ "[]"])
  then show "\<exists>ps. list_all all_digits ps \<and> s = join_dots ps" using s by simp
next
  assume "\<exists>ps. list_all all_digits ps \<and> s = join_dots ps"
  then obtain ps where ps: "list_all all_digits ps" "s = join_dots ps" by blast
  have "join_dots ps = concat (map (\<lambda>p. CHR ''.'' # p) ps)" by (induction ps) auto
  with ps show "s \<in> lang (RStar (RSeq (RLit (CHR ''.'')) digits_rexp))"
    by (auto simp: lang_digits list_all_iff intro!: exI [of _ "map (\<lambda>p. CHR ''.'' # p) ps"])
qed

lemma version_pattern_eq:
  "MatchString controllerVersionRegex s = list_all all_digits (strings_Split s (CHR ''.''))"
proof -
  have "MatchString controllerVersionRegex s \<longleftrightarrow>
      (\<exists>p ps. list_all all_digits (p # ps) \<and> s = p @ join_dots ps)"
    unfolding MatchString_lang controllerVersionRegex_def
    by (simp add: lang_dots lang_digits del: lang.simps(7)) blast
  also have "\<dots> \<longleftrightarrow> list_all all_digits (strings_Split s (CHR ''.''))"
    by (metis Split_join Split_of_join strings_Split_nonempty neq_Nil_conv)
  finally show ?thesis .
qed

text \<open>
  C34. The pattern of controller versions accepts exactly the texts that are numbers separated by dots:
  every part between the dots is a non-empty sequence of digits.
\<close>

theorem version_pattern:
  "MatchString controllerVersionRegex s = list_all all_digits (strings_Split s (CHR ''.''))"
  by (rule version_pattern_eq)

section \<open>The networks\<close>

text \<open>An address as a number, most significant byte first.\<close>

definition addr_value :: "IP \<Rightarrow> nat" where
  "addr_value ip = foldl (\<lambda>n b. n * 256 + unat b) 0 ip"

lemma addr_value_acc: "foldl (\<lambda>n b. n * 256 + unat b) m ip = m * 256 ^ length ip + addr_value ip" for ip :: IP
proof (induction ip arbitrary: m)
  case (Cons b ip)
  have "addr_value (b # ip) = unat b * 256 ^ length ip + addr_value ip"
    unfolding addr_value_def using Cons.IH [of "unat b"] by (simp add: addr_value_def)
  then show ?case using Cons.IH [of "m * 256 + unat b"] by (simp add: algebra_simps)
qed (simp add: addr_value_def)

lemma addr_value_Cons: "addr_value (b # ip) = unat b * 256 ^ length ip + addr_value ip"
  unfolding addr_value_def using addr_value_acc [of "unat b" ip] by (simp add: addr_value_def)

lemma addr_value_less: "addr_value ip < 256 ^ length ip"
proof (induction ip)
  case (Cons b ip)
  have "unat b + 1 \<le> 256" using unsigned_less [of b, where 'a = nat] by simp
  then have "(unat b + 1) * 256 ^ length ip \<le> 256 * 256 ^ length ip" by (rule mult_right_mono) simp
  with Cons show ?case unfolding addr_value_Cons length_Cons power_Suc add_mult_distrib by linarith
qed (simp add: addr_value_def)

lemma bytes_Compare_value:
  "length a = length b \<Longrightarrow> bytes_Compare a b > 0 \<longleftrightarrow> addr_value b < addr_value a"
proof (induction a b rule: bytes_Compare.induct)
  case (4 a as b bs)
  have step: "addr_value (x # xs) < addr_value (y # ys)" if "x < y" "length xs = length ys" for x y :: byte and xs ys
  proof -
    have "unat x + 1 \<le> unat y" using that(1) by (simp add: word_less_nat_alt)
    then have "(unat x + 1) * 256 ^ length xs \<le> unat y * 256 ^ length xs" by (rule mult_right_mono) simp
    with addr_value_less [of xs] show ?thesis unfolding addr_value_Cons add_mult_distrib that(2) by linarith
  qed
  from 4 step [of a b as bs] step [of b a bs as] show ?case
    by (cases a b rule: linorder_cases) (auto simp: addr_value_Cons)
qed auto

text \<open>What a pool has to satisfy: two addresses of the network, of its family, in order.\<close>

definition pool_ok :: "IPNet \<Rightarrow> string \<Rightarrow> IPPool \<Rightarrow> bool" where
  "pool_ok cidr fam p \<longleftrightarrow>
     ParseIP (pool_Start p) \<noteq> [] \<and> ParseIP (pool_End p) \<noteq> [] \<and>
     IPNet_Contains cidr (ParseIP (pool_Start p)) \<and> IPNet_Contains cidr (ParseIP (pool_End p)) \<and>
     addr_value (ParseIP (pool_Start p)) \<le> addr_value (ParseIP (pool_End p)) \<and> pool_Type p = fam"

lemma pool_errors_none: "pool_errors cidr pools p = [] \<and> pool_Type p = fam \<longleftrightarrow> pool_ok cidr fam p"
proof -
  have "bytes_Compare (ParseIP (pool_Start p)) (ParseIP (pool_End p)) > 0 \<longleftrightarrow>
      addr_value (ParseIP (pool_End p)) < addr_value (ParseIP (pool_Start p))"
    if "ParseIP (pool_Start p) \<noteq> []" "ParseIP (pool_End p) \<noteq> []"
    using that by (intro bytes_Compare_value) (simp add: ParseIP_length)
  then show ?thesis by (auto simp: pool_errors_def Let_def pool_ok_def not_less)
qed

lemma check_pools_ok: "check_pools (Some cidr) fam pools ps = Ret [] \<longleftrightarrow> list_all (pool_ok cidr fam) ps"
proof (induction ps)
  case (Cons p ps)
  then show ?case using pool_errors_none [of cidr pools p fam] by (auto simp del: not_less)
qed simp

text \<open>Each pool is looked at alone: pools that overlap, even the same ones twice, are accepted.\<close>

lemma overlapping_pools_accepted:
  assumes "check_pools (Some cidr) fam pools ps = Ret []"
  shows "check_pools (Some cidr) fam pools (ps @ ps) = Ret []"
  using assms by (simp add: check_pools_ok)

lemma check_pools_returns: "check_pools (Some cidr) fam pools ps \<noteq> Panic"
  by (induction ps) (auto elim: bind_outcome.elims)

lemma check_network_ok:
  "fst (check_network (Some c) r fld what name w) = Ret [] \<longleftrightarrow>
     (\<exists>nw. fst (NetworkGetByName c name (CloudName (Spec r)) w) = Ret (Inr nw))"
  by (auto simp: check_network_def split: prod.splits outcome.splits sum.splits)

lemma data_network_ok:
  "fst (validateAviDataNetworks (Some c) r w) = Ret [] \<longleftrightarrow>
     (\<exists>nw. fst (NetworkGetByName c (dn_Name (spec_DataNetwork (Spec r))) (CloudName (Spec r)) w) = Ret (Inr nw)) \<and>
     (\<exists>addr cidr. ParseCIDR (dn_CIDR (spec_DataNetwork (Spec r))) = Some (addr, cidr) \<and>
        list_all (pool_ok cidr (addr_family addr)) (pool_list r))"
  unfolding check_network_ok [symmetric, where fld = "''dataNetwork''" and what = "''data plane network''"]
  by (auto simp: validateAviDataNetworks_def Let_def check_pools_ok split: prod.splits outcome.splits option.splits)

text \<open>
  C32. The data network is accepted exactly if the AVI controller has the network, its CIDR parses, and every
  pool is a range of addresses of that network: both ends parse, lie in the CIDR, are of its family
  and are in order as numbers.
\<close>

theorem data_network_accepted:
  "fst (validateAviDataNetworks (Some c) r w) = Ret [] \<longleftrightarrow>
     (\<exists>nw. fst (NetworkGetByName c (dn_Name (spec_DataNetwork (Spec r))) (CloudName (Spec r)) w) = Ret (Inr nw)) \<and>
     (\<exists>addr cidr. ParseCIDR (dn_CIDR (spec_DataNetwork (Spec r))) = Some (addr, cidr) \<and>
        list_all (pool_ok cidr (addr_family addr)) (pool_list r))"
  by (rule data_network_ok)

text \<open>
  A CIDR that does not parse makes the webhook panic as soon as one pool is configured, instead of
  reporting the CIDR: the loop over the pools uses the nil network.
\<close>

theorem invalid_cidr_panics:
  assumes "ParseCIDR (dn_CIDR (spec_DataNetwork (Spec r))) = None" "pool_list r \<noteq> []"
  shows "fst (validateAviDataNetworks aviClient r w) = Panic"
  using assms
  by (auto simp: validateAviDataNetworks_def Let_def neq_Nil_conv split: prod.splits outcome.splits)

definition poolADC :: "string \<Rightarrow> AKODeploymentConfig" where
  "poolADC cidr = exampleADC\<lparr>Spec := exampleSpec\<lparr>spec_DataNetwork :=
     \<lparr>dn_Name = ''VM Network'', dn_CIDR = cidr,
      IPPools = Some [\<lparr>pool_Start = ''10.0.0.1'', pool_End = ''10.0.0.10'', pool_Type = ''V4''\<rparr>]\<rparr>\<rparr>\<rparr>"

theorem invalid_cidr_panics_witness:
  "fst (validateAviDataNetworks (Some ref_client) (poolADC ''10.0.0.0'') amem0) = Panic"
  by (rule invalid_cidr_panics) (simp_all add: poolADC_def ParseCIDR_def pool_list_def)

section \<open>Admission\<close>

text \<open>
  An invalid selector makes the webhook panic for every object but the default one, instead of
  reporting it: the nil selector is asked whether it is empty.
\<close>

theorem invalid_selector_panics:
  assumes "LabelSelectorAsSelector (h_L E) (ClusterSelector (Spec r)) = Inl err"
    and "Name r \<noteq> WorkloadClusterAkoDeploymentConfig"
  shows "ValidateCreate E (r, aviClient, w) = (Panic, r, aviClient, w)"
  using assms by (simp add: ValidateCreate_def validateSpec_def validateClusterSelector_def)

definition refHook :: "amem hook_env" where
  "refHook = \<lparr>h_L = ref_lib, h_K = mem_kapi, h_new = ref_new, h_runTest = False\<rparr>"

definition badSelectorADC :: AKODeploymentConfig where
  "badSelectorADC = exampleADC\<lparr>Spec := exampleSpec\<lparr>ClusterSelector := \<lparr>MatchLabels = [],
     MatchExpressions = [\<lparr>req_Key = ''team'', req_Operator = ''Equals'', req_Values = [''blue'']\<rparr>]\<rparr>\<rparr>\<rparr>"

theorem invalid_selector_panics_witness:
  "ValidateCreate refHook (badSelectorADC, None, amem0) = (Panic, badSelectorADC, None, amem0)"
  by (rule invalid_selector_panics)
    (simp_all add: refHook_def badSelectorADC_def ref_lib_def ref_selector_def example_defs WorkloadClusterAkoDeploymentConfig_def)

lemma run_checks_Cons:
  "fst (run_checks (k # ks) w) = Ret [] \<longleftrightarrow> fst (k w) = Ret [] \<and> fst (run_checks ks (snd (k w))) = Ret []"
  by (auto split: prod.splits outcome.splits)

lemma check_if_ok: "fst (check_if b k w) = Ret [] \<longleftrightarrow> (b \<longrightarrow> fst (k w) = Ret [])"
  by (simp add: check_if_def)

lemma opt_check_ok: "fst (opt_check e w) = Ret [] \<longleftrightarrow> e = None"
  by (simp add: opt_check_def split: option.splits)

lemma control_plane_ok:
  assumes "fst (validateAviControlPlaneNetworks aviClient r w) = Ret []"
  shows "cpn_Name (spec_ControlPlaneNetwork (Spec r)) = [] \<or> cpn_CIDR (spec_ControlPlaneNetwork (Spec r)) = [] \<or>
         ParseCIDR (cpn_CIDR (spec_ControlPlaneNetwork (Spec r))) \<noteq> None"
  using assms by (auto simp: validateAviControlPlaneNetworks_def Let_def split: if_splits prod.splits outcome.splits)

lemma verdict_of_None [simp]: "verdict_of r errs = None \<longleftrightarrow> errs = []"
  by (simp add: verdict_of_def)

text \<open>What an accepted validation has done: both Secrets were found, the controller was reached, and no check failed.\<close>

lemma validateSpec_accepted:
  assumes "\<not> h_runTest E" "validateSpec E old (r, aviClient, w) = (Ret None, r', aviClient', w')"
  obtains c version w1 where "aviClient' = Some c" "r' = r\<lparr>Spec := (Spec r)\<lparr>ControllerVersion := version\<rparr>\<rparr>"
    "validateClusterSelector (h_L E) old r = Ret []" "snd (validateAviControllerVersion r) = None"
    "fst (run_checks (opt_check (validateReplicaCount r') # field_checks (Some c) old r') w1) = Ret []"
proof -
  have sel: "validateClusterSelector (h_L E) old r = Ret []" and avi: "validateAVI E old (r, aviClient, w) = (Ret [], r', aviClient', w')"
    using assms(2) by (auto simp: validateSpec_def split: outcome.splits prod.splits)
  obtain cred w1 ca w2 where s: "validateAviSecret (h_L E) (h_K E) (AdminCredentialRef (Spec r)) w = (cred, w1)"
    "validateAviSecret (h_L E) (h_K E) (CertificateAuthorityRef (Spec r)) w1 = (ca, w2)" by fastforce
  with avi obtain x y where xy: "cred = Inr x" "ca = Inr y" by (auto simp: validateAVI_def split: sum.splits)
  from avi assms(1) obtain c r1 w3 where c: "connectAvi E r x y w2 = (Inr c, r1, w3)"
    by (auto simp: validateAVI_def s xy Let_def split: sum.splits prod.splits)
  have v: "\<exists>version. r1 = r\<lparr>Spec := (Spec r)\<lparr>ControllerVersion := version\<rparr>\<rparr>"
    using c by (auto simp: connectAvi_def Let_def split: sum.splits prod.splits)
  from avi assms(1) have "r' = r1" "aviClient' = Some c" "snd (validateAviControllerVersion r) = None"
    "fst (run_checks (opt_check (validateReplicaCount r1) # field_checks (Some c) old r1) w3) = Ret []"
    by (auto simp: validateAVI_def s xy c Let_def split: prod.splits option.splits)
  with v sel that show ?thesis by blast
qed

lemma ValidateCreate_accepted:
  assumes "\<not> h_runTest E" "ValidateCreate E (r, aviClient, w) = (Ret None, r', aviClient', w')"
  shows "(\<exists>s. LabelSelectorAsSelector (h_L E) (ClusterSelector (Spec r)) = Inr s \<and>
            (Name r = WorkloadClusterAkoDeploymentConfig \<or> \<not> sel_Empty s)) \<and>
         (ControllerVersion (Spec r) = [] \<or> list_all all_digits (strings_Split (ControllerVersion (Spec r)) (CHR ''.''))) \<and>
         ReplicaCount (spec_ExtraConfigs (Spec r)) \<in> {None, Some 1, Some 2} \<and>
         (let cp = spec_ControlPlaneNetwork (Spec r) in cpn_Name cp = [] \<or> cpn_CIDR cp = [] \<or> ParseCIDR (cpn_CIDR cp) \<noteq> None) \<and>
         (\<exists>addr cidr. ParseCIDR (dn_CIDR (spec_DataNetwork (Spec r))) = Some (addr, cidr) \<and>
            list_all (pool_ok cidr (addr_family addr)) (pool_list r)) \<and>
         (\<exists>version. r' = r\<lparr>Spec := (Spec r)\<lparr>ControllerVersion := version\<rparr>\<rparr>)"
proof -
  have a: "validateSpec E None (r, aviClient, w) = (Ret None, r', aviClient', w')"
    using assms(2) by (simp add: ValidateCreate_def)
  obtain c version w1 where h0: "aviClient' = Some c" and h: "r' = r\<lparr>Spec := (Spec r)\<lparr>ControllerVersion := version\<rparr>\<rparr>"
    "validateClusterSelector (h_L E) None r = Ret []" "snd (validateAviControllerVersion r) = None"
    "fst (run_checks (opt_check (validateReplicaCount r') # field_checks (Some c) None r') w1) = Ret []"
    by (rule validateSpec_accepted [OF assms(1) a])
  have sel: "\<exists>s. LabelSelectorAsSelector (h_L E) (ClusterSelector (Spec r)) = Inr s \<and>
      (Name r = WorkloadClusterAkoDeploymentConfig \<or> \<not> sel_Empty s)"
    using h(2) by (auto simp: validateClusterSelector_def Let_def split: sum.splits if_splits)
  have ver: "ControllerVersion (Spec r) = [] \<or> list_all all_digits (strings_Split (ControllerVersion (Spec r)) (CHR ''.''))"
    using h(3) version_pattern_eq by (auto simp: validateAviControllerVersion_def Let_def split: if_splits)
  have f: "validateReplicaCount r' = None" "\<exists>w2. fst (validateAviControlPlaneNetworks (Some c) r' w2) = Ret []"
    "\<exists>w3. fst (validateAviDataNetworks (Some c) r' w3) = Ret []"
    using h(4) by (auto simp only: run_checks_Cons opt_check_ok field_checks_def option.simps)
  have rep: "ReplicaCount (spec_ExtraConfigs (Spec r)) \<in> {None, Some 1, Some 2}"
    using f(1) by (auto simp: h(1) validateReplicaCount_def split: option.splits if_splits)
  have f': "spec_ControlPlaneNetwork (Spec r') = spec_ControlPlaneNetwork (Spec r)"
    "spec_DataNetwork (Spec r') = spec_DataNetwork (Spec r)" "pool_list r' = pool_list r"
    by (simp_all add: h(1) pool_list_def)
  have cp: "let cp = spec_ControlPlaneNetwork (Spec r) in cpn_Name cp = [] \<or> cpn_CIDR cp = [] \<or> ParseCIDR (cpn_CIDR cp) \<noteq> None"
    using f(2) unfolding Let_def f'(1) [symmetric] by (elim exE) (rule control_plane_ok)
  have dn: "\<exists>addr cidr. ParseCIDR (dn_CIDR (spec_DataNetwork (Spec r))) = Some (addr, cidr) \<and>
      list_all (pool_ok cidr (addr_family addr)) (pool_list r)"
    using f(3) unfolding data_network_ok f' by blast
  show ?thesis using sel ver rep cp dn h(1) by (intro conjI) auto
qed

text \<open>
  C5. What the webhook lets in on creation: the selector is valid and only the default object may select
  everything, the version has the right form, the replica count is unset, 1 or 2, the networks have
  valid CIDRs and the pools are ranges of the data network. The object leaves with the version the
  controller reported, and with nothing else changed.
\<close>

theorem create_accepted:
  assumes "\<not> h_runTest E" "ValidateCreate E (r, aviClient, w) = (Ret None, r', aviClient', w')"
  shows "(\<exists>s. LabelSelectorAsSelector (h_L E) (ClusterSelector (Spec r)) = Inr s \<and>
            (Name r = WorkloadClusterAkoDeploymentConfig \<or> \<not> sel_Empty s)) \<and>
         (ControllerVersion (Spec r) = [] \<or> list_all all_digits (strings_Split (ControllerVersion (Spec r)) (CHR ''.''))) \<and>
         ReplicaCount (spec_ExtraConfigs (Spec r)) \<in> {None, Some 1, Some 2} \<and>
         (let cp = spec_ControlPlaneNetwork (Spec r) in cpn_Name cp = [] \<or> cpn_CIDR cp = [] \<or> ParseCIDR (cpn_CIDR cp) \<noteq> None) \<and>
         (\<exists>addr cidr. ParseCIDR (dn_CIDR (spec_DataNetwork (Spec r))) = Some (addr, cidr) \<and>
            list_all (pool_ok cidr (addr_family addr)) (pool_list r)) \<and>
         (\<exists>version. r' = r\<lparr>Spec := (Spec r)\<lparr>ControllerVersion := version\<rparr>\<rparr>)"
  using assms by (rule ValidateCreate_accepted)

text \<open>
  C33. An update cannot change which clusters an object selects, as far as the printed selector tells, nor the
  control plane network.
\<close>

theorem update_immutable:
  assumes "\<not> h_runTest E" "ValidateUpdate E (ADCObject (Some old)) (r, aviClient, w) = (Ret None, r', aviClient', w')"
  shows "LabelSelector_String (h_L E) (ClusterSelector (Spec old)) = LabelSelector_String (h_L E) (ClusterSelector (Spec r)) \<and>
         spec_ControlPlaneNetwork (Spec r) = spec_ControlPlaneNetwork (Spec old)"
proof -
  have a: "validateSpec E (Some old) (r, aviClient, w) = (Ret None, r', aviClient', w')"
    using assms(2) by (simp add: ValidateUpdate_def)
  obtain c version w1 where h0: "aviClient' = Some c" and h: "r' = r\<lparr>Spec := (Spec r)\<lparr>ControllerVersion := version\<rparr>\<rparr>"
    "validateClusterSelector (h_L E) (Some old) r = Ret []" "snd (validateAviControllerVersion r) = None"
    "fst (run_checks (opt_check (validateReplicaCount r') # field_checks (Some c) (Some old) r') w1) = Ret []"
    by (rule validateSpec_accepted [OF assms(1) a])
  have "cpn_Name (spec_ControlPlaneNetwork (Spec old)) = cpn_Name (spec_ControlPlaneNetwork (Spec r)) \<and>
        cpn_CIDR (spec_ControlPlaneNetwork (Spec old)) = cpn_CIDR (spec_ControlPlaneNetwork (Spec r))"
    using h(4) by (auto simp: run_checks_Cons opt_check_ok field_checks_def Let_def h(1) simp del: run_checks.simps split: if_splits)
  moreover have "LabelSelector_String (h_L E) (ClusterSelector (Spec old)) = LabelSelector_String (h_L E) (ClusterSelector (Spec r))"
    using h(2) by (auto simp: validateClusterSelector_def Let_def split: if_splits)
  ultimately show ?thesis by simp
qed

definition with_pools :: "IPPool list option \<Rightarrow> AKODeploymentConfig \<Rightarrow> AKODeploymentConfig" where
  "with_pools ps r = r\<lparr>Spec := (Spec r)\<lparr>spec_DataNetwork := (spec_DataNetwork (Spec r))\<lparr>IPPools := ps\<rparr>\<rparr>\<rparr>"

lemma with_pools_fields [simp]:
  "CloudName (Spec (with_pools ps r)) = CloudName (Spec r)"
  "Controller (Spec (with_pools ps r)) = Controller (Spec r)"
  "ControllerVersion (Spec (with_pools ps r)) = ControllerVersion (Spec r)"
  "ServiceEngineGroup (Spec (with_pools ps r)) = ServiceEngineGroup (Spec r)"
  "ClusterSelector (Spec (with_pools ps r)) = ClusterSelector (Spec r)"
  "AdminCredentialRef (Spec (with_pools ps r)) = AdminCredentialRef (Spec r)"
  "CertificateAuthorityRef (Spec (with_pools ps r)) = CertificateAuthorityRef (Spec r)"
  "spec_ControlPlaneNetwork (Spec (with_pools ps r)) = spec_ControlPlaneNetwork (Spec r)"
  "spec_ExtraConfigs (Spec (with_pools ps r)) = spec_ExtraConfigs (Spec r)"
  "dn_Name (spec_DataNetwork (Spec (with_pools ps r))) = dn_Name (spec_DataNetwork (Spec r))"
  "dn_CIDR (spec_DataNetwork (Spec (with_pools ps r))) = dn_CIDR (spec_DataNetwork (Spec r))"
  "Name (with_pools ps r) = Name r"
  by (simp_all add: with_pools_def)

lemma with_pools_checks [simp]:
  "validateReplicaCount (with_pools ps r) = validateReplicaCount r"
  "validateAviControllerVersion (with_pools ps r) = validateAviControllerVersion r"
  "validateAviCloud c (with_pools ps r) = validateAviCloud c r"
  "validateAviServiceEngineGroup c (with_pools ps r) = validateAviServiceEngineGroup c r"
  "validateClusterSelector L old (with_pools ps r) = validateClusterSelector L old r"
  "validateAviAccount new (with_pools ps r) = validateAviAccount new r"
  "verdict_of (with_pools ps r) = verdict_of r"
  by (simp_all only: simp_thms fun_eq_iff with_pools_fields validateReplicaCount_def validateAviControllerVersion_def validateAviCloud_def
      validateAviServiceEngineGroup_def validateClusterSelector_def validateAviAccount_def verdict_of_def)

lemma connectAvi_with_pools:
  "connectAvi E (with_pools ps r) x y w = (case connectAvi E r x y w of (e, r', w') \<Rightarrow> (e, with_pools ps r', w'))"
proof -
  have "(with_pools ps r)\<lparr>Spec := (Spec (with_pools ps r))\<lparr>ControllerVersion := v\<rparr>\<rparr> =
     with_pools ps (r\<lparr>Spec := (Spec r)\<lparr>ControllerVersion := v\<rparr>\<rparr>)" for v
    by (simp_all add: with_pools_def)
  then show ?thesis unfolding connectAvi_def Let_def with_pools_checks with_pools_fields
    by (simp split: prod.split sum.split)
qed

lemma connectAvi_networks: "connectAvi E r x y w = (e, r', w') \<Longrightarrow> spec_DataNetwork (Spec r') = spec_DataNetwork (Spec r)"
  by (auto simp: connectAvi_def Let_def split: prod.splits sum.splits)

lemma field_checks_with_pools:
  assumes "dn_Name (spec_DataNetwork (Spec r)) = dn_Name (spec_DataNetwork (Spec old))"
    and "dn_CIDR (spec_DataNetwork (Spec r)) = dn_CIDR (spec_DataNetwork (Spec old))"
  shows "field_checks c (Some old) (with_pools ps r) = field_checks c (Some old) r"
proof -
  have "check_if False k = check_if False k'" for k k' :: "'a check" by (simp add: check_if_def fun_eq_iff)
  with assms show ?thesis unfolding field_checks_def Let_def with_pools_checks with_pools_fields by simp
qed

lemma validateAVI_with_pools:
  assumes "dn_Name (spec_DataNetwork (Spec r)) = dn_Name (spec_DataNetwork (Spec old))"
    and "dn_CIDR (spec_DataNetwork (Spec r)) = dn_CIDR (spec_DataNetwork (Spec old))"
  shows "validateAVI E (Some old) (with_pools ps r, c, w) =
    (case validateAVI E (Some old) (r, c, w) of (e, r', s) \<Rightarrow> (e, with_pools ps r', s))"
proof -
  have fc: "field_checks c' (Some old) (with_pools ps r') = field_checks c' (Some old) r'"
    if "spec_DataNetwork (Spec r') = spec_DataNetwork (Spec r)" for c' :: "'a Client option" and r'
    by (rule field_checks_with_pools) (simp_all add: that assms)
  obtain cred w1 ca w2 where s: "validateAviSecret (h_L E) (h_K E) (AdminCredentialRef (Spec r)) w = (cred, w1)"
    "validateAviSecret (h_L E) (h_K E) (CertificateAuthorityRef (Spec r)) w1 = (ca, w2)" by fastforce
  show ?thesis
  proof (cases "\<exists>x y. cred = Inr x \<and> ca = Inr y")
    case True
    then obtain x y where xy: "cred = Inr x" "ca = Inr y" by blast
    obtain e r1 w3 where k: "connectAvi E r x y w2 = (e, r1, w3)" by (metis prod_cases3)
    show ?thesis
      by (simp add: validateAVI_def s xy connectAvi_with_pools k fc connectAvi_networks [OF k] Let_def
          split: prod.split sum.split option.split del: run_checks.simps)
  next
    case False
    then show ?thesis by (auto simp: validateAVI_def s split: sum.split)
  qed
qed

lemma ValidateUpdate_with_pools:
  assumes "dn_Name (spec_DataNetwork (Spec r)) = dn_Name (spec_DataNetwork (Spec old))"
    and "dn_CIDR (spec_DataNetwork (Spec r)) = dn_CIDR (spec_DataNetwork (Spec old))"
  shows "fst (ValidateUpdate E (ADCObject (Some old)) (with_pools ps r, aviClient, w)) =
         fst (ValidateUpdate E (ADCObject (Some old)) (r, aviClient, w))"
  by (auto simp: ValidateUpdate_def validateSpec_def validateAVI_with_pools [OF assms] split: outcome.splits prod.splits)

text \<open>
  An update of the pools alone is not validated: with the name and the CIDR of the data network
  unchanged, the answer does not depend on the pools.
\<close>

theorem update_ignores_pools:
  assumes "dn_Name (spec_DataNetwork (Spec r)) = dn_Name (spec_DataNetwork (Spec old))"
    and "dn_CIDR (spec_DataNetwork (Spec r)) = dn_CIDR (spec_DataNetwork (Spec old))"
  shows "fst (ValidateUpdate E (ADCObject (Some old)) (with_pools ps r, aviClient, w)) =
         fst (ValidateUpdate E (ADCObject (Some old)) (r, aviClient, w))"
  using assms by (rule ValidateUpdate_with_pools)

section \<open>Examples\<close>

text \<open>A controller that has the network and the service engine group that are asked for.\<close>

definition okSdk :: "amem sdk" where
  "okSdk = ref_sdk\<lparr>sdk_GetCollectionRaw := \<lambda>uri w. (Inr (1, ''n''), w), sdk_elems := \<lambda>s. Inr [s],
     sdk_decodeNetwork := \<lambda>s. Inr \<lparr>nw_Name = s, nw_URL = None, ConfiguredSubnets = []\<rparr>,
     sdk_decodeObject := \<lambda>s. Inr \<lparr>avi_Name = s\<rparr>\<rparr>"

definition okHook :: "amem hook_env" where
  "okHook = refHook\<lparr>h_new := \<lambda>ip user opts w. (Inr okSdk, w)\<rparr>"

definition okWorld :: amem where
  "okWorld = secretWorld\<lparr>a_clouds := [\<lparr>cloud_Name = ''Default-Cloud'', IPAMProviderRef = Some ''ipam''\<rparr>]\<rparr>"

definition okADC :: AKODeploymentConfig where
  "okADC = (poolADC ''10.0.0.0/24'')\<lparr>Spec := (Spec (poolADC ''10.0.0.0/24''))\<lparr>AdminCredentialRef := credRef, CertificateAuthorityRef := caRef\<rparr>\<rparr>"

lemma okADC_fields:
  "CloudName (Spec okADC) = ''Default-Cloud''" "ReplicaCount (spec_ExtraConfigs (Spec okADC)) = None"
  "cpn_Name (spec_ControlPlaneNetwork (Spec okADC)) = []" "Name okADC = ''blue''"
  "ClusterSelector (Spec okADC) = \<lparr>MatchLabels = [(''team'', ''blue'')], MatchExpressions = []\<rparr>"
  "ControllerVersion (Spec okADC) = ''22.1.3''"
  "AdminCredentialRef (Spec okADC) = credRef" "CertificateAuthorityRef (Spec okADC) = caRef"
  by (simp_all add: okADC_def poolADC_def example_defs)

lemma okCidr: "ParseCIDR ''10.0.0.0/24'' =
    Some ([0,0,0,0,0,0,0,0,0,0,255,255,10,0,0,0], \<lparr>net_IP = [10,0,0,0], net_Mask = [255,255,255,0]\<rparr>)"
proof -
  have "ParseAddr ''10.0.0.0'' = Some (Addr4 [10, 0, 0, 0])" by code_simp
  moreover have "parse_dec ''24'' = Some 24" by code_simp
  moreover have "CIDRMask 24 32 = [255,255,255,0]" by code_simp
  moreover have "IP_Mask (As16 (Addr4 [10,0,0,0])) [255,255,255,0] = [10,0,0,0]" by code_simp
  moreover have "As16 (Addr4 [10,0,0,0]) = [0,0,0,0,0,0,0,0,0,0,255,255,10,0,0,0]" by code_simp
  ultimately show ?thesis by (simp add: ParseCIDR_def Let_def)
qed

lemma okPool: "pool_ok \<lparr>net_IP = [10,0,0,0], net_Mask = [255,255,255,0]\<rparr> (addr_family [0,0,0,0,0,0,0,0,0,0,255,255,10,0,0,0])
    \<lparr>pool_Start = ''10.0.0.1'', pool_End = ''10.0.0.10'', pool_Type = ''V4''\<rparr>"
proof -
  have "ParseIP ''10.0.0.1'' = [0,0,0,0,0,0,0,0,0,0,255,255,10,0,0,1]" "ParseIP ''10.0.0.10'' = [0,0,0,0,0,0,0,0,0,0,255,255,10,0,0,10]"
    by code_simp+
  moreover have "IPNet_Contains \<lparr>net_IP = [10,0,0,0], net_Mask = [255,255,255,0]\<rparr> [0,0,0,0,0,0,0,0,0,0,255,255,10,0,0,1]"
    "IPNet_Contains \<lparr>net_IP = [10,0,0,0], net_Mask = [255,255,255,0]\<rparr> [0,0,0,0,0,0,0,0,0,0,255,255,10,0,0,10]"
    by code_simp+
  moreover have "addr_family [0,0,0,0,0,0,0,0,0,0,255,255,10,0,0,0] = ''V4''" by code_simp
  ultimately show ?thesis by (simp add: pool_ok_def addr_value_def)
qed

lemma okADC_network:
  "\<exists>addr cidr. ParseCIDR (dn_CIDR (spec_DataNetwork (Spec okADC))) = Some (addr, cidr) \<and>
     list_all (pool_ok cidr (addr_family addr)) (pool_list okADC)"
  using okCidr okPool by (auto simp: okADC_def poolADC_def pool_list_def)

lemma okADC_version: "snd (validateAviControllerVersion okADC) = None"
  by code_simp

lemma okADC_selector: "validateClusterSelector ref_lib None okADC = Ret []"
  by (simp add: validateClusterSelector_def okADC_fields ref_lib_def ref_selector_def)

lemma okWorld_secret: "\<exists>s. validateAviSecret ref_lib mem_kapi credRef okWorld = (Inr s, okWorld)"
  "\<exists>s. validateAviSecret ref_lib mem_kapi caRef okWorld = (Inr s, okWorld)"
  by (simp_all add: validateAviSecret_def okWorld_def avi_defs ref_defs emptyMeta_def ObjectMeta.defs AviCredentialName_def AviCAName_def)

lemma ok_connect: "\<exists>cfg. connectAvi okHook okADC x y okWorld =
    (Inr (realAviClient cfg okSdk), okADC\<lparr>Spec := (Spec okADC)\<lparr>ControllerVersion := ''22.1.3''\<rparr>\<rparr>, okWorld)"
proof -
  have "GetControllerVersion (realAviClient cfg okSdk) okWorld = (Inr ''22.1.3'', okWorld)" for cfg
    by (simp add: realAviClient_def okSdk_def ref_sdk_def ref_client_def okWorld_def secretWorld_def amem0_def mem.defs)
  then show ?thesis by (auto simp: connectAvi_def Let_def validateAviAccount_def NewAviClient_def okHook_def)
qed

lemma ok_network: "\<exists>nw. fst (NetworkGetByName (realAviClient cfg okSdk) n cl w) = Ret (Inr nw)"
  by (simp add: realAviClient_def GetObjectByName_def okSdk_def Let_def)

lemma ok_checks:
  assumes "CloudName (Spec r) = ''Default-Cloud''" "cpn_Name (spec_ControlPlaneNetwork (Spec r)) = []"
    and "\<exists>addr cidr. ParseCIDR (dn_CIDR (spec_DataNetwork (Spec r))) = Some (addr, cidr) \<and>
      list_all (pool_ok cidr (addr_family addr)) (pool_list r)"
  shows "fst (run_checks (opt_check None # field_checks (Some (realAviClient cfg okSdk)) None r) okWorld) = Ret []"
proof -
  let ?c = "Some (realAviClient cfg okSdk)"
  have "fst (validateAviCloud ?c r okWorld) = Ret []"
    by (simp add: validateAviCloud_def assms(1) realAviClient_def okSdk_def ref_sdk_def ref_client_def okWorld_def lookup_by_def)
  moreover have "fst (validateAviServiceEngineGroup ?c r w) = Ret []" for w
    by (simp add: validateAviServiceEngineGroup_def realAviClient_def GetObjectByName_def okSdk_def Let_def)
  moreover have "fst (validateAviControlPlaneNetworks ?c r w) = Ret []" for w
    by (simp add: validateAviControlPlaneNetworks_def assms(2))
  moreover have "fst (validateAviDataNetworks ?c r w) = Ret []" for w
    unfolding data_network_ok using ok_network assms(3) by blast
  moreover have "snd (opt_check None okWorld) = okWorld" by (simp add: opt_check_def)
  ultimately show ?thesis by (simp add: run_checks_Cons opt_check_ok field_checks_def del: run_checks.simps) simp
qed

lemma ok_created: "\<exists>r' c' w'. ValidateCreate okHook (okADC, None, okWorld) = (Ret None, r', c', w')"
proof -
  obtain x y where s: "validateAviSecret ref_lib mem_kapi credRef okWorld = (Inr x, okWorld)"
    "validateAviSecret ref_lib mem_kapi caRef okWorld = (Inr y, okWorld)" using okWorld_secret by blast
  let ?r = "okADC\<lparr>Spec := (Spec okADC)\<lparr>ControllerVersion := ''22.1.3''\<rparr>\<rparr>"
  obtain cfg where k: "connectAvi okHook okADC x y okWorld = (Inr (realAviClient cfg okSdk), ?r, okWorld)"
    using ok_connect by blast
  have e: "h_L okHook = ref_lib" "h_K okHook = mem_kapi" "\<not> h_runTest okHook" by (simp_all add: okHook_def refHook_def)
  have "fst (run_checks (opt_check None # field_checks (Some (realAviClient cfg okSdk)) None ?r) okWorld) = Ret []"
    by (rule ok_checks) (use okADC_fields okADC_network in \<open>simp_all add: pool_list_def\<close>)
  moreover have "validateReplicaCount ?r = None" by (simp add: validateReplicaCount_def okADC_fields)
  ultimately obtain w' where "run_checks (opt_check (validateReplicaCount ?r) # field_checks (Some (realAviClient cfg okSdk)) None ?r) okWorld = (Ret [], w')"
    by (metis prod.collapse)
  then show ?thesis
    by (simp add: ValidateCreate_def validateSpec_def e okADC_selector validateAVI_def okADC_fields s k okADC_version del: run_checks.simps)
qed

theorem create_accepted_witness:
  "\<exists>r' c' w' version. ValidateCreate okHook (okADC, None, okWorld) = (Ret None, r', c', w') \<and>
     r' = okADC\<lparr>Spec := (Spec okADC)\<lparr>ControllerVersion := version\<rparr>\<rparr>"
proof -
  have "\<not> h_runTest okHook" by (simp add: okHook_def refHook_def)
  moreover obtain r' c' w' where v: "ValidateCreate okHook (okADC, None, okWorld) = (Ret None, r', c', w')" using ok_created by blast
  ultimately have "\<exists>version. r' = okADC\<lparr>Spec := (Spec okADC)\<lparr>ControllerVersion := version\<rparr>\<rparr>"
    using create_accepted by metis
  with v show ?thesis by blast
qed

lemma ok_updated: "\<exists>r' c' w'. ValidateUpdate okHook (ADCObject (Some okADC)) (okADC, None, okWorld) = (Ret None, r', c', w')"
proof -
  obtain x y where s: "validateAviSecret ref_lib mem_kapi credRef okWorld = (Inr x, okWorld)"
    "validateAviSecret ref_lib mem_kapi caRef okWorld = (Inr y, okWorld)" using okWorld_secret by blast
  obtain cfg where k: "connectAvi okHook okADC x y okWorld =
      (Inr (realAviClient cfg okSdk), okADC\<lparr>Spec := (Spec okADC)\<lparr>ControllerVersion := ''22.1.3''\<rparr>\<rparr>, okWorld)"
    using ok_connect by blast
  have e: "h_L okHook = ref_lib" "h_K okHook = mem_kapi" "\<not> h_runTest okHook" by (simp_all add: okHook_def refHook_def)
  have "validateClusterSelector ref_lib (Some okADC) okADC = Ret []"
    using okADC_selector by (simp add: validateClusterSelector_def)
  then show ?thesis
    by (simp add: ValidateUpdate_def validateSpec_def e validateAVI_def okADC_fields s k okADC_version field_checks_def check_if_def
        opt_check_def validateReplicaCount_def Let_def)
qed

theorem update_immutable_witness:
  "\<exists>s. ValidateUpdate okHook (ADCObject (Some okADC)) (with_pools None okADC, None, okWorld) = (Ret None, s) \<and>
     spec_ControlPlaneNetwork (Spec (with_pools None okADC)) = spec_ControlPlaneNetwork (Spec okADC)"
proof -
  have t: "\<not> h_runTest okHook" by (simp add: okHook_def refHook_def)
  obtain r' c' w' where v: "ValidateUpdate okHook (ADCObject (Some okADC)) (with_pools None okADC, None, okWorld) = (Ret None, r', c', w')"
    using ok_updated ValidateUpdate_with_pools [of okADC okADC okHook None None okWorld] by (metis fst_conv prod_cases4)
  from update_immutable [OF t v] v show ?thesis by blast
qed

text \<open>Pools outside the network are refused on creation and let in by an update.\<close>

theorem update_ignores_pools_witness:
  "fst (ValidateUpdate okHook (ADCObject (Some okADC))
      (with_pools (Some [\<lparr>pool_Start = ''not an address'', pool_End = [], pool_Type = ''V4''\<rparr>]) okADC, None, okWorld)) = Ret None"
  using update_ignores_pools [where r = okADC and old = okADC] ok_updated by (metis fst_conv)

end
