(* ===== verification/Manager.thy ===== *)
theory Manager
  imports Webhook Lifecycle
begin

text \<open>
  How the process is put together: \<open>src/main.go\<close>, \<open>src/controllers/controllers.go\<close> and the
  \<open>SetupWithManager\<close> methods of the three controllers, with the watches that turn a change of one object
  into reconciliations of others.

  The manager of \<open>controller-runtime\<close> is not part of the repository. It is a record \<open>runtime\<close> of operations
  on a manager of an arbitrary type; \<open>runtime_laws\<close> states what its builder documents.
\<close>

section \<open>Objects and map functions\<close>

text \<open>The objects that are watched, as \<open>client.Object\<close> values, and their kinds.\<close>

datatype client_object =
    OCluster Cluster
  | OMachine Machine
  | OService Service
  | OSecret Secret
  | OADC AKODeploymentConfig

datatype object_kind = KCluster | KMachine | KService | KSecret | KADC

fun kind_of :: "client_object \<Rightarrow> object_kind" where
  "kind_of (OCluster _) = KCluster"
| "kind_of (OMachine _) = KMachine"
| "kind_of (OService _) = KService"
| "kind_of (OSecret _) = KSecret"
| "kind_of (OADC _) = KADC"

fun key_of :: "client_object \<Rightarrow> key" where
  "key_of (OCluster x) = (Namespace x, Name x)"
| "key_of (OMachine x) = (Namespace x, Name x)"
| "key_of (OService x) = (Namespace x, Name x)"
| "key_of (OSecret x) = (Namespace x, Name x)"
| "key_of (OADC x) = (Namespace x, Name x)"

type_synonym 'w map_func = "client_object \<Rightarrow> 'w \<Rightarrow> key list \<times> 'w"

text \<open>The map functions with their type assertions: an object of another kind enqueues nothing.\<close>

definition MachinesForCluster_fn :: "lib \<Rightarrow> 'w kapi \<Rightarrow> environ \<Rightarrow> 'w map_func" where
  "MachinesForCluster_fn L K env o' w =
     (case o' of OCluster cluster \<Rightarrow> MachinesForCluster L K env cluster w | _ \<Rightarrow> ([], w))"

definition AkoDeploymentConfigForCluster_fn :: "lib \<Rightarrow> 'w kapi \<Rightarrow> environ \<Rightarrow> 'w map_func" where
  "AkoDeploymentConfigForCluster_fn L K env o' w =
     (case o' of OCluster cluster \<Rightarrow> AkoDeploymentConfigForCluster L K env cluster w | _ \<Rightarrow> ([], w))"

definition secretToAKODeploymentConfig_fn :: "'w kapi \<Rightarrow> 'w map_func" where
  "secretToAKODeploymentConfig_fn K o' w =
     (case o' of OSecret secret \<Rightarrow> secretToAKODeploymentConfig K secret w | _ \<Rightarrow> ([], w))"

definition serviceToCluster_fn :: "lib \<Rightarrow> 'w kapi \<Rightarrow> environ \<Rightarrow> 'w map_func" where
  "serviceToCluster_fn L K env o' w =
     (case o' of OService service \<Rightarrow> serviceToCluster L K env service w | _ \<Rightarrow> ([], w))"

section \<open>The manager\<close>

datatype reconciler_id = MachineReconciler | AKODeploymentConfigReconciler | ClusterReconciler

text \<open>A controller as the builder gets it: \<open>For\<close>, \<open>Watches\<close> and the reconciler of \<open>Complete\<close>.\<close>

record 'w controller =
  ctl_For :: object_kind
  ctl_Watches :: "(object_kind \<times> 'w map_func) list"
  ctl_reconciler :: reconciler_id

text \<open>
  \<open>rt_requests m r o\<close> are the requests that the manager \<open>m\<close> hands to the reconciler \<open>r\<close> when \<open>o\<close> changes.
\<close>

record ('w, 'm) runtime =
  rt_GetClient :: "'m \<Rightarrow> 'w kapi"
  rt_Complete :: "'w controller \<Rightarrow> 'm \<Rightarrow> error option \<times> 'm"
  rt_CompleteWebhook :: "'m \<Rightarrow> error option \<times> 'm"
  rt_requests :: "'m \<Rightarrow> reconciler_id \<Rightarrow> 'w map_func"
  rt_webhook :: "'m \<Rightarrow> bool"

text \<open>
  The builder: ``For defines the type of Object being reconciled, and configures the ControllerManagedBy
  to respond to create / delete / update events by reconciling the object''; ``Watches defines the type of
  Object to watch, and configures the ControllerManagedBy to respond to create / delete / update events by
  reconciling the object with the given EventHandler''. The client of a manager stays the same.
\<close>

fun watch_requests :: "(object_kind \<times> 'w map_func) list \<Rightarrow> 'w map_func" where
  "watch_requests [] o' w = ([], w)"
| "watch_requests ((k, f) # ws) o' w =
     (case (if kind_of o' = k then f o' w else ([], w)) of
        (rs, w) \<Rightarrow> (case watch_requests ws o' w of (rs', w) \<Rightarrow> (rs @ rs', w)))"

definition controller_requests :: "'w controller \<Rightarrow> 'w map_func" where
  "controller_requests c o' w =
     (case watch_requests (ctl_Watches c) o' w of
        (rs, w) \<Rightarrow> ((if kind_of o' = ctl_For c then [key_of o'] else []) @ rs, w))"

definition runtime_laws :: "('w, 'm) runtime \<Rightarrow> bool" where
  "runtime_laws R \<longleftrightarrow>
     (\<forall>c m m'. rt_Complete R c m = (None, m') \<longrightarrow>
        rt_requests R m' (ctl_reconciler c) = controller_requests c \<and>
        (\<forall>r. r \<noteq> ctl_reconciler c \<longrightarrow> rt_requests R m' r = rt_requests R m r) \<and>
        rt_webhook R m' = rt_webhook R m \<and> rt_GetClient R m' = rt_GetClient R m) \<and>
     (\<forall>m m'. rt_CompleteWebhook R m = (None, m') \<longrightarrow>
        rt_webhook R m' \<and> rt_requests R m' = rt_requests R m \<and> rt_GetClient R m' = rt_GetClient R m)"

section \<open>Registration\<close>

definition MachineReconciler_SetupWithManager ::
  "('w, 'm) runtime \<Rightarrow> lib \<Rightarrow> 'w kapi \<Rightarrow> environ \<Rightarrow> 'm \<Rightarrow> error option \<times> 'm" where
  "MachineReconciler_SetupWithManager R L K env mgr =
     rt_Complete R \<lparr>ctl_For = KMachine, ctl_Watches = [(KCluster, MachinesForCluster_fn L K env)],
       ctl_reconciler = MachineReconciler\<rparr> mgr"

definition AKODeploymentConfigReconciler_SetupWithManager ::
  "('w, 'm) runtime \<Rightarrow> lib \<Rightarrow> 'w kapi \<Rightarrow> environ \<Rightarrow> 'm \<Rightarrow> error option \<times> 'm" where
  "AKODeploymentConfigReconciler_SetupWithManager R L K env mgr =
     rt_Complete R \<lparr>ctl_For = KADC,
       ctl_Watches = [(KCluster, AkoDeploymentConfigForCluster_fn L K env), (KSecret, secretToAKODeploymentConfig_fn K)],
       ctl_reconciler = AKODeploymentConfigReconciler\<rparr> mgr"

definition ClusterReconciler_SetupWithManager ::
  "('w, 'm) runtime \<Rightarrow> lib \<Rightarrow> 'w kapi \<Rightarrow> environ \<Rightarrow> 'm \<Rightarrow> error option \<times> 'm" where
  "ClusterReconciler_SetupWithManager R L K env mgr =
     rt_Complete R \<lparr>ctl_For = KCluster, ctl_Watches = [(KService, serviceToCluster_fn L K env)],
       ctl_reconciler = ClusterReconciler\<rparr> mgr"

definition SetupReconcilers :: "('w, 'm) runtime \<Rightarrow> lib \<Rightarrow> environ \<Rightarrow> 'm \<Rightarrow> error option \<times> 'm" where
  "SetupReconcilers R L env mgr =
     (case MachineReconciler_SetupWithManager R L (rt_GetClient R mgr) env mgr of
        (Some err, mgr) \<Rightarrow> (Some err, mgr)
      | (None, mgr) \<Rightarrow>
          (case AKODeploymentConfigReconciler_SetupWithManager R L (rt_GetClient R mgr) env mgr of
             (Some err, mgr) \<Rightarrow> (Some err, mgr)
           | (None, mgr) \<Rightarrow>
               (case ClusterReconciler_SetupWithManager R L (rt_GetClient R mgr) env mgr of
                  (Some err, mgr) \<Rightarrow> (Some err, mgr)
                | (None, mgr) \<Rightarrow> (None, mgr))))"

text \<open>The webhook's package variable \<open>kclient\<close> is returned with the manager.\<close>

definition SetupWebhookWithManager :: "('w, 'm) runtime \<Rightarrow> 'm \<Rightarrow> error option \<times> 'w kapi option \<times> 'm" where
  "SetupWebhookWithManager R mgr =
     (let kclient = Some (rt_GetClient R mgr)
      in case rt_CompleteWebhook R mgr of (err, mgr) \<Rightarrow> (err, kclient, mgr))"

section \<open>The scheme\<close>

text \<open>
  The scheme knows the types of objects. Schemes, the registration functions of other packages and
  \<open>scheme.Builder\<close> (given the group version and the registered types) are parameters; \<open>init\<close> of \<open>main.go\<close>
  ignores the errors of registration.
\<close>

record GroupVersion =
  gv_Group :: string
  gv_Version :: string

record 's schemes =
  NewScheme :: 's
  clientgoscheme_AddToScheme :: "'s \<Rightarrow> error option \<times> 's"
  clusterv1_AddToScheme :: "'s \<Rightarrow> error option \<times> 's"
  akov1beta1_AddToScheme :: "'s \<Rightarrow> error option \<times> 's"
  runv1alpha3_AddToScheme :: "'s \<Rightarrow> error option \<times> 's"
  Builder_AddToScheme :: "GroupVersion \<Rightarrow> string list \<Rightarrow> 's \<Rightarrow> error option \<times> 's"

definition akooGroupVersion :: GroupVersion where
  "akooGroupVersion = \<lparr>gv_Group = ''networking.tkg.tanzu.vmware.com'', gv_Version = ''v1alpha1''\<rparr>"

definition registered_types :: "string list" where
  "registered_types = [''AKODeploymentConfig'', ''AKODeploymentConfigList'']"

definition akoov1alpha1_AddToScheme :: "'s schemes \<Rightarrow> 's \<Rightarrow> error option \<times> 's" where
  "akoov1alpha1_AddToScheme X = Builder_AddToScheme X akooGroupVersion registered_types"

definition init_scheme :: "'s schemes \<Rightarrow> 's" where
  "init_scheme X =
     (let scheme = NewScheme X;
          scheme = snd (clientgoscheme_AddToScheme X scheme);
          scheme = snd (clusterv1_AddToScheme X scheme);
          scheme = snd (akoov1alpha1_AddToScheme X scheme);
          scheme = snd (akov1beta1_AddToScheme X scheme);
          scheme = snd (runv1alpha3_AddToScheme X scheme)
      in scheme)"

section \<open>The process\<close>

text \<open>
  \<open>main\<close> up to the manager's own loop. What it calls of other packages: setting a flag, parsing the command
  line (from the defaults of \<open>InitFlags\<close>; \<open>None\<close> if the process is ended), validating the log options, the
  configuration of the API server (\<open>None\<close> if the process is ended), \<open>manager.New\<close> and \<open>Start\<close>.
\<close>

record flags =
  metricsAddr :: string
  enableLeaderElection :: bool
  profilerAddress :: string

definition InitFlags :: flags where
  "InitFlags = \<lparr>metricsAddr = ''localhost:8080'', enableLeaderElection = False, profilerAddress = []\<rparr>"

record 's ManagerOptions =
  opt_Scheme :: 's
  opt_LeaderElection :: bool
  opt_BindAddress :: string
  opt_DisableFor :: "string list"

record ('m, 'cfg, 's) process_env =
  p_SetFlag :: "string \<Rightarrow> string \<Rightarrow> error option"
  p_Parse :: "flags \<Rightarrow> flags option"
  p_ValidateAndApply :: "error option"
  p_GetConfig :: "'cfg option"
  p_NewManager :: "'cfg \<Rightarrow> 's ManagerOptions \<Rightarrow> error + 'm"
  p_Start :: "'m \<Rightarrow> error option"

text \<open>How the process ends: by \<open>os.Exit\<close> (in a library, for \<open>ExitInLibrary\<close>), or by returning from \<open>main\<close>.\<close>

datatype exit = Exit int | ExitInLibrary | Returned

record ('w, 'm) run_state =
  r_profiler :: "(string \<times> string list) option"
  r_kclient :: "'w kapi option"
  r_started :: "'m option"

text \<open>The debugging server: its address and the paths it serves; it only logs how it ends.\<close>

definition runProfiler :: "string \<Rightarrow> string \<times> string list" where
  "runProfiler addr = (addr, [''/debug/pprof/'', ''/debug/pprof/cmdline'', ''/debug/pprof/profile'', ''/debug/pprof/symbol'',
     ''/debug/pprof/trace''])"

definition manager_options :: "'s schemes \<Rightarrow> flags \<Rightarrow> 's ManagerOptions" where
  "manager_options X fs = \<lparr>opt_Scheme = init_scheme X, opt_LeaderElection = enableLeaderElection fs, opt_BindAddress = metricsAddr fs,
     opt_DisableFor = [''ConfigMap'', ''Secret'']\<rparr>"

definition startManager :: "('m, 'cfg, 's) process_env \<Rightarrow> ('w, 'm) runtime \<Rightarrow> lib \<Rightarrow> environ \<Rightarrow> 'm \<Rightarrow> ('w, 'm) run_state \<Rightarrow> exit \<times> ('w, 'm) run_state" where
  "startManager P R L env mgr s =
     (case SetupReconcilers R L env mgr of
        (Some err, mgr) \<Rightarrow> (Exit 1, s)
      | (None, mgr) \<Rightarrow>
          (case SetupWebhookWithManager R mgr of
             (Some err, kclient, mgr) \<Rightarrow> (Exit 1, s\<lparr>r_kclient := kclient\<rparr>)
           | (None, kclient, mgr) \<Rightarrow>
               (let s = s\<lparr>r_kclient := kclient, r_started := Some mgr\<rparr>
                in case p_Start P mgr of
                     Some err \<Rightarrow> (Exit 1, s)
                   | None \<Rightarrow> (Returned, s))))"

definition main :: "('m, 'cfg, 's) process_env \<Rightarrow> 's schemes \<Rightarrow> ('w, 'm) runtime \<Rightarrow> lib \<Rightarrow> environ \<Rightarrow> exit \<times> ('w, 'm) run_state" where
  "main P X R L env =
     (let s = \<lparr>r_profiler = None, r_kclient = None, r_started = None\<rparr>
      in case p_SetFlag P ''v'' ''2'' of
           Some err \<Rightarrow> (Exit 1, s)
         | None \<Rightarrow>
             (case p_Parse P InitFlags of
                None \<Rightarrow> (ExitInLibrary, s)
              | Some fs \<Rightarrow>
                  (case p_ValidateAndApply P of
                     Some err \<Rightarrow> (Exit 1, s)
                   | None \<Rightarrow>
                       (let s = (if profilerAddress fs \<noteq> [] then s\<lparr>r_profiler := Some (runProfiler (profilerAddress fs))\<rparr> else s)
                        in case p_GetConfig P of
                             None \<Rightarrow> (ExitInLibrary, s)
                           | Some cfg \<Rightarrow>
                               (case p_NewManager P cfg (manager_options X fs) of
                                  Inl err \<Rightarrow> (Exit 1, s)
                                | Inr mgr \<Rightarrow> startManager P R L env mgr s)))))"

section \<open>Routing\<close>

text \<open>The specification: which change makes which controller reconcile what.\<close>

fun routing :: "lib \<Rightarrow> 'w kapi \<Rightarrow> environ \<Rightarrow> reconciler_id \<Rightarrow> 'w map_func" where
  "routing L K env MachineReconciler (OMachine m) w = ([(Namespace m, Name m)], w)"
| "routing L K env MachineReconciler (OCluster c) w = MachinesForCluster L K env c w"
| "routing L K env AKODeploymentConfigReconciler (OADC a) w = ([(Namespace a, Name a)], w)"
| "routing L K env AKODeploymentConfigReconciler (OCluster c) w = AkoDeploymentConfigForCluster L K env c w"
| "routing L K env AKODeploymentConfigReconciler (OSecret s) w = secretToAKODeploymentConfig K s w"
| "routing L K env ClusterReconciler (OCluster c) w = ([(Namespace c, Name c)], w)"
| "routing L K env ClusterReconciler (OService s) w = serviceToCluster L K env s w"
| "routing L K env r o' w = ([], w)"

lemma Complete_laws:
  assumes "runtime_laws R" "rt_Complete R c m = (None, m')"
  shows "rt_requests R m' = (rt_requests R m)(ctl_reconciler c := controller_requests c)" "rt_GetClient R m' = rt_GetClient R m"
  using assms by (auto simp: runtime_laws_def fun_eq_iff)

lemma all_reconcilers:
  assumes "f MachineReconciler = g MachineReconciler"
    "f AKODeploymentConfigReconciler = g AKODeploymentConfigReconciler" "f ClusterReconciler = g ClusterReconciler"
  shows "f = g"
proof
  show "f r = g r" for r using assms by (cases r) auto
qed

lemma SetupReconcilers_requests:
  assumes "runtime_laws R" "SetupReconcilers R L env mgr = (None, m)"
  shows "rt_requests R m = routing L (rt_GetClient R m) env" "rt_GetClient R m = rt_GetClient R mgr"
proof -
  define K where "K = rt_GetClient R mgr"
  from assms(2) obtain m1 m2 where
    s: "MachineReconciler_SetupWithManager R L (rt_GetClient R mgr) env mgr = (None, m1)"
    "AKODeploymentConfigReconciler_SetupWithManager R L (rt_GetClient R m1) env m1 = (None, m2)"
    "ClusterReconciler_SetupWithManager R L (rt_GetClient R m2) env m2 = (None, m)"
    by (auto simp: SetupReconcilers_def split: prod.splits option.splits)
  note s = s [unfolded MachineReconciler_SetupWithManager_def AKODeploymentConfigReconciler_SetupWithManager_def
      ClusterReconciler_SetupWithManager_def]
  have k: "rt_GetClient R m1 = K" "rt_GetClient R m2 = K" "rt_GetClient R m = K"
    using s [THEN Complete_laws(2) [OF assms(1)]] by (simp_all add: K_def)
  note r = s [THEN Complete_laws(1) [OF assms(1)], unfolded k K_def [symmetric]]
  have w: "controller_requests c o' w = routing L K env (ctl_reconciler c) o' w" if
    "c \<in> {\<lparr>ctl_For = KMachine, ctl_Watches = [(KCluster, MachinesForCluster_fn L K env)], ctl_reconciler = MachineReconciler\<rparr>,
      \<lparr>ctl_For = KADC, ctl_Watches = [(KCluster, AkoDeploymentConfigForCluster_fn L K env), (KSecret, secretToAKODeploymentConfig_fn K)],
        ctl_reconciler = AKODeploymentConfigReconciler\<rparr>,
      \<lparr>ctl_For = KCluster, ctl_Watches = [(KService, serviceToCluster_fn L K env)], ctl_reconciler = ClusterReconciler\<rparr>}" for c o' w
    using that
    by (cases o') (auto simp: controller_requests_def MachinesForCluster_fn_def AkoDeploymentConfigForCluster_fn_def
        secretToAKODeploymentConfig_fn_def serviceToCluster_fn_def split: prod.splits)
  show "rt_requests R m = routing L (rt_GetClient R m) env"
    unfolding k by (rule all_reconcilers; intro ext; use r w in simp)
  show "rt_GetClient R m = rt_GetClient R mgr" using k by (simp add: K_def)
qed

text \<open>
  C13. Nothing runs half-wired. If \<open>main\<close> gets as far as starting the manager, then the three controllers and
  the webhook are registered with it and use its client, and every change of a watched object is routed as specified: a Machine,
  an AKODeploymentConfig or a Cluster to its own controller, a Cluster also to its machines and to its
  AKODeploymentConfig, a Secret to the AKODeploymentConfigs that use it, a control plane Service to its cluster.
  If the manager is not started, the process does not return from \<open>main\<close> but exits.
\<close>

theorem started_wired:
  assumes "runtime_laws R" "main P X R L env = (e, s)"
  shows "(\<forall>m. r_started s = Some m \<longrightarrow> rt_requests R m = routing L (rt_GetClient R m) env \<and> rt_webhook R m \<and>
      r_kclient s = Some (rt_GetClient R m)) \<and>
    (r_started s = None \<longrightarrow> e = Exit 1 \<or> e = ExitInLibrary)"
proof -
  have sm: "(\<forall>m. r_started s' = Some m \<longrightarrow> rt_requests R m = routing L (rt_GetClient R m) env \<and> rt_webhook R m \<and>
      r_kclient s' = Some (rt_GetClient R m)) \<and> (r_started s' = None \<longrightarrow> e' = Exit 1)"
    if "startManager P R L env mgr s0 = (e', s')" "r_started s0 = None" for mgr s0 e' s'
  proof (cases "SetupReconcilers R L env mgr")
    case (Pair err m1)
    show ?thesis
    proof (cases err)
      case None
      with Pair SetupReconcilers_requests [OF assms(1)] have "rt_requests R m1 = routing L (rt_GetClient R m1) env" by blast
      with None Pair that assms(1) show ?thesis
        by (auto simp: startManager_def SetupWebhookWithManager_def runtime_laws_def Let_def split: prod.splits option.splits)
    qed (use Pair that in \<open>auto simp: startManager_def\<close>)
  qed
  show ?thesis
    using assms(2) unfolding main_def Let_def
    by (auto split: option.splits sum.splits if_splits dest!: sm)
qed

text \<open>
  C14. Releasing a cluster wakes its machines. When a cluster that is being deleted has lost the finalizer,
  that change makes the machine controller reconcile every machine the API server lists for the cluster
  (a cluster that is being deleted is never skipped). If the cluster uses AVI as load balancer, and not
  kube-vip, a reconciliation of such a machine that sees this cluster and ends without an error leaves the
  machine without the pre-terminate hook.
\<close>

theorem released_machines_wake:
  assumes "runtime_laws R" "SetupReconcilers R L env mgr = (None, m')" "rt_GetClient R mgr = K" "finalizer_laws L" "prefix_laws L"
    and "being_deleted c" "ClusterFinalizer \<notin> set (Finalizers c)"
    and "ListMachines K w (Namespace c) [ClusterNameLabel \<mapsto> Name c] = (Inr ms, w1)" "m \<in> set ms"
  shows "(\<exists>rs. rt_requests R m' MachineReconciler (OCluster c) w = (rs, w1) \<and> (Namespace m, Name m) \<in> set rs) \<and>
    (\<forall>w2 w3 m2 w4. IsLoadBalancerProvider c = Inr True \<and> Labels m ClusterNameLabel = Some (Name c) \<and>
       kGet (Clusters K) w2 (Namespace m, Name c) = (Inr c, w3) \<and>
       reconcileMachineObject L K env m w2 = (Ret None, m2, w4) \<longrightarrow> \<not> hooked m2)"
proof -
  have skip: "\<not> SkipCluster L env c" using assms(6) by (simp add: SkipCluster_def being_deleted_def)
  have "rt_requests R m' MachineReconciler (OCluster c) w = (map (\<lambda>m. (Namespace m, Name m)) ms, w1)"
    using SetupReconcilers_requests [OF assms(1,2)] assms(3) skip assms(8) by (simp add: MachinesForCluster_def)
  moreover have "\<not> hooked m2" if "IsLoadBalancerProvider c = Inr True" "Labels m ClusterNameLabel = Some (Name c)"
    "kGet (Clusters K) w2 (Namespace m, Name c) = (Inr c, w3)" "reconcileMachineObject L K env m w2 = (Ret None, m2, w4)" for w2 w3 m2 w4
  proof -
    from that have "reconcileMachine L K env c m w3 = (Ret None, m2, w4)" by (simp add: reconcileMachineObject_def)
    from reconcileMachine_hook [OF assms(4,5) that(1) this] show ?thesis using assms(6,7) by (auto simp: hook_wanted_def)
  qed
  ultimately show ?thesis using assms(9) by auto
qed

text \<open>
  A Secret under a name other than the two standard ones wakes nobody, even if an AKODeploymentConfig
  refers to it: changed credentials are then not noticed.
\<close>

lemma other_secret_unnoticed:
  "Name s \<noteq> AviCredentialName \<Longrightarrow> Name s \<noteq> AviCAName \<Longrightarrow> routing L K env AKODeploymentConfigReconciler (OSecret s) w = ([], w)"
  by (simp add: secretToAKODeploymentConfig_def)

section \<open>An instance\<close>

text \<open>A manager that keeps the registered controllers in a table.\<close>

type_synonym 'w table = "(reconciler_id \<rightharpoonup> 'w controller) \<times> bool \<times> 'w kapi"

definition refRuntime :: "('w, 'w table) runtime" where
  "refRuntime = \<lparr>rt_GetClient = snd \<circ> snd, rt_Complete = (\<lambda>c m. (None, (fst m)(ctl_reconciler c \<mapsto> c), snd m)),
     rt_CompleteWebhook = (\<lambda>m. (None, fst m, True, snd (snd m))),
     rt_requests = (\<lambda>m r. case fst m r of None \<Rightarrow> (\<lambda>o' w. ([], w)) | Some c \<Rightarrow> controller_requests c),
     rt_webhook = fst \<circ> snd\<rparr>"

lemma refRuntime_laws: "runtime_laws refRuntime"
  by (auto simp: runtime_laws_def refRuntime_def fun_eq_iff)

definition refProcess :: "'w kapi \<Rightarrow> ('w table, unit, 's) process_env" where
  "refProcess K = \<lparr>p_SetFlag = (\<lambda>_ _. None), p_Parse = Some, p_ValidateAndApply = None, p_GetConfig = Some (),
     p_NewManager = (\<lambda>_ _. Inr (Map.empty, False, K)), p_Start = (\<lambda>_. None)\<rparr>"

lemma main_example: "\<exists>m s. main (refProcess K) X (refRuntime :: ('w, 'w table) runtime) L env = (Returned, s) \<and> r_started s = Some m \<and> rt_GetClient refRuntime m = K"
  by (auto simp: main_def startManager_def SetupReconcilers_def MachineReconciler_SetupWithManager_def
      AKODeploymentConfigReconciler_SetupWithManager_def ClusterReconciler_SetupWithManager_def SetupWebhookWithManager_def
      refProcess_def refRuntime_def Let_def)

text \<open>A scheme as the list of the types that were added.\<close>

definition refSchemes :: "string list schemes" where
  "refSchemes = \<lparr>NewScheme = [], clientgoscheme_AddToScheme = (\<lambda>s. (None, ''Secret'' # s)), clusterv1_AddToScheme = (\<lambda>s. (None, ''Cluster'' # s)),
     akov1beta1_AddToScheme = (\<lambda>s. (None, ''AviInfraSetting'' # s)), runv1alpha3_AddToScheme = (\<lambda>s. (None, ''ClusterBootstrap'' # s)),
     Builder_AddToScheme = (\<lambda>_ ts s. (None, ts @ s))\<rparr>"

theorem started_wired_witness:
  "\<exists>m s. main (refProcess mem_kapi) refSchemes (refRuntime :: (mem, mem table) runtime) ref_lib Map.empty = (Returned, s) \<and> r_started s = Some m \<and>
     r_kclient s = Some mem_kapi \<and>
     rt_requests refRuntime m ClusterReconciler (OCluster exampleCluster) mem0 = ([(''default'', ''wc'')], mem0)"
proof -
  obtain m s where m: "main (refProcess mem_kapi) refSchemes (refRuntime :: (mem, mem table) runtime) ref_lib Map.empty = (Returned, s)"
    "r_started s = Some m" "rt_GetClient refRuntime m = mem_kapi"
    using main_example by blast
  then have "rt_requests refRuntime m = routing ref_lib mem_kapi Map.empty" "r_kclient s = Some mem_kapi"
    using started_wired [OF refRuntime_laws m(1)] by auto
  moreover from this have "rt_requests refRuntime m ClusterReconciler (OCluster exampleCluster) mem0 = ([(''default'', ''wc'')], mem0)"
    by (simp add: example_defs)
  ultimately show ?thesis using m by blast
qed

definition freedCluster :: Cluster where
  "freedCluster = exampleCluster\<lparr>DeletionTimestamp := Some 1, Labels := [AviClusterLabel \<mapsto> ''blue'']\<rparr>"

definition waitingMachine :: Machine where
  "waitingMachine = hookedMachine\<lparr>Namespace := ''default'', Name := ''node'', Labels := [ClusterNameLabel \<mapsto> ''wc'']\<rparr>"

definition freedWorld :: mem where
  "freedWorld = mem0\<lparr>m_clusters := [freedCluster], m_machines := [waitingMachine]\<rparr>"

lemma freed_example:
  "being_deleted freedCluster" "ClusterFinalizer \<notin> set (Finalizers freedCluster)" "IsLoadBalancerProvider freedCluster = Inr True"
  "ListMachines mem_kapi freedWorld (Namespace freedCluster) [ClusterNameLabel \<mapsto> Name freedCluster] = (Inr [waitingMachine], freedWorld)"
  "kGet (Clusters mem_kapi) freedWorld (Namespace waitingMachine, Name freedCluster) = (Inr freedCluster, freedWorld)"
  "Labels waitingMachine ClusterNameLabel = Some (Name freedCluster)"
  by (simp_all add: freedCluster_def waitingMachine_def freedWorld_def being_deleted_def example_defs IsLoadBalancerProvider_def
      topology_var_def ref_defs)

lemma freed_reconciled: "\<exists>m2 w4. reconcileMachineObject prefixLib mem_kapi Map.empty waitingMachine freedWorld = (Ret None, m2, w4)"
  using freed_example(3,5,6)
  by (auto simp: reconcileMachineObject_def reconcileMachine_def IsControlPlaneVIPProvider_def topology_var_def freedCluster_def
      example_defs Getenv_def)

theorem released_machines_wake_witness:
  "\<exists>rs m2 w4. routing prefixLib mem_kapi Map.empty MachineReconciler (OCluster freedCluster) freedWorld = (rs, freedWorld) \<and>
     (''default'', ''node'') \<in> set rs \<and> hooked waitingMachine \<and>
     reconcileMachineObject prefixLib mem_kapi Map.empty waitingMachine freedWorld = (Ret None, m2, w4) \<and> \<not> hooked m2"
proof -
  obtain mgr where mgr: "SetupReconcilers (refRuntime :: (mem, mem table) runtime) prefixLib Map.empty (Map.empty, False, mem_kapi) = (None, mgr)" "rt_GetClient refRuntime mgr = mem_kapi"
    by (simp add: SetupReconcilers_def MachineReconciler_SetupWithManager_def AKODeploymentConfigReconciler_SetupWithManager_def
        ClusterReconciler_SetupWithManager_def refRuntime_def)
  have gc: "rt_GetClient (refRuntime :: (mem, mem table) runtime) (Map.empty, False, mem_kapi) = mem_kapi" by (simp add: refRuntime_def)
  obtain m2 w4 where m2: "reconcileMachineObject prefixLib mem_kapi Map.empty waitingMachine freedWorld = (Ret None, m2, w4)"
    using freed_reconciled by blast
  have "hooked waitingMachine" by (simp add: waitingMachine_def hookedMachine_def hooked_def)
  moreover have "Namespace waitingMachine = ''default''" "Name waitingMachine = ''node''" by (simp_all add: waitingMachine_def)
  moreover note t = released_machines_wake [OF refRuntime_laws mgr(1) gc prefixLib_laws freed_example(1,2,4), of waitingMachine, simplified]
  have "\<not> hooked m2" using t freed_example(3,5,6) m2 by blast
  moreover have "\<exists>rs. routing prefixLib mem_kapi Map.empty MachineReconciler (OCluster freedCluster) freedWorld = (rs, freedWorld) \<and>
      (Namespace waitingMachine, Name waitingMachine) \<in> set rs"
    using t SetupReconcilers_requests(1) [OF refRuntime_laws mgr(1)] mgr(2) by simp
  ultimately show ?thesis using m2 by simp
qed

end
