(* ===== verification/Spec2Isabelle.thy ===== *)
theory Spec2Isabelle
  imports Password Deep_Copy Fake_Avi Deletion_Loop Manager
begin

text \<open>
  Verification of the load balancer operator for Kubernetes.

  \<^bold>\<open>The program.\<close> The operator connects Kubernetes clusters made with Cluster API to an AVI (NSX
  Advanced Load Balancer) controller. It has three controllers and a webhook in one process:

  \<^item> the AKODeploymentConfig controller (\<open>src/controllers/akodeploymentconfig\<close>): for every cluster an
    AKODeploymentConfig object selects it keeps an AVI user with its role and Secret, the Secret with
    the values of the AKO package, and a finalizer; when the cluster is deleted it asks AKO in the
    workload cluster to clean up, deletes the user and only then removes the finalizer. On the AVI side
    it keeps the networks and the AviInfraSetting;
  \<^item> the cluster controller (\<open>src/controllers/cluster\<close>): it labels a cluster with its AKODeploymentConfig
    and keeps the control plane Service where AVI serves the control plane;
  \<^item> the machine controller (\<open>src/controllers/machine\<close>): it keeps the Endpoints of that Service and the
    pre-terminate hook that holds machines back while a cluster is being cleaned up;
  \<^item> the admission webhook for AKODeploymentConfig objects (\<open>src/api/v1alpha1\<close>).

  They interact through the API server only: through labels, finalizers, conditions, annotations and
  Secrets. \<open>main.go\<close> registers them with the manager of \<open>controller-runtime\<close>, which turns the changes of
  watched objects into reconciliations.

  \<^bold>\<open>The environment.\<close> Third-party code is passed in. The pure functions of Kubernetes and Cluster API
  packages are the fields of a record \<open>lib\<close>, the API server is a record \<open>kapi\<close>, the SDK of the AVI
  controller a record \<open>sdk\<close>, the YAML library a record \<open>yaml\<close>, the manager a record \<open>runtime\<close>, the deep copies
  of types of other packages a record \<open>foreign\<close>; DNS look-ups, sorting, random numbers and
  the iteration order of Go maps are functions. All effects thread a world of an arbitrary type, reads
  included, so between any two calls others may have changed anything. What the program relies on is
  stated by named hypotheses (\<open>finalizer_laws\<close>, \<open>condition_laws\<close>, \<open>aggregate_laws\<close>, \<open>result_laws\<close>, \<open>wrap_laws\<close>,
  \<open>prefix_laws\<close>, \<open>yaml_laws\<close>, \<open>slice_sort_laws\<close>, \<open>rand_laws\<close>, \<open>runtime_laws\<close>, \<open>foreign_laws\<close>), each the documented
  behaviour of a package. Two results assume more of the environment: \<open>finite_failures\<close> bounds the number
  of failing calls, with the add-on values of the workload cluster usable and the credentials in place, and
  the locale \<open>avi_directory\<close> says that the AVI controller stores users and roles.
  \<open>Ref_World\<close> and \<open>Ref_Avi\<close> give an in-memory API server and AVI controller on which they hold; the
  witnesses run there.

  \<^bold>\<open>Conventions.\<close> Structs are records, with embedding as record extension; a nil pointer is \<open>None\<close>; errors
  are values of a sum; a call that may panic has type \<open>outcome\<close>, a phase that may also block on the lock
  has type \<open>run\<close>. Go's \<open>net\<close>, \<open>strings\<close>, \<open>strconv\<close> and \<open>regexp\<close> functions and the JSON of strings are
  modelled, executable, in \<open>Prelude\<close>, \<open>Go_Net\<close>, \<open>Go_Json\<close> and \<open>Webhook\<close>. Bytes are 8-bit words and the conversion to \<open>int32\<close> wraps. All loops
  of the code are structural recursions or have a termination proof (the IPv6 parser, the password
  buffer); there is no fuel anywhere. The one unbounded loop, reconciling until a cluster is released, is
  a \<open>while_option\<close> whose termination is proved (\<open>Deletion_Loop\<close>). Objects are values, because every
  controller works on its own deep copy of them; \<open>Deep_Copy\<close> proves over a store with pointers that the
  generated copies are independent of the original.

  \<^bold>\<open>Theories\<close>, with the files under \<open>src\<close> they model:

  \<^item> \<open>Prelude\<close>, \<open>Go_Net\<close>, \<open>Go_Json\<close>, \<open>Kube\<close>: shared material, Go's address library, strings in JSON (with the
    replacement of invalid UTF-8; what is encoded is decoded again), the objects and the third-party interface;
  \<^item> \<open>Api_Types\<close>: \<open>api/v1alpha1/constants.go\<close> and \<open>akodeploymentconfig_types.go\<close>;
  \<^item> \<open>Go_Heap\<close>, \<open>Api_Structs\<close>, \<open>Deep_Copy\<close>: a store of cells with the pointers and slices of the API types, and
    \<open>zz_generated.deepcopy.go\<close>. The locale \<open>deep_copier\<close> is the contract of a deep copy (same value, only new
    cells, nothing written that was there), with \<open>cell_kind\<close> and \<open>slice_of\<close> as sublocales for pointers and
    slices; it is interpreted on every \<open>DeepCopyInto\<close>. The copy of an object shares no cell with it, the
    copy of a list is well typed;
  \<^item> \<open>Ip_Family\<close>: \<open>pkg/utils/get_ipfamily.go\<close>, \<open>get_objects.go\<close>. The primary family against a specification;
  \<^item> \<open>Password\<close>: \<open>pkg/utils/password_generator.go\<close>. Length, classes and the exact condition for a panic;
  \<^item> \<open>Operator_Lib\<close>: \<open>pkg/ako-operator/lib.go\<close>. The control plane endpoint of a ClusterClass cluster is read
    back as written if it is valid UTF-8, the port is always valid;
  \<^item> \<open>Cluster_Mapping\<close>: \<open>pkg/ako-operator/akodeploymentconfig_cluster_mapping_helper.go\<close> and \<open>pkg/handlers\<close>.
    The choice of the owner against a specification; exactly which clusters are selected, with the condition
    for taking one over from the default configuration;
  \<^item> \<open>HA_Provider\<close>: \<open>pkg/haprovider\<close>. The singleton provider; the Service asks for the address of the
    cluster's endpoint. The locale \<open>machine_table\<close> states what a table of machines promises and is
    interpreted on the Endpoints operations: they list exactly the machines seen with a usable address since they
    were last deleted, or listed at the beginning and not deleted since;
  \<^item> \<open>Avi_Client\<close>, \<open>Fake_Avi\<close>: \<open>pkg/aviclient\<close>. Credentials and certificate of a client; the fake client of
    the tests;
  \<^item> \<open>Avi_Network\<close>: the network functions of \<open>akodeploymentconfig_controller_avi_phase.go\<close> and
    \<open>pkg/netprovider\<close>. The locale \<open>strict_weak_order\<close> is interpreted on addresses and ranges; the comparison
    of ranges is equality of multisets if no two ranges begin at the same address, and \<open>EnsureAviNetwork\<close> reaches
    the configured state and, for such pools, stays there;
  \<^item> \<open>Ako_Role\<close>, \<open>Avi_User\<close>: \<open>akodeploymentconfig/user\<close>. Synchronisation of the role, credentials, deletion of
    the user after the resources; the locale \<open>avi_directory\<close> is what the AVI controller promises of users and
    roles, and provisioning a user is proved against it;
  \<^item> \<open>Ako_Values\<close>: \<open>pkg/ako/values.go\<close>; \<open>Cluster_Cleanup\<close>: \<open>pkg/ako/ako.go\<close> and
    \<open>akodeploymentconfig/cluster/cluster_controller.go\<close>. AKO is told to delete before its state is read
    (\<open>ako_answers\<close>), and the finalizer waits for its answer; \<open>Addon_Secret\<close>: \<open>cluster_controller_addon_secret.go\<close>;
  \<^item> \<open>Phases\<close>: \<open>akodeploymentconfig/phases\<close>. All phases run and errors are aggregated. The locale
    \<open>cluster_phase\<close> is the contract of one phase on a cluster, \<open>cluster_relation\<close> lifts a relation kept by
    phases to lists of phases; the cleanup protocol \<open>cleanup_step\<close> is the relation that every phase keeps,
    by one interpretation per phase in the theory of the phase;
  \<^item> \<open>Adc_Controller\<close>: \<open>akodeploymentconfig_controller.go\<close> with its AVI and cluster phases, the client field with
    its nil-pointer state and the mutex;
  \<^item> \<open>Cluster_Controller\<close>, \<open>Machine_Controller\<close>: the other two controllers;
  \<^item> \<open>Webhook\<close>: \<open>akodeploymentconfig_webhook.go\<close>;
  \<^item> \<open>Lifecycle\<close>: the three controllers as one transition system (\<open>life_step\<close>, \<open>reachable\<close>) with an invariant;
    nothing is torn down before it is cleaned up, and a deletion comes to its end;
  \<^item> \<open>Deletion_Loop\<close>: repeated reconciliation of a deleted cluster in an environment that fails finitely often
    (locale \<open>failing_environment\<close>, a contract on the single calls, interpreted on the reference servers behind
    an unreliable connection) terminates with everything cleaned up;
  \<^item> \<open>Manager\<close>: \<open>main.go\<close>, \<open>controllers.go\<close>, \<open>groupversion_info.go\<close>, the \<open>SetupWithManager\<close> methods and
    \<open>SetupWebhookWithManager\<close>. Nothing is started before all is registered, which change wakes which
    controller, and releasing a cluster wakes its machines;
  \<^item> this theory: properties that span components, on ownership of clusters and on what is admitted.

  \<^bold>\<open>Limits.\<close> Logging is left out, and so are fields that are only printed. A step of \<open>Lifecycle\<close> is a
  reconciliation on the current objects written back as a whole; concurrent reconciliations of the same
  object and conflicts of patches are not modelled beyond the freedom of the answers of the API server.
  Not modelled: \<open>initLog\<close> and \<open>printRunningEnv\<close> of \<open>main.go\<close> (log output),
  the constructors that only store their arguments, and \<open>pkg/test\<close>, \<open>e2e\<close> and \<open>hack\<close> (fixtures, drivers of
  end-to-end tests and build tools: not part of the operator).
\<close>

section \<open>Properties that span components\<close>

text \<open>
  C4. Two AKODeploymentConfigs never work on one cluster: a cluster that the cluster controller has labelled
  with a matching AKODeploymentConfig other than the default one is not among the clusters that any
  other AKODeploymentConfig selects, whatever its selector.
\<close>

theorem one_owner:
  assumes "reconcileCluster L K env lk c w = ((None, c'), w')" "IsLoadBalancerProvider c' = Inr True"
    and "Labels c' AviClusterLabel = Some owner" "owner \<noteq> WorkloadClusterAkoDeploymentConfig" "owner \<noteq> Name obj"
    and "ListAkoDeploymentConfigSelectClusters L K env' obj w1 = (Inr cs, w2)"
  shows "c' \<notin> set cs \<and> (\<exists>adc items w3. ListADCs K w3 = (Inr items, w') \<and> match_adc L c items None = Some adc \<and> Name adc = owner)"
proof -
  have "\<exists>overridable. may_take L env' obj overridable x" if "x \<in> set cs" for x
    using assms(6) that
    by (auto simp: ListAkoDeploymentConfigSelectClusters_def split: sum.splits prod.splits option.splits dest: select_clusters_sound)
  then have "c' \<notin> set cs" using assms(3-5) by (fastforce simp: may_take_def)
  moreover have "\<exists>adc items w3. ListADCs K w3 = (Inr items, w') \<and> match_adc L c items None = Some adc \<and> Name adc = owner"
    using assms(1)
  proof (cases rule: reconcileCluster_cases)
    case (1 c1)
    with assms(2) show ?thesis by simp
  next
    case (2 c1 w1)
    with assms(3) show ?thesis by (simp add: released_def RemoveClusterLabel_def)
  next
    case (3 c1 w3 adc)
    then obtain items where "ListADCs K w3 = (Inr items, w')" "match_adc L c items None = Some adc"
      using match_adc_labels [of c1 c L]
      by (auto simp: GetAKODeploymentConfigForCluster_def same_but_endpoint_def split: prod.splits sum.splits)
    moreover have "Name adc = owner" using assms(3) 3 by (simp add: ApplyClusterLabel_def)
    ultimately show ?thesis by blast
  qed
  ultimately show ?thesis by blast
qed

definition redADC :: AKODeploymentConfig where
  "redADC = exampleADC\<lparr>Name := ''red''\<rparr>"

theorem one_owner_witness:
  "\<exists>cs w2. ListAkoDeploymentConfigSelectClusters ref_lib mem_kapi Map.empty redADC
      (mem0\<lparr>m_clusters := [ApplyClusterLabel ownedCluster exampleADC]\<rparr>) = (Inr cs, w2) \<and>
    ApplyClusterLabel ownedCluster exampleADC \<notin> set cs"
proof -
  let ?c = "ApplyClusterLabel ownedCluster exampleADC" and ?w = "mem0\<lparr>m_clusters := [ApplyClusterLabel ownedCluster exampleADC]\<rparr>"
  have lb: "IsLoadBalancerProvider ?c = Inr True"
    by (simp add: IsLoadBalancerProvider_def topology_var_def ownedCluster_def example_defs)
  have l: "Labels ?c AviClusterLabel = Some ''blue''" by (simp add: ApplyClusterLabel_def example_defs)
  have n: "''blue'' \<noteq> WorkloadClusterAkoDeploymentConfig" "''blue'' \<noteq> Name redADC"
    by (simp_all add: WorkloadClusterAkoDeploymentConfig_def redADC_def)
  have "\<exists>s. LabelSelectorAsSelector ref_lib (ClusterSelector (Spec redADC)) = Inr s"
    by (simp add: redADC_def example_defs ref_lib_def ref_selector_def)
  moreover have "\<exists>cs. ListClusters mem_kapi w s = (Inr cs, w)" for w :: mem and s by (simp add: mem_kapi_def)
  moreover have "NewAggregate ref_lib [] = None" by (simp add: ref_lib_def)
  ultimately obtain cs w2 where s: "ListAkoDeploymentConfigSelectClusters ref_lib mem_kapi Map.empty redADC ?w = (Inr cs, w2)"
    unfolding ListAkoDeploymentConfigSelectClusters_def by (metis (no_types, lifting) case_prod_conv option.case(1) sum.case(2) surj_pair)
  from one_owner [OF owned_example lb l n s] s show ?thesis by blast
qed

text \<open>
  C31. What is admitted can be deployed: for an AKODeploymentConfig the webhook lets in on creation, the
  values of the AKO package can be made for every cluster, so the add-on Secret does not fail on the
  configuration.
\<close>

theorem admitted_can_be_deployed:
  assumes "\<not> h_runTest E" "ValidateCreate E (r, ac, w) = (Ret None, r', ac', w')"
  shows "\<exists>v. NewValues (Some r') n = Inr v"
proof -
  from ValidateCreate_accepted [OF assms] obtain version where
    "ParseCIDR (dn_CIDR (spec_DataNetwork (Spec r))) \<noteq> None" "r' = r\<lparr>Spec := (Spec r)\<lparr>ControllerVersion := version\<rparr>\<rparr>" by auto
  then show ?thesis by (intro NewValues_exists) simp
qed

theorem admitted_can_be_deployed_witness:
  "\<exists>r' c' w' v. ValidateCreate okHook (okADC, None, okWorld) = (Ret None, r', c', w') \<and> NewValues (Some r') ''default-wc'' = Inr v"
proof -
  obtain r' c' w' where v: "ValidateCreate okHook (okADC, None, okWorld) = (Ret None, r', c', w')" using ok_created by blast
  have "\<not> h_runTest okHook" by (simp add: okHook_def refHook_def)
  from admitted_can_be_deployed [OF this v] v show ?thesis by blast
qed

end
